(* ===== verification/Prelude.thy ===== *)
theory Prelude
  imports Main "HOL-Library.Word" "HOL-Library.AList" "HOL-Library.Sublist"
begin

text \<open>
  Shared types and lemmas. A Go map is an association list with distinct keys: the list
  order stands for the order in which one run of the program happens to iterate over the
  map, so a theorem about every list is a theorem about every iteration order. A Go
  \<open>uint32\<close> is a \<open>32 word\<close>. A nil-able pointer is an option.
\<close>

type_synonym u32 = "32 word"
type_synonym ('k, 'v) gomap = "('k \<times> 'v) list"

abbreviation gm_get :: "('k, 'v) gomap \<Rightarrow> 'k \<Rightarrow> 'v option" where
  "gm_get m k \<equiv> map_of m k"

abbreviation gm_put :: "'k \<Rightarrow> 'v \<Rightarrow> ('k, 'v) gomap \<Rightarrow> ('k, 'v) gomap" where
  "gm_put \<equiv> AList.update"

abbreviation gm_del :: "'k \<Rightarrow> ('k, 'v) gomap \<Rightarrow> ('k, 'v) gomap" where
  "gm_del \<equiv> AList.delete"

definition gm_has :: "('k, 'v) gomap \<Rightarrow> 'k \<Rightarrow> bool" where
  "gm_has m k = (gm_get m k \<noteq> None)"

definition gm_keys :: "('k, 'v) gomap \<Rightarrow> 'k list" where
  "gm_keys m = map fst m"

definition gm_wf :: "('k, 'v) gomap \<Rightarrow> bool" where
  "gm_wf m = distinct (map fst m)"

text \<open>Reading a key whose value type has a zero value: Go returns the zero value.\<close>

definition gm_get_or :: "'v \<Rightarrow> ('k, 'v) gomap \<Rightarrow> 'k \<Rightarrow> 'v" where
  "gm_get_or z m k = (case gm_get m k of None \<Rightarrow> z | Some v \<Rightarrow> v)"

named_theorems gomap_simps \<open>rewriting rules for Go maps\<close>

lemma gm_get_put [gomap_simps, simp]: "gm_get (gm_put k v m) k' = (if k' = k then Some v else gm_get m k')"
  by (simp add: update_conv)

lemma gm_get_del [gomap_simps]: "gm_get (gm_del k m) k' = (if k' = k then None else gm_get m k')"
  by (simp add: delete_conv)

lemma gm_has_put [gomap_simps, simp]: "gm_has (gm_put k v m) k' = (k' = k \<or> gm_has m k')"
  by (simp add: gm_has_def)

lemma gm_has_iff: "gm_has m k \<longleftrightarrow> k \<in> set (gm_keys m)"
  by (simp add: gm_has_def gm_keys_def map_of_eq_None_iff)

lemma set_gm_keys_put [gomap_simps, simp]: "set (gm_keys (gm_put k v m)) = insert k (set (gm_keys m))"
  by (simp add: gm_keys_def dom_update)

lemma gm_keys_simps [simp]: "gm_keys [] = []" "gm_keys (p # m) = fst p # gm_keys m"
  by (simp_all add: gm_keys_def)

lemma gm_keys_get: "gm_get m k = Some v \<Longrightarrow> k \<in> set (gm_keys m)"
  by (auto simp: gm_keys_def dest: map_of_SomeD intro: rev_image_eqI)

lemma gm_wf_put [simp]: "gm_wf m \<Longrightarrow> gm_wf (gm_put k v m)"
  by (simp add: gm_wf_def distinct_update)

lemma gm_wf_del [simp]: "gm_wf m \<Longrightarrow> gm_wf (gm_del k m)"
  by (simp add: gm_wf_def distinct_delete)

lemma gm_wf_Nil [simp]: "gm_wf []"
  by (simp add: gm_wf_def)

lemma gm_get_or_put [gomap_simps, simp]:
  "gm_get_or z (gm_put k v m) k' = (if k' = k then v else gm_get_or z m k')"
  by (simp add: gm_get_or_def)

lemma gm_wf_get_iff: "gm_wf m \<Longrightarrow> gm_get m k = Some v \<longleftrightarrow> (k, v) \<in> set m"
  by (simp add: gm_wf_def)

subsection \<open>The interface of a keyed store\<close>

text \<open>
  Every cache of the program is a keyed store: what a lookup returns after an insertion and
  after a removal. The clients (the validators, the server methods) rely on these laws only.
\<close>

locale keyed_store =
  fixes lookup :: "'s \<Rightarrow> 'k \<Rightarrow> 'v option"
    and insert :: "'k \<Rightarrow> 'v \<Rightarrow> 's \<Rightarrow> 's"
  assumes lookup_insert: "lookup (insert k v s) k' = (if k' = k then Some v else lookup s k')"
begin

lemma lookup_insert_same: "lookup (insert k v s) k = Some v"
  by (simp add: lookup_insert)

lemma lookup_insert_other: "k' \<noteq> k \<Longrightarrow> lookup (insert k v s) k' = lookup s k'"
  by (simp add: lookup_insert)

lemma lookup_insert_twice: "lookup (insert k v (insert k w s)) = lookup (insert k v s)"
  by (rule ext) (simp add: lookup_insert)

lemma lookup_insert_commute:
  "k \<noteq> l \<Longrightarrow> lookup (insert k v (insert l w s)) = lookup (insert l w (insert k v s))"
  by (rule ext) (simp add: lookup_insert)

lemma lookup_insert_mono: "lookup s k' \<noteq> None \<Longrightarrow> lookup (insert k v s) k' \<noteq> None"
  by (simp add: lookup_insert)

end

locale removable_store = keyed_store +
  fixes remove :: "'k \<Rightarrow> 's \<Rightarrow> 's"
  assumes lookup_remove: "lookup (remove k s) k' = (if k' = k then None else lookup s k')"
begin

lemma lookup_remove_insert: "lookup (remove k (insert k v s)) = lookup (remove k s)"
  by (rule ext) (simp add: lookup_insert lookup_remove)

lemma lookup_insert_remove: "lookup (insert k v (remove k s)) = lookup (insert k v s)"
  by (rule ext) (simp add: lookup_insert lookup_remove)

end

interpretation go_map: removable_store map_of AList.update AList.delete
  by unfold_locales (simp_all add: update_conv delete_conv)

subsection \<open>Lists\<close>

lemma fold_invariant_list:
  assumes "P s" and "\<And>x s. x \<in> set xs \<Longrightarrow> P s \<Longrightarrow> P (f x s)"
  shows "P (fold f xs s)"
  using assms by (induction xs arbitrary: s) auto

lemma fold_emits:
  assumes "\<And>x s. x \<in> set xs \<Longrightarrow> out (f x s) = out s @ g x"
  shows "out (fold f xs s) = out s @ concat (map g xs)"
  using assms by (induction xs arbitrary: s) auto

lemma fold_frame:
  assumes "\<And>x s. x \<in> set xs \<Longrightarrow> h (f x s) = h s"
  shows "h (fold f xs s) = h s"
  using assms by (induction xs arbitrary: s) auto

lemma sum_list_eq_0_nat: "sum_list (xs :: nat list) = 0 \<longleftrightarrow> (\<forall>x\<in>set xs. x = 0)"
  by (induction xs) auto

end
