(* ===== verification/GoStrings.thy ===== *)
theory GoStrings
  imports Prelude "HOL-Library.List_Lexorder" "HOL-Library.Char_ord"
begin

text \<open>
  The parts of Go's \<open>strings\<close>, \<open>strconv\<close> and \<open>slices\<close> packages the program uses, on byte
  strings: a Go string is a list of bytes (\<open>char\<close>), and every separator, prefix and cutset
  the program passes is ASCII, so bytes and runes agree on them.
\<close>

subsection \<open>strings.Split on a one-byte separator, strings.Join\<close>

fun split_on :: "char \<Rightarrow> string \<Rightarrow> string list" where
  "split_on c [] = [[]]"
| "split_on c (x # xs) =
     (if x = c then [] # split_on c xs
      else (case split_on c xs of [] \<Rightarrow> [[x]] | h # t \<Rightarrow> (x # h) # t))"

fun join_with :: "string \<Rightarrow> string list \<Rightarrow> string" where
  "join_with sep [] = []"
| "join_with sep [x] = x"
| "join_with sep (x # y # ys) = x @ sep @ join_with sep (y # ys)"

lemma split_on_not_Nil [simp]: "split_on c s \<noteq> []"
  by (induction s) (auto split: list.splits)

lemma split_on_no_sep: "c \<notin> set s \<Longrightarrow> split_on c s = [s]"
  by (induction s) auto

lemma split_on_append: "c \<notin> set a \<Longrightarrow> split_on c (a @ c # b) = a # split_on c b"
  by (induction a) auto

lemma length_split_on: "length (split_on c s) = Suc (count_list s c)"
  by (induction s) (auto split: list.splits)

lemma split_on_parts_no_sep: "p \<in> set (split_on c s) \<Longrightarrow> c \<notin> set p"
  by (induction s arbitrary: p) (auto split: list.splits if_splits)

lemma join_split_on: "join_with [c] (split_on c s) = s"
proof (induction s)
  case (Cons x xs)
  obtain h t where "split_on c xs = h # t"
    by (cases "split_on c xs") simp_all
  with Cons show ?case by (cases t) auto
qed simp

lemma split_on_two_iff: "split_on c s = [a, b] \<longleftrightarrow> s = a @ c # b \<and> c \<notin> set a \<and> c \<notin> set b"
proof
  assume L: "split_on c s = [a, b]"
  have "s = join_with [c] [a, b]" using join_split_on [of c s] L by simp
  then show "s = a @ c # b \<and> c \<notin> set a \<and> c \<notin> set b"
    using L split_on_parts_no_sep [of a c s] split_on_parts_no_sep [of b c s] by auto
next
  assume "s = a @ c # b \<and> c \<notin> set a \<and> c \<notin> set b"
  then show "split_on c s = [a, b]" by (simp add: split_on_append split_on_no_sep)
qed

subsection \<open>Prefixes, suffixes, substrings\<close>

fun has_prefix :: "string \<Rightarrow> string \<Rightarrow> bool" where
  "has_prefix [] s = True"
| "has_prefix (p # ps) [] = False"
| "has_prefix (p # ps) (c # cs) = (p = c \<and> has_prefix ps cs)"

definition has_suffix :: "string \<Rightarrow> string \<Rightarrow> bool" where
  "has_suffix p s = has_prefix (rev p) (rev s)"

lemma has_prefix_iff: "has_prefix p s \<longleftrightarrow> prefix p s"
  by (induction p s rule: has_prefix.induct) auto

lemma has_prefix_append [simp]: "has_prefix p (p @ s)"
  by (simp add: has_prefix_iff)

definition trim_prefix :: "string \<Rightarrow> string \<Rightarrow> string" where
  "trim_prefix p s = (if has_prefix p s then drop (length p) s else s)"

text \<open>strings.Index: \<open>None\<close> stands for \<open>-1\<close>.\<close>

fun index_of :: "string \<Rightarrow> string \<Rightarrow> nat option" where
  "index_of p [] = (if p = [] then Some 0 else None)"
| "index_of p (c # cs) =
     (if has_prefix p (c # cs) then Some 0 else map_option Suc (index_of p cs))"

definition str_contains :: "string \<Rightarrow> string \<Rightarrow> bool" where
  "str_contains s p = (index_of p s \<noteq> None)"

text \<open>strings.LastIndex and bytes.LastIndex.\<close>

fun last_index_of :: "string \<Rightarrow> string \<Rightarrow> nat option" where
  "last_index_of p [] = (if p = [] then Some 0 else None)"
| "last_index_of p (c # cs) =
     (case last_index_of p cs of
        Some i \<Rightarrow> Some (Suc i)
      | None \<Rightarrow> (if has_prefix p (c # cs) then Some 0 else None))"

lemma index_of_bound: "index_of p s = Some i \<Longrightarrow> i + length p \<le> length s"
  by (induction s arbitrary: i)
    (auto simp: has_prefix_iff split: if_splits dest: prefix_length_le)

lemma index_of_prefix: "index_of p s = Some i \<Longrightarrow> has_prefix p (drop i s)"
  by (induction s arbitrary: i) (auto split: if_splits)

lemma index_of_char_None: "index_of [c] s = None \<longleftrightarrow> c \<notin> set s"
  by (induction s) auto

lemma index_of_char_append: "c \<notin> set a \<Longrightarrow> index_of [c] (a @ c # b) = Some (length a)"
  by (induction a) auto

lemma index_of_char_Some:
  "index_of [c] s = Some i \<longleftrightarrow> i < length s \<and> s ! i = c \<and> c \<notin> set (take i s)"
proof (induction s arbitrary: i)
  case (Cons x xs)
  show ?case by (cases i) (auto simp: Cons)
qed simp

lemma last_index_of_char_None: "last_index_of [c] s = None \<longleftrightarrow> c \<notin> set s"
  by (induction s) (auto split: option.splits)

lemma last_index_of_char_append: "c \<notin> set b \<Longrightarrow> last_index_of [c] (a @ c # b) = Some (length a)"
  by (induction a) (auto simp: last_index_of_char_None split: option.splits)

lemma last_index_of_char_Some:
  "last_index_of [c] s = Some i \<longleftrightarrow> i < length s \<and> s ! i = c \<and> c \<notin> set (drop (Suc i) s)"
proof (induction s arbitrary: i)
  case (Cons x xs)
  show ?case
  proof (cases i)
    case 0
    have "last_index_of [c] xs = None \<longleftrightarrow> c \<notin> set xs"
      by (rule last_index_of_char_None)
    with 0 show ?thesis
      by (cases "last_index_of [c] xs") auto
  next
    case (Suc k)
    have "last_index_of [c] (x # xs) = Some (Suc k) \<longleftrightarrow> last_index_of [c] xs = Some k"
      by (simp split: option.split)
    with Suc show ?thesis using Cons.IH [of k] by simp
  qed
qed simp

subsection \<open>Trimming\<close>

definition trim_left_set :: "char list \<Rightarrow> string \<Rightarrow> string" where
  "trim_left_set cs s = dropWhile (\<lambda>c. c \<in> set cs) s"

definition trim_right_set :: "char list \<Rightarrow> string \<Rightarrow> string" where
  "trim_right_set cs s = rev (dropWhile (\<lambda>c. c \<in> set cs) (rev s))"

definition trim_set :: "char list \<Rightarrow> string \<Rightarrow> string" where
  "trim_set cs s = trim_right_set cs (trim_left_set cs s)"

text \<open>The ASCII part of \<open>unicode.IsSpace\<close>: tab, newline, vertical tab, form feed, return, blank.\<close>

definition go_spaces :: "char list" where
  "go_spaces = [CHR 0x09, CHR 0x0A, CHR 0x0B, CHR 0x0C, CHR 0x0D, CHR '' '']"

definition trim_space :: "string \<Rightarrow> string" where
  "trim_space s = trim_set go_spaces s"

lemma trim_right_set_id: "s = [] \<or> last s \<notin> set cs \<Longrightarrow> trim_right_set cs s = s"
  by (cases s rule: rev_cases) (auto simp: trim_right_set_def)

lemma trim_left_set_id: "s = [] \<or> hd s \<notin> set cs \<Longrightarrow> trim_left_set cs s = s"
  by (cases s) (auto simp: trim_left_set_def)

lemma trim_set_infix: "sublist (trim_set cs s) s"
proof -
  have "suffix (trim_left_set cs s) s"
    by (simp add: trim_left_set_def suffix_dropWhile)
  moreover have "prefix (trim_set cs s) (trim_left_set cs s)"
    unfolding trim_set_def trim_right_set_def
    by (metis rev_rev_ident suffix_dropWhile suffix_to_prefix)
  ultimately show ?thesis
    by (meson prefix_imp_sublist sublist_order.order.trans suffix_imp_sublist)
qed

subsection \<open>strings.Replace with \<open>n = 1\<close>\<close>

definition replace_first :: "string \<Rightarrow> string \<Rightarrow> string \<Rightarrow> string" where
  "replace_first s old new =
     (case index_of old s of
        None \<Rightarrow> s
      | Some i \<Rightarrow> take i s @ new @ drop (i + length old) s)"

subsection \<open>strconv\<close>

definition is_digit :: "char \<Rightarrow> bool" where
  "is_digit c = (48 \<le> (of_char c :: nat) \<and> (of_char c :: nat) \<le> 57)"

definition digit_val :: "char \<Rightarrow> nat" where
  "digit_val c = of_char c - 48"

definition digits_val :: "string \<Rightarrow> nat" where
  "digits_val s = foldl (\<lambda>n c. 10 * n + digit_val c) 0 s"

text \<open>
  strconv.Atoi and strconv.ParseInt in base 10: an optional sign, at least one decimal digit,
  nothing else, and the value must fit the bit size.
\<close>

definition parse_dec :: "int \<Rightarrow> int \<Rightarrow> string \<Rightarrow> int option" where
  "parse_dec lo hi s =
     (let neg = (case s of c # _ \<Rightarrow> c = CHR ''-'' | [] \<Rightarrow> False);
          body = (case s of c # cs \<Rightarrow> (if c = CHR ''-'' \<or> c = CHR ''+'' then cs else s) | [] \<Rightarrow> []);
          v = (if neg then - int (digits_val body) else int (digits_val body))
      in if body \<noteq> [] \<and> list_all is_digit body \<and> lo \<le> v \<and> v \<le> hi then Some v else None)"

definition go_Atoi :: "string \<Rightarrow> int option" where
  "go_Atoi s = parse_dec (- (2 ^ 63)) (2 ^ 63 - 1) s"

definition go_ParseInt8 :: "string \<Rightarrow> int option" where
  "go_ParseInt8 s = parse_dec (-128) 127 s"

text \<open>The decimal form \<open>fmt\<close> prints for an unsigned number.\<close>

definition digit_char :: "nat \<Rightarrow> char" where
  "digit_char d = char_of (48 + d)"

fun dec_string :: "nat \<Rightarrow> string" where
  "dec_string n = (if n < 10 then [digit_char n] else dec_string (n div 10) @ [digit_char (n mod 10)])"

declare dec_string.simps [simp del]

lemma digit_char_props: "d < 10 \<Longrightarrow> is_digit (digit_char d) \<and> digit_val (digit_char d) = d"
  by (simp add: digit_char_def is_digit_def digit_val_def of_char_of)

lemma dec_string_digits: "list_all is_digit (dec_string n) \<and> dec_string n \<noteq> []"
proof (induction n rule: dec_string.induct)
  case (1 n)
  then show ?case
    by (subst (1 2) dec_string.simps) (auto simp: digit_char_props)
qed

lemma digits_val_dec_string: "digits_val (dec_string n) = n"
proof (induction n rule: dec_string.induct)
  case (1 n)
  then show ?case
    by (subst dec_string.simps) (auto simp: digit_char_props digits_val_def)
qed

lemma dec_string_inj: "dec_string m = dec_string n \<longleftrightarrow> m = n"
  by (metis digits_val_dec_string)

lemma dec_string_no: "\<not> is_digit c \<Longrightarrow> c \<notin> set (dec_string n)"
  using dec_string_digits [of n] by (auto simp: list_all_iff)

lemma is_digit_sign: "is_digit c \<Longrightarrow> c \<noteq> CHR ''-'' \<and> c \<noteq> CHR ''+''"
  by (auto simp: is_digit_def)

lemma go_Atoi_dec_string: "int n \<le> 2 ^ 63 - 1 \<Longrightarrow> go_Atoi (dec_string n) = Some (int n)"
proof -
  assume n: "int n \<le> 2 ^ 63 - 1"
  obtain c cs where s: "dec_string n = c # cs" and c: "is_digit c"
    using dec_string_digits [of n] by (cases "dec_string n") auto
  show ?thesis
    using n is_digit_sign [OF c] dec_string_digits [of n] digits_val_dec_string [of n]
    by (simp add: go_Atoi_def parse_dec_def s Let_def)
qed

lemma parse_dec_range: "parse_dec lo hi s = Some v \<Longrightarrow> lo \<le> v \<and> v \<le> hi"
  by (auto simp: parse_dec_def Let_def split: if_splits)

end
