(* ===== verification/Positions.thy ===== *)
theory Positions
  imports GoStrings
begin

text \<open>
  Text positions and ranges: \<open>pkg/utils/range.go\<close>, \<open>indexToPos.go\<close>, the predicate
  \<open>PosInRange\<close> of \<open>nodeAtPos.go\<close> and \<open>boolean.go\<close>. A position of the language server
  protocol is a pair of \<open>uint32\<close>, so sums and differences wrap. Index arithmetic that Go
  would abort (a slice index out of range) is the value \<open>None\<close>.
\<close>

record position =
  Line :: u32
  Character :: u32

record range =
  Start :: position
  End :: position

definition mk_pos :: "u32 \<Rightarrow> u32 \<Rightarrow> position" where
  "mk_pos l c = \<lparr>Line = l, Character = c\<rparr>"

definition mk_range :: "position \<Rightarrow> position \<Rightarrow> range" where
  "mk_range s e = \<lparr>Start = s, End = e\<rparr>"

text \<open>The zero value of \<open>protocol.Range\<close>.\<close>

definition zero_pos :: position where
  "zero_pos = mk_pos 0 0"

definition zero_range :: range where
  "zero_range = mk_range zero_pos zero_pos"

lemma mk_pos_simps [simp]:
  "Line (mk_pos l c) = l" "Character (mk_pos l c) = c"
  by (simp_all add: mk_pos_def)

lemma mk_range_simps [simp]:
  "Start (mk_range s e) = s" "End (mk_range s e) = e"
  by (simp_all add: mk_range_def)

lemma mk_pos_eq [simp]: "mk_pos l c = mk_pos l' c' \<longleftrightarrow> l = l' \<and> c = c'"
  by (simp add: mk_pos_def)

subsection \<open>range.go\<close>

definition AddOffsetToRange :: "range \<Rightarrow> position \<Rightarrow> range" where
  "AddOffsetToRange rng offset =
     (let s = Start rng; e = End rng
      in mk_range (mk_pos (Line s + Line offset) (Character s + Character offset))
                  (mk_pos (Line e + Line offset) (Character e + Character offset)))"

definition line_content_range :: "string list \<Rightarrow> int \<Rightarrow> range option" where
  "line_content_range allLines lineIndex =
     (if lineIndex < 0 \<or> int (length allLines) \<le> lineIndex then None
      else let line = allLines ! nat lineIndex;
               trim = trim_space line;
               index = (case index_of trim line of Some i \<Rightarrow> int i | None \<Rightarrow> -1)
           in Some (mk_range
                (mk_pos (word_of_int lineIndex) (word_of_int index))
                (mk_pos (word_of_int lineIndex) (word_of_int (index + int (length line))))))"

fun collect_ranges :: "string list \<Rightarrow> int list \<Rightarrow> range list option" where
  "collect_ranges ls [] = Some []"
| "collect_ranges ls (i # is) =
     (case line_content_range ls i of
        None \<Rightarrow> None
      | Some r \<Rightarrow> map_option (\<lambda>rs. r # rs) (collect_ranges ls is))"

definition AllLineContentRange :: "int list \<Rightarrow> string \<Rightarrow> range list option" where
  "AllLineContentRange lineIndexes content =
     collect_ranges (split_on (CHR 0x0A) content) lineIndexes"

definition LineContentRange :: "int \<Rightarrow> string \<Rightarrow> range option" where
  "LineContentRange lineIndex content =
     (case AllLineContentRange [lineIndex] content of Some (r # _) \<Rightarrow> Some r | _ \<Rightarrow> None)"

definition ComparePosition :: "position \<Rightarrow> position \<Rightarrow> int" where
  "ComparePosition a b =
     (if Line a = Line b
      then let diff = Character b - Character a
           in if diff = 0 then 0 else if 0 < diff then 1 else -1
      else let diff = Line b - Line a
           in if diff = 0 then 0 else if 0 < diff then 1 else -1)"

definition ArePositionEqual :: "position \<Rightarrow> position \<Rightarrow> bool" where
  "ArePositionEqual a b = (ComparePosition a b = 0)"

definition AreRangeEqual :: "range \<Rightarrow> range \<Rightarrow> bool" where
  "AreRangeEqual a b =
     (if \<not> ArePositionEqual (Start a) (Start b) then False
      else ArePositionEqual (End b) (End b))"

definition IsDefaultRange :: "range \<Rightarrow> bool" where
  "IsDefaultRange rng =
     (Character (Start rng) + Line (Start rng) + Character (End rng) + Line (End rng) = 0)"

lemma ComparePosition_0: "ComparePosition a b = 0 \<longleftrightarrow> a = b"
proof
  assume "ComparePosition a b = 0"
  then have "Line a = Line b \<and> Character a = Character b"
    by (auto simp: ComparePosition_def Let_def split: if_splits)
  then show "a = b" by (cases a; cases b) simp
qed (simp add: ComparePosition_def)

lemma ArePositionEqual_iff: "ArePositionEqual a b \<longleftrightarrow> a = b"
  by (simp add: ArePositionEqual_def ComparePosition_0)

lemma ComparePosition_values: "ComparePosition a b = (if a = b then 0 else 1)"
proof -
  have p: "(x :: u32) = 0 \<or> 0 < x" for x by (metis word_neq_0_conv)
  have "ComparePosition a b = 0 \<or> ComparePosition a b = 1"
    using p [of "Character b - Character a"] p [of "Line b - Line a"]
    by (auto simp: ComparePosition_def Let_def)
  then show ?thesis using ComparePosition_0 [of a b] by auto
qed

lemma IsDefaultRange_zero: "IsDefaultRange zero_range"
  by (simp add: IsDefaultRange_def zero_range_def zero_pos_def)

subsection \<open>indexToPos.go\<close>

fun index_to_pos_loop :: "string \<Rightarrow> u32 \<Rightarrow> u32 \<Rightarrow> position" where
  "index_to_pos_loop [] line charsOnLine = mk_pos line charsOnLine"
| "index_to_pos_loop (c # cs) line charsOnLine =
     (if c = CHR 0x0A then index_to_pos_loop cs (line + 1) 0
      else index_to_pos_loop cs line (charsOnLine + 1))"

definition IndexToPos :: "int \<Rightarrow> string \<Rightarrow> position option" where
  "IndexToPos index content =
     (if int (length content) < index then None
      else Some (index_to_pos_loop (take (nat index) content) 0 0))"

fun pos_to_index_loop :: "string \<Rightarrow> nat \<Rightarrow> u32 \<Rightarrow> u32 \<Rightarrow> nat" where
  "pos_to_index_loop [] idx line target = idx"
| "pos_to_index_loop (c # cs) idx line target =
     (if line < target
      then pos_to_index_loop cs (Suc idx) (if c = CHR 0x0A then line + 1 else line) target
      else idx)"

definition PosToIndex :: "position \<Rightarrow> string \<Rightarrow> nat" where
  "PosToIndex pos content =
     (if content = [] then 0
      else let idx = pos_to_index_loop content 0 0 (Line pos);
               target = idx + unat (Character pos)
           in if length content < target then length content else target)"

lemma PosToIndex_le: "PosToIndex pos content \<le> length content"
  by (simp add: PosToIndex_def Let_def)

definition newlines :: "string \<Rightarrow> nat" where
  "newlines s = count_list s (CHR 0x0A)"

definition last_line :: "string \<Rightarrow> string" where
  "last_line s = rev (takeWhile (\<lambda>c. c \<noteq> CHR 0x0A) (rev s))"

definition before_last_line :: "string \<Rightarrow> string" where
  "before_last_line s = rev (dropWhile (\<lambda>c. c \<noteq> CHR 0x0A) (rev s))"

lemma newlines_simps [simp]:
  "newlines [] = 0"
  "newlines (c # cs) = (if c = CHR 0x0A then Suc (newlines cs) else newlines cs)"
  "newlines (s @ t) = newlines s + newlines t"
  by (simp_all add: newlines_def)

lemma newlines_le_length: "newlines s \<le> length s"
  by (simp add: newlines_def count_le_length)

lemma last_line_split: "s = before_last_line s @ last_line s"
proof -
  have "rev (rev s) = before_last_line s @ last_line s"
    unfolding before_last_line_def last_line_def rev_append [symmetric] takeWhile_dropWhile_id ..
  then show ?thesis by simp
qed

lemma before_last_line_shape: "before_last_line s = [] \<or> last (before_last_line s) = CHR 0x0A"
  using hd_dropWhile [of "\<lambda>c. c \<noteq> CHR 0x0A" "rev s"]
  by (auto simp: before_last_line_def last_rev)

lemma newlines_last_line [simp]: "newlines (last_line s) = 0"
  by (auto simp: newlines_def last_line_def count_list_0_iff dest: set_takeWhileD)

lemma newlines_before [simp]: "newlines (before_last_line s) = newlines s"
  by (metis last_line_split newlines_last_line newlines_simps(3) add_0_right)

lemma index_to_pos_loop_no_newline:
  "newlines s = 0 \<Longrightarrow> index_to_pos_loop s l c = mk_pos l (c + of_nat (length s))"
  by (induction s arbitrary: c) (auto simp: algebra_simps split: if_splits)

lemma index_to_pos_loop_newline:
  "s \<noteq> [] \<Longrightarrow> last s = CHR 0x0A \<Longrightarrow>
    index_to_pos_loop (s @ t) l c = index_to_pos_loop t (l + of_nat (newlines s)) 0"
proof (induction s arbitrary: l c)
  case (Cons x xs)
  then show ?case by (cases xs) (auto simp: algebra_simps)
qed simp

lemma index_to_pos_loop_eq:
  "index_to_pos_loop s 0 0 = mk_pos (of_nat (newlines s)) (of_nat (length (last_line s)))"
proof (cases "before_last_line s = []")
  case True
  then have "last_line s = s" "newlines s = 0"
    using last_line_split [of s] newlines_last_line [of s] by simp_all
  then show ?thesis by (simp add: index_to_pos_loop_no_newline)
next
  case False
  then have "index_to_pos_loop (before_last_line s @ last_line s) 0 0 =
      index_to_pos_loop (last_line s) (0 + of_nat (newlines (before_last_line s))) 0"
    using before_last_line_shape [of s] by (intro index_to_pos_loop_newline) auto
  then show ?thesis
    by (simp add: last_line_split [symmetric] index_to_pos_loop_no_newline)
qed

lemma pos_to_index_loop_prefix:
  assumes "p = [] \<or> last p = CHR 0x0A"
    and "l + newlines p = t" and "t < 2 ^ 32"
  shows "pos_to_index_loop (p @ q) idx (of_nat l) (of_nat t) = idx + length p"
  using assms
proof (induction p arbitrary: idx l)
  case Nil
  then show ?case by (cases q) simp_all
next
  case (Cons x xs)
  have pos: "0 < newlines (x # xs)"
  proof -
    have "CHR 0x0A \<in> set (x # xs)" using Cons.prems(1) last_in_set [of "x # xs"] by auto
    then show ?thesis using count_list_0_iff [of "x # xs" "CHR 0x0A"] by (simp add: newlines_def)
  qed
  with Cons.prems have lt: "(of_nat l :: u32) < of_nat t"
    by (simp add: word_less_nat_alt unat_of_nat)
  have shape: "xs = [] \<or> last xs = CHR 0x0A" using Cons.prems(1) by (cases xs) auto
  have step: "(if x = CHR 0x0A then of_nat l + 1 else of_nat l :: u32) =
      of_nat (if x = CHR 0x0A then Suc l else l)" by simp
  have "pos_to_index_loop (xs @ q) (Suc idx) (of_nat (if x = CHR 0x0A then Suc l else l)) (of_nat t)
      = Suc idx + length xs"
    using Cons.prems shape by (intro Cons.IH) (auto split: if_splits)
  with lt step show ?case by simp
qed

text \<open>Mapping a byte index to a position and back gives the index, in any text below 4 GiB.\<close>

lemma PosToIndex_IndexToPos_eq:
  assumes "i \<le> length content" and "length content < 2 ^ 32"
  shows "PosToIndex (index_to_pos_loop (take i content) 0 0) content = i"
proof (cases "content = []")
  case True
  with assms show ?thesis by (simp add: PosToIndex_def)
next
  case False
  let ?s = "take i content"
  have len: "length ?s = i" using assms by simp
  have nl: "newlines ?s < 2 ^ 32" using newlines_le_length [of ?s] assms by simp
  have ll: "length (last_line ?s) < 2 ^ 32"
    using last_line_split [of ?s] len assms by (metis le_less_trans length_append le_add2 order_trans)
  have "pos_to_index_loop (before_last_line ?s @ (last_line ?s @ drop i content)) 0
      (of_nat 0) (of_nat (newlines ?s)) = 0 + length (before_last_line ?s)"
    using nl by (intro pos_to_index_loop_prefix before_last_line_shape) simp_all
  moreover have "before_last_line ?s @ (last_line ?s @ drop i content) = content"
    by (metis append.assoc append_take_drop_id last_line_split)
  ultimately have idx: "pos_to_index_loop content 0 0 (of_nat (newlines ?s)) = length (before_last_line ?s)"
    by simp
  have "length (before_last_line ?s) + length (last_line ?s) = i"
    using last_line_split [of ?s] len by (metis length_append)
  with idx ll False assms show ?thesis
    by (simp add: PosToIndex_def index_to_pos_loop_eq unat_of_nat Let_def)
qed

subsection \<open>nodeAtPos.go\<close>

definition PosInRange :: "range \<Rightarrow> position \<Rightarrow> bool" where
  "PosInRange rng pos =
     (if Line (Start rng) = Line (End rng) \<and> Line pos = Line (Start rng)
      then Character (Start rng) \<le> Character pos \<and> Character pos \<le> Character (End rng)
      else Line (Start rng) \<le> Line pos \<and> Line pos \<le> Line (End rng))"

lemma PosInRange_lines: "PosInRange rng pos \<Longrightarrow> Line (Start rng) \<le> Line pos \<and> Line pos \<le> Line (End rng)"
  by (auto simp: PosInRange_def split: if_splits)

subsection \<open>boolean.go\<close>

definition GetYAMLBooleanValue :: "string \<Rightarrow> bool" where
  "GetYAMLBooleanValue str =
     (str = ''true'' \<or> str = ''yes'' \<or> str = ''y'' \<or> str = ''1'' \<or> str = ''on'')"

definition IsValidYAMLBooleanValue :: "string \<Rightarrow> bool" where
  "IsValidYAMLBooleanValue str =
     (str = ''true'' \<or> str = ''yes'' \<or> str = ''y'' \<or> str = ''1'' \<or> str = ''on'' \<or>
      str = ''false'' \<or> str = ''no'' \<or> str = ''n'' \<or> str = ''0'' \<or> str = ''off'')"

subsection \<open>Properties\<close>

text \<open>
  C31: the index of a position is never past the end of the text, and every index within a text
  below 4 GiB has a position that maps back to it; an index past the end aborts.
\<close>

theorem PosToIndex_IndexToPos:
  assumes "length content < 2 ^ 32"
  shows "(case IndexToPos i content of
      None \<Rightarrow> int (length content) < i
    | Some p \<Rightarrow> i \<le> int (length content) \<and> PosToIndex p content = nat i)"
proof (cases "int (length content) < i")
  case False
  then have "PosToIndex (index_to_pos_loop (take (nat i) content) 0 0) content = nat i"
    using assms by (intro PosToIndex_IndexToPos_eq) simp_all
  with False show ?thesis by (simp add: IndexToPos_def)
qed (simp add: IndexToPos_def)

theorem PosToIndex_IndexToPos_witness:
  "case IndexToPos 4 ''ab:cd'' of
      None \<Rightarrow> int (length ''ab:cd'') < 4
    | Some p \<Rightarrow> (4 :: int) \<le> int (length ''ab:cd'') \<and> PosToIndex p ''ab:cd'' = nat 4"
  by (rule PosToIndex_IndexToPos) simp

text \<open>
  Comparing two positions gives 0 exactly for equal ones and 1 for all others, so the
  documented result -1 for an earlier position never occurs.
\<close>

lemma ComparePosition_never_negative: "ComparePosition a b = (if a = b then 0 else 1)"
  by (rule ComparePosition_values)

end
