(* ===== verification/Diagnostics.thy ===== *)
theory Diagnostics
  imports Positions
begin

text \<open>
  The diagnostics the server publishes and the code actions attached to them:
  \<open>pkg/utils/diagnostics.go\<close>, \<open>pkg/utils/codeActions.go\<close> and the pipeline stage
  \<open>deduplicateDiagnosticsByRange\<close> of \<open>pkg/services/diagnostics.go\<close>. The records carry the
  fields of the protocol's types that the program sets; a nil \<open>Data\<close> is \<open>None\<close>.
\<close>

datatype severity =
  SeverityUnset | SeverityError | SeverityWarning | SeverityInformation | SeverityHint

datatype diagnostic_tag = DiagnosticTagUnnecessary | DiagnosticTagDeprecated

record text_edit =
  te_Range :: range
  te_NewText :: string

record code_action =
  ca_Title :: string
  ca_Kind :: string
  ca_Changes :: "(string, text_edit list) gomap"
  ca_IsPreferred :: bool

record diagnostic =
  diag_Range :: range
  diag_Severity :: severity
  diag_Source :: string
  diag_Message :: string
  diag_Tags :: "diagnostic_tag list"
  diag_Code :: string
  diag_Href :: "string option"
  diag_Data :: "code_action list option"

text \<open>A composite literal that sets range, message, severity and source only.\<close>

definition mk_diag :: "range \<Rightarrow> string \<Rightarrow> severity \<Rightarrow> string \<Rightarrow> diagnostic" where
  "mk_diag rng msg sev src =
     \<lparr>diag_Range = rng, diag_Severity = sev, diag_Source = src, diag_Message = msg,
      diag_Tags = [], diag_Code = [], diag_Href = None, diag_Data = None\<rparr>"

lemma mk_diag_simps [simp]:
  "diag_Range (mk_diag r m s c) = r" "diag_Message (mk_diag r m s c) = m"
  "diag_Severity (mk_diag r m s c) = s" "diag_Source (mk_diag r m s c) = c"
  "diag_Data (mk_diag r m s c) = None"
  by (simp_all add: mk_diag_def)

subsection \<open>diagnostics.go\<close>

definition ascii_upper :: "char \<Rightarrow> char" where
  "ascii_upper c =
     (if 97 \<le> (of_char c :: nat) \<and> (of_char c :: nat) \<le> 122 then char_of (of_char c - 32 :: nat) else c)"

definition ToDiagnosticMessage :: "string \<Rightarrow> string" where
  "ToDiagnosticMessage message = (case message of [] \<Rightarrow> [] | c # cs \<Rightarrow> ascii_upper c # cs)"

definition CreateDiagnosticFromRange ::
    "range \<Rightarrow> severity \<Rightarrow> string \<Rightarrow> code_action list \<Rightarrow> diagnostic" where
  "CreateDiagnosticFromRange rng severity msg codeAction =
     (mk_diag rng msg severity ''cci-language-server'')\<lparr>diag_Data := Some codeAction\<rparr>"

definition CreateErrorDiagnosticFromRange :: "range \<Rightarrow> string \<Rightarrow> diagnostic" where
  "CreateErrorDiagnosticFromRange rng msg = CreateDiagnosticFromRange rng SeverityError msg []"

definition CreateWarningDiagnosticFromRange :: "range \<Rightarrow> string \<Rightarrow> diagnostic" where
  "CreateWarningDiagnosticFromRange rng msg = CreateDiagnosticFromRange rng SeverityWarning msg []"

definition CreateEmptyAssignationWarning :: "range \<Rightarrow> diagnostic" where
  "CreateEmptyAssignationWarning rng = CreateWarningDiagnosticFromRange rng ''Empty assignation''"

definition CreateDeprecatedDiagnosticFromRange :: "range \<Rightarrow> string \<Rightarrow> diagnostic" where
  "CreateDeprecatedDiagnosticFromRange rng msg =
     (CreateWarningDiagnosticFromRange rng msg)\<lparr>diag_Tags := [DiagnosticTagDeprecated]\<rparr>"

definition CreateInformationDiagnosticFromRange :: "range \<Rightarrow> string \<Rightarrow> diagnostic" where
  "CreateInformationDiagnosticFromRange rng msg =
     CreateDiagnosticFromRange rng SeverityInformation msg []"

definition CreateHintDiagnosticFromRange :: "range \<Rightarrow> string \<Rightarrow> diagnostic" where
  "CreateHintDiagnosticFromRange rng msg = CreateDiagnosticFromRange rng SeverityHint msg []"

lemmas diagnostic_creators =
  CreateErrorDiagnosticFromRange_def CreateWarningDiagnosticFromRange_def
  CreateEmptyAssignationWarning_def CreateDeprecatedDiagnosticFromRange_def
  CreateInformationDiagnosticFromRange_def CreateHintDiagnosticFromRange_def
  CreateDiagnosticFromRange_def

lemma created_severity [simp]:
  "diag_Severity (CreateErrorDiagnosticFromRange r m) = SeverityError"
  "diag_Severity (CreateWarningDiagnosticFromRange r m) = SeverityWarning"
  "diag_Severity (CreateDeprecatedDiagnosticFromRange r m) = SeverityWarning"
  "diag_Severity (CreateDiagnosticFromRange r s m a) = s"
  by (simp_all add: diagnostic_creators)

lemma created_range [simp]:
  "diag_Range (CreateErrorDiagnosticFromRange r m) = r"
  "diag_Range (CreateWarningDiagnosticFromRange r m) = r"
  "diag_Range (CreateDeprecatedDiagnosticFromRange r m) = r"
  "diag_Range (CreateDiagnosticFromRange r s m a) = r"
  by (simp_all add: diagnostic_creators)

lemma created_message [simp]:
  "diag_Message (CreateErrorDiagnosticFromRange r m) = m"
  "diag_Message (CreateWarningDiagnosticFromRange r m) = m"
  "diag_Message (CreateDeprecatedDiagnosticFromRange r m) = m"
  "diag_Message (CreateDiagnosticFromRange r s m a) = m"
  by (simp_all add: diagnostic_creators)

subsection \<open>codeActions.go\<close>

definition CreateCodeActionTextEdit ::
    "string \<Rightarrow> string \<Rightarrow> text_edit list \<Rightarrow> bool \<Rightarrow> code_action" where
  "CreateCodeActionTextEdit title textDocumentUri textEdits isPreferred =
     \<lparr>ca_Title = title, ca_Kind = ''quickfix'', ca_Changes = [(textDocumentUri, textEdits)],
      ca_IsPreferred = isPreferred\<rparr>"

definition mk_edit :: "string \<Rightarrow> range \<Rightarrow> text_edit" where
  "mk_edit txt rng = \<lparr>te_Range = rng, te_NewText = txt\<rparr>"

definition newline_str :: string where
  "newline_str = [CHR 0x0A]"

text \<open>The leading blanks and tabs of the line a diagnostic starts on.\<close>

definition diagnostic_indent :: "string list \<Rightarrow> diagnostic \<Rightarrow> string" where
  "diagnostic_indent docLines d =
     (if unat (Line (Start (diag_Range d))) < length docLines
      then takeWhile (\<lambda>ch. ch = CHR '' '' \<or> ch = CHR 0x09)
             (docLines ! unat (Line (Start (diag_Range d))))
      else [])"

definition suppression_actions :: "string \<Rightarrow> string list \<Rightarrow> diagnostic \<Rightarrow> code_action list" where
  "suppression_actions docURI docLines d =
     (let indent = diagnostic_indent docLines d;
          s = Start (diag_Range d);
          e = End (diag_Range d);
          sl = Line s
      in [CreateCodeActionTextEdit ''Ignore this line'' docURI
            [mk_edit (indent @ ''# cci-ignore-next-line'' @ newline_str)
               (mk_range (mk_pos sl 0) (mk_pos sl 0))] False] @
         (if sl = Line e
          then [CreateCodeActionTextEdit ''Ignore this line (inline)'' docURI
                  [mk_edit '' # cci-ignore''
                     (mk_range (mk_pos sl (Character e + 1)) (mk_pos sl (Character e + 14)))] False]
          else [CreateCodeActionTextEdit ''Ignore this range'' docURI
                  [mk_edit (indent @ ''# cci-ignore-start'' @ newline_str)
                     (mk_range (mk_pos sl 0) (mk_pos sl 0)),
                   mk_edit (indent @ ''# cci-ignore-end'' @ newline_str)
                     (mk_range (mk_pos (Line e + 1) 0) (mk_pos (Line e + 1) 0))] False]) @
         [CreateCodeActionTextEdit ''Ignore all errors in this file'' docURI
            [mk_edit (''# cci-ignore-file'' @ newline_str)
               (mk_range (mk_pos 0 0) (mk_pos 0 0))] False])"

text \<open>
  \<open>reload\<close> is the JSON round trip of the attached code actions, code of a third-party package:
  \<open>None\<close> when marshalling or unmarshalling fails.
\<close>

fun append_suppression_loop ::
    "(code_action list \<Rightarrow> code_action list option) \<Rightarrow> string \<Rightarrow> string list \<Rightarrow>
     diagnostic list \<Rightarrow> diagnostic list option" where
  "append_suppression_loop reload docURI docLines [] = Some []"
| "append_suppression_loop reload docURI docLines (d # ds) =
     (case (case diag_Data d of None \<Rightarrow> Some [] | Some acts \<Rightarrow> reload acts) of
        None \<Rightarrow> None
      | Some existing \<Rightarrow>
          map_option
            (\<lambda>rest. d\<lparr>diag_Data := Some (existing @ suppression_actions docURI docLines d)\<rparr> # rest)
            (append_suppression_loop reload docURI docLines ds))"

definition AppendSuppressionCodeActions ::
    "(code_action list \<Rightarrow> code_action list option) \<Rightarrow> string \<Rightarrow> diagnostic list \<Rightarrow> string \<Rightarrow>
     diagnostic list option" where
  "AppendSuppressionCodeActions reload docURI diagnostics docContent =
     append_suppression_loop reload docURI (split_on (CHR 0x0A) docContent) diagnostics"

lemma append_suppression_loop_shape:
  assumes "append_suppression_loop reload uri ls ds = Some ds'"
  shows "list_all2 (\<lambda>d d'. diag_Range d' = diag_Range d \<and> diag_Message d' = diag_Message d \<and>
      diag_Severity d' = diag_Severity d \<and>
      (\<exists>pre. diag_Data d' = Some (pre @ suppression_actions uri ls d))) ds ds'"
  using assms by (induction ds arbitrary: ds') (auto split: option.splits)

lemma append_suppression_loop_total:
  assumes "\<And>acts. reload acts \<noteq> None"
  shows "append_suppression_loop reload uri ls ds \<noteq> None"
  using assms by (induction ds) (auto split: option.splits)

subsection \<open>deduplicateDiagnosticsByRange\<close>

fun fmt_severity :: "severity \<Rightarrow> string" where
  "fmt_severity SeverityUnset = ''0''"
| "fmt_severity SeverityError = ''Error''"
| "fmt_severity SeverityWarning = ''Warning''"
| "fmt_severity SeverityInformation = ''Information''"
| "fmt_severity SeverityHint = ''Hint''"

text \<open>The \<open>%v\<close> form of a position and of a range.\<close>

definition fmt_pos :: "position \<Rightarrow> string" where
  "fmt_pos p = ''{'' @ dec_string (unat (Line p)) @ '' '' @ dec_string (unat (Character p)) @ ''}''"

definition fmt_range :: "range \<Rightarrow> string" where
  "fmt_range r = ''{'' @ fmt_pos (Start r) @ '' '' @ fmt_pos (End r) @ ''}''"

definition diagnostic_key :: "diagnostic \<Rightarrow> string" where
  "diagnostic_key d =
     fmt_range (diag_Range d) @ ''-'' @ diag_Message d @ ''-'' @ fmt_severity (diag_Severity d)"

fun deduplicate_loop :: "string list \<Rightarrow> diagnostic list \<Rightarrow> diagnostic list" where
  "deduplicate_loop seen [] = []"
| "deduplicate_loop seen (d # ds) =
     (if diagnostic_key d \<notin> set seen
      then d # deduplicate_loop (diagnostic_key d # seen) ds
      else deduplicate_loop seen ds)"

definition deduplicateDiagnosticsByRange :: "diagnostic list \<Rightarrow> diagnostic list" where
  "deduplicateDiagnosticsByRange diagnostics = deduplicate_loop [] diagnostics"

lemma append_sep_inj:
  "c \<notin> set a \<Longrightarrow> c \<notin> set a' \<Longrightarrow> a @ c # s = a' @ c # s' \<longleftrightarrow> a = a' \<and> s = s'"
proof (induction a arbitrary: a')
  case Nil
  then show ?case by (cases a') auto
next
  case (Cons x xs)
  then show ?case by (cases a') auto
qed

lemma dec_string_sep_inj:
  "\<not> is_digit c \<Longrightarrow> dec_string m @ c # s = dec_string n @ c # s' \<longleftrightarrow> m = n \<and> s = s'"
  by (simp add: append_sep_inj dec_string_no dec_string_inj)

lemma fmt_pos_inj: "fmt_pos p @ s = fmt_pos q @ s' \<longleftrightarrow> p = q \<and> s = s'"
proof -
  have "\<not> is_digit (CHR '' '')" "\<not> is_digit (CHR ''}'')" by (simp_all add: is_digit_def)
  then have "fmt_pos p @ s = fmt_pos q @ s' \<longleftrightarrow>
      unat (Line p) = unat (Line q) \<and> unat (Character p) = unat (Character q) \<and> s = s'"
    by (simp add: fmt_pos_def dec_string_sep_inj)
  then show ?thesis by (cases p; cases q) (auto simp: word_unat_eq_iff)
qed

lemma fmt_range_inj: "fmt_range p @ s = fmt_range q @ s' \<longleftrightarrow> p = q \<and> s = s'"
proof -
  have "fmt_range p @ s = fmt_range q @ s' \<longleftrightarrow> Start p = Start q \<and> End p = End q \<and> s = s'"
    by (simp add: fmt_range_def fmt_pos_inj)
  then show ?thesis by (cases p; cases q) auto
qed

lemma fmt_severity_props: "CHR ''-'' \<notin> set (fmt_severity s) \<and> fmt_severity s \<noteq> []"
  by (cases s) auto

lemma fmt_severity_inj: "fmt_severity s = fmt_severity t \<longleftrightarrow> s = t"
  by (cases s; cases t) auto

lemma diagnostic_key_inj:
  "diagnostic_key d = diagnostic_key d' \<longleftrightarrow>
    diag_Range d = diag_Range d' \<and> diag_Message d = diag_Message d' \<and>
    diag_Severity d = diag_Severity d'"
proof -
  have "(m @ CHR ''-'' # fmt_severity s = m' @ CHR ''-'' # fmt_severity s') \<longleftrightarrow> m = m' \<and> s = s'"
    for m m' s s'
  proof -
    have "(m @ CHR ''-'' # fmt_severity s = m' @ CHR ''-'' # fmt_severity s') \<longleftrightarrow>
        rev (fmt_severity s) @ CHR ''-'' # rev m = rev (fmt_severity s') @ CHR ''-'' # rev m'"
      by (metis append.assoc append_Cons append_Nil rev.simps(2) rev_append rev_rev_ident)
    then show ?thesis
      using fmt_severity_props by (simp add: append_sep_inj fmt_severity_inj) blast
  qed
  then show ?thesis by (simp add: diagnostic_key_def fmt_range_inj)
qed

lemma deduplicate_loop_keys:
  "set (map diagnostic_key (deduplicate_loop seen ds)) = set (map diagnostic_key ds) - set seen \<and>
   distinct (map diagnostic_key (deduplicate_loop seen ds)) \<and>
   subseq (deduplicate_loop seen ds) ds"
  by (induction seen ds rule: deduplicate_loop.induct) auto


subsection \<open>Properties\<close>

lemma image_same_kernel:
  assumes "\<And>d d'. f d = f d' \<longleftrightarrow> g d = g d'" and "f ` A = f ` B" and "A \<subseteq> B"
  shows "g ` A = g ` B"
proof (rule subset_antisym [OF image_mono [OF assms(3)] image_subsetI])
  fix b assume "b \<in> B"
  then have "f b \<in> f ` A" unfolding assms(2) by (rule imageI)
  then obtain a where "a \<in> A" "f b = f a" by (rule imageE)
  then show "g b \<in> g ` A" unfolding assms(1) by (rule rev_image_eqI)
qed

definition diagnostic_parts :: "diagnostic \<Rightarrow> range \<times> string \<times> severity" where
  "diagnostic_parts d = (diag_Range d, diag_Message d, diag_Severity d)"

lemma diagnostic_key_parts: "diagnostic_key d = diagnostic_key d' \<longleftrightarrow> diagnostic_parts d = diagnostic_parts d'"
  by (simp add: diagnostic_key_inj diagnostic_parts_def)

lemma deduplicate_props:
  "subseq (deduplicateDiagnosticsByRange ds) ds \<and>
   diagnostic_parts ` set (deduplicateDiagnosticsByRange ds) = diagnostic_parts ` set ds \<and>
   distinct (map diagnostic_parts (deduplicateDiagnosticsByRange ds))"
proof -
  let ?r = "deduplicateDiagnosticsByRange ds"
  have sub: "subseq ?r ds" and keys: "diagnostic_key ` set ?r = diagnostic_key ` set ds"
    and dist: "distinct (map diagnostic_key ?r)"
    using deduplicate_loop_keys [of "[]" ds] by (simp_all add: deduplicateDiagnosticsByRange_def)
  have "set ?r \<subseteq> set ds" using list_emb_set [OF sub] by auto
  moreover have "distinct (map diagnostic_parts ?r)"
    using dist by (simp add: distinct_map inj_on_def diagnostic_key_parts)
  ultimately show ?thesis
    using sub image_same_kernel [OF diagnostic_key_parts keys] by simp
qed

text \<open>
  C30: deduplication keeps a subsequence of the diagnostics, keeps every combination of range,
  message and severity, and no combination twice.
\<close>

theorem deduplicateDiagnosticsByRange_spec:
  "subseq (deduplicateDiagnosticsByRange ds) ds \<and>
   diagnostic_parts ` set (deduplicateDiagnosticsByRange ds) = diagnostic_parts ` set ds \<and>
   distinct (map diagnostic_parts (deduplicateDiagnosticsByRange ds))"
  by (rule deduplicate_props)

text \<open>
  The suppression actions are appended to every diagnostic, in order and after the actions
  it has, and leave its range, message and severity as they are.
\<close>

lemma AppendSuppressionCodeActions_shape:
  assumes "AppendSuppressionCodeActions reload uri ds content = Some ds'"
  shows "list_all2 (\<lambda>d d'. diag_Range d' = diag_Range d \<and> diag_Message d' = diag_Message d \<and>
      diag_Severity d' = diag_Severity d \<and>
      (\<exists>pre. diag_Data d' = Some (pre @ suppression_actions uri (split_on (CHR 0x0A) content) d))) ds ds'"
  using assms append_suppression_loop_shape by (simp add: AppendSuppressionCodeActions_def)

theorem AppendSuppressionCodeActions_shape_witness:
  "\<exists>ds'. AppendSuppressionCodeActions Some ''u'' [mk_diag zero_range ''m'' SeverityError []] ''x'' = Some ds' \<and>
    list_all2 (\<lambda>d d'. diag_Range d' = diag_Range d \<and> diag_Message d' = diag_Message d \<and>
      diag_Severity d' = diag_Severity d \<and>
      (\<exists>pre. diag_Data d' = Some (pre @ suppression_actions ''u'' (split_on (CHR 0x0A) ''x'') d)))
      [mk_diag zero_range ''m'' SeverityError []] ds'"
proof -
  obtain ds' where ds': "AppendSuppressionCodeActions Some ''u''
      [mk_diag zero_range ''m'' SeverityError []] ''x'' = Some ds'"
    using append_suppression_loop_total [of Some] by (fastforce simp: AppendSuppressionCodeActions_def)
  with AppendSuppressionCodeActions_shape [OF ds'] show ?thesis by blast
qed

end
