(* ===== verification/Ast.thy ===== *)
theory Ast
  imports Diagnostics
begin

text \<open>
  The abstract syntax of a configuration, package \<open>pkg/ast\<close>: a struct is a record, an
  interface with its implementing structs is a datatype, and the getters of an interface are
  functions by cases on it. Values that refer to each other (a parameter value holds steps, a
  step holds parameter values) are mutually recursive datatypes with the struct fields as
  selectors. A node of the syntax tree of the third-party parser is an opaque handle.
\<close>

type_synonym node = nat

subsection \<open>misc.go, environment.go, retention.go\<close>

record text_and_range =
  tr_Text :: string
  tr_Range :: range

record environment =
  env_Range :: range
  env_Keys :: "string list"

record retention_settings =
  rs_Caches :: text_and_range
  rs_Range :: range

definition ValidateCachesDuration :: "retention_settings \<Rightarrow> bool" where
  "ValidateCachesDuration r =
     (let txt = tr_Text (rs_Caches r)
      in if txt = [] then True
         else if length txt < 2 \<or> txt ! (length txt - 1) \<noteq> CHR ''d'' then False
         else (case go_Atoi (take (length txt - 1) txt) of
                 None \<Rightarrow> False
               | Some duration \<Rightarrow> 1 \<le> duration \<and> duration \<le> 15))"

definition ValidateCaches :: "retention_settings \<Rightarrow> diagnostic list" where
  "ValidateCaches r =
     (if tr_Text (rs_Caches r) \<noteq> [] \<and> \<not> ValidateCachesDuration r
      then [mk_diag (tr_Range (rs_Caches r))
              ''Retention caches duration must be between 1d and 15d'' SeverityError []]
      else [])"

subsection \<open>step.go\<close>

record run_step =
  run_Range :: range
  run_Command :: string
  run_CommandRange :: range
  run_RawCommand :: string
  run_Name :: string
  run_Shell :: string
  run_Background :: bool
  run_WorkingDirectory :: string
  run_NoOutputTimeout :: string
  run_When :: string
  run_WhenRange :: range
  run_Environment :: "(string, string) gomap"
  run_IsDeployStep :: bool
  run_MaxAutoReruns :: string
  run_AutoRerunDelay :: string

record checkout_step =
  co_Range :: range
  co_Path :: string
  co_Method :: string
  co_MethodRange :: range
  co_Depth :: string

record setup_remote_docker =
  srd_Range :: range
  srd_DockerLayerCaching :: bool
  srd_Version :: string

record save_cache =
  sc_Range :: range
  sc_Paths :: "string list"
  sc_Key :: string
  sc_CacheName :: string

record restore_cache =
  rc_Range :: range
  rc_Key :: string
  rc_Keys :: "string list"
  rc_CacheName :: string

record store_artifacts =
  sa_Range :: range
  sa_Path :: string
  sa_Destination :: string

record store_test_results =
  str_Range :: range
  str_Path :: string

record persist_to_workspace =
  ptw_Range :: range
  ptw_Root :: string
  ptw_Paths :: "string list"

record attach_workspace =
  aw_Range :: range
  aw_At :: string

record add_ssh_key =
  ask_Range :: range
  ask_Fingerprints :: "string list"

datatype param_value =
    ParameterValue (pv_Name: string) (pv_Value: pvalue) (pv_ValueRange: range)
      (pv_Range: range) (pv_Type: string)
and pvalue =
    PVNil
  | PVString string
  | PVBool bool
  | PVInt int
  | PVArray "param_value list"
  | PVMap "(string \<times> param_value) list"
  | PVSteps "step list"
  | PVNode "node option"
and step =
    NamedStep (ns_Name: string) (ns_Parameters: "(string \<times> param_value) list")
      (ns_ParametersRange: range) (ns_Range: range)
  | Steps (ss_Name: string) (ss_Parameters: "(string \<times> param_value) list")
      (ss_ParametersRange: range) (ss_Range: range) (ss_Steps: "step list")
  | Run run_step
  | Checkout checkout_step
  | SetupRemoteDocker setup_remote_docker
  | SaveCache save_cache
  | RestoreCache restore_cache
  | StoreArtifacts store_artifacts
  | StoreTestResults store_test_results
  | PersistToWorkspace persist_to_workspace
  | AttachWorkspace attach_workspace
  | AddSSHKey add_ssh_key

definition run_GetName :: "run_step \<Rightarrow> string" where
  "run_GetName step = (if run_Name step \<noteq> [] then run_Name step else ''run: '' @ run_Command step)"

fun step_GetName :: "step \<Rightarrow> string" where
  "step_GetName (NamedStep n ps pr r) = n"
| "step_GetName (Steps n ps pr r ss) = n"
| "step_GetName (Run s) = run_GetName s"
| "step_GetName (Checkout s) = ''checkout''"
| "step_GetName (SetupRemoteDocker s) = ''setup_remote_docker''"
| "step_GetName (SaveCache s) = ''save_cache''"
| "step_GetName (RestoreCache s) = ''restore_cache''"
| "step_GetName (StoreArtifacts s) = ''store_artifacts''"
| "step_GetName (StoreTestResults s) = ''store_test_results''"
| "step_GetName (PersistToWorkspace s) = ''persist_to_workspace''"
| "step_GetName (AttachWorkspace s) = ''attach_workspace''"
| "step_GetName (AddSSHKey s) = ''add_ssh_key''"

fun step_GetRange :: "step \<Rightarrow> range" where
  "step_GetRange (NamedStep n ps pr r) = r"
| "step_GetRange (Steps n ps pr r ss) = r"
| "step_GetRange (Run s) = run_Range s"
| "step_GetRange (Checkout s) = co_Range s"
| "step_GetRange (SetupRemoteDocker s) = srd_Range s"
| "step_GetRange (SaveCache s) = sc_Range s"
| "step_GetRange (RestoreCache s) = rc_Range s"
| "step_GetRange (StoreArtifacts s) = sa_Range s"
| "step_GetRange (StoreTestResults s) = str_Range s"
| "step_GetRange (PersistToWorkspace s) = ptw_Range s"
| "step_GetRange (AttachWorkspace s) = aw_Range s"
| "step_GetRange (AddSSHKey s) = ask_Range s"

text \<open>\<open>pkg/utils/jobs.go\<close>.\<close>

fun HasStoreTestResultStep :: "step list \<Rightarrow> bool" where
  "HasStoreTestResultStep [] = False"
| "HasStoreTestResultStep (NamedStep n ps pr r # ss) =
     (if n = ''store_test_results'' then True else HasStoreTestResultStep ss)"
| "HasStoreTestResultStep (StoreTestResults s # ss) = True"
| "HasStoreTestResultStep (_ # ss) = HasStoreTestResultStep ss"

definition JobTypes :: "string list" where
  "JobTypes = [''approval'', ''build'', ''no-op'', ''release'', ''lock'', ''unlock'']"

definition CheckoutMethods :: "string list" where
  "CheckoutMethods = [''blobless'', ''full'', ''shallow'']"

subsection \<open>parameters.go\<close>

record base_parameter =
  bp_Name :: string
  bp_NameRange :: range
  bp_Range :: range
  bp_HasDefault :: bool
  bp_Description :: string
  bp_TypeRange :: range
  bp_DefaultRange :: range

datatype parameter =
    StringParameter base_parameter string
  | BooleanParameter base_parameter bool
  | IntegerParameter base_parameter int
  | EnumParameter base_parameter string "string list"
  | ExecutorParameter base_parameter string
  | StepsParameter base_parameter param_value
  | EnvVariableParameter base_parameter string

fun param_base :: "parameter \<Rightarrow> base_parameter" where
  "param_base (StringParameter b d) = b"
| "param_base (BooleanParameter b d) = b"
| "param_base (IntegerParameter b d) = b"
| "param_base (EnumParameter b d e) = b"
| "param_base (ExecutorParameter b d) = b"
| "param_base (StepsParameter b d) = b"
| "param_base (EnvVariableParameter b d) = b"

fun param_GetType :: "parameter \<Rightarrow> string" where
  "param_GetType (StringParameter b d) = ''string''"
| "param_GetType (BooleanParameter b d) = ''boolean''"
| "param_GetType (IntegerParameter b d) = ''integer''"
| "param_GetType (EnumParameter b d e) = ''enum''"
| "param_GetType (ExecutorParameter b d) = ''executor''"
| "param_GetType (StepsParameter b d) = ''steps''"
| "param_GetType (EnvVariableParameter b d) = ''env_var_name''"

definition param_IsOptional :: "parameter \<Rightarrow> bool" where
  "param_IsOptional p = bp_HasDefault (param_base p)"

definition param_GetName :: "parameter \<Rightarrow> string" where
  "param_GetName p = bp_Name (param_base p)"

definition param_GetRange :: "parameter \<Rightarrow> range" where
  "param_GetRange p = bp_Range (param_base p)"

definition param_GetNameRange :: "parameter \<Rightarrow> range" where
  "param_GetNameRange p = bp_NameRange (param_base p)"

definition param_GetDescription :: "parameter \<Rightarrow> string" where
  "param_GetDescription p = bp_Description (param_base p)"

definition param_GetTypeRange :: "parameter \<Rightarrow> range" where
  "param_GetTypeRange p = bp_TypeRange (param_base p)"

definition param_GetDefaultRange :: "parameter \<Rightarrow> range" where
  "param_GetDefaultRange p = bp_DefaultRange (param_base p)"

type_synonym params = "(string, parameter) gomap"

text \<open>\<open>GetParamNameDefinedAtPos\<close> of \<open>pkg/utils/parameters.go\<close>.\<close>

fun GetParamNameDefinedAtPos :: "params \<Rightarrow> position \<Rightarrow> string" where
  "GetParamNameDefinedAtPos [] pos = []"
| "GetParamNameDefinedAtPos ((k, p) # ps) pos =
     (if PosInRange (param_GetRange p) pos then param_GetName p
      else GetParamNameDefinedAtPos ps pos)"

subsection \<open>executor.go\<close>

record executable_parameters =
  ep_Description :: string
  ep_Shell :: string
  ep_WorkingDirectory :: string

record base_executor =
  be_Name :: string
  be_NameRange :: range
  be_Range :: range
  be_ResourceClass :: string
  be_ResourceClassRange :: range
  be_BuiltInParameters :: executable_parameters
  be_UserParameters :: params
  be_UserParametersRange :: range
  be_Uncomplete :: bool
  be_Environment :: environment

record docker_image_info =
  di_Namespace :: string
  di_Name :: string
  di_Tag :: string
  di_Digest :: string
  di_FullPath :: string

record docker_image_auth =
  da_Username :: string
  da_Password :: string

record docker_image_aws_auth =
  aws_AccessKeyID :: string
  aws_SecretAccessKey :: string

record docker_image =
  img_Image :: docker_image_info
  img_ImageRange :: range
  img_Name :: string
  img_Entrypoint :: "string list"
  img_Command :: "string list"
  img_User :: string
  img_Environment :: "(string, string) gomap"
  img_Auth :: docker_image_auth
  img_AwsAuth :: docker_image_aws_auth

record docker_executor =
  de_Base :: base_executor
  de_Image :: "docker_image list"
  de_ServiceImages :: "docker_image list"

record machine_executor =
  me_Base :: base_executor
  me_Image :: string
  me_ImageRange :: range
  me_DockerLayerCaching :: bool
  me_Machine :: bool
  me_IsDeprecated :: bool

record macos_executor =
  mac_Base :: base_executor
  mac_Xcode :: string
  mac_XcodeRange :: range

datatype executor =
    ExBase base_executor
  | ExDocker docker_executor
  | ExMachine machine_executor
  | ExMacOS macos_executor

fun executor_base :: "executor \<Rightarrow> base_executor" where
  "executor_base (ExBase e) = e"
| "executor_base (ExDocker e) = de_Base e"
| "executor_base (ExMachine e) = me_Base e"
| "executor_base (ExMacOS e) = mac_Base e"

definition executor_GetName :: "executor \<Rightarrow> string" where
  "executor_GetName e = be_Name (executor_base e)"

definition executor_GetRange :: "executor \<Rightarrow> range" where
  "executor_GetRange e = be_Range (executor_base e)"

definition executor_GetNameRange :: "executor \<Rightarrow> range" where
  "executor_GetNameRange e = be_NameRange (executor_base e)"

definition executor_IsUncomplete :: "executor \<Rightarrow> bool" where
  "executor_IsUncomplete e = be_Uncomplete (executor_base e)"

definition executor_GetResourceClass :: "executor \<Rightarrow> string" where
  "executor_GetResourceClass e = be_ResourceClass (executor_base e)"

definition executor_GetParametersRange :: "executor \<Rightarrow> range" where
  "executor_GetParametersRange e = be_UserParametersRange (executor_base e)"

definition executor_GetEnvs :: "executor \<Rightarrow> environment" where
  "executor_GetEnvs e = be_Environment (executor_base e)"

definition executor_GetParameters :: "executor \<Rightarrow> params" where
  "executor_GetParameters e = be_UserParameters (executor_base e)"

subsection \<open>command.go, job.go\<close>

record command =
  cmd_Range :: range
  cmd_Name :: string
  cmd_NameRange :: range
  cmd_Description :: string
  cmd_DescriptionRange :: range
  cmd_Steps :: "step list"
  cmd_StepsRange :: range
  cmd_Parameters :: params
  cmd_ParametersRange :: range
  cmd_Contexts :: "string list"

record completion_item =
  ci_Label :: string
  ci_InsertText :: string

text \<open>\<open>job_Steps\<close> is an option: the code tells a nil slice from an empty one.\<close>

record job =
  job_Range :: range
  job_Name :: string
  job_NameRange :: range
  job_Shell :: string
  job_WorkingDirectory :: string
  job_Parallelism :: int
  job_ParallelismRange :: range
  job_ResourceClass :: string
  job_ResourceClassRange :: range
  job_Steps :: "step list option"
  job_StepsRange :: range
  job_Description :: string
  job_Executor :: string
  job_ExecutorParameters :: "(string, param_value) gomap"
  job_ExecutorRange :: range
  job_Parameters :: params
  job_ParametersRange :: range
  job_Docker :: docker_executor
  job_DockerRange :: range
  job_Environment :: "(string, string) gomap"
  job_EnvironmentRange :: range
  job_Contexts :: "string list"
  job_Machine :: machine_executor
  job_MachineRange :: range
  job_MacOS :: macos_executor
  job_MacOSRange :: range
  job_Retention :: retention_settings
  job_RetentionRange :: range
  job_CompletionItem :: "completion_item list"
  job_Type :: string
  job_TypeRange :: range
  job_PlanName :: string
  job_PlanNameRange :: range
  job_Key :: string
  job_KeyRange :: range

text \<open>Ranging over a nil slice is ranging over an empty one.\<close>

definition job_steps :: "job \<Rightarrow> step list" where
  "job_steps j = (case job_Steps j of None \<Rightarrow> [] | Some ss \<Rightarrow> ss)"

definition AddCompletionItem :: "string \<Rightarrow> string list \<Rightarrow> job \<Rightarrow> job" where
  "AddCompletionItem label commitCharacters j =
     j\<lparr>job_CompletionItem := job_CompletionItem j @
        [\<lparr>ci_Label = label, ci_InsertText = label @ join_with [] commitCharacters\<rparr>]\<rparr>"

subsection \<open>workflow.go, job_group.go\<close>

record require =
  rq_Name :: string
  rq_Status :: "string list"
  rq_Range :: range
  rq_StatusRange :: range

record job_invocation =
  ji_JobInvocationRange :: range
  ji_JobName :: string
  ji_JobNameRange :: range
  ji_StepName :: string
  ji_StepNameRange :: range
  ji_Requires :: "require list"
  ji_Context :: "text_and_range list"
  ji_Type :: string
  ji_TypeRange :: range
  ji_Parameters :: "(string, param_value) gomap"
  ji_SerialGroup :: string
  ji_SerialGroupRange :: range
  ji_OverrideWith :: string
  ji_OverrideWithRange :: range
  ji_PreSteps :: "step list"
  ji_PreStepsRange :: range
  ji_PostSteps :: "step list"
  ji_PostStepsRange :: range
  ji_HasMatrix :: bool
  ji_MatrixRange :: range
  ji_MatrixParams :: "(string, param_value list) gomap"

record branches_filter =
  bf_Range :: range
  bf_Only :: "string list"
  bf_OnlyRange :: range
  bf_Ignore :: "string list"
  bf_IgnoreRange :: range

record workflow_filters =
  wf_Range :: range
  wf_Branches :: branches_filter

record schedule_trigger =
  st_Cron :: string
  st_Filters :: workflow_filters
  st_Range :: range

record workflow_trigger =
  wt_Schedule :: schedule_trigger
  wt_Range :: range

type_synonym dag = "(string, string list) gomap"

record workflow =
  wfl_Range :: range
  wfl_Name :: string
  wfl_NameRange :: range
  wfl_JobsRange :: range
  wfl_JobInvocations :: "job_invocation list"
  wfl_JobsDAG :: dag
  wfl_HasTrigger :: bool
  wfl_Triggers :: "workflow_trigger list"
  wfl_TriggersRange :: range
  wfl_MaxAutoReruns :: int
  wfl_MaxAutoRerunsRange :: range
  wfl_HasMaxAutoReruns :: bool

record job_group =
  jg_Range :: range
  jg_Name :: string
  jg_NameRange :: range
  jg_JobInvocations :: "job_invocation list"
  jg_JobsRange :: range
  jg_JobsDAG :: dag

subsection \<open>orb.go\<close>

record orb_url =
  ou_IsLocal :: bool
  ou_Name :: string
  ou_Version :: string

record orb =
  orb_Url :: orb_url
  orb_Name :: string
  orb_Range :: range
  orb_NameRange :: range
  orb_VersionRange :: range
  orb_ValueRange :: range
  orb_ValueNode :: "node option"

record orb_url_definition =
  od_Namespace :: text_and_range
  od_Name :: text_and_range
  od_Version :: text_and_range

definition GetOrbID :: "orb_url \<Rightarrow> string" where
  "GetOrbID url = (if ou_IsLocal url then ou_Name url else ou_Name url @ ''@'' @ ou_Version url)"

record orb_parsed_attributes =
  oa_URI :: string
  oa_Name :: string
  oa_Commands :: "(string, command) gomap"
  oa_Jobs :: "(string, job) gomap"
  oa_Executors :: "(string, executor) gomap"
  oa_PipelineParameters :: params
  oa_ExecutorsRange :: range
  oa_CommandsRange :: range
  oa_JobsRange :: range
  oa_PipelineParametersRange :: range
  oa_WorkflowRange :: range
  oa_OrbsRange :: range

record remote_orb_info =
  ri_ID :: string
  ri_FilePath :: string
  ri_Version :: string
  ri_LatestVersion :: string
  ri_LatestMinorVersion :: string
  ri_LatestPatchVersion :: string

record orb_info =
  oi_Attributes :: orb_parsed_attributes
  oi_IsLocal :: bool
  oi_CreatedAt :: string
  oi_Description :: string
  oi_Source :: string
  oi_RemoteInfo :: remote_orb_info


subsection \<open>Properties\<close>

text \<open>
  A retention of a number of days, written without sign, is accepted exactly between one and
  fifteen days; the empty text is accepted and no other unit is.
\<close>

lemma ValidateCachesDuration_days:
  assumes "int n \<le> 2 ^ 63 - 1"
  shows "(ValidateCachesDuration \<lparr>rs_Caches = \<lparr>tr_Text = dec_string n @ [u], tr_Range = rng\<rparr>, rs_Range = r\<rparr> \<longleftrightarrow>
      u = CHR ''d'' \<and> 1 \<le> n \<and> n \<le> 15) \<and>
    ValidateCachesDuration \<lparr>rs_Caches = \<lparr>tr_Text = [], tr_Range = rng\<rparr>, rs_Range = r\<rparr>"
  using dec_string_digits [of n] go_Atoi_dec_string [OF assms]
  by (cases "dec_string n") (auto simp: ValidateCachesDuration_def Let_def nth_append)

theorem ValidateCachesDuration_days_witness:
  "(ValidateCachesDuration \<lparr>rs_Caches = \<lparr>tr_Text = dec_string 15 @ ''d'', tr_Range = zero_range\<rparr>, rs_Range = zero_range\<rparr> \<longleftrightarrow>
      CHR ''d'' = CHR ''d'' \<and> 1 \<le> (15 :: nat) \<and> (15 :: nat) \<le> 15) \<and>
    ValidateCachesDuration \<lparr>rs_Caches = \<lparr>tr_Text = [], tr_Range = zero_range\<rparr>, rs_Range = zero_range\<rparr>"
  by (rule ValidateCachesDuration_days) simp

end
