(* ===== verification/Nodes.thy ===== *)
theory Nodes
  imports Ast
begin

text \<open>
  The interface of the third-party syntax tree (\<open>go-tree-sitter\<close>) that the program uses, and the
  navigation helpers of \<open>pkg/parser/utils.go\<close> that need nothing but the tree. A tree is a
  record of the interface's functions on opaque handles: every definition that walks a tree
  takes it as an argument. A nil node is \<open>None\<close>.
\<close>

record point =
  pt_Row :: u32
  pt_Column :: u32

record sitter =
  st_Type :: "node \<Rightarrow> string"
  st_ChildCount :: "node \<Rightarrow> nat"
  st_Child :: "node \<Rightarrow> nat \<Rightarrow> node option"
  st_ChildByFieldName :: "node \<Rightarrow> string \<Rightarrow> node option"
  st_Parent :: "node \<Rightarrow> node option"
  st_NextSibling :: "node \<Rightarrow> node option"
  st_StartByte :: "node \<Rightarrow> nat"
  st_EndByte :: "node \<Rightarrow> nat"
  st_StartPoint :: "node \<Rightarrow> point"
  st_EndPoint :: "node \<Rightarrow> point"
  st_Query :: "node \<Rightarrow> string \<Rightarrow> node list list"

text \<open>
  The children in order: the loop \<open>for i := 0; i < ChildCount; i++\<close> with \<open>Child(i)\<close>. An index
  below the count has a child.
\<close>

definition st_Children :: "sitter \<Rightarrow> node \<Rightarrow> node list" where
  "st_Children t n = List.map_filter (st_Child t n) [0..<st_ChildCount t n]"

definition GetChildOfType :: "sitter \<Rightarrow> node option \<Rightarrow> string \<Rightarrow> node option" where
  "GetChildOfType t n typeName =
     (case n of None \<Rightarrow> None
      | Some n \<Rightarrow> find (\<lambda>child. st_Type t child = typeName) (st_Children t n))"

definition GetFirstChild :: "sitter \<Rightarrow> node option \<Rightarrow> node option" where
  "GetFirstChild t n =
     (case n of None \<Rightarrow> None
      | Some n \<Rightarrow>
          if 0 < st_ChildCount t n
          then (case st_Child t n 0 of
                  None \<Rightarrow> None
                | Some c \<Rightarrow> if st_Type t c = ''comment'' \<or> st_Type t c = ''anchor''
                            then st_Child t n 1 else Some c)
          else None)"

definition GetChildMapping :: "sitter \<Rightarrow> node option \<Rightarrow> node option" where
  "GetChildMapping t n =
     (case GetChildOfType t n ''block_mapping'' of
        Some m \<Rightarrow> Some m | None \<Rightarrow> GetChildOfType t n ''flow_mapping'')"

definition GetChildSequence :: "sitter \<Rightarrow> node option \<Rightarrow> node option" where
  "GetChildSequence t n =
     (case GetChildOfType t n ''block_sequence'' of
        Some m \<Rightarrow> Some m | None \<Rightarrow> GetChildOfType t n ''flow_sequence'')"

definition GetBlockMappingNode :: "sitter \<Rightarrow> node option \<Rightarrow> node option" where
  "GetBlockMappingNode t streamNode =
     (let documentNode = GetChildOfType t streamNode ''document''
      in case documentNode of
           None \<Rightarrow> None
         | Some d \<Rightarrow>
             if st_Type t d \<noteq> ''document'' then None
             else (case GetChildOfType t (Some d) ''block_node'' of
                     None \<Rightarrow> None
                   | Some b \<Rightarrow> GetChildOfType t (Some b) ''block_mapping''))"

definition iterateOnBlockSequence ::
    "sitter \<Rightarrow> node option \<Rightarrow> (node \<Rightarrow> 's \<Rightarrow> 's) \<Rightarrow> 's \<Rightarrow> 's" where
  "iterateOnBlockSequence t n fn s =
     (case n of
        None \<Rightarrow> s
      | Some n \<Rightarrow>
          if st_Type t n \<noteq> ''block_sequence'' \<and> st_Type t n \<noteq> ''flow_sequence'' then s
          else fold (\<lambda>child s. if st_Type t child = ''comment'' then s else fn child s)
                 (st_Children t n) s)"

definition raw_range :: "sitter \<Rightarrow> node \<Rightarrow> range" where
  "raw_range t n =
     mk_range (mk_pos (pt_Row (st_StartPoint t n)) (pt_Column (st_StartPoint t n)))
              (mk_pos (pt_Row (st_EndPoint t n)) (pt_Column (st_EndPoint t n)))"

text \<open>\<open>NodeToRange\<close> for a document with the given offset.\<close>

definition node_to_range :: "sitter \<Rightarrow> position \<Rightarrow> node option \<Rightarrow> range" where
  "node_to_range t offset n =
     (case n of None \<Rightarrow> zero_range | Some n \<Rightarrow> AddOffsetToRange (raw_range t n) offset)"

text \<open>
  The text of a node: the bytes between its byte positions, which the parser takes within the
  content; then without one pair of quotes (all of the outer quotes, as \<open>strings.Trim\<close> has it),
  block scalar headers and outer white space.
\<close>

definition node_raw_text :: "sitter \<Rightarrow> string \<Rightarrow> node option \<Rightarrow> string" where
  "node_raw_text t content n =
     (case n of None \<Rightarrow> []
      | Some n \<Rightarrow> take (st_EndByte t n - st_StartByte t n) (drop (st_StartByte t n) content))"

definition clean_text :: "string \<Rightarrow> string" where
  "clean_text res =
     (let dq = [CHR 0x22]; sq = [CHR 0x27];
          res = (if has_prefix dq res \<and> has_suffix dq res then trim_set dq res
                 else if has_prefix sq res \<and> has_suffix sq res then trim_set sq res
                 else res);
          res = trim_prefix (CHR ''|'' # newline_str) res;
          res = trim_prefix (''>-'' @ newline_str) res;
          res = trim_prefix (''>'' @ newline_str) res
      in trim_space res)"

definition node_text :: "sitter \<Rightarrow> string \<Rightarrow> node option \<Rightarrow> string" where
  "node_text t content n = (case n of None \<Rightarrow> [] | Some _ \<Rightarrow> clean_text (node_raw_text t content n))"

definition node_text_with_range ::
    "sitter \<Rightarrow> string \<Rightarrow> position \<Rightarrow> node option \<Rightarrow> text_and_range" where
  "node_text_with_range t content offset n =
     \<lparr>tr_Text = node_text t content n, tr_Range = node_to_range t offset n\<rparr>"

lemma GetChildOfType_type: "GetChildOfType t n ty = Some c \<Longrightarrow> st_Type t c = ty"
  by (auto simp: GetChildOfType_def find_Some_iff split: option.splits)

lemma GetChildOfType_child: "GetChildOfType t (Some n) ty = Some c \<Longrightarrow> c \<in> set (st_Children t n)"
  by (auto simp: GetChildOfType_def find_Some_iff)

lemma GetBlockMappingNode_type:
  "GetBlockMappingNode t n = Some c \<Longrightarrow> st_Type t c = ''block_mapping''"
  by (auto simp: GetBlockMappingNode_def Let_def dest: GetChildOfType_type split: option.splits if_splits)

end
