(* ===== verification/Caches.thy ===== *)
theory Caches
  imports Ast
begin

text \<open>
  The caches of the server: \<open>pkg/utils/cache.go\<close>, the context listing of
  \<open>pkg/utils/context.go\<close>, the host settings of \<open>lsContext.go\<close> and the catalog of machine
  offerings of \<open>machineOfferings.go\<close>. Each cache is a record holding its Go maps; a method that
  locks the mutex for its whole body is one function on the record. The context cache stores
  pointers and compares them, so its contexts live in an explicit store of cells.
  Dereferencing a nil pointer is the result \<open>None\<close>.
\<close>

subsection \<open>lsContext.go\<close>

record api_context =
  api_Token :: string
  api_HostUrl :: string
  api_userId :: string

record ls_context =
  ls_Api :: api_context
  ls_UserIdForTelemetry :: string
  ls_IsCciExtension :: bool

definition CIRCLE_CI_APP_HOST_URL :: string where
  "CIRCLE_CI_APP_HOST_URL = ''https://circleci.com''"

definition UseDefaultInstance :: "api_context \<Rightarrow> bool" where
  "UseDefaultInstance a = (api_HostUrl a = CIRCLE_CI_APP_HOST_URL)"

definition IsLoggedIn :: "api_context \<Rightarrow> bool" where
  "IsLoggedIn a = (api_Token a \<noteq> [])"

subsection \<open>cache.go: files\<close>

record text_document_item =
  td_URI :: string
  td_LanguageID :: string
  td_Version :: int
  td_Text :: string

record vcs_info =
  vcs_VcsUrl :: string
  vcs_Provider :: string
  vcs_Default_branch :: string

record project =
  prj_Slug :: string
  prj_Name :: string
  prj_Id :: string
  prj_OrganizationName :: string
  prj_OrganizationSlug :: string
  prj_OrganizationId :: string
  prj_VcsInfo :: vcs_info

record cached_file =
  cf_TextDocument :: text_document_item
  cf_Project :: project
  cf_EnvVariables :: "string list"

type_synonym file_cache = "(string, cached_file) gomap"

definition FileCache_SetFile :: "cached_file \<Rightarrow> file_cache \<Rightarrow> file_cache" where
  "FileCache_SetFile cachedFile c = gm_put (td_URI (cf_TextDocument cachedFile)) cachedFile c"

definition FileCache_GetFile :: "file_cache \<Rightarrow> string \<Rightarrow> cached_file option" where
  "FileCache_GetFile c uri = gm_get c uri"

definition FileCache_RemoveFile :: "string \<Rightarrow> file_cache \<Rightarrow> file_cache" where
  "FileCache_RemoveFile uri c = gm_del uri c"

definition AddEnvVariableToProjectLinkedToFile ::
    "string \<Rightarrow> string \<Rightarrow> file_cache \<Rightarrow> file_cache option" where
  "AddEnvVariableToProjectLinkedToFile uri envVariable c =
     (case gm_get c uri of
        None \<Rightarrow> None
      | Some project \<Rightarrow>
          let project = (if envVariable \<notin> set (cf_EnvVariables project)
                         then project\<lparr>cf_EnvVariables := cf_EnvVariables project @ [envVariable]\<rparr>
                         else project)
          in Some (gm_put uri project c))"

definition AddProjectSlugToFile :: "string \<Rightarrow> project \<Rightarrow> file_cache \<Rightarrow> file_cache option" where
  "AddProjectSlugToFile uri project c =
     (case gm_get c uri of
        None \<Rightarrow> None
      | Some file \<Rightarrow> Some (gm_put uri (file\<lparr>cf_Project := project\<rparr>) c))"

definition UpdateTextDocument ::
    "string \<Rightarrow> text_document_item \<Rightarrow> file_cache \<Rightarrow> file_cache option" where
  "UpdateTextDocument uri textDocument c =
     (case gm_get c uri of
        None \<Rightarrow> None
      | Some file \<Rightarrow> Some (gm_put uri (file\<lparr>cf_TextDocument := textDocument\<rparr>) c))"

subsection \<open>cache.go: orbs\<close>

type_synonym orb_cache = "(string, orb_info) gomap"

definition OrbCache_HasOrb :: "orb_cache \<Rightarrow> string \<Rightarrow> bool" where
  "OrbCache_HasOrb c orbID = gm_has c orbID"

definition OrbCache_SetOrb :: "string \<Rightarrow> orb_info \<Rightarrow> orb_cache \<Rightarrow> orb_cache" where
  "OrbCache_SetOrb orbID orb c = gm_put orbID orb c"

definition UpdateOrbParsedAttributes ::
    "string \<Rightarrow> orb_parsed_attributes \<Rightarrow> orb_cache \<Rightarrow> orb_cache option" where
  "UpdateOrbParsedAttributes orbID attrs c =
     (case gm_get c orbID of
        None \<Rightarrow> None
      | Some orb \<Rightarrow> Some (gm_put orbID (orb\<lparr>oi_Attributes := attrs\<rparr>) c))"

definition OrbCache_GetOrb :: "orb_cache \<Rightarrow> string \<Rightarrow> orb_info option" where
  "OrbCache_GetOrb c orbID = gm_get c orbID"

definition OrbCache_RemoveOrb :: "string \<Rightarrow> orb_cache \<Rightarrow> orb_cache" where
  "OrbCache_RemoveOrb orbID c = gm_del orbID c"

definition OrbCache_RemoveOrbs :: "orb_cache \<Rightarrow> orb_cache" where
  "OrbCache_RemoveOrbs c = fold gm_del (gm_keys c) c"

subsection \<open>cache.go: Docker images and tags\<close>

record cached_docker_image =
  cdi_Checked :: bool
  cdi_Exists :: bool

record cached_docker_tags =
  cdt_Recommended :: string
  cdt_CheckedTags :: "(string, bool) gomap"

type_synonym docker_cache = "(string, cached_docker_image) gomap"
type_synonym docker_tags_cache = "(string, cached_docker_tags) gomap"

definition DockerCache_Add :: "string \<Rightarrow> bool \<Rightarrow> docker_cache \<Rightarrow> docker_cache" where
  "DockerCache_Add name exists c = gm_put name \<lparr>cdi_Checked = True, cdi_Exists = exists\<rparr> c"

definition DockerCache_Get :: "docker_cache \<Rightarrow> string \<Rightarrow> cached_docker_image option" where
  "DockerCache_Get c name = gm_get c name"

definition DockerCache_Remove :: "string \<Rightarrow> docker_cache \<Rightarrow> docker_cache" where
  "DockerCache_Remove name c = gm_del name c"

definition docker_tags_key :: "string \<Rightarrow> string \<Rightarrow> string" where
  "docker_tags_key namespace img = namespace @ ''/'' @ img"

definition DockerTagsCache_Add ::
    "string \<Rightarrow> string \<Rightarrow> cached_docker_tags \<Rightarrow> docker_tags_cache \<Rightarrow> docker_tags_cache" where
  "DockerTagsCache_Add namespace img value c = gm_put (docker_tags_key namespace img) value c"

definition DockerTagsCache_Get ::
    "docker_tags_cache \<Rightarrow> string \<Rightarrow> string \<Rightarrow> cached_docker_tags option" where
  "DockerTagsCache_Get c namespace img = gm_get c (docker_tags_key namespace img)"

subsection \<open>cache.go: resource classes of a file\<close>

type_synonym resource_class_cache = "(string, string list) gomap"

definition SetResourceClassForFile ::
    "string \<Rightarrow> string list \<Rightarrow> resource_class_cache \<Rightarrow> resource_class_cache" where
  "SetResourceClassForFile uri resourceClass c = gm_put uri resourceClass c"

definition GetResourceClassOfFile :: "resource_class_cache \<Rightarrow> string \<Rightarrow> string list" where
  "GetResourceClassOfFile c uri =
     (case gm_get c uri of None \<Rightarrow> [] | Some resourceClasses \<Rightarrow> resourceClasses)"

text \<open>The caches are stores with the laws of the interface.\<close>

interpretation orbs: removable_store OrbCache_GetOrb OrbCache_SetOrb OrbCache_RemoveOrb
  by unfold_locales
    (simp_all add: OrbCache_GetOrb_def OrbCache_SetOrb_def OrbCache_RemoveOrb_def gomap_simps)

interpretation docker_images: removable_store
    "\<lambda>c name. map_option cdi_Exists (DockerCache_Get c name)" DockerCache_Add DockerCache_Remove
  by unfold_locales (simp_all add: DockerCache_Get_def DockerCache_Add_def DockerCache_Remove_def
      gomap_simps)

subsection \<open>The context cache\<close>

text \<open>
  A context is a cell of a store, a pointer an index into it. The maps of the cache hold
  pointers: a qualified context (\<open>org/name\<close>) is entered under its name and, while this is not
  ambiguous, under the part after the last slash.
\<close>

record ci_context =
  ctx_Id :: string
  ctx_Name :: string
  ctx_CreatedAt :: string
  ctx_envVariables :: "string list"

type_synonym ctx_ref = nat

record context_cache =
  cc_heap :: "ci_context list"
  cc_contextCache :: "(string, (string, ctx_ref) gomap) gomap"
  cc_ambiguousShortNames :: "(string, (string, unit) gomap) gomap"
  cc_listLoadedOrgs :: "(string, bool) gomap"

definition new_context :: "ci_context \<Rightarrow> context_cache \<Rightarrow> ctx_ref \<times> context_cache" where
  "new_context x c = (length (cc_heap c), c\<lparr>cc_heap := cc_heap c @ [x]\<rparr>)"

definition MarkOrganizationContextListLoaded :: "string \<Rightarrow> context_cache \<Rightarrow> context_cache" where
  "MarkOrganizationContextListLoaded organizationId c =
     c\<lparr>cc_listLoadedOrgs := gm_put organizationId True (cc_listLoadedOrgs c)\<rparr>"

definition IsOrganizationContextListLoaded :: "context_cache \<Rightarrow> string \<Rightarrow> bool" where
  "IsOrganizationContextListLoaded c organizationId =
     gm_get_or False (cc_listLoadedOrgs c) organizationId"

definition ClearOrganizationContextList :: "string \<Rightarrow> context_cache \<Rightarrow> context_cache" where
  "ClearOrganizationContextList organizationId c =
     c\<lparr>cc_contextCache := gm_del organizationId (cc_contextCache c),
       cc_ambiguousShortNames := gm_del organizationId (cc_ambiguousShortNames c),
       cc_listLoadedOrgs := gm_del organizationId (cc_listLoadedOrgs c)\<rparr>"

definition clearContextCache :: "context_cache \<Rightarrow> context_cache" where
  "clearContextCache c =
     c\<lparr>cc_contextCache := [], cc_ambiguousShortNames := [], cc_listLoadedOrgs := []\<rparr>"

definition isAmbiguousShortName :: "context_cache \<Rightarrow> string \<Rightarrow> string \<Rightarrow> bool" where
  "isAmbiguousShortName c organizationId short =
     (case gm_get (cc_ambiguousShortNames c) organizationId of
        None \<Rightarrow> False
      | Some ambiguous \<Rightarrow> gm_has ambiguous short)"

definition markAmbiguousShortName :: "string \<Rightarrow> string \<Rightarrow> context_cache \<Rightarrow> context_cache" where
  "markAmbiguousShortName organizationId short c =
     c\<lparr>cc_ambiguousShortNames :=
         gm_put organizationId
           (gm_put short () (gm_get_or [] (cc_ambiguousShortNames c) organizationId))
           (cc_ambiguousShortNames c)\<rparr>"

definition put_org :: "string \<Rightarrow> (string, ctx_ref) gomap \<Rightarrow> context_cache \<Rightarrow> context_cache" where
  "put_org organizationId orgMap c =
     c\<lparr>cc_contextCache := gm_put organizationId orgMap (cc_contextCache c)\<rparr>"

definition SetOrganizationContext :: "string \<Rightarrow> ctx_ref \<Rightarrow> context_cache \<Rightarrow> context_cache" where
  "SetOrganizationContext organizationId ctx c =
     (let nm = ctx_Name (cc_heap c ! ctx);
          orgMap = gm_put nm ctx (gm_get_or [] (cc_contextCache c) organizationId);
          c = put_org organizationId orgMap c
      in case last_index_of ''/'' nm of
           None \<Rightarrow> c
         | Some i \<Rightarrow>
             let short = drop (i + 1) nm
             in if short = [] then c
                else if isAmbiguousShortName c organizationId short then c
                else (case gm_get orgMap short of
                        Some existing \<Rightarrow>
                          if existing \<noteq> ctx
                          then markAmbiguousShortName organizationId short
                                 (put_org organizationId (gm_del short orgMap) c)
                          else c
                      | None \<Rightarrow> put_org organizationId (gm_put short ctx orgMap) c))"

definition GetOrganizationContext :: "context_cache \<Rightarrow> string \<Rightarrow> string \<Rightarrow> ctx_ref option" where
  "GetOrganizationContext c organizationId nm =
     gm_get (gm_get_or [] (cc_contextCache c) organizationId) nm"

definition ResolveWorkflowContext ::
    "context_cache \<Rightarrow> string \<Rightarrow> string \<Rightarrow> string \<Rightarrow> ctx_ref option" where
  "ResolveWorkflowContext c organizationId organizationSlug workflowContextName =
     (case gm_get (cc_contextCache c) organizationId of
        None \<Rightarrow> None
      | Some org \<Rightarrow>
          (case gm_get org workflowContextName of
             Some ctx \<Rightarrow> Some ctx
           | None \<Rightarrow>
               let short = (case last_index_of ''/'' workflowContextName of
                              None \<Rightarrow> []
                            | Some i \<Rightarrow> drop (i + 1) workflowContextName)
               in case (if short \<noteq> [] then gm_get org short else None) of
                    Some ctx \<Rightarrow> Some ctx
                  | None \<Rightarrow>
                      if organizationSlug \<noteq> [] \<and> \<not> str_contains workflowContextName ''/''
                      then gm_get org (organizationSlug @ ''/'' @ workflowContextName)
                      else None))"

definition RemoveOrganizationContext :: "string \<Rightarrow> string \<Rightarrow> context_cache \<Rightarrow> context_cache" where
  "RemoveOrganizationContext organizationId nm c =
     (case gm_get (cc_contextCache c) organizationId of
        None \<Rightarrow> c
      | Some org \<Rightarrow> put_org organizationId (gm_del nm org) c)"

definition AddEnvVariableToOrganizationContext ::
    "string \<Rightarrow> string \<Rightarrow> string \<Rightarrow> context_cache \<Rightarrow> context_cache option" where
  "AddEnvVariableToOrganizationContext organizationId nm envVariable c =
     (case GetOrganizationContext c organizationId nm of
        None \<Rightarrow> None
      | Some p \<Rightarrow>
          let ctx = cc_heap c ! p;
              c = (if envVariable \<notin> set (ctx_envVariables ctx)
                   then c\<lparr>cc_heap := (cc_heap c)[p := ctx\<lparr>ctx_envVariables :=
                             ctx_envVariables ctx @ [envVariable]\<rparr>]\<rparr>
                   else c)
          in Some (put_org organizationId
               (gm_put nm p (gm_get_or [] (cc_contextCache c) organizationId)) c))"

definition GetAllContextOfOrganization ::
    "context_cache \<Rightarrow> string \<Rightarrow> (string, ctx_ref) gomap" where
  "GetAllContextOfOrganization c organizationId = gm_get_or [] (cc_contextCache c) organizationId"

subsection \<open>context.go\<close>

definition GetAllContextEnvVariables ::
    "context_cache \<Rightarrow> string \<Rightarrow> string list \<Rightarrow> (string \<times> string) list" where
  "GetAllContextEnvVariables c organizationId contexts =
     concat (map (\<lambda>nm. case GetOrganizationContext c organizationId nm of
                           None \<Rightarrow> []
                         | Some p \<Rightarrow> map (\<lambda>v. (v, nm)) (ctx_envVariables (cc_heap c ! p)))
               contexts)"

record env_var =
  ev_Variable :: string
  ev_TruncatedValue :: string
  ev_CreatedAt :: string
  ev_UpdatedAt :: string

record context_response =
  cr_Name :: string
  cr_ID :: string
  cr_CreatedAt :: string
  cr_EnvironmentVariables :: "env_var list"

record get_all_context_res =
  gr_Items :: "context_response list"
  gr_NextPageToken :: "string option"

definition envVarNames :: "env_var list \<Rightarrow> string list" where
  "envVarNames resources = map ev_Variable resources"

text \<open>
  The request for one page, \<open>getContext\<close>, is the parameter \<open>page\<close>: the page for a token, or
  \<open>None\<close> for an error. The listing loop ends when the service stops handing out tokens,
  which the code does not bound.
\<close>

definition response_context :: "context_response \<Rightarrow> ci_context" where
  "response_context r = \<lparr>ctx_Id = cr_ID r, ctx_Name = cr_Name r, ctx_CreatedAt = cr_CreatedAt r,
     ctx_envVariables = envVarNames (cr_EnvironmentVariables r)\<rparr>"

definition set_response :: "string \<Rightarrow> context_response \<Rightarrow> context_cache \<Rightarrow> context_cache" where
  "set_response orgID r c =
     (let (p, c) = new_context (response_context r) c in SetOrganizationContext orgID p c)"

partial_function (option) GetAllContext_from ::
    "(string \<Rightarrow> get_all_context_res option) \<Rightarrow> string \<Rightarrow> string \<Rightarrow> context_cache
      \<Rightarrow> (bool \<times> context_cache) option" where
  "GetAllContext_from page orgID pageToken c =
     (case page pageToken of
        None \<Rightarrow> Some (False, c)
      | Some res \<Rightarrow>
          (case gr_NextPageToken res of
             None \<Rightarrow> Some (True, fold (set_response orgID) (gr_Items res) c)
           | Some tok \<Rightarrow>
               GetAllContext_from page orgID tok (fold (set_response orgID) (gr_Items res) c)))"

definition GetAllContext ::
    "(string \<Rightarrow> get_all_context_res option) \<Rightarrow> string \<Rightarrow> context_cache
      \<Rightarrow> (bool \<times> context_cache) option" where
  "GetAllContext page orgID c = GetAllContext_from page orgID [] c"

definition set_response_env ::
    "string \<Rightarrow> context_response \<Rightarrow> context_cache \<Rightarrow> context_cache" where
  "set_response_env orgID r c =
     (case GetOrganizationContext c orgID (cr_Name r) of
        Some p \<Rightarrow>
          c\<lparr>cc_heap := (cc_heap c)[p := (cc_heap c ! p)\<lparr>ctx_envVariables :=
              envVarNames (cr_EnvironmentVariables r)\<rparr>]\<rparr>
      | None \<Rightarrow> set_response orgID r c)"

partial_function (option) GetAllContextWithEnvVars_from ::
    "(string \<Rightarrow> get_all_context_res option) \<Rightarrow> string \<Rightarrow> string \<Rightarrow> context_cache
      \<Rightarrow> (bool \<times> context_cache) option" where
  "GetAllContextWithEnvVars_from page orgID pageToken c =
     (case page pageToken of
        None \<Rightarrow> Some (False, c)
      | Some res \<Rightarrow>
          (case gr_NextPageToken res of
             None \<Rightarrow> Some (True, fold (set_response_env orgID) (gr_Items res) c)
           | Some tok \<Rightarrow>
               GetAllContextWithEnvVars_from page orgID tok
                 (fold (set_response_env orgID) (gr_Items res) c)))"

definition GetAllContextWithEnvVars ::
    "(string \<Rightarrow> get_all_context_res option) \<Rightarrow> string \<Rightarrow> context_cache
      \<Rightarrow> (bool \<times> context_cache) option" where
  "GetAllContextWithEnvVars page orgID c = GetAllContextWithEnvVars_from page orgID [] c"

subsection \<open>machineOfferings.go\<close>

definition CurrentLinuxImage :: string where
  "CurrentLinuxImage = ''ubuntu-2404:current''"

record offerings =
  of_Linux :: "(string, string list) gomap"
  of_Windows :: "(string, string list) gomap"
  of_MacOS :: "(string, string list) gomap"
  of_Deprecated :: "(string, string list) gomap"

record machine_pair =
  mp_ResourceClass :: string
  mp_Images :: "string list"

record machine_offerings_cache =
  mo_offerings :: "offerings option"
  mo_attempted :: bool

definition MachineOfferings_Set ::
    "offerings option \<Rightarrow> machine_offerings_cache \<Rightarrow> machine_offerings_cache" where
  "MachineOfferings_Set offerings c = c\<lparr>mo_offerings := offerings, mo_attempted := True\<rparr>"

text \<open>
  The HTTP request and the JSON decoder are the parameter \<open>get\<close>: the status and, when the body
  decodes, the catalog; \<open>None\<close> when the request fails.
\<close>

type_synonym offerings_api = "ls_context \<Rightarrow> (nat \<times> offerings option) option"

definition fetchOfferings :: "offerings_api \<Rightarrow> ls_context \<Rightarrow> offerings option" where
  "fetchOfferings get lsContext =
     (case get lsContext of
        None \<Rightarrow> None
      | Some (status, body) \<Rightarrow>
          if status \<noteq> 200 then None
          else (case body of
                  None \<Rightarrow> None
                | Some o' \<Rightarrow>
                    if length (of_Linux o') + length (of_Windows o') + length (of_MacOS o') = 0
                    then None else Some o'))"

definition machineOfferings ::
    "offerings_api \<Rightarrow> ls_context \<Rightarrow> machine_offerings_cache
      \<Rightarrow> offerings option \<times> machine_offerings_cache" where
  "machineOfferings get lsContext c =
     (let c = (if \<not> mo_attempted c
               then c\<lparr>mo_attempted := True, mo_offerings := fetchOfferings get lsContext\<rparr>
               else c)
      in (mo_offerings c, c))"

text \<open>
  The catalog queries read the offerings that \<open>machineOfferings\<close> returns; \<open>None\<close> is the nil
  slice by which the callers recognise an unknown catalog.
\<close>

definition MachinePairs :: "offerings option \<Rightarrow> machine_pair list option" where
  "MachinePairs o' = map_option
     (\<lambda>o'. concat (map (map (\<lambda>(cls, images). \<lparr>mp_ResourceClass = cls, mp_Images = images\<rparr>))
                    [of_Linux o', of_Windows o'])) o'"

text \<open>\<open>slices.Collect\<close>: collecting nothing gives the nil slice.\<close>

definition slices_Collect :: "string list \<Rightarrow> string list option" where
  "slices_Collect xs = (if xs = [] then None else Some xs)"

definition MachineImages :: "offerings option \<Rightarrow> string list option" where
  "MachineImages o' =
     (case MachinePairs o' of
        None \<Rightarrow> None
      | Some pairs \<Rightarrow> slices_Collect (remdups (concat (map mp_Images pairs))))"

definition MachineResourceClasses :: "offerings option \<Rightarrow> string list option" where
  "MachineResourceClasses o' = map_option (map mp_ResourceClass) (MachinePairs o')"

definition DeprecatedMachineImages :: "offerings option \<Rightarrow> string list option" where
  "DeprecatedMachineImages o' = map_option
     (\<lambda>o'. gm_get_or [] (of_Deprecated o') ''linux'' @ gm_get_or [] (of_Deprecated o') ''windows'') o'"

definition DeprecatedXcodeVersions :: "offerings option \<Rightarrow> string list option" where
  "DeprecatedXcodeVersions o' = map_option
     (\<lambda>o'. map (trim_prefix ''xcode:'') (gm_get_or [] (of_Deprecated o') ''macos'')) o'"

definition XcodeVersions :: "offerings option \<Rightarrow> string list option" where
  "XcodeVersions o' =
     (case o' of
        None \<Rightarrow> None
      | Some f \<Rightarrow>
          slices_Collect (remdups (map (trim_prefix ''xcode:'') (concat (map snd (of_MacOS f))))))"

definition MacOSResourceClasses :: "offerings option \<Rightarrow> string list option" where
  "MacOSResourceClasses o' =
     (case o' of None \<Rightarrow> None | Some f \<Rightarrow> slices_Collect (gm_keys (of_MacOS f)))"

definition DockerResourceClasses :: "offerings option \<Rightarrow> string list option" where
  "DockerResourceClasses o' = map_option
     (\<lambda>o'. [''small'', ''medium+''] @
        filter (\<lambda>cls. \<not> (str_contains cls ''.gen'' \<or> str_contains cls ''.multi'' \<or>
                         has_prefix ''gpu.'' cls)) (gm_keys (of_Linux o'))) o'"

definition IsSelfHostedRunner :: "string \<Rightarrow> bool" where
  "IsSelfHostedRunner resourceClass = (length (split_on (CHR ''/'') resourceClass) > 1)"

subsection \<open>The cache of the server\<close>

record cache =
  ca_FileCache :: file_cache
  ca_OrbCache :: orb_cache
  ca_DockerCache :: docker_cache
  ca_DockerTagsCache :: docker_tags_cache
  ca_ResourceClassCache :: resource_class_cache
  ca_ContextCache :: context_cache
  ca_MachineOfferingsCache :: machine_offerings_cache

definition CreateCache :: cache where
  "CreateCache =
     \<lparr>ca_FileCache = [], ca_OrbCache = [], ca_DockerCache = [], ca_DockerTagsCache = [],
      ca_ResourceClassCache = [],
      ca_ContextCache = \<lparr>cc_heap = [], cc_contextCache = [], cc_ambiguousShortNames = [],
                         cc_listLoadedOrgs = []\<rparr>,
      ca_MachineOfferingsCache = \<lparr>mo_offerings = None, mo_attempted = False\<rparr>\<rparr>"

text \<open>The file system is the list of the paths that exist; a removal that fails is ignored.\<close>

definition RemoveOrbFiles :: "cache \<Rightarrow> string list \<Rightarrow> string list" where
  "RemoveOrbFiles c fs =
     fold (\<lambda>(_, orb) fs. if ri_FilePath (oi_RemoteInfo orb) \<in> set fs
                         then filter (\<lambda>f. f \<noteq> ri_FilePath (oi_RemoteInfo orb)) fs else fs)
       (ca_OrbCache c) fs"

definition ClearHostData :: "cache \<Rightarrow> string list \<Rightarrow> cache \<times> string list" where
  "ClearHostData c fs =
     (c\<lparr>ca_OrbCache := OrbCache_RemoveOrbs (ca_OrbCache c),
        ca_ContextCache := clearContextCache (ca_ContextCache c)\<rparr>, RemoveOrbFiles c fs)"

subsection \<open>What the context cache promises\<close>

definition short_name :: "string \<Rightarrow> string" where
  "short_name n = (case last_index_of ''/'' n of None \<Rightarrow> n | Some i \<Rightarrow> drop (i + 1) n)"

lemma short_name_id: "CHR ''/'' \<notin> set n \<Longrightarrow> short_name n = n"
  by (simp add: short_name_def last_index_of_char_None [THEN iffD2])

lemma short_name_no_slash: "CHR ''/'' \<notin> set (short_name n)"
  using last_index_of_char_None [of "CHR ''/''" n] last_index_of_char_Some [of "CHR ''/''" n]
  by (auto simp: short_name_def split: option.splits)

lemma short_name_qualified: "CHR ''/'' \<notin> set n \<Longrightarrow> short_name (slug @ ''/'' @ n) = n"
  using last_index_of_char_append [of "CHR ''/''" n slug] by (simp add: short_name_def)

lemma short_name_qualified_iff: "last_index_of ''/'' n = Some i \<Longrightarrow> short_name n \<noteq> n"
  using short_name_no_slash [of n] last_index_of_char_None [of "CHR ''/''" n] by auto

lemma isAmbiguous_frame [simp]:
  "isAmbiguousShortName (c\<lparr>cc_contextCache := m\<rparr>) = isAmbiguousShortName c"
  "isAmbiguousShortName (c\<lparr>cc_heap := h\<rparr>) = isAmbiguousShortName c"
  by (simp_all add: isAmbiguousShortName_def fun_eq_iff)

lemma isAmbiguous_mark [simp]:
  "isAmbiguousShortName (markAmbiguousShortName org short c) org' k =
    (org' = org \<and> k = short \<or> isAmbiguousShortName c org' k)"
  by (auto simp: isAmbiguousShortName_def markAmbiguousShortName_def gm_get_or_def gm_has_def
      split: option.splits)

lemma mark_frame [simp]:
  "cc_contextCache (markAmbiguousShortName org short c) = cc_contextCache c"
  "cc_heap (markAmbiguousShortName org short c) = cc_heap c"
  by (simp_all add: markAmbiguousShortName_def)

text \<open>The entry a \<open>SetOrganizationContext\<close> leaves for its organization.\<close>

lemma GetOrganizationContext_Set:
  fixes c :: context_cache and ctx :: ctx_ref
  defines "nm \<equiv> ctx_Name (cc_heap c ! ctx)"
  shows "GetOrganizationContext (SetOrganizationContext org ctx c) org' k =
    (if org' \<noteq> org then GetOrganizationContext c org' k
     else if k = nm then Some ctx
     else if k = short_name nm \<and> k \<noteq> [] \<and> CHR ''/'' \<in> set nm \<and> \<not> isAmbiguousShortName c org k
          then (case GetOrganizationContext c org k of
                  None \<Rightarrow> Some ctx
                | Some e \<Rightarrow> if e = ctx then Some ctx else None)
     else GetOrganizationContext c org' k)"
proof (cases "last_index_of ''/'' nm")
  case None
  moreover from None have "CHR ''/'' \<notin> set nm" by (simp add: last_index_of_char_None)
  ultimately show ?thesis
    by (simp add: SetOrganizationContext_def GetOrganizationContext_def put_org_def nm_def [symmetric] Let_def)
next
  case (Some i)
  let ?short = "drop (i + 1) nm"
  have sh: "short_name nm = ?short" "?short \<noteq> nm" and slash: "CHR ''/'' \<in> set nm"
    using Some short_name_qualified_iff [OF Some] last_index_of_char_None [of "CHR ''/''" nm]
    by (auto simp: short_name_def)
  show ?thesis
    using sh slash Some
    by (simp add: SetOrganizationContext_def GetOrganizationContext_def nm_def [symmetric] Let_def
          put_org_def split: option.split)
      (auto simp: gomap_simps)
qed

lemma isAmbiguous_Set:
  assumes "isAmbiguousShortName (SetOrganizationContext org ctx c) org' k"
    and "\<not> isAmbiguousShortName c org' k"
  shows "GetOrganizationContext (SetOrganizationContext org ctx c) org' k = None"
  using assms short_name_qualified_iff [of "ctx_Name (cc_heap c ! ctx)"]
  by (auto simp: SetOrganizationContext_def GetOrganizationContext_def put_org_def Let_def
        gomap_simps short_name_def
      split: option.splits if_splits)

lemma heap_Set [simp]: "cc_heap (SetOrganizationContext org ctx c) = cc_heap c"
  by (simp add: SetOrganizationContext_def put_org_def Let_def
      split: option.split)

lemma isAmbiguous_Set_mono:
  "isAmbiguousShortName c org' k \<Longrightarrow> isAmbiguousShortName (SetOrganizationContext org ctx c) org' k"
  by (simp add: SetOrganizationContext_def put_org_def Let_def split: option.split)

text \<open>
  The invariant: an entry points to a context of that name or, for a key without a slash, to
  one with that short name; a short name once found ambiguous resolves only to a context whose
  whole name it is.
\<close>

definition context_cache_inv :: "context_cache \<Rightarrow> bool" where
  "context_cache_inv c \<longleftrightarrow>
     (\<forall>org k p. GetOrganizationContext c org k = Some p \<longrightarrow>
        p < length (cc_heap c) \<and>
        (k = ctx_Name (cc_heap c ! p) \<or>
         k = short_name (ctx_Name (cc_heap c ! p)) \<and> k \<noteq> [] \<and> \<not> isAmbiguousShortName c org k))"

lemma context_cache_invD:
  assumes "context_cache_inv c" and "GetOrganizationContext c org k = Some p"
  shows "p < length (cc_heap c)" and "short_name k = short_name (ctx_Name (cc_heap c ! p))"
    and "CHR ''/'' \<in> set k \<Longrightarrow> k = ctx_Name (cc_heap c ! p)"
    and "isAmbiguousShortName c org k \<Longrightarrow> k = ctx_Name (cc_heap c ! p)"
  using assms short_name_no_slash [of "ctx_Name (cc_heap c ! p)"]
    short_name_id [OF short_name_no_slash, of "ctx_Name (cc_heap c ! p)"]
  unfolding context_cache_inv_def by force+

lemma context_cache_inv_Set:
  assumes inv: "context_cache_inv c" and p: "ctx < length (cc_heap c)"
  shows "context_cache_inv (SetOrganizationContext org ctx c)"
  unfolding context_cache_inv_def heap_Set
proof (intro allI impI)
  fix org' k q
  let ?c = "SetOrganizationContext org ctx c"
  assume get: "GetOrganizationContext ?c org' k = Some q"
  have amb: "isAmbiguousShortName ?c org' k \<longleftrightarrow> isAmbiguousShortName c org' k"
    using isAmbiguous_Set [of org ctx c org' k] isAmbiguous_Set_mono [of c org' k org ctx] get by auto
  have old: "q < length (cc_heap c) \<and>
      (k = ctx_Name (cc_heap c ! q) \<or>
       k = short_name (ctx_Name (cc_heap c ! q)) \<and> k \<noteq> [] \<and> \<not> isAmbiguousShortName c org' k)"
    if "GetOrganizationContext c org' k = Some q"
    using inv that unfolding context_cache_inv_def by blast
  show "q < length (cc_heap c) \<and>
      (k = ctx_Name (cc_heap c ! q) \<or>
       k = short_name (ctx_Name (cc_heap c ! q)) \<and> k \<noteq> [] \<and> \<not> isAmbiguousShortName ?c org' k)"
    using get p old unfolding amb GetOrganizationContext_Set
    by (auto split: if_splits option.splits)
qed

text \<open>An operation that keeps names and adds no entry and no cell keeps the invariant.\<close>

lemma context_cache_inv_shrink:
  assumes "context_cache_inv c" and "length (cc_heap c) \<le> length (cc_heap c')"
    and "\<And>p. p < length (cc_heap c) \<Longrightarrow> ctx_Name (cc_heap c' ! p) = ctx_Name (cc_heap c ! p)"
    and "\<And>org k p. GetOrganizationContext c' org k = Some p \<Longrightarrow>
      GetOrganizationContext c org k = Some p \<and>
      (isAmbiguousShortName c' org k \<longrightarrow> isAmbiguousShortName c org k)"
  shows "context_cache_inv c'"
  unfolding context_cache_inv_def
proof (intro allI impI)
  fix org k p assume "GetOrganizationContext c' org k = Some p"
  from assms(4) [OF this] have old: "GetOrganizationContext c org k = Some p"
    and amb: "isAmbiguousShortName c' org k \<longrightarrow> isAmbiguousShortName c org k" by blast+
  from assms(1) old have "p < length (cc_heap c) \<and> (k = ctx_Name (cc_heap c ! p) \<or>
      k = short_name (ctx_Name (cc_heap c ! p)) \<and> k \<noteq> [] \<and> \<not> isAmbiguousShortName c org k)"
    unfolding context_cache_inv_def by blast
  with assms(2,3) amb show "p < length (cc_heap c') \<and> (k = ctx_Name (cc_heap c' ! p) \<or>
      k = short_name (ctx_Name (cc_heap c' ! p)) \<and> k \<noteq> [] \<and> \<not> isAmbiguousShortName c' org k)"
    by auto
qed

lemma context_cache_inv_Remove:
  assumes "context_cache_inv c"
  shows "context_cache_inv (RemoveOrganizationContext org nm c)"
  by (rule context_cache_inv_shrink [OF assms])
    (auto simp: RemoveOrganizationContext_def GetOrganizationContext_def put_org_def gm_get_or_def
        gomap_simps split: option.splits if_splits)

lemma context_cache_inv_Clear:
  assumes "context_cache_inv c"
  shows "context_cache_inv (ClearOrganizationContextList org c)"
  by (rule context_cache_inv_shrink [OF assms])
    (auto simp: ClearOrganizationContextList_def GetOrganizationContext_def gm_get_or_def
        isAmbiguousShortName_def gomap_simps split: option.splits if_splits)

lemma context_cache_inv_clear: "context_cache_inv (clearContextCache c)"
  by (simp add: context_cache_inv_def clearContextCache_def GetOrganizationContext_def gm_get_or_def)

lemma context_cache_inv_Mark:
  assumes "context_cache_inv c"
  shows "context_cache_inv (MarkOrganizationContextListLoaded org c)"
  by (rule context_cache_inv_shrink [OF assms])
    (auto simp: MarkOrganizationContextListLoaded_def GetOrganizationContext_def
        isAmbiguousShortName_def)

lemma context_cache_inv_new:
  assumes "context_cache_inv c"
  shows "context_cache_inv (snd (new_context x c))"
    and "fst (new_context x c) < length (cc_heap (snd (new_context x c)))"
proof -
  show "context_cache_inv (snd (new_context x c))"
    by (rule context_cache_inv_shrink [OF assms])
      (auto simp: new_context_def nth_append GetOrganizationContext_def)
qed (simp add: new_context_def)

lemma nth_list_update_if: "xs[i := x] ! j = (if i = j \<and> i < length xs then x else xs ! j)"
  by (cases "i = j") (auto simp: not_less list_update_beyond)

lemma context_cache_inv_env:
  assumes "context_cache_inv c"
  shows "context_cache_inv (c\<lparr>cc_heap := (cc_heap c)[p := (cc_heap c ! p)\<lparr>ctx_envVariables := vs\<rparr>]\<rparr>)"
  by (rule context_cache_inv_shrink [OF assms])
    (auto simp: nth_list_update_if GetOrganizationContext_def)

lemma context_cache_inv_AddEnv:
  assumes "context_cache_inv c" and "AddEnvVariableToOrganizationContext org nm v c = Some c'"
  shows "context_cache_inv c'"
proof (rule context_cache_inv_shrink [OF assms(1)])
  fix org' k p
  assume "GetOrganizationContext c' org' k = Some p"
  then show "GetOrganizationContext c org' k = Some p \<and>
      (isAmbiguousShortName c' org' k \<longrightarrow> isAmbiguousShortName c org' k)"
    using assms(2)
    by (auto simp: AddEnvVariableToOrganizationContext_def put_org_def Let_def
        GetOrganizationContext_def split: option.splits if_splits)
qed (use assms(2) in \<open>auto simp: AddEnvVariableToOrganizationContext_def put_org_def Let_def
      nth_list_update_if split: option.splits if_splits\<close>)

lemma context_cache_inv_response:
  "context_cache_inv c \<Longrightarrow> context_cache_inv (set_response org r c)"
  using context_cache_inv_new [of c "response_context r"]
  by (auto simp: set_response_def split: prod.split intro: context_cache_inv_Set)

lemma context_cache_inv_response_env:
  "context_cache_inv c \<Longrightarrow> context_cache_inv (set_response_env org r c)"
  by (auto simp: set_response_env_def context_cache_inv_response context_cache_inv_env
      split: option.split)

text \<open>The states of the context cache: what the methods of the server can make of a new one.\<close>

inductive context_cache_reachable :: "context_cache \<Rightarrow> bool" where
  created: "context_cache_reachable (ca_ContextCache CreateCache)"
| listed: "context_cache_reachable c \<Longrightarrow> context_cache_reachable (set_response org r c)"
| listed_env: "context_cache_reachable c \<Longrightarrow> context_cache_reachable (set_response_env org r c)"
| removed: "context_cache_reachable c \<Longrightarrow> context_cache_reachable (RemoveOrganizationContext org nm c)"
| marked: "context_cache_reachable c \<Longrightarrow> context_cache_reachable (MarkOrganizationContextListLoaded org c)"
| cleared_org: "context_cache_reachable c \<Longrightarrow> context_cache_reachable (ClearOrganizationContextList org c)"
| cleared: "context_cache_reachable c \<Longrightarrow> context_cache_reachable (clearContextCache c)"
| env_added: "context_cache_reachable c \<Longrightarrow>
    AddEnvVariableToOrganizationContext org nm v c = Some c' \<Longrightarrow> context_cache_reachable c'"

lemma context_cache_reachable_inv: "context_cache_reachable c \<Longrightarrow> context_cache_inv c"
proof (induction rule: context_cache_reachable.induct)
  case created
  show ?case
    by (simp add: context_cache_inv_def CreateCache_def GetOrganizationContext_def gm_get_or_def)
qed (blast intro: context_cache_inv_response context_cache_inv_response_env
      context_cache_inv_Remove context_cache_inv_Mark context_cache_inv_Clear
      context_cache_inv_clear context_cache_inv_AddEnv)+

lemma context_cache_reachable_fold:
  "context_cache_reachable c \<Longrightarrow> context_cache_reachable (fold (set_response org) rs c)"
  by (rule fold_invariant_list) (auto intro: listed)

lemma ResolveWorkflowContext_cases:
  assumes "ResolveWorkflowContext c org slug nm = Some p"
  obtains k where "GetOrganizationContext c org k = Some p"
    and "k = nm \<or> CHR ''/'' \<in> set nm \<and> k = short_name nm \<or>
      CHR ''/'' \<notin> set nm \<and> k = slug @ ''/'' @ nm"
proof -
  obtain m where m: "gm_get (cc_contextCache c) org = Some m"
    using assms by (auto simp: ResolveWorkflowContext_def split: option.splits)
  then have get: "GetOrganizationContext c org k = gm_get m k" for k
    by (simp add: GetOrganizationContext_def gm_get_or_def)
  show ?thesis
  proof (cases "gm_get m nm")
    case (Some q)
    with assms m have "GetOrganizationContext c org nm = Some p"
      by (simp add: ResolveWorkflowContext_def get)
    with that show ?thesis by blast
  next
    case None
    show ?thesis
    proof (cases "last_index_of ''/'' nm")
      case None2: None
      then have ns: "CHR ''/'' \<notin> set nm" by (simp add: last_index_of_char_None)
      with None None2 assms m have "gm_get m (slug @ ''/'' @ nm) = Some p"
        by (simp add: ResolveWorkflowContext_def split: if_splits)
      with ns that show ?thesis by (metis get)
    next
      case (Some i)
      then have sl: "CHR ''/'' \<in> set nm" "short_name nm = drop (i + 1) nm"
        using last_index_of_char_None [of "CHR ''/''" nm] by (auto simp: short_name_def)
      have "str_contains nm ''/''" using sl(1) by (simp add: str_contains_def index_of_char_None)
      with None Some assms m sl(2) have "gm_get m (short_name nm) = Some p"
        by (auto simp: ResolveWorkflowContext_def split: if_splits option.splits)
      with sl(1) that show ?thesis by (metis get)
    qed
  qed
qed

text \<open>The pages that the listing service returns from a token on, until it hands out none.\<close>

fun page_chain ::
    "(string \<Rightarrow> get_all_context_res option) \<Rightarrow> string \<Rightarrow> get_all_context_res list \<Rightarrow> bool" where
  "page_chain page tok [] = False"
| "page_chain page tok (r # rs) =
     (page tok = Some r \<and>
      (case gr_NextPageToken r of None \<Rightarrow> rs = [] | Some tok' \<Rightarrow> page_chain page tok' rs))"

lemma GetAllContext_from_chain:
  "page_chain page tok rs \<Longrightarrow>
    GetAllContext_from page org tok c =
      Some (True, fold (set_response org) (concat (map gr_Items rs)) c)"
proof (induction rs arbitrary: tok c)
  case (Cons r rs)
  then show ?case
    by (subst GetAllContext_from.simps) (auto split: option.splits)
qed simp

subsection \<open>Properties\<close>

text \<open>
  C23: in every state the context cache can reach, a context that a workflow's reference
  resolves to is a live cell and has the short name (the part after the last slash) that was
  asked for; so a qualified and a short spelling of different contexts are never confused.
\<close>

theorem ResolveWorkflowContext_name:
  assumes "context_cache_reachable c"
    and "ResolveWorkflowContext c org slug nm = Some p"
  shows "p < length (cc_heap c) \<and> short_name (ctx_Name (cc_heap c ! p)) = short_name nm"
proof -
  obtain k where k: "GetOrganizationContext c org k = Some p"
    and cases: "k = nm \<or> CHR ''/'' \<in> set nm \<and> k = short_name nm \<or>
      CHR ''/'' \<notin> set nm \<and> k = slug @ ''/'' @ nm"
    using assms(2) by (rule ResolveWorkflowContext_cases)
  have "short_name k = short_name nm"
    using cases short_name_id [OF short_name_no_slash, of nm] short_name_qualified [of nm slug]
      short_name_id [of nm] by auto
  with context_cache_invD(1,2) [OF context_cache_reachable_inv [OF assms(1)] k] show ?thesis by simp
qed

definition deploy_response :: "string \<Rightarrow> context_response" where
  "deploy_response nm =
     \<lparr>cr_Name = nm, cr_ID = ''1'', cr_CreatedAt = [], cr_EnvironmentVariables = []\<rparr>"

theorem ResolveWorkflowContext_name_witness:
  "\<exists>c p. ResolveWorkflowContext c ''o'' ''acme'' ''acme/deploy'' = Some p \<and>
     p < length (cc_heap c) \<and> short_name (ctx_Name (cc_heap c ! p)) = short_name ''acme/deploy''"
proof -
  let ?c = "set_response ''o'' (deploy_response ''deploy'') (ca_ContextCache CreateCache)"
  have r: "context_cache_reachable ?c" by (intro listed created)
  have g: "ResolveWorkflowContext ?c ''o'' ''acme'' ''acme/deploy'' = Some 0" by code_simp
  from g ResolveWorkflowContext_name [OF r g] show ?thesis by blast
qed

text \<open>
  C25: entering a context leaves every other organization as it was, enters the context under
  its name, and under a short name only when that is unambiguous: when the short name is taken
  by another context, the entry is removed.
\<close>

theorem SetOrganizationContext_entries:
  "GetOrganizationContext (SetOrganizationContext org ctx c) org' k =
    (if org' \<noteq> org then GetOrganizationContext c org' k
     else if k = ctx_Name (cc_heap c ! ctx) then Some ctx
     else if k = short_name (ctx_Name (cc_heap c ! ctx)) \<and> k \<noteq> [] \<and>
             CHR ''/'' \<in> set (ctx_Name (cc_heap c ! ctx)) \<and> \<not> isAmbiguousShortName c org k
          then (case GetOrganizationContext c org k of
                  None \<Rightarrow> Some ctx
                | Some e \<Rightarrow> if e = ctx then Some ctx else None)
     else GetOrganizationContext c org' k)"
  by (rule GetOrganizationContext_Set)

text \<open>
  The order of the listing matters: entering the plain context \<open>deploy\<close> and then a
  qualified \<open>acme/deploy\<close> drops the exact entry of the plain one, the other order keeps it.
\<close>

lemma SetOrganizationContext_drops_exact:
  "GetOrganizationContext
     (fold (set_response ''o'') [deploy_response ''deploy'', deploy_response ''acme/deploy'']
        (ca_ContextCache CreateCache)) ''o'' ''deploy'' = None \<and>
   GetOrganizationContext
     (fold (set_response ''o'') [deploy_response ''acme/deploy'', deploy_response ''deploy'']
        (ca_ContextCache CreateCache)) ''o'' ''deploy'' = Some 1"
  by code_simp

text \<open>
  C27: the paged listing ends whenever the service's tokens do, and then has entered the items
  of all pages in order.
\<close>

theorem GetAllContext_complete:
  assumes "page_chain page [] rs"
  shows "GetAllContext page org c = Some (True, fold (set_response org) (concat (map gr_Items rs)) c)"
  using GetAllContext_from_chain [OF assms] by (simp add: GetAllContext_def)

definition two_pages :: "string \<Rightarrow> get_all_context_res option" where
  "two_pages tok =
     (if tok = [] then Some \<lparr>gr_Items = [deploy_response ''a''], gr_NextPageToken = Some ''t''\<rparr>
      else Some \<lparr>gr_Items = [deploy_response ''b''], gr_NextPageToken = None\<rparr>)"

theorem GetAllContext_complete_witness:
  "GetAllContext two_pages ''o'' (ca_ContextCache CreateCache) =
     Some (True, fold (set_response ''o'') [deploy_response ''a'', deploy_response ''b'']
       (ca_ContextCache CreateCache))"
  using GetAllContext_complete [of two_pages
      "[\<lparr>gr_Items = [deploy_response ''a''], gr_NextPageToken = Some ''t''\<rparr>,
        \<lparr>gr_Items = [deploy_response ''b''], gr_NextPageToken = None\<rparr>]"]
  by (simp add: two_pages_def)

text \<open>
  The catalog of machine offerings is fetched at most once, whatever the first fetch
  returned: later calls give the same answer, leave the cache and do not depend on the service.
\<close>

lemma machineOfferings_once:
  "machineOfferings get' ls' (snd (machineOfferings get ls c)) = machineOfferings get ls c"
  by (simp add: machineOfferings_def Let_def)

end
