(* ===== verification/Regex.thy ===== *)
theory Regex
  imports GoStrings
begin

text \<open>
  The part of Go's \<open>regexp\<close> package the program uses: byte classes, greedy stars of a class,
  sequences, ordered alternatives, optional parts, capture groups and the two text anchors.
  \<open>rx\<close> lists every way an expression can match at the head of a text, in the order in which
  the leftmost-first matcher prefers them, so its head is the match Go reports. \<open>rxm\<close> is the
  same relation without the order; \<open>set_rx\<close> connects the two and the language lemmas of the
  single expressions go through it.
\<close>

datatype cclass = In "char list" | NotIn "char list"

fun in_class :: "cclass \<Rightarrow> char \<Rightarrow> bool" where
  "in_class (In cs) x = (x \<in> set cs)"
| "in_class (NotIn cs) x = (x \<notin> set cs)"

datatype regex =
    REps
  | RClass cclass
  | RStar cclass
  | RSeq regex regex
  | RAlt regex regex
  | ROpt regex
  | RGroup nat regex
  | RBegin
  | REnd

type_synonym rstate = "string \<times> (nat \<times> string) list"

fun star_rest :: "cclass \<Rightarrow> string \<Rightarrow> string list" where
  "star_rest c [] = [[]]"
| "star_rest c (x # xs) = (if in_class c x then star_rest c xs @ [x # xs] else [x # xs])"

text \<open>\<open>n\<close> is the length of the whole text: the text anchors compare the rest with it.\<close>

fun rx :: "regex \<Rightarrow> nat \<Rightarrow> rstate \<Rightarrow> rstate list" where
  "rx REps n st = [st]"
| "rx (RClass c) n st =
     (case fst st of [] \<Rightarrow> [] | x # xs \<Rightarrow> (if in_class c x then [(xs, snd st)] else []))"
| "rx (RStar c) n st = map (\<lambda>s. (s, snd st)) (star_rest c (fst st))"
| "rx (RSeq a b) n st = concat (map (rx b n) (rx a n st))"
| "rx (RAlt a b) n st = rx a n st @ rx b n st"
| "rx (ROpt a) n st = rx a n st @ [st]"
| "rx (RGroup k a) n st =
     map (\<lambda>(s, caps). (s, (k, take (length (fst st) - length s) (fst st)) # caps)) (rx a n st)"
| "rx RBegin n st = (if length (fst st) = n then [st] else [])"
| "rx REnd n st = (if fst st = [] then [st] else [])"

fun rx_find_from :: "regex \<Rightarrow> nat \<Rightarrow> string \<Rightarrow> (nat \<times> rstate) option" where
  "rx_find_from r n [] = (case rx r n ([], []) of [] \<Rightarrow> None | st # _ \<Rightarrow> Some (0, st))"
| "rx_find_from r n (c # cs) =
     (case rx r n (c # cs, []) of
        st # _ \<Rightarrow> Some (0, st)
      | [] \<Rightarrow> map_option (\<lambda>(i, st). (Suc i, st)) (rx_find_from r n cs))"

text \<open>Regexp.MatchString, Regexp.Find, Regexp.FindAllStringSubmatch (first match).\<close>

definition rx_match :: "regex \<Rightarrow> string \<Rightarrow> bool" where
  "rx_match r s = (rx_find_from r (length s) s \<noteq> None)"

definition rx_find :: "regex \<Rightarrow> string \<Rightarrow> string option" where
  "rx_find r s =
     (case rx_find_from r (length s) s of
        None \<Rightarrow> None
      | Some (i, st) \<Rightarrow> Some (take (length s - i - length (fst st)) (drop i s)))"

definition rx_submatch :: "regex \<Rightarrow> string \<Rightarrow> (nat \<times> string) list option" where
  "rx_submatch r s = map_option (\<lambda>(i, st). snd st) (rx_find_from r (length s) s)"

text \<open>
  Regexp.FindAllIndex with no limit, for expressions that never match the empty text: after a
  match the search resumes at its end.
\<close>

function rx_find_all_from :: "regex \<Rightarrow> nat \<Rightarrow> string \<Rightarrow> (nat \<times> nat) list" where
  "rx_find_all_from r n s =
     (case rx_find_from r n s of
        None \<Rightarrow> []
      | Some (i, st) \<Rightarrow>
          (n - length s + i, n - length (fst st)) #
          (if length (fst st) < length s then rx_find_all_from r n (fst st) else []))"
  by pat_completeness auto
termination
  by (relation "measure (\<lambda>(r, n, s). length s)") auto

definition rx_find_all :: "regex \<Rightarrow> string \<Rightarrow> (nat \<times> nat) list" where
  "rx_find_all r s = rx_find_all_from r (length s) s"

declare rx_find_all_from.simps [simp del]

lemma rx_find_all_from_None: "rx_find_from r n s = None \<Longrightarrow> rx_find_all_from r n s = []"
  by (simp add: rx_find_all_from.simps [of r n s])

lemma rx_find_all_from_Some:
  "rx_find_from r n s = Some (i, st) \<Longrightarrow>
    rx_find_all_from r n s = (n - length s + i, n - length (fst st)) #
      (if length (fst st) < length s then rx_find_all_from r n (fst st) else [])"
  by (subst rx_find_all_from.simps) simp

subsection \<open>Building expressions\<close>

fun rx_lit :: "string \<Rightarrow> regex" where
  "rx_lit [] = REps"
| "rx_lit (c # cs) = RSeq (RClass (In [c])) (rx_lit cs)"

fun rx_seq :: "regex list \<Rightarrow> regex" where
  "rx_seq [] = REps"
| "rx_seq (r # rs) = RSeq r (rx_seq rs)"

definition rx_plus :: "cclass \<Rightarrow> regex" where
  "rx_plus c = RSeq (RClass c) (RStar c)"

fun rx_times :: "nat \<Rightarrow> cclass \<Rightarrow> regex" where
  "rx_times 0 c = REps"
| "rx_times (Suc k) c = RSeq (RClass c) (rx_times k c)"

definition chars_between :: "char \<Rightarrow> char \<Rightarrow> char list" where
  "chars_between a b = map char_of [of_char a ..< Suc (of_char b :: nat)]"

lemma set_chars_between:
  "x \<in> set (chars_between a b) \<longleftrightarrow> (of_char a :: nat) \<le> of_char x \<and> of_char x \<le> (of_char b :: nat)"
proof -
  have "x \<in> set (chars_between a b) \<longleftrightarrow> (\<exists>k. (of_char a :: nat) \<le> k \<and> k \<le> of_char b \<and> x = char_of k)"
    by (auto simp: chars_between_def less_Suc_eq_le)
  also have "\<dots> \<longleftrightarrow> (of_char a :: nat) \<le> of_char x \<and> of_char x \<le> (of_char b :: nat)"
  proof
    assume "\<exists>k. (of_char a :: nat) \<le> k \<and> k \<le> of_char b \<and> x = char_of k"
    then obtain k where k: "(of_char a :: nat) \<le> k" "k \<le> of_char b" "x = char_of k" by blast
    have "k < 256" using k nat_of_char_less_256 [of b] by linarith
    with k have "of_char x = k" by simp
    with k show "(of_char a :: nat) \<le> of_char x \<and> of_char x \<le> (of_char b :: nat)" by simp
  qed (metis char_of_char)
  finally show ?thesis .
qed

text \<open>The class \<open>\s\<close> of RE2: tab, newline, form feed, return, blank.\<close>

definition re_space :: cclass where
  "re_space = In [CHR 0x09, CHR 0x0A, CHR 0x0C, CHR 0x0D, CHR '' '']"

text \<open>The wildcard \<open>.\<close> without the \<open>s\<close> flag: anything but a newline.\<close>

definition re_dot :: cclass where
  "re_dot = NotIn [CHR 0x0A]"

subsection \<open>The relation behind the matcher\<close>

fun rxm :: "regex \<Rightarrow> nat \<Rightarrow> rstate \<Rightarrow> rstate \<Rightarrow> bool" where
  "rxm REps n st st' = (st' = st)"
| "rxm (RClass c) n st st' = (\<exists>x. fst st = x # fst st' \<and> in_class c x \<and> snd st' = snd st)"
| "rxm (RStar c) n st st' =
     (\<exists>p. fst st = p @ fst st' \<and> (\<forall>x\<in>set p. in_class c x) \<and> snd st' = snd st)"
| "rxm (RSeq a b) n st st' = (\<exists>m. rxm a n st m \<and> rxm b n m st')"
| "rxm (RAlt a b) n st st' = (rxm a n st st' \<or> rxm b n st st')"
| "rxm (ROpt a) n st st' = (rxm a n st st' \<or> st' = st)"
| "rxm (RGroup k a) n st st' =
     (\<exists>caps. rxm a n st (fst st', caps) \<and>
        snd st' = (k, take (length (fst st) - length (fst st')) (fst st)) # caps)"
| "rxm RBegin n st st' = (st' = st \<and> length (fst st) = n)"
| "rxm REnd n st st' = (st' = st \<and> fst st = [])"

lemma set_star_rest: "t \<in> set (star_rest c s) \<longleftrightarrow> (\<exists>p. s = p @ t \<and> (\<forall>x\<in>set p. in_class c x))"
proof (induction s)
  case (Cons x xs)
  show ?case
  proof
    assume "t \<in> set (star_rest c (x # xs))"
    then consider "t = x # xs" | "in_class c x" "t \<in> set (star_rest c xs)"
      by (auto split: if_splits)
    then show "\<exists>p. x # xs = p @ t \<and> (\<forall>x\<in>set p. in_class c x)"
    proof cases
      case 1
      then show ?thesis by auto
    next
      case 2
      then obtain p where "xs = p @ t" "\<forall>x\<in>set p. in_class c x" using Cons by blast
      with 2 show ?thesis by (intro exI [of _ "x # p"]) simp
    qed
  next
    assume "\<exists>p. x # xs = p @ t \<and> (\<forall>x\<in>set p. in_class c x)"
    then obtain p where p: "x # xs = p @ t" "\<forall>x\<in>set p. in_class c x" by blast
    then show "t \<in> set (star_rest c (x # xs))"
      using Cons by (cases p) auto
  qed
qed auto

lemma set_rx: "st' \<in> set (rx r n st) \<longleftrightarrow> rxm r n st st'"
proof (induction r arbitrary: st st')
  case (RClass c)
  show ?case by (cases st'; cases "fst st") auto
next
  case (RStar c)
  show ?case by (cases st') (auto simp: set_star_rest)
next
  case (RGroup k a)
  show ?case
    by (cases st') (force simp: RGroup.IH [symmetric] image_iff split: prod.splits)
next
  case (RSeq a b)
  have "st' \<in> set (rx (RSeq a b) n st) \<longleftrightarrow> (\<exists>m \<in> set (rx a n st). st' \<in> set (rx b n m))"
    by simp
  then show ?case by (simp only: RSeq.IH rxm.simps Bex_def)
next
  case (RAlt a b)
  show ?case by (simp add: RAlt.IH)
next
  case (ROpt a)
  show ?case by (auto simp: ROpt.IH)
qed auto

lemma rxm_suffix: "rxm r n st st' \<Longrightarrow> suffix (fst st') (fst st)"
proof (induction r arbitrary: st st')
  case (RSeq a b)
  then show ?case by (auto dest!: RSeq.IH intro: suffix_order.trans)
next
  case (RGroup k a)
  then show ?case by fastforce
qed (auto simp: suffix_def)

lemma rx_suffix: "st' \<in> set (rx r n st) \<Longrightarrow> suffix (fst st') (fst st)"
  by (simp add: set_rx rxm_suffix)

lemma rx_find_from_None: "rx_find_from r n s = None \<longleftrightarrow> (\<forall>p t st. s = p @ t \<longrightarrow> \<not> rxm r n (t, []) st)"
proof (induction s)
  case Nil
  show ?case
    using set_rx [of _ r n "([], [])"] by (cases "rx r n ([], [])") force+
next
  case (Cons c cs)
  have hd: "rx r n (c # cs, []) = [] \<longleftrightarrow> (\<forall>st. \<not> rxm r n (c # cs, []) st)"
    by (metis list.set_intros(1) neq_Nil_conv set_rx empty_iff list.set(1))
  have split: "(\<forall>p t st. c # cs = p @ t \<longrightarrow> \<not> rxm r n (t, []) st) \<longleftrightarrow>
      (\<forall>st. \<not> rxm r n (c # cs, []) st) \<and> (\<forall>p t st. cs = p @ t \<longrightarrow> \<not> rxm r n (t, []) st)"
    by (auto simp: Cons_eq_append_conv)
  show ?case
    unfolding split hd [symmetric] Cons.IH [symmetric]
    by (cases "rx r n (c # cs, [])") auto
qed

lemma rx_match_iff: "rx_match r s \<longleftrightarrow> (\<exists>p t st. s = p @ t \<and> rxm r (length s) (t, []) st)"
proof -
  have "\<not> rx_match r s \<longleftrightarrow> (\<forall>p t st. s = p @ t \<longrightarrow> \<not> rxm r (length s) (t, []) st)"
    unfolding rx_match_def not_not by (rule rx_find_from_None)
  then show ?thesis by blast
qed

lemma rx_find_from_Some:
  assumes "rx_find_from r n s = Some (i, st)"
  shows "i \<le> length s \<and> rxm r n (drop i s, []) st \<and> rx r n (drop i s, []) \<noteq> [] \<and>
    st = hd (rx r n (drop i s, [])) \<and> (\<forall>j<i. rx r n (drop j s, []) = [])"
  using assms
proof (induction s arbitrary: i)
  case Nil
  then show ?case
    using set_rx [of st r n "([], [])"] by (auto split: list.splits)
next
  case (Cons c cs)
  show ?case
  proof (cases "rx r n (c # cs, [])")
    case Nil
    with Cons.prems obtain k where k: "i = Suc k" "rx_find_from r n cs = Some (k, st)"
      by (auto split: option.splits)
    have "\<forall>j<i. rx r n (drop j (c # cs), []) = []"
    proof (intro allI impI)
      fix j assume "j < i"
      then show "rx r n (drop j (c # cs), []) = []"
        using Cons.IH [OF k(2)] Nil k(1) by (cases j) auto
    qed
    with k Cons.IH [OF k(2)] show ?thesis by (metis Suc_le_mono drop_Suc_Cons length_Cons)
  next
    case (Cons a list)
    with Cons.prems have "i = 0" "st = a" by auto
    with Cons show ?thesis using set_rx [of a r n "(c # cs, [])"] by simp
  qed
qed

text \<open>Every index pair \<open>rx_find_all\<close> returns delimits a piece of the text; the pieces are in order.\<close>

lemma rx_find_all_from_bounds:
  assumes "n \<ge> length s" and "(a, b) \<in> set (rx_find_all_from r n s)"
  shows "n - length s \<le> a \<and> a \<le> b \<and> b \<le> n"
  using assms
proof (induction r n s rule: rx_find_all_from.induct)
  case (1 r n s)
  obtain i st where f: "rx_find_from r n s = Some (i, st)"
    using 1(3) rx_find_all_from_None [of r n s] by (cases "rx_find_from r n s") auto
  from rx_find_from_Some [OF f] have i: "i \<le> length s" and "rxm r n (drop i s, []) st" by auto
  then have len: "length (fst st) \<le> length s - i"
    using rxm_suffix suffix_length_le by fastforce
  from 1(3) consider "(a, b) = (n - length s + i, n - length (fst st))"
    | "length (fst st) < length s" "(a, b) \<in> set (rx_find_all_from r n (fst st))"
    unfolding rx_find_all_from_Some [OF f] by (auto split: if_splits)
  then show ?case
  proof cases
    case 1
    with i len \<open>n \<ge> length s\<close> show ?thesis by simp arith
  next
    case 2
    then have "n - length (fst st) \<le> a \<and> a \<le> b \<and> b \<le> n"
      using 1(1) [OF f refl] len \<open>n \<ge> length s\<close> by simp
    with len show ?thesis by arith
  qed
qed

subsection \<open>Languages of the building blocks\<close>

lemma rxm_lit: "rxm (rx_lit w) n st st' \<longleftrightarrow> fst st = w @ fst st' \<and> snd st' = snd st"
  by (induction w arbitrary: st) (auto simp: prod_eq_iff)

lemma rxm_plus:
  "rxm (rx_plus c) n st st' \<longleftrightarrow>
    (\<exists>p. p \<noteq> [] \<and> fst st = p @ fst st' \<and> (\<forall>x\<in>set p. in_class c x) \<and> snd st' = snd st)"
proof
  assume "rxm (rx_plus c) n st st'"
  then obtain m x p where "fst st = x # fst m" "in_class c x" "snd m = snd st"
    "fst m = p @ fst st'" "\<forall>x\<in>set p. in_class c x" "snd st' = snd m"
    by (auto simp: rx_plus_def)
  then show "\<exists>p. p \<noteq> [] \<and> fst st = p @ fst st' \<and> (\<forall>x\<in>set p. in_class c x) \<and> snd st' = snd st"
    by (intro exI [of _ "x # p"]) simp
next
  assume "\<exists>p. p \<noteq> [] \<and> fst st = p @ fst st' \<and> (\<forall>x\<in>set p. in_class c x) \<and> snd st' = snd st"
  then obtain x p where "fst st = (x # p) @ fst st'" "in_class c x" "\<forall>x\<in>set p. in_class c x"
    "snd st' = snd st"
    by (metis list.set_intros(1) list.set_intros(2) neq_Nil_conv)
  then show "rxm (rx_plus c) n st st'"
    by (auto simp: rx_plus_def intro!: exI [of _ "p @ fst st'"])
qed

lemma rxm_times:
  "rxm (rx_times k c) n st st' \<longleftrightarrow>
    (\<exists>p. length p = k \<and> fst st = p @ fst st' \<and> (\<forall>x\<in>set p. in_class c x) \<and> snd st' = snd st)"
proof (induction k arbitrary: st)
  case 0
  show ?case by (auto simp: prod_eq_iff)
next
  case (Suc k)
  show ?case
  proof
    assume "rxm (rx_times (Suc k) c) n st st'"
    then obtain m x p where "fst st = x # fst m" "in_class c x" "snd m = snd st"
      "length p = k" "fst m = p @ fst st'" "\<forall>x\<in>set p. in_class c x" "snd st' = snd m"
      by (auto simp: Suc.IH)
    then show "\<exists>p. length p = Suc k \<and> fst st = p @ fst st' \<and> (\<forall>x\<in>set p. in_class c x) \<and> snd st' = snd st"
      by (intro exI [of _ "x # p"]) simp
  next
    assume "\<exists>p. length p = Suc k \<and> fst st = p @ fst st' \<and> (\<forall>x\<in>set p. in_class c x) \<and> snd st' = snd st"
    then obtain x p where "length p = k" "fst st = (x # p) @ fst st'" "in_class c x"
      "\<forall>x\<in>set p. in_class c x" "snd st' = snd st"
      by (metis length_Suc_conv list.set_intros(1) list.set_intros(2))
    then show "rxm (rx_times (Suc k) c) n st st'"
      by (auto simp: Suc.IH)
  qed
qed

end
