(* ===== verification/ParamRefs.thy ===== *)
theory ParamRefs
  imports Regex Positions
begin

text \<open>
  References to parameters inside a configuration text: \<open>pkg/utils/parameters.go\<close>. The
  regular expressions are the source's; \<open>Regex\<close> interprets them. A slice out of range, which
  aborts the Go program, is \<open>None\<close> in the outer option of a result.
\<close>

definition param_name_class :: cclass where
  "param_name_class =
     In (chars_between (CHR ''A'') (CHR ''Z'') @ chars_between (CHR ''a'') (CHR ''z'') @
         chars_between (CHR ''0'') (CHR ''9'') @ [CHR ''-'', CHR ''_''])"

text \<open>\<open>pipeline.parameters\<close>: the dot is the wildcard of the expression.\<close>

definition re_scope :: regex where
  "re_scope =
     RAlt (rx_lit ''parameters'')
          (rx_seq [rx_lit ''pipeline'', RClass re_dot, rx_lit ''parameters''])"

definition paramRegex :: regex where
  "paramRegex =
     rx_seq [rx_lit ''<<'', RStar re_space, RGroup 1 re_scope, rx_lit ''.'',
             RGroup 2 (RStar param_name_class), RStar re_space, rx_lit ''>>'']"

definition onlyParamRegex :: regex where
  "onlyParamRegex = rx_seq [RBegin, paramRegex, REnd]"

definition partialParamRegex :: regex where
  "partialParamRegex =
     rx_seq [rx_lit ''<<'', RStar re_space,
             RGroup 1 (RAlt re_scope (rx_seq [rx_lit ''pipeline'', RClass re_dot, rx_lit ''git''])),
             rx_lit ''.'', RStar re_space, ROpt (rx_lit ''>''), ROpt (rx_lit ''>'')]"

definition matrixParamRegex :: regex where
  "matrixParamRegex =
     rx_seq [rx_lit ''<<'', RStar re_space, rx_lit ''matrix.'', RStar re_space,
             ROpt (rx_lit ''>''), ROpt (rx_lit ''>'')]"

definition ContainsParam :: "string \<Rightarrow> bool" where
  "ContainsParam content = rx_match paramRegex content"

definition CheckIfOnlyParamUsed :: "string \<Rightarrow> bool" where
  "CheckIfOnlyParamUsed content = rx_match onlyParamRegex content"

definition CheckIfParamIsPartiallyReferenced :: "string \<Rightarrow> bool \<times> bool" where
  "CheckIfParamIsPartiallyReferenced content =
     (rx_find partialParamRegex content \<noteq> None, str_contains content ''pipeline.'')"

definition CheckIfMatrixParamIsPartiallyReferenced :: "string \<Rightarrow> bool" where
  "CheckIfMatrixParamIsPartiallyReferenced content = (rx_find matrixParamRegex content \<noteq> None)"

definition ExtractParameterName :: "string \<Rightarrow> string \<times> string" where
  "ExtractParameterName parameter =
     (let full = trim_set [CHR '' ''] (trim_set [CHR ''>''] (trim_set [CHR ''<''] parameter));
          splittedName = split_on (CHR ''.'') full
      in (full, last splittedName))"

text \<open>The name of the parameter used at a position, and whether it is a pipeline parameter.\<close>

definition GetParamNameUsedAtPos :: "string \<Rightarrow> position \<Rightarrow> string \<times> bool" where
  "GetParamNameUsedAtPos content position =
     (let posIndex = PosToIndex position content;
          lineStart = (case last_index_of [CHR 0x0A] (take posIndex content) of
                         None \<Rightarrow> 0 | Some i \<Rightarrow> i + 1);
          lineEnd = (case index_of [CHR 0x0A] (drop lineStart content) of
                       None \<Rightarrow> length content | Some i \<Rightarrow> lineStart + i)
      in if \<not> rx_match paramRegex (take (lineEnd - lineStart) (drop lineStart content))
         then ([], False)
         else (case last_index_of ''<<'' (take posIndex content) of
             None \<Rightarrow> ([], False)
           | Some startOfParam \<Rightarrow>
               (case index_of ''>>'' (drop startOfParam content) of
                  None \<Rightarrow> ([], False)
                | Some endOfParamRel \<Rightarrow>
                    (case rx_find paramRegex (take (endOfParamRel + 2) (drop startOfParam content)) of
                       None \<Rightarrow> ([], False)
                     | Some param \<Rightarrow>
                         (let (fullParamName, paramName) = ExtractParameterName param
                          in (paramName, has_prefix ''pipeline.'' fullParamName))))))"

record param_ref =
  pr_Name :: string
  pr_FullName :: string
  pr_ParamRange :: range

definition param_ref_at :: "string \<Rightarrow> nat \<times> nat \<Rightarrow> param_ref option" where
  "param_ref_at content ab =
     (let len = snd ab - fst ab;
          names = ExtractParameterName (take len (drop (fst ab) content))
      in (case IndexToPos (int (fst ab)) content of
            None \<Rightarrow> None
          | Some startPos \<Rightarrow> Some
              \<lparr>pr_Name = snd names, pr_FullName = fst names,
               pr_ParamRange = mk_range startPos
                 (mk_pos (Line startPos) (Character startPos + word_of_nat len))\<rparr>))"

fun collect_refs :: "string \<Rightarrow> (nat \<times> nat) list \<Rightarrow> param_ref list option" where
  "collect_refs content [] = Some []"
| "collect_refs content (p # ps) =
     (case param_ref_at content p of
        None \<Rightarrow> None
      | Some r \<Rightarrow> map_option (\<lambda>rs. r # rs) (collect_refs content ps))"

definition GetParamsInString :: "string \<Rightarrow> param_ref list option" where
  "GetParamsInString content = collect_refs content (rx_find_all paramRegex content)"

lemma GetParamsInString_defined: "GetParamsInString content \<noteq> None"
proof -
  have "collect_refs content ps \<noteq> None" if "\<forall>(a, b)\<in>set ps. a \<le> length content" for ps
    using that by (induction ps) (auto simp: param_ref_at_def IndexToPos_def Let_def)
  moreover have "\<forall>(a, b)\<in>set (rx_find_all paramRegex content). a \<le> length content"
    using rx_find_all_from_bounds [of content "length content"] by (fastforce simp: rx_find_all_def)
  ultimately show ?thesis unfolding GetParamsInString_def by blast
qed

subsection \<open>What the expressions accept\<close>

definition is_param_char :: "char \<Rightarrow> bool" where
  "is_param_char c = in_class param_name_class c"

definition all_space :: "string \<Rightarrow> bool" where
  "all_space s = (\<forall>c\<in>set s. in_class re_space c)"

text \<open>A reference in the sense of the documentation of \<open>CheckIfOnlyParamUsed\<close>.\<close>

definition param_reference :: "string \<Rightarrow> bool" where
  "param_reference s \<longleftrightarrow>
     (\<exists>sp scope name sp'. s = ''<<'' @ sp @ scope @ ''.'' @ name @ sp' @ ''>>'' \<and>
        all_space sp \<and> all_space sp' \<and> (\<forall>c\<in>set name. is_param_char c) \<and>
        (scope = ''parameters'' \<or>
         (\<exists>d. d \<noteq> CHR 0x0A \<and> scope = ''pipeline'' @ [d] @ ''parameters'')))"

lemma rxm_seq_Nil [simp]: "rxm (rx_seq []) n st st' \<longleftrightarrow> st' = st"
  by simp

lemma rxm_scope:
  "rxm re_scope n st st' \<longleftrightarrow> snd st' = snd st \<and>
    (\<exists>scope. fst st = scope @ fst st' \<and>
      (scope = ''parameters'' \<or>
       (\<exists>d. d \<noteq> CHR 0x0A \<and> scope = ''pipeline'' @ [d] @ ''parameters'')))"
  by (cases st; cases st')
    (auto simp: re_scope_def rxm_lit re_dot_def)

lemma paramRegex_lang:
  "(\<exists>caps'. rxm paramRegex n (s, caps) (t, caps')) \<longleftrightarrow> (\<exists>p. s = p @ t \<and> param_reference p)"
proof
  assume "\<exists>caps'. rxm paramRegex n (s, caps) (t, caps')"
  then obtain caps' m1 m2 m3 m4 m5 m6 where
    m: "rxm (rx_lit ''<<'') n (s, caps) m1" "rxm (RStar re_space) n m1 m2"
    "rxm (RGroup 1 re_scope) n m2 m3" "rxm (rx_lit ''.'') n m3 m4"
    "rxm (RGroup 2 (RStar param_name_class)) n m4 m5" "rxm (RStar re_space) n m5 m6"
    "rxm (rx_lit ''>>'') n m6 (t, caps')"
    unfolding paramRegex_def rx_seq.simps rxm.simps(1,4) by blast
  from m(2) obtain sp where sp: "fst m1 = sp @ fst m2" "all_space sp"
    by (auto simp: all_space_def)
  from m(3) obtain scope where sc: "fst m2 = scope @ fst m3" "scope = ''parameters'' \<or>
         (\<exists>d. d \<noteq> CHR 0x0A \<and> scope = ''pipeline'' @ [d] @ ''parameters'')"
    unfolding rxm.simps rxm_scope by auto
  from m(5) obtain name where nm: "fst m4 = name @ fst m5" "\<forall>c\<in>set name. is_param_char c"
    by (auto simp: is_param_char_def)
  from m(6) obtain sp' where sp': "fst m5 = sp' @ fst m6" "all_space sp'"
    by (auto simp: all_space_def)
  have "s = ''<<'' @ fst m1" "fst m3 = ''.'' @ fst m4" "fst m6 = ''>>'' @ t"
    using m(1,4,7) unfolding rxm_lit by simp_all
  then have "s = ''<<'' @ sp @ scope @ ''.'' @ name @ sp' @ ''>>'' @ t"
    using sp(1) sc(1) nm(1) sp'(1) by simp
  with sp(2) sc(2) nm(2) sp'(2) show "\<exists>p. s = p @ t \<and> param_reference p"
    unfolding param_reference_def
    by (intro exI [of _ "''<<'' @ sp @ scope @ ''.'' @ name @ sp' @ ''>>''"] conjI
          exI [of _ sp] exI [of _ scope] exI [of _ name] exI [of _ sp']) simp_all
next
  assume "\<exists>p. s = p @ t \<and> param_reference p"
  then obtain p where s0: "s = p @ t" and pr: "param_reference p" by blast
  from pr obtain sp scope name sp' where
    p: "p = ''<<'' @ sp @ scope @ ''.'' @ name @ sp' @ ''>>''" and
    sp: "all_space sp" "all_space sp'" and nm: "\<forall>c\<in>set name. is_param_char c" and
    sc: "scope = ''parameters'' \<or>
         (\<exists>d. d \<noteq> CHR 0x0A \<and> scope = ''pipeline'' @ [d] @ ''parameters'')"
    unfolding param_reference_def by blast
  have s: "s = ''<<'' @ sp @ scope @ ''.'' @ name @ sp' @ ''>>'' @ t"
    using s0 p by simp
  let ?c1 = "(1, scope) # caps" and ?c2 = "(2, name) # (1, scope) # caps"
  have 1: "rxm (rx_lit ''<<'') n (s, caps) (sp @ scope @ ''.'' @ name @ sp' @ ''>>'' @ t, caps)"
    by (simp add: rxm_lit s)
  have 2: "rxm (RStar re_space) n (sp @ scope @ ''.'' @ name @ sp' @ ''>>'' @ t, caps)
      (scope @ ''.'' @ name @ sp' @ ''>>'' @ t, caps)"
    using sp by (auto simp: all_space_def)
  have 3: "rxm (RGroup 1 re_scope) n (scope @ ''.'' @ name @ sp' @ ''>>'' @ t, caps)
      (''.'' @ name @ sp' @ ''>>'' @ t, ?c1)"
    using sc by (auto simp: rxm_scope)
  have 4: "rxm (rx_lit ''.'') n (''.'' @ name @ sp' @ ''>>'' @ t, ?c1) (name @ sp' @ ''>>'' @ t, ?c1)"
    by (simp add: rxm_lit)
  have 5: "rxm (RGroup 2 (RStar param_name_class)) n (name @ sp' @ ''>>'' @ t, ?c1)
      (sp' @ ''>>'' @ t, ?c2)"
    using nm by (auto simp: is_param_char_def)
  have 6: "rxm (RStar re_space) n (sp' @ ''>>'' @ t, ?c2) (''>>'' @ t, ?c2)"
    using sp by (auto simp: all_space_def)
  have 7: "rxm (rx_lit ''>>'') n (''>>'' @ t, ?c2) (t, ?c2)"
    by (simp add: rxm_lit)
  from 1 2 3 4 5 6 7 show "\<exists>caps'. rxm paramRegex n (s, caps) (t, caps')"
    unfolding paramRegex_def rx_seq.simps rxm.simps(1,4) by blast
qed

lemma ContainsParam_iff: "ContainsParam s \<longleftrightarrow> (\<exists>p. sublist p s \<and> param_reference p)"
proof -
  have "ContainsParam s \<longleftrightarrow> (\<exists>u v t. s = u @ v \<and> (\<exists>caps'. rxm paramRegex (length s) (v, []) (t, caps')))"
    unfolding ContainsParam_def rx_match_iff by auto
  also have "\<dots> \<longleftrightarrow> (\<exists>u p t. s = u @ p @ t \<and> param_reference p)"
    unfolding paramRegex_lang by blast
  also have "\<dots> \<longleftrightarrow> (\<exists>p. sublist p s \<and> param_reference p)"
    unfolding sublist_def by blast
  finally show ?thesis .
qed

lemma CheckIfOnlyParamUsed_iff: "CheckIfOnlyParamUsed s \<longleftrightarrow> param_reference s"
proof -
  have "CheckIfOnlyParamUsed s \<longleftrightarrow> (\<exists>caps'. rxm paramRegex (length s) (s, []) ([], caps'))"
    unfolding CheckIfOnlyParamUsed_def rx_match_iff onlyParamRegex_def by auto
  then show ?thesis by (simp add: paramRegex_lang)
qed

lemma param_reference_length: "param_reference s \<Longrightarrow> 15 \<le> length s"
  unfolding param_reference_def by (elim exE conjE disjE) (simp_all del: split_paired_Ex)


subsection \<open>Properties\<close>


end
