(* ===== verification/Suppression.thy ===== *)
theory Suppression
  imports Ast ParamRefs
begin

text \<open>
  The \<open>cci-ignore\<close> comments: \<open>pkg/parser/suppression.go\<close>. The syntax tree's comments are what
  the query of the third-party parser returns, a list of matches with their captures; a comment
  has its text and the range of its node, to which the document's offset is added. Scanning is
  an automaton over the comments whose state is the information collected, whether a range is
  open, and the diagnostics.
\<close>

subsection \<open>The definitions of the source\<close>

record suppression_range =
  sr_StartLine :: u32
  sr_EndLine :: u32

record suppression_info =
  si_FileWideSuppression :: bool
  si_SuppressedLines :: "(u32, bool) gomap"
  si_SuppressedRanges :: "suppression_range list"

definition ignore_comment :: "string \<Rightarrow> regex" where
  "ignore_comment w = rx_seq [rx_lit ''#'', RStar re_space, rx_lit w, RStar re_space, REnd]"

definition ignoreFileRegex :: regex where
  "ignoreFileRegex = rx_seq [RBegin, RStar re_space, ignore_comment ''cci-ignore-file'']"

definition ignoreInlineRegex :: regex where
  "ignoreInlineRegex = ignore_comment ''cci-ignore''"

definition ignoreNextLineRegex :: regex where
  "ignoreNextLineRegex = rx_seq [RBegin, RStar re_space, ignore_comment ''cci-ignore-next-line'']"

definition ignoreRangeStartRegex :: regex where
  "ignoreRangeStartRegex = rx_seq [RBegin, RStar re_space, ignore_comment ''cci-ignore-start'']"

definition ignoreRangeEndRegex :: regex where
  "ignoreRangeEndRegex = rx_seq [RBegin, RStar re_space, ignore_comment ''cci-ignore-end'']"

record comment =
  cm_Text :: string
  cm_Range :: range

record scan_state =
  sc_info :: suppression_info
  sc_isRangeOpen :: bool
  sc_range :: suppression_range
  sc_Diagnostics :: "diagnostic list"

definition comment_line :: "position \<Rightarrow> comment \<Rightarrow> u32" where
  "comment_line offset c = Line (Start (AddOffsetToRange (cm_Range c) offset))"

definition suppress_line :: "u32 \<Rightarrow> scan_state \<Rightarrow> scan_state" where
  "suppress_line l st = st\<lparr>sc_info := (sc_info st)\<lparr>si_SuppressedLines :=
     gm_put l True (si_SuppressedLines (sc_info st))\<rparr>\<rparr>"

text \<open>The captures of one match: a \<open>return\<close> of the callback skips the rest of them.\<close>

fun scan_match :: "position \<Rightarrow> comment list \<Rightarrow> scan_state \<Rightarrow> scan_state" where
  "scan_match offset [] st = st"
| "scan_match offset (c # captures) st =
     (let text = cm_Text c; line = comment_line offset c
      in if rx_match ignoreFileRegex text
         then st\<lparr>sc_info := (sc_info st)\<lparr>si_FileWideSuppression := True\<rparr>\<rparr>
         else
           let st = (if rx_match ignoreInlineRegex text then suppress_line line st else st);
               st = (if rx_match ignoreNextLineRegex text then suppress_line (line + 1) st else st)
           in if rx_match ignoreRangeStartRegex text \<and> sc_isRangeOpen st
              then st\<lparr>sc_Diagnostics := sc_Diagnostics st @
                [CreateErrorDiagnosticFromRange (cm_Range c) ''cci-ignore-start must have a closing cci-ignore-end before trying to open a new ignore-range'']\<rparr>
              else
                let st = (if rx_match ignoreRangeStartRegex text
                          then st\<lparr>sc_isRangeOpen := True,
                                  sc_range := (sc_range st)\<lparr>sr_StartLine := line\<rparr>\<rparr>
                          else st)
                in if rx_match ignoreRangeEndRegex text \<and> \<not> sc_isRangeOpen st
                   then st\<lparr>sc_Diagnostics := sc_Diagnostics st @
                     [CreateErrorDiagnosticFromRange (cm_Range c) ''cci-ignore-end must have an opening cci-ignore-start'']\<rparr>
                   else if rx_match ignoreRangeEndRegex text
                   then let r = (sc_range st)\<lparr>sr_EndLine := line\<rparr>
                        in scan_match offset captures
                             (st\<lparr>sc_isRangeOpen := False, sc_range := r,
                                 sc_info := (sc_info st)\<lparr>si_SuppressedRanges :=
                                   si_SuppressedRanges (sc_info st) @ [r]\<rparr>\<rparr>)
                   else scan_match offset captures st)"

definition initial_scan :: "diagnostic list \<Rightarrow> scan_state" where
  "initial_scan ds =
     \<lparr>sc_info = \<lparr>si_FileWideSuppression = False, si_SuppressedLines = [], si_SuppressedRanges = []\<rparr>,
      sc_isRangeOpen = False, sc_range = \<lparr>sr_StartLine = 0, sr_EndLine = 0\<rparr>,
      sc_Diagnostics = ds\<rparr>"

definition ParseSuppressionComments ::
    "position \<Rightarrow> comment list list \<Rightarrow> diagnostic list \<Rightarrow> suppression_info \<times> diagnostic list" where
  "ParseSuppressionComments offset matches ds =
     (let st = fold (scan_match offset) matches (initial_scan ds);
          l = sr_StartLine (sc_range st)
      in (sc_info st,
          if sc_isRangeOpen st
          then sc_Diagnostics st @
            [mk_diag (mk_range (mk_pos l 0) (mk_pos l 100))
               ''cci-ignore-start is missing a closing cci-ignore-end'' SeverityError ''circleci'']
          else sc_Diagnostics st))"

definition diagnosticOverlapsRange :: "suppression_range \<Rightarrow> diagnostic \<Rightarrow> bool" where
  "diagnosticOverlapsRange r d =
     (sr_StartLine r \<le> Line (Start (diag_Range d)) \<and> sr_EndLine r \<ge> Line (Start (diag_Range d)))"

definition isDiagnosticSuppressed :: "suppression_info option \<Rightarrow> diagnostic \<Rightarrow> bool" where
  "isDiagnosticSuppressed si d =
     (case si of
        None \<Rightarrow> False
      | Some i \<Rightarrow>
          if si_FileWideSuppression i then True
          else if gm_get_or False (si_SuppressedLines i) (Line (Start (diag_Range d))) then True
          else list_ex (\<lambda>r. diagnosticOverlapsRange r d) (si_SuppressedRanges i))"

definition FilterSuppressedDiagnostics ::
    "diagnostic list \<Rightarrow> suppression_info option \<Rightarrow> diagnostic list" where
  "FilterSuppressedDiagnostics ds si = filter (\<lambda>d. \<not> isDiagnosticSuppressed si d) ds"

subsection \<open>The kinds of comments\<close>

datatype ckind = KFile | KInline | KNextLine | KStart | KEnd | KNone

definition all_ws :: "string \<Rightarrow> bool" where
  "all_ws s \<longleftrightarrow> (\<forall>x\<in>set s. in_class re_space x)"

text \<open>
  What each expression matches: the whole comment for the anchored ones, a suffix for
  \<open>cci-ignore\<close>.
\<close>

definition is_ignore :: "string \<Rightarrow> string \<Rightarrow> bool" where
  "is_ignore w s \<longleftrightarrow> (\<exists>a b. all_ws a \<and> all_ws b \<and> s = ''#'' @ a @ w @ b)"

lemma rxm_ignore_comment:
  "rxm (ignore_comment w) n (s, caps) (t, caps') \<longleftrightarrow> is_ignore w s \<and> t = [] \<and> caps' = caps"
  by (auto simp: ignore_comment_def rxm_lit is_ignore_def all_ws_def)

lemma match_inline: "rx_match ignoreInlineRegex s \<longleftrightarrow> (\<exists>p t. s = p @ t \<and> is_ignore ''cci-ignore'' t)"
  by (auto simp: rx_match_iff ignoreInlineRegex_def rxm_ignore_comment)

lemma rxm_anchored:
  "rxm (rx_seq [RBegin, RStar re_space, ignore_comment w]) n (t, []) st \<longleftrightarrow>
    length t = n \<and> (\<exists>q u. t = q @ u \<and> all_ws q \<and> is_ignore w u) \<and> st = ([], [])"
proof -
  have "rxm (rx_seq [RBegin, RStar re_space, ignore_comment w]) n (t, []) st \<longleftrightarrow>
      length t = n \<and> (\<exists>q u. t = q @ u \<and> all_ws q \<and> rxm (ignore_comment w) n (u, []) st)"
    by (simp add: all_ws_def) (metis fst_conv snd_conv surj_pair)
  then show ?thesis
    by (cases st) (auto simp: rxm_ignore_comment)
qed

lemma match_anchored:
  "rx_match (rx_seq [RBegin, RStar re_space, ignore_comment w]) s \<longleftrightarrow>
    (\<exists>p t. s = p @ t \<and> all_ws p \<and> is_ignore w t)"
  unfolding rx_match_iff rxm_anchored by (metis append_Nil length_append add_cancel_right_left length_0_conv)

definition rstrip :: "string \<Rightarrow> string" where
  "rstrip s = rev (dropWhile (in_class re_space) (rev s))"

lemma rstrip_append_ws: "all_ws b \<Longrightarrow> rstrip (s @ b) = rstrip s"
  by (auto simp: rstrip_def all_ws_def dropWhile_append)

lemma rstrip_id: "s \<noteq> [] \<Longrightarrow> \<not> in_class re_space (last s) \<Longrightarrow> rstrip s = s"
  by (cases s rule: rev_cases) (auto simp: rstrip_def)

lemma is_ignore_suffix:
  assumes "is_ignore w t" and "w \<noteq> []" and "\<not> in_class re_space (last w)"
  shows "suffix w (rstrip (p @ t))"
proof -
  obtain a b where ab: "all_ws b" "t = ''#'' @ a @ w @ b"
    using assms(1) by (auto simp: is_ignore_def)
  have "rstrip (p @ t) = rstrip ((p @ ''#'' @ a @ w) @ b)" by (simp add: ab)
  also have "\<dots> = rstrip (p @ ''#'' @ a @ w)" by (rule rstrip_append_ws) (rule ab)
  also have "\<dots> = p @ ''#'' @ a @ w" using assms(2,3) by (intro rstrip_id) auto
  finally show ?thesis by (simp add: suffix_def)
qed

text \<open>The five words are no suffixes of each other, so a comment matches one expression at most.\<close>

definition ignore_word :: "ckind \<Rightarrow> string" where
  "ignore_word k = (case k of KFile \<Rightarrow> ''cci-ignore-file'' | KInline \<Rightarrow> ''cci-ignore''
     | KNextLine \<Rightarrow> ''cci-ignore-next-line'' | KStart \<Rightarrow> ''cci-ignore-start''
     | KEnd \<Rightarrow> ''cci-ignore-end'' | KNone \<Rightarrow> [])"

definition ignore_regex :: "ckind \<Rightarrow> regex" where
  "ignore_regex k = (case k of KFile \<Rightarrow> ignoreFileRegex | KInline \<Rightarrow> ignoreInlineRegex
     | KNextLine \<Rightarrow> ignoreNextLineRegex | KStart \<Rightarrow> ignoreRangeStartRegex
     | KEnd \<Rightarrow> ignoreRangeEndRegex | KNone \<Rightarrow> REps)"

lemma ignore_match_suffix:
  assumes "k \<noteq> KNone" and "rx_match (ignore_regex k) s"
  shows "suffix (ignore_word k) (rstrip s)"
proof -
  have "\<exists>p t. s = p @ t \<and> is_ignore (ignore_word k) t"
  proof (cases "k = KInline")
    case True
    then have "ignore_regex k = ignoreInlineRegex" "ignore_word k = ''cci-ignore''"
      by (simp_all add: ignore_regex_def ignore_word_def)
    with assms(2) match_inline [of s] show ?thesis by simp
  next
    case False
    with assms(1) have "ignore_regex k = rx_seq [RBegin, RStar re_space, ignore_comment (ignore_word k)]"
      by (cases k) (simp_all add: ignore_regex_def ignore_word_def ignoreFileRegex_def
          ignoreNextLineRegex_def ignoreRangeStartRegex_def ignoreRangeEndRegex_def)
    with assms(2) have "rx_match (rx_seq [RBegin, RStar re_space, ignore_comment (ignore_word k)]) s"
      by (simp only:)
    then show ?thesis unfolding match_anchored by blast
  qed
  then obtain p t where s: "s = p @ t" and t: "is_ignore (ignore_word k) t" by blast
  have "ignore_word k \<noteq> [] \<and> \<not> in_class re_space (last (ignore_word k))"
    using assms(1) by (cases k) (simp_all add: ignore_word_def re_space_def)
  with is_ignore_suffix [OF t] show ?thesis by (simp add: s)
qed

lemma ignore_words_apart:
  "k \<noteq> KNone \<Longrightarrow> k' \<noteq> KNone \<Longrightarrow> k \<noteq> k' \<Longrightarrow> \<not> suffix (ignore_word k) (ignore_word k')"
  by (cases k; cases k') (simp_all add: ignore_word_def suffix_to_prefix)

lemma ignore_match_unique:
  assumes "k \<noteq> KNone" "k' \<noteq> KNone" "rx_match (ignore_regex k) s" "rx_match (ignore_regex k') s"
  shows "k = k'"
proof (rule ccontr)
  assume "k \<noteq> k'"
  with assms have "suffix (ignore_word k) (rstrip s)" "suffix (ignore_word k') (rstrip s)"
    by (auto intro: ignore_match_suffix)
  then have "suffix (ignore_word k) (ignore_word k') \<or> suffix (ignore_word k') (ignore_word k)"
    by (auto simp: suffix_to_prefix dest: prefix_same_cases)
  with ignore_words_apart assms(1,2) \<open>k \<noteq> k'\<close> show False by blast
qed

definition comment_kind :: "comment \<Rightarrow> ckind" where
  "comment_kind c =
     (let hit = (\<lambda>k. rx_match (ignore_regex k) (cm_Text c))
      in if hit KFile then KFile else if hit KInline then KInline
         else if hit KNextLine then KNextLine else if hit KStart then KStart
         else if hit KEnd then KEnd else KNone)"

lemma comment_kind_iff:
  "k \<noteq> KNone \<Longrightarrow> rx_match (ignore_regex k) (cm_Text c) \<longleftrightarrow> comment_kind c = k"
  unfolding comment_kind_def Let_def
  using ignore_match_unique [of _ k "cm_Text c"] by (cases k) auto

lemma comment_kind_match:
  "rx_match ignoreFileRegex (cm_Text c) \<longleftrightarrow> comment_kind c = KFile"
  "rx_match ignoreInlineRegex (cm_Text c) \<longleftrightarrow> comment_kind c = KInline"
  "rx_match ignoreNextLineRegex (cm_Text c) \<longleftrightarrow> comment_kind c = KNextLine"
  "rx_match ignoreRangeStartRegex (cm_Text c) \<longleftrightarrow> comment_kind c = KStart"
  "rx_match ignoreRangeEndRegex (cm_Text c) \<longleftrightarrow> comment_kind c = KEnd"
  using comment_kind_iff [of KFile c] comment_kind_iff [of KInline c]
    comment_kind_iff [of KNextLine c] comment_kind_iff [of KStart c] comment_kind_iff [of KEnd c]
  by (simp_all add: ignore_regex_def)

subsection \<open>The automaton, one comment at a time\<close>

lemma scan_single:
  "scan_match offset [c] st =
    (let l = comment_line offset c in
     case comment_kind c of
       KFile \<Rightarrow> st\<lparr>sc_info := (sc_info st)\<lparr>si_FileWideSuppression := True\<rparr>\<rparr>
     | KInline \<Rightarrow> suppress_line l st
     | KNextLine \<Rightarrow> suppress_line (l + 1) st
     | KStart \<Rightarrow>
         (if sc_isRangeOpen st
          then st\<lparr>sc_Diagnostics := sc_Diagnostics st @
            [CreateErrorDiagnosticFromRange (cm_Range c) ''cci-ignore-start must have a closing cci-ignore-end before trying to open a new ignore-range'']\<rparr>
          else st\<lparr>sc_isRangeOpen := True, sc_range := (sc_range st)\<lparr>sr_StartLine := l\<rparr>\<rparr>)
     | KEnd \<Rightarrow>
         (if \<not> sc_isRangeOpen st
          then st\<lparr>sc_Diagnostics := sc_Diagnostics st @
            [CreateErrorDiagnosticFromRange (cm_Range c) ''cci-ignore-end must have an opening cci-ignore-start'']\<rparr>
          else st\<lparr>sc_isRangeOpen := False, sc_range := (sc_range st)\<lparr>sr_EndLine := l\<rparr>,
                  sc_info := (sc_info st)\<lparr>si_SuppressedRanges :=
                    si_SuppressedRanges (sc_info st) @ [(sc_range st)\<lparr>sr_EndLine := l\<rparr>]\<rparr>\<rparr>)
     | KNone \<Rightarrow> st)"
  by (cases "comment_kind c")
    (simp_all add: comment_kind_match Let_def suppress_line_def)

declare scan_match.simps(2) [simp del]

text \<open>The range markers, declaratively.\<close>

definition range_closed :: "comment list \<Rightarrow> bool" where
  "range_closed cs \<longleftrightarrow>
     (\<forall>us s vs. cs = us @ s # vs \<and> comment_kind s = KStart \<longrightarrow> (\<exists>e\<in>set vs. comment_kind e = KEnd))"

definition no_end :: "comment list \<Rightarrow> bool" where
  "no_end cs \<longleftrightarrow> (\<forall>e\<in>set cs. comment_kind e \<noteq> KEnd)"

text \<open>\<open>s\<close> opens a range that is still open after \<open>cs\<close>; \<open>s\<close> and \<open>e\<close> delimit a range of \<open>cs\<close>.\<close>

definition open_at :: "comment list \<Rightarrow> comment \<Rightarrow> bool" where
  "open_at cs s \<longleftrightarrow>
     (\<exists>xs ys. cs = xs @ s # ys \<and> comment_kind s = KStart \<and> range_closed xs \<and> no_end ys)"

definition ignore_pair :: "comment list \<Rightarrow> comment \<Rightarrow> comment \<Rightarrow> bool" where
  "ignore_pair cs s e \<longleftrightarrow>
     (\<exists>xs zs. cs = xs @ e # zs \<and> comment_kind e = KEnd \<and> open_at xs s)"

lemma snoc_eq_split: "cs @ [c] = us @ s # vs \<longleftrightarrow>
    us = cs \<and> s = c \<and> vs = [] \<or> (\<exists>ws. cs = us @ s # ws \<and> vs = ws @ [c])"
  by (cases vs rule: rev_cases) auto

lemma range_closed_snoc [simp]:
  "range_closed (cs @ [c]) \<longleftrightarrow> comment_kind c = KEnd \<or> comment_kind c \<noteq> KStart \<and> range_closed cs"
proof (cases "comment_kind c = KEnd")
  case True
  then have "range_closed (cs @ [c])" unfolding range_closed_def snoc_eq_split by auto
  with True show ?thesis by simp
next
  case nE: False
  show ?thesis
  proof (cases "comment_kind c = KStart")
    case True
    then have "cs @ [c] = cs @ c # [] \<and> comment_kind c = KStart \<and> \<not> (\<exists>e\<in>set []. comment_kind e = KEnd)"
      by simp
    then have "\<not> range_closed (cs @ [c])" unfolding range_closed_def by blast
    with True show ?thesis by simp
  next
    case nS: False
    have "range_closed (cs @ [c]) \<longleftrightarrow> range_closed cs"
    proof
      assume l: "range_closed (cs @ [c])"
      show "range_closed cs"
        unfolding range_closed_def
      proof (intro allI impI)
        fix us s vs assume "cs = us @ s # vs \<and> comment_kind s = KStart"
        then have "cs @ [c] = us @ s # (vs @ [c]) \<and> comment_kind s = KStart" by simp
        with l obtain e where "e \<in> set (vs @ [c])" "comment_kind e = KEnd"
          unfolding range_closed_def by blast
        with nE show "\<exists>e\<in>set vs. comment_kind e = KEnd" by auto
      qed
    next
      assume r: "range_closed cs"
      show "range_closed (cs @ [c])"
        unfolding range_closed_def snoc_eq_split
      proof (intro allI impI)
        fix us s vs
        assume "(us = cs \<and> s = c \<and> vs = [] \<or> (\<exists>ws. cs = us @ s # ws \<and> vs = ws @ [c])) \<and>
          comment_kind s = KStart"
        with nS obtain ws where "cs = us @ s # ws" "vs = ws @ [c]" "comment_kind s = KStart" by blast
        with r show "\<exists>e\<in>set vs. comment_kind e = KEnd" unfolding range_closed_def by auto
      qed
    qed
    with nE nS show ?thesis by simp
  qed
qed

lemma no_end_snoc [simp]: "no_end (cs @ [c]) \<longleftrightarrow> no_end cs \<and> comment_kind c \<noteq> KEnd"
  by (auto simp: no_end_def)

lemma open_at_snoc [simp]:
  "open_at (cs @ [c]) s \<longleftrightarrow>
    comment_kind c = KStart \<and> s = c \<and> range_closed cs \<or> comment_kind c \<noteq> KEnd \<and> open_at cs s"
  (is "?l \<longleftrightarrow> ?a \<or> ?b")
proof
  assume ?l
  then obtain xs ys where o: "cs @ [c] = xs @ s # ys" "comment_kind s = KStart" "range_closed xs"
    "no_end ys" by (auto simp: open_at_def)
  from o(1) consider "xs = cs" "s = c" "ys = []" | ws where "cs = xs @ s # ws" "ys = ws @ [c]"
    unfolding snoc_eq_split by blast
  then show "?a \<or> ?b"
    by cases (use o in \<open>auto simp: open_at_def\<close>)
next
  assume "?a \<or> ?b"
  then show ?l
  proof
    assume ?a
    then have "cs @ [c] = cs @ s # []" "comment_kind s = KStart" "range_closed cs" "no_end []"
      by (simp_all add: no_end_def)
    then show ?l unfolding open_at_def by blast
  next
    assume ?b
    then obtain xs ys where "cs = xs @ s # ys" "comment_kind s = KStart" "range_closed xs"
      "no_end ys" "comment_kind c \<noteq> KEnd" by (auto simp: open_at_def)
    then have "cs @ [c] = xs @ s # (ys @ [c])" "comment_kind s = KStart" "range_closed xs"
      "no_end (ys @ [c])" by simp_all
    then show ?l unfolding open_at_def by blast
  qed
qed

lemma ignore_pair_snoc [simp]:
  "ignore_pair (cs @ [c]) s e \<longleftrightarrow>
    comment_kind c = KEnd \<and> e = c \<and> open_at cs s \<or> ignore_pair cs s e"
  unfolding ignore_pair_def snoc_eq_split by auto

lemma range_Nil [simp]: "range_closed []" "\<not> open_at [] s" "\<not> ignore_pair [] s e"
  by (simp_all add: range_closed_def open_at_def ignore_pair_def)

definition range_marks :: "comment list \<Rightarrow> ckind list" where
  "range_marks cs = filter (\<lambda>k. k = KStart \<or> k = KEnd) (map comment_kind cs)"

definition scan_comments :: "position \<Rightarrow> comment list \<Rightarrow> diagnostic list \<Rightarrow> scan_state" where
  "scan_comments offset cs ds = fold (\<lambda>c. scan_match offset [c]) cs (initial_scan ds)"

lemma scan_snoc:
  "scan_comments offset (cs @ [c]) ds = scan_match offset [c] (scan_comments offset cs ds)"
  by (simp add: scan_comments_def)

subsection \<open>What a scan collects\<close>

lemma scan_Nil: "scan_comments offset [] ds = initial_scan ds"
  by (simp add: scan_comments_def)

lemma scan_file:
  "si_FileWideSuppression (sc_info (scan_comments offset cs ds)) \<longleftrightarrow>
    (\<exists>c\<in>set cs. comment_kind c = KFile)"
  by (induction cs rule: rev_induct)
    (simp_all add: scan_snoc scan_single suppress_line_def Let_def scan_Nil initial_scan_def
      split: ckind.split)

lemma scan_lines:
  "gm_get_or False (si_SuppressedLines (sc_info (scan_comments offset cs ds))) l \<longleftrightarrow>
    (\<exists>c\<in>set cs. comment_kind c = KInline \<and> comment_line offset c = l \<or>
                comment_kind c = KNextLine \<and> comment_line offset c + 1 = l)"
proof (induction cs rule: rev_induct)
  case Nil
  show ?case by (simp add: scan_Nil initial_scan_def gm_get_or_def)
next
  case (snoc c cs)
  then show ?case
    by (cases "comment_kind c") (auto simp: scan_snoc scan_single suppress_line_def Let_def)
qed

lemma scan_open:
  "sc_isRangeOpen (scan_comments offset cs ds) \<longleftrightarrow> \<not> range_closed cs"
  by (induction cs rule: rev_induct)
    (auto simp: scan_snoc scan_single suppress_line_def Let_def scan_Nil initial_scan_def
      split: ckind.split)

lemma open_at_not_closed: "open_at cs s \<Longrightarrow> \<not> range_closed cs"
  unfolding open_at_def range_closed_def no_end_def by blast

lemma open_at_unique: "open_at cs s \<Longrightarrow> open_at cs s' \<Longrightarrow> s' = s"
  by (induction cs rule: rev_induct) (auto dest: open_at_not_closed)

lemma not_closed_open_at: "\<not> range_closed cs \<Longrightarrow> \<exists>s. open_at cs s"
proof (induction cs rule: rev_induct)
  case (snoc c cs)
  show ?case
  proof (cases "comment_kind c = KStart \<and> range_closed cs")
    case True
    then have "open_at (cs @ [c]) c" by simp
    then show ?thesis by blast
  next
    case False
    with snoc obtain s where "open_at cs s" "comment_kind c \<noteq> KEnd" by auto
    then have "open_at (cs @ [c]) s" by simp
    then show ?thesis by blast
  qed
qed simp

lemma scan_start:
  "open_at cs s \<Longrightarrow> sr_StartLine (sc_range (scan_comments offset cs ds)) = comment_line offset s"
proof (induction cs rule: rev_induct)
  case (snoc c cs)
  show ?case
  proof (cases "open_at cs s")
    case True
    with snoc have "sc_isRangeOpen (scan_comments offset cs ds)"
      by (simp add: scan_open open_at_not_closed)
    with True snoc show ?thesis
      by (cases "comment_kind c") (auto simp: scan_snoc scan_single suppress_line_def Let_def)
  next
    case False
    with snoc.prems have "comment_kind c = KStart" "s = c" "range_closed cs" by auto
    then show ?thesis by (simp add: scan_snoc scan_single Let_def scan_open)
  qed
qed simp

lemma scan_ranges:
  "r \<in> set (si_SuppressedRanges (sc_info (scan_comments offset cs ds))) \<longleftrightarrow>
    (\<exists>s e. ignore_pair cs s e \<and> sr_StartLine r = comment_line offset s \<and>
           sr_EndLine r = comment_line offset e)"
proof (induction cs rule: rev_induct)
  case Nil
  show ?case by (simp add: scan_Nil initial_scan_def)
next
  case (snoc c cs)
  let ?st = "scan_comments offset cs ds"
  show ?case
  proof (cases "comment_kind c = KEnd \<and> sc_isRangeOpen ?st")
    case True
    then have "\<not> range_closed cs" by (simp add: scan_open)
    then obtain s where s: "open_at cs s" by (auto dest: not_closed_open_at)
    have r: "r = (sc_range ?st)\<lparr>sr_EndLine := comment_line offset c\<rparr> \<longleftrightarrow>
        sr_StartLine r = comment_line offset s \<and> sr_EndLine r = comment_line offset c"
      using scan_start [OF s, of offset ds] by (cases r; cases "sc_range ?st") simp
    have pair: "ignore_pair (cs @ [c]) s' e \<longleftrightarrow> s' = s \<and> e = c \<or> ignore_pair cs s' e" for s' e
      unfolding ignore_pair_snoc using True s open_at_unique [OF s, of s'] by blast
    have new: "set (si_SuppressedRanges (sc_info (scan_comments offset (cs @ [c]) ds))) =
        insert ((sc_range ?st)\<lparr>sr_EndLine := comment_line offset c\<rparr>)
          (set (si_SuppressedRanges (sc_info ?st)))"
      using True by (simp add: scan_snoc scan_single Let_def)
    show ?thesis unfolding new insert_iff snoc.IH r pair by blast
  next
    case False
    have no_pair: "\<not> (comment_kind c = KEnd \<and> open_at cs s)" for s
      using False open_at_not_closed [of cs s] unfolding scan_open by blast
    have "ignore_pair (cs @ [c]) s e \<longleftrightarrow> ignore_pair cs s e" for s e
      unfolding ignore_pair_snoc using no_pair [of s] by blast
    moreover have "si_SuppressedRanges (sc_info (scan_comments offset (cs @ [c]) ds)) =
        si_SuppressedRanges (sc_info ?st)"
      using False by (cases "comment_kind c") (simp_all add: scan_snoc scan_single suppress_line_def Let_def)
    ultimately show ?thesis using snoc.IH by simp
  qed
qed

text \<open>The scan reports nothing exactly on alternating start and end marks.\<close>

definition alternating :: "ckind list \<Rightarrow> bool" where
  "alternating ks \<longleftrightarrow> (\<exists>n. ks = concat (replicate n [KStart, KEnd]))"

definition alternating_open :: "ckind list \<Rightarrow> bool" where
  "alternating_open ks \<longleftrightarrow> (\<exists>n. ks = concat (replicate n [KStart, KEnd]) @ [KStart])"

lemma replicate_snoc_pair: "concat (replicate (Suc n) xs) = concat (replicate n xs) @ xs"
  by (induction n) simp_all

lemma alternating_Nil [simp]: "alternating []" "\<not> alternating_open []"
  by (auto simp: alternating_def alternating_open_def intro: exI [of _ 0])

lemma alternating_snoc [simp]:
  "alternating (ks @ [k]) \<longleftrightarrow> k = KEnd \<and> alternating_open ks"
proof
  assume "alternating (ks @ [k])"
  then obtain n where n: "ks @ [k] = concat (replicate n [KStart, KEnd])" by (auto simp: alternating_def)
  then obtain m where "n = Suc m" by (cases n) auto
  with n have "ks @ [k] = (concat (replicate m [KStart, KEnd]) @ [KStart]) @ [KEnd]"
    by (simp only: replicate_snoc_pair) simp
  then show "k = KEnd \<and> alternating_open ks" by (auto simp: alternating_open_def)
next
  assume "k = KEnd \<and> alternating_open ks"
  then obtain n where "ks @ [k] = concat (replicate (Suc n) [KStart, KEnd])"
    by (auto simp: alternating_open_def replicate_snoc_pair simp del: replicate_Suc)
  then show "alternating (ks @ [k])" unfolding alternating_def by blast
qed

lemma alternating_open_snoc [simp]:
  "alternating_open (ks @ [k]) \<longleftrightarrow> k = KStart \<and> alternating ks"
  by (auto simp: alternating_open_def alternating_def)

lemma alternating_closed:
  "(alternating (range_marks cs) \<longrightarrow> range_closed cs) \<and>
   (alternating_open (range_marks cs) \<longrightarrow> \<not> range_closed cs)"
proof (induction cs rule: rev_induct)
  case (snoc c cs)
  then show ?case
    by (cases "comment_kind c") (simp_all add: range_marks_def)
qed (simp add: range_marks_def)

lemma scan_reports:
  "\<exists>es. sc_Diagnostics (scan_comments offset cs ds) = ds @ es \<and>
    (es = [] \<longleftrightarrow> (if range_closed cs then alternating (range_marks cs)
                 else alternating_open (range_marks cs)))"
proof (induction cs rule: rev_induct)
  case Nil
  show ?case by (simp add: scan_Nil initial_scan_def range_marks_def)
next
  case (snoc c cs)
  then obtain es where es: "sc_Diagnostics (scan_comments offset cs ds) = ds @ es"
    "es = [] \<longleftrightarrow> (if range_closed cs then alternating (range_marks cs)
                 else alternating_open (range_marks cs))" by blast
  note closed = alternating_closed [of cs]
  show ?case
  proof (cases "comment_kind c = KStart \<or> comment_kind c = KEnd")
    case True
    then have m: "range_marks (cs @ [c]) = range_marks cs @ [comment_kind c]"
      by (auto simp: range_marks_def)
    from True show ?thesis
      unfolding m using es closed
      by (cases "range_closed cs") (auto simp: scan_snoc scan_single Let_def scan_open)
  next
    case False
    then have m: "range_marks (cs @ [c]) = range_marks cs" by (auto simp: range_marks_def)
    from False show ?thesis
      unfolding m using es
      by (cases "comment_kind c") (auto simp: scan_snoc scan_single Let_def suppress_line_def)
  qed
qed

lemma ParseSuppressionComments_scan:
  "fst (ParseSuppressionComments offset (map (\<lambda>c. [c]) cs) ds) = sc_info (scan_comments offset cs ds)"
  "snd (ParseSuppressionComments offset (map (\<lambda>c. [c]) cs) ds) = ds \<longleftrightarrow>
    \<not> sc_isRangeOpen (scan_comments offset cs ds) \<and> sc_Diagnostics (scan_comments offset cs ds) = ds"
  using scan_reports [of offset cs ds]
  by (auto simp: ParseSuppressionComments_def Let_def scan_comments_def fold_map comp_def)

subsection \<open>Properties\<close>


text \<open>
  C29: the scan reports no error exactly when the start and end comments alternate, beginning
  with a start and ending with an end.
\<close>

theorem ParseSuppressionComments_reports:
  "snd (ParseSuppressionComments offset (map (\<lambda>c. [c]) cs) ds) = ds \<longleftrightarrow> alternating (range_marks cs)"
proof -
  obtain es where es: "sc_Diagnostics (scan_comments offset cs ds) = ds @ es"
    "es = [] \<longleftrightarrow> (if range_closed cs then alternating (range_marks cs)
                 else alternating_open (range_marks cs))" using scan_reports by blast
  with alternating_closed [of cs] show ?thesis
    unfolding ParseSuppressionComments_scan(2) scan_open by auto
qed

text \<open>
  Filtering keeps the order and exactly the diagnostics that are not suppressed; without
  comments in the document it keeps all of them, and filtering twice changes nothing.
\<close>

lemma FilterSuppressedDiagnostics_spec:
  "subseq (FilterSuppressedDiagnostics ds si) ds \<and>
   (\<forall>d. d \<in> set (FilterSuppressedDiagnostics ds si) \<longleftrightarrow>
        d \<in> set ds \<and> \<not> isDiagnosticSuppressed si d) \<and>
   FilterSuppressedDiagnostics ds (Some (fst (ParseSuppressionComments offset [] es))) = ds \<and>
   FilterSuppressedDiagnostics (FilterSuppressedDiagnostics ds si) si =
     FilterSuppressedDiagnostics ds si"
  by (auto simp: FilterSuppressedDiagnostics_def isDiagnosticSuppressed_def
      ParseSuppressionComments_def initial_scan_def gm_get_or_def Let_def)

end
