(* ===== verification/GoTime.thy ===== *)
theory GoTime
  imports GoStrings
begin

text \<open>
  \<open>time.ParseDuration\<close> of the Go standard library, in nanoseconds. The unsigned 64 bit sums are
  natural numbers with the library's overflow tests written out. The fraction of a unit goes
  through two roundings to \<open>float64\<close>, which are modelled on quotients of natural numbers.
\<close>

subsection \<open>Rounding to float64\<close>

fun bits :: "nat \<Rightarrow> nat" where
  "bits n = (if n = 0 then 0 else Suc (bits (n div 2)))"

declare bits.simps [simp del]

definition round_even :: "nat \<Rightarrow> nat \<Rightarrow> nat" where
  "round_even p q =
     (let d = p div q; r = p mod q
      in if 2 * r < q then d else if 2 * r > q then d + 1 else if even d then d else d + 1)"

text \<open>
  The \<open>float64\<close> nearest to \<open>p / q\<close>, as a quotient: the significand has 53 bits. The values of this
  program are far from the least and the greatest exponent.
\<close>

definition scaled :: "nat \<Rightarrow> nat \<Rightarrow> int \<Rightarrow> nat \<times> nat" where
  "scaled p q s = (if 0 \<le> s then (p * 2 ^ nat s, q) else (p, q * 2 ^ nat (- s)))"

definition round64 :: "nat \<times> nat \<Rightarrow> nat \<times> nat" where
  "round64 x =
     (let (p, q) = x
      in if p = 0 then (0, 1)
         else
           let s = 53 - (int (bits p) - int (bits q));
               (p', q') = scaled p q s;
               s = (if 2 ^ 53 * q' \<le> p' then s - 1 else s);
               (p', q') = scaled p q s
           in scaled (round_even p' q') 1 (- s))"

text \<open>\<open>uint64(float64(f) * (float64(unit) / scale))\<close>.\<close>

definition fraction_nanos :: "nat \<Rightarrow> nat \<Rightarrow> nat \<Rightarrow> nat" where
  "fraction_nanos f unit scale =
     (let (fp, fq) = round64 (f, 1);
          (up, uq) = round64 (unit, scale);
          (p, q) = round64 (fp * up, fq * uq)
      in p div q)"

subsection \<open>ParseDuration\<close>

text \<open>\<open>leadingInt\<close>: the digits at the head, \<open>None\<close> on overflow.\<close>

fun leadingInt :: "nat \<Rightarrow> string \<Rightarrow> (nat \<times> string) option" where
  "leadingInt x [] = Some (x, [])"
| "leadingInt x (c # cs) =
     (if \<not> is_digit c then Some (x, c # cs)
      else if 2 ^ 63 div 10 < x then None
      else let x = x * 10 + digit_val c
           in if 2 ^ 63 < x then None else leadingInt x cs)"

fun leadingFraction :: "nat \<Rightarrow> nat \<Rightarrow> bool \<Rightarrow> string \<Rightarrow> nat \<times> nat \<times> string" where
  "leadingFraction x scale overflow [] = (x, scale, [])"
| "leadingFraction x scale overflow (c # cs) =
     (if \<not> is_digit c then (x, scale, c # cs)
      else if overflow \<or> (2 ^ 63 - 1) div 10 < x \<or> 2 ^ 63 < x * 10 + digit_val c
      then leadingFraction x scale True cs
      else leadingFraction (x * 10 + digit_val c) (scale * 10) False cs)"

definition unit_nanos :: "string \<Rightarrow> nat option" where
  "unit_nanos u = map_of
     [(''ns'', 1), (''us'', 1000),
      ([CHR 0xC2, CHR 0xB5, CHR ''s''], 1000), ([CHR 0xCE, CHR 0xBC, CHR ''s''], 1000),
      (''ms'', 1000000), (''s'', 1000000000), (''m'', 60000000000), (''h'', 3600000000000)] u"

definition unit_char :: "char \<Rightarrow> bool" where
  "unit_char c \<longleftrightarrow> c \<noteq> CHR ''.'' \<and> \<not> is_digit c"

text \<open>One number with its unit: the nanoseconds and the rest of the text.\<close>

definition duration_part :: "string \<Rightarrow> (nat \<times> string) option" where
  "duration_part s =
     (case s of
        [] \<Rightarrow> None
      | c # _ \<Rightarrow>
        if unit_char c then None
        else (case leadingInt 0 s of
          None \<Rightarrow> None
        | Some (v, s1) \<Rightarrow>
          (let (f, scale, s2, post) =
             (case s1 of
                [] \<Rightarrow> (0, 1, s1, False)
              | d # s1' \<Rightarrow>
                  if d = CHR ''.''
                  then let (f, scale, s2) = leadingFraction 0 1 False s1'
                       in (f, scale, s2, length s2 \<noteq> length s1')
                  else (0, 1, s1, False));
               u = takeWhile unit_char s2
           in if length s1 = length s \<and> \<not> post then None
              else if u = [] then None
              else (case unit_nanos u of
                      None \<Rightarrow> None
                    | Some unit \<Rightarrow>
                        if 2 ^ 63 div unit < v then None
                        else let v = v * unit;
                                 v = (if 0 < f then v + fraction_nanos f unit scale else v)
                             in if 2 ^ 63 < v then None else Some (v, drop (length u) s2)))))"

text \<open>The loop ends because each part consumes text; the fuel is the length of the text.\<close>

fun duration_parts :: "nat \<Rightarrow> nat \<Rightarrow> string \<Rightarrow> nat option" where
  "duration_parts fuel d [] = Some d"
| "duration_parts 0 d (c # cs) = None"
| "duration_parts (Suc fuel) d (c # cs) =
     (case duration_part (c # cs) of
        None \<Rightarrow> None
      | Some (v, s) \<Rightarrow> if 2 ^ 63 < d + v then None else duration_parts fuel (d + v) s)"

definition ParseDuration :: "string \<Rightarrow> int option" where
  "ParseDuration s =
     (let (neg, s) = (case s of
                        c # cs \<Rightarrow> if c = CHR ''-'' \<or> c = CHR ''+'' then (c = CHR ''-'', cs) else (False, s)
                      | [] \<Rightarrow> (False, s))
      in if s = ''0'' then Some 0
         else if s = [] then None
         else (case duration_parts (length s) 0 s of
                 None \<Rightarrow> None
               | Some d \<Rightarrow> if neg then Some (- int d)
                           else if 2 ^ 63 - 1 < d then None else Some (int d)))"

text \<open>A part is shorter than the text before it, so the fuel is never short.\<close>

lemma duration_part_shorter:
  assumes "duration_part s = Some (v, t)"
  shows "length t < length s"
proof -
  have int: "length t \<le> length s" if "leadingInt x s = Some (v, t)" for x v s t
    using that by (induction x s rule: leadingInt.induct)
      (auto simp: Let_def split: if_splits)
  have frac: "length (snd (snd (leadingFraction x sc ov s))) \<le> length s" for x sc ov s
    by (induction x sc ov s rule: leadingFraction.induct) (auto simp: le_SucI)
  have frac': "length t \<le> length s" if "leadingFraction x sc ov s = (f, sc', t)" for x sc ov s f sc' t
    using frac [of x sc ov s] that by simp
  from assms show ?thesis
    by (auto simp: duration_part_def Let_def split: list.splits if_splits option.splits prod.splits
        dest!: int frac')
qed

subsection \<open>Whole numbers of a unit\<close>

lemma digits_foldl_ge: "x \<le> foldl (\<lambda>n c. 10 * n + digit_val c) x ds"
proof (induction ds arbitrary: x)
  case (Cons d ds)
  show ?case using Cons [of "10 * x + digit_val d"] by simp
qed simp

lemma leadingInt_digits:
  assumes "list_all is_digit ds" and "\<not> is_digit c"
    and "foldl (\<lambda>n c. 10 * n + digit_val c) x ds \<le> 2 ^ 63"
  shows "leadingInt x (ds @ c # t) = Some (foldl (\<lambda>n c. 10 * n + digit_val c) x ds, c # t)"
  using assms
proof (induction ds arbitrary: x)
  case (Cons d ds)
  have "10 * x + digit_val d \<le> 2 ^ 63"
    using digits_foldl_ge [of "10 * x + digit_val d" ds] Cons.prems(3) by simp
  then show ?case using Cons by (simp add: Let_def mult.commute)
qed simp

lemma ParseDuration_units:
  assumes "unit_nanos [u] = Some k" and "unit_char u" and "0 < k" and "n * k \<le> 2 ^ 63 - 1"
  shows "ParseDuration (dec_string n @ [u]) = Some (int (n * k))"
proof -
  obtain c cs where s: "dec_string n = c # cs" and c: "is_digit c"
    using dec_string_digits [of n] by (cases "dec_string n") auto
  have n: "n \<le> 2 ^ 63" using assms(3,4) by (metis diff_le_self le_trans nat_mult_1_right mult_le_mono2 Suc_leI One_nat_def)
  have int: "leadingInt 0 (dec_string n @ [u]) = Some (n, [u])"
    using leadingInt_digits [of "dec_string n" u 0 "[]"] dec_string_digits [of n] assms(2) n
    by (simp add: unit_char_def digits_val_dec_string flip: digits_val_def)
  have "n \<le> 2 ^ 63 div k"
    using assms(3,4) by (simp add: less_eq_div_iff_mult_less_eq)
  then have part: "duration_part (dec_string n @ [u]) = Some (n * k, [])"
    using int c assms by (simp add: duration_part_def s unit_char_def Let_def)
  moreover have "c \<noteq> CHR ''-''" "c \<noteq> CHR ''+''" using c by (auto simp: is_digit_def)
  moreover have "dec_string n @ [u] \<noteq> ''0''"
    using s by (cases cs) auto
  ultimately show ?thesis
    using assms(4) by (simp add: ParseDuration_def s Let_def)
qed

end
