(* ===== verification/GoFloat.thy ===== *)
theory GoFloat
  imports GoTime
begin

text \<open>
  \<open>strconv.ParseFloat(s, 32)\<close> of the Go standard library. The library rounds correctly, so the
  model reads the exact quotient and rounds it once, to the nearest \<open>float32\<close>, ties to even.
\<close>

text \<open>A finite number is a quotient.\<close>

datatype float32 = Finite int nat | Inf bool | NaN

text \<open>\<open>x >= y\<close> for a finite \<open>y\<close>; not a number compares with nothing.\<close>

fun float_ge :: "float32 \<Rightarrow> int \<times> nat \<Rightarrow> bool" where
  "float_ge (Finite p q) (p', q') \<longleftrightarrow> p' * int q \<le> p * int q'"
| "float_ge (Inf neg) y \<longleftrightarrow> \<not> neg"
| "float_ge NaN y \<longleftrightarrow> False"

text \<open>
  The \<open>float32\<close> nearest to \<open>p / q\<close>: 24 bits of significand, no bit below \<open>2 ^ - 149\<close>; \<open>None\<close> when
  that is \<open>2 ^ 128\<close> or more.
\<close>

definition round32 :: "nat \<Rightarrow> nat \<Rightarrow> (nat \<times> nat) option" where
  "round32 p q =
     (if p = 0 then Some (0, 1)
      else
        let s = 24 - (int (bits p) - int (bits q));
            (p', q') = scaled p q s;
            s = min 149 (if 2 ^ 24 * q' \<le> p' then s - 1 else s);
            (p', q') = scaled p q s;
            (r, d) = scaled (round_even p' q') 1 (- s)
        in if 2 ^ 128 * d \<le> r then None else Some (r, d))"

definition lower_char :: "char \<Rightarrow> char" where
  "lower_char c = (if 65 \<le> (of_char c :: nat) \<and> (of_char c :: nat) \<le> 90 then char_of (of_char c + 32 :: nat) else c)"

definition digit_in :: "nat \<Rightarrow> char \<Rightarrow> nat option" where
  "digit_in base c =
     (if is_digit c then Some (digit_val c)
      else if base = 16 \<and> 97 \<le> (of_char (lower_char c) :: nat) \<and> (of_char (lower_char c) :: nat) \<le> 102
      then Some (of_char (lower_char c) - 87)
      else None)"

text \<open>The digits around one point: their value, how many stand behind the point, how many there are.\<close>

fun read_mantissa :: "nat \<Rightarrow> bool \<Rightarrow> nat \<Rightarrow> nat \<Rightarrow> nat \<Rightarrow> string \<Rightarrow> nat \<times> nat \<times> nat \<times> string" where
  "read_mantissa base sawdot m frac nd [] = (m, frac, nd, [])"
| "read_mantissa base sawdot m frac nd (c # cs) =
     (if c = CHR ''_'' then read_mantissa base sawdot m frac nd cs
      else if c = CHR ''.''
      then if sawdot then (m, frac, nd, c # cs) else read_mantissa base True m frac nd cs
      else (case digit_in base c of
              None \<Rightarrow> (m, frac, nd, c # cs)
            | Some d \<Rightarrow>
                read_mantissa base sawdot (m * base + d) (if sawdot then frac + 1 else frac) (nd + 1) cs))"

text \<open>The digits of the exponent stop counting at five digits, as in the library.\<close>

fun read_exponent :: "nat \<Rightarrow> string \<Rightarrow> nat \<times> string" where
  "read_exponent e [] = (e, [])"
| "read_exponent e (c # cs) =
     (if c = CHR ''_'' then read_exponent e cs
      else if is_digit c then read_exponent (if e < 10000 then e * 10 + digit_val c else e) cs
      else (e, c # cs))"

text \<open>An underscore stands between digits, the base prefix counting as one.\<close>

fun underscores_ok :: "bool \<Rightarrow> char \<Rightarrow> string \<Rightarrow> bool" where
  "underscores_ok hex saw [] \<longleftrightarrow> saw \<noteq> CHR ''_''"
| "underscores_ok hex saw (c # cs) \<longleftrightarrow>
     (if digit_in (if hex then 16 else 10) c \<noteq> None then underscores_ok hex CHR ''0'' cs
      else if c = CHR ''_'' then saw = CHR ''0'' \<and> underscores_ok hex CHR ''_'' cs
      else saw \<noteq> CHR ''_'' \<and> underscores_ok hex CHR ''!'' cs)"

definition take_sign :: "string \<Rightarrow> bool \<times> string" where
  "take_sign s =
     (case s of
        c # cs \<Rightarrow> if c = CHR ''+'' then (False, cs) else if c = CHR ''-'' then (True, cs) else (False, s)
      | [] \<Rightarrow> (False, []))"

definition underscoreOK :: "string \<Rightarrow> bool" where
  "underscoreOK s =
     (case snd (take_sign s) of
        a # b # cs \<Rightarrow>
          if a = CHR ''0'' \<and> lower_char b \<in> {CHR ''b'', CHR ''o'', CHR ''x''}
          then underscores_ok (lower_char b = CHR ''x'') CHR ''0'' cs
          else underscores_ok False CHR ''^'' (a # b # cs)
      | cs \<Rightarrow> underscores_ok False CHR ''^'' cs)"

text \<open>The sign and the exact quotient of a number; \<open>None\<close> for a text that is none.\<close>

definition read_float :: "string \<Rightarrow> (bool \<times> nat \<times> nat) option" where
  "read_float s =
     (let (neg, body) = take_sign s;
          hex = (case body of a # b # _ # _ \<Rightarrow> a = CHR ''0'' \<and> lower_char b = CHR ''x'' | _ \<Rightarrow> False);
          base = (if hex then 16 else 10);
          (m, frac, nd, rest) = read_mantissa base False 0 0 0 (if hex then drop 2 body else body);
          expo = (case rest of
                    [] \<Rightarrow> if hex then None else Some 0
                  | c # cs \<Rightarrow>
                      if lower_char c \<noteq> (if hex then CHR ''p'' else CHR ''e'') then None
                      else
                        let (eneg, ds) = take_sign cs;
                            (e, rest) = read_exponent 0 ds
                        in if ds = [] \<or> \<not> is_digit (hd ds) \<or> rest \<noteq> [] then None
                           else Some (if eneg then - int e else int e))
      in if nd = 0 \<or> CHR ''_'' \<in> set s \<and> \<not> underscoreOK s then None
         else map_option (\<lambda>e.
                let e = (if hex then e - 4 * int frac else e - int frac);
                    b = (if hex then 2 else 10)
                in (neg, if 0 \<le> e then (m * b ^ nat e, 1) else (m, b ^ nat (- e)))) expo)"

text \<open>\<open>None\<close> is an error: no number, or one out of range.\<close>

definition ParseFloat32 :: "string \<Rightarrow> float32 option" where
  "ParseFloat32 s =
     (let (neg, body) = take_sign (map lower_char s)
      in if body = ''inf'' \<or> body = ''infinity'' then Some (Inf neg)
         else if map lower_char s = ''nan'' then Some NaN
         else (case read_float s of
                 None \<Rightarrow> None
               | Some (neg, p, q) \<Rightarrow>
                   map_option (\<lambda>(r, d). Finite (if neg then - int r else int r) d) (round32 p q)))"

end
