(* ===== verification/Document.thy ===== *)
theory Document
  imports Nodes Caches Suppression GoFloat
begin

text \<open>
  The parsed configuration: the document of \<open>pkg/parser/yamlparser.go\<close> and its queries, its
  anchors (\<open>anchors.go\<close>), the contexts of its jobs (\<open>context.go\<close>), the references to orbs and
  the text of orb and image references (\<open>orbs.go\<close>, \<open>local_orb.go\<close>, \<open>dockerImageParser.go\<close>).
\<close>

record yaml_anchor =
  an_Name :: string
  an_DefinitionRange :: range
  an_References :: "range list"
  an_ValueNode :: "node option"

text \<open>
  The syntax tree, which the Go document reaches
  through its root node, is a field of its own.
\<close>

record yaml_document =
  yd_Content :: string
  yd_Tree :: sitter
  yd_RootNode :: node
  yd_Version :: float32
  yd_Description :: string
  yd_URI :: string
  yd_Diagnostics :: "diagnostic list"
  yd_Context :: ls_context
  yd_SchemaLocation :: string
  yd_Setup :: bool
  yd_Orbs :: "(string, orb) gomap"
  yd_LocalOrbs :: "string list"
  yd_Executors :: "(string, executor) gomap"
  yd_Commands :: "(string, command) gomap"
  yd_Jobs :: "(string, job) gomap"
  yd_JobGroups :: "(string, job_group) gomap"
  yd_Workflows :: "(string, workflow) gomap"
  yd_PipelineParameters :: params
  yd_YamlAnchors :: "(string, yaml_anchor) gomap"
  yd_SetupRange :: range
  yd_OrbsRange :: range
  yd_ExecutorsRange :: range
  yd_CommandsRange :: range
  yd_JobsRange :: range
  yd_JobGroupsRange :: range
  yd_WorkflowRange :: range
  yd_PipelineParametersRange :: range
  yd_VersionRange :: range
  yd_LocalOrbInfo :: "(string, orb_info) gomap"
  yd_LocalOrbName :: string
  yd_Offset :: position
  yd_SuppressionInfo :: "suppression_info option"

subsection \<open>utils.go: nodes of a document\<close>

definition NodeToRange :: "yaml_document \<Rightarrow> node option \<Rightarrow> range" where
  "NodeToRange doc n = node_to_range (yd_Tree doc) (yd_Offset doc) n"

definition GetRawNodeText :: "yaml_document \<Rightarrow> node option \<Rightarrow> string" where
  "GetRawNodeText doc n = node_raw_text (yd_Tree doc) (yd_Content doc) n"

definition GetNodeText :: "yaml_document \<Rightarrow> node option \<Rightarrow> string" where
  "GetNodeText doc n = node_text (yd_Tree doc) (yd_Content doc) n"

definition GetNodeTextWithRange :: "yaml_document \<Rightarrow> node option \<Rightarrow> text_and_range" where
  "GetNodeTextWithRange doc n =
     (case n of None \<Rightarrow> \<lparr>tr_Text = [], tr_Range = zero_range\<rparr>
      | Some _ \<Rightarrow> \<lparr>tr_Text = GetNodeText doc n, tr_Range = NodeToRange doc n\<rparr>)"

text \<open>The key and the value of a pair; an alias stands for the anchor's node.\<close>

definition GetKeyValueNodes :: "yaml_document \<Rightarrow> node option \<Rightarrow> node option \<times> node option" where
  "GetKeyValueNodes doc n =
     (let t = yd_Tree doc in
      case n of
        None \<Rightarrow> (None, None)
      | Some n \<Rightarrow>
          if st_Type t n = ''block_mapping_pair'' \<or> st_Type t n = ''flow_pair''
          then
            let keyNode = st_ChildByFieldName t n ''key'';
                valueNode = st_ChildByFieldName t n ''value''
            in case GetChildOfType t valueNode ''alias'' of
                 None \<Rightarrow> (keyNode, valueNode)
               | Some aliasNode \<Rightarrow>
                   let valueName = GetNodeText doc (GetChildOfType t (Some aliasNode) ''alias_name'')
                   in (case gm_get (yd_YamlAnchors doc) valueName of
                         Some anchor \<Rightarrow> (keyNode, an_ValueNode anchor)
                       | None \<Rightarrow> (keyNode, valueNode))
          else (None, None))"

subsection \<open>suppression.go, anchors.go: queries on the tree\<close>

definition document_comments :: "yaml_document \<Rightarrow> comment list list" where
  "document_comments doc =
     map (map (\<lambda>n. \<lparr>cm_Text = GetNodeText doc (Some n), cm_Range = raw_range (yd_Tree doc) n\<rparr>))
       (st_Query (yd_Tree doc) (yd_RootNode doc) ''(comment) @comment'')"

definition parse_suppression :: "yaml_document \<Rightarrow> yaml_document" where
  "parse_suppression doc =
     (let (info, ds) = ParseSuppressionComments (yd_Offset doc) (document_comments doc)
                         (yd_Diagnostics doc)
      in doc\<lparr>yd_SuppressionInfo := Some info, yd_Diagnostics := ds\<rparr>)"

definition map_anchor ::
    "yaml_document \<Rightarrow> node \<Rightarrow> (string, yaml_anchor) gomap \<Rightarrow> (string, yaml_anchor) gomap" where
  "map_anchor doc n anchorMap =
     (let t = yd_Tree doc
      in gm_put (GetNodeText doc (GetChildOfType t (Some n) ''anchor_name''))
           \<lparr>an_Name = [], an_DefinitionRange = NodeToRange doc (Some n), an_References = [],
            an_ValueNode = st_Parent t n\<rparr> anchorMap)"

definition map_alias ::
    "yaml_document \<Rightarrow> node \<Rightarrow> (string, yaml_anchor) gomap \<Rightarrow> (string, yaml_anchor) gomap" where
  "map_alias doc n anchorMap =
     (let name = drop 1 (GetNodeText doc (Some n))
      in case gm_get anchorMap name of
           None \<Rightarrow> anchorMap
         | Some anchor \<Rightarrow>
             gm_put name (anchor\<lparr>an_References :=
               an_References anchor @ [NodeToRange doc (Some n)]\<rparr>) anchorMap)"

definition ParseYamlAnchors :: "yaml_document \<Rightarrow> (string, yaml_anchor) gomap" where
  "ParseYamlAnchors doc =
     (let q = st_Query (yd_Tree doc) (yd_RootNode doc)
      in fold (fold (map_alias doc)) (q ''(alias) @query'')
           (fold (fold (map_anchor doc)) (q ''(anchor) @query'') []))"

definition IsYamlAliasPosition :: "yaml_document \<Rightarrow> position \<Rightarrow> bool" where
  "IsYamlAliasPosition doc pos =
     list_ex (\<lambda>(_, anchor). list_ex (\<lambda>r. PosInRange r pos) (an_References anchor))
       (yd_YamlAnchors doc)"

definition GetYamlAnchorAtPosition :: "yaml_document \<Rightarrow> position \<Rightarrow> yaml_anchor option" where
  "GetYamlAnchorAtPosition doc pos =
     map_option snd (find (\<lambda>(_, anchor). PosInRange (an_DefinitionRange anchor) pos)
       (yd_YamlAnchors doc))"

subsection \<open>yamlparser.go: names\<close>

definition builtInCommands :: "string list" where
  "builtInCommands =
     [''run'', ''checkout'', ''setup_remote_docker'', ''save_cache'', ''restore_cache'',
      ''store_artifacts'', ''store_test_results'', ''persist_to_workspace'', ''attach_workspace'',
      ''add_ssh_keys'', ''steps'', ''deploy'', ''when'', ''unless'']"

definition IsBuiltIn :: "string \<Rightarrow> bool" where
  "IsBuiltIn commandName = (commandName \<in> set builtInCommands)"

text \<open>The two parts of a reference \<open>orb/name\<close>; \<open>None\<close> when there are not exactly two.\<close>

definition split_reference :: "string \<Rightarrow> (string \<times> string) option" where
  "split_reference s = (case split_on (CHR ''/'') s of [a, b] \<Rightarrow> Some (a, b) | _ \<Rightarrow> None)"

definition IsOrbReference :: "yaml_document \<Rightarrow> string \<Rightarrow> bool" where
  "IsOrbReference doc orbReference =
     (case split_reference orbReference of
        None \<Rightarrow> False | Some (orbName, _) \<Rightarrow> gm_has (yd_Orbs doc) orbName)"

definition CouldBeOrbReference :: "string \<Rightarrow> string \<times> bool" where
  "CouldBeOrbReference orbReference =
     (case split_reference orbReference of None \<Rightarrow> ([], False) | Some (a, _) \<Rightarrow> (a, True))"

definition IsFromUnfetchableOrb :: "yaml_document \<Rightarrow> string \<Rightarrow> bool" where
  "IsFromUnfetchableOrb doc name =
     (case split_reference name of
        None \<Rightarrow> False
      | Some (a, _) \<Rightarrow>
          (case gm_get (yd_Orbs doc) a of
             None \<Rightarrow> False
           | Some orb \<Rightarrow> fst (CheckIfParamIsPartiallyReferenced (ou_Version (orb_Url orb)))))"

definition IsGivenOrb :: "yaml_document \<Rightarrow> string \<Rightarrow> string \<Rightarrow> bool" where
  "IsGivenOrb doc commandName orbName =
     (if \<not> IsOrbReference doc commandName then False
      else hd (split_on (CHR ''/'') commandName) = orbName)"

definition IsAlias :: "string \<Rightarrow> bool" where
  "IsAlias commandName = has_prefix ''*'' commandName"

definition DoesJobExist :: "yaml_document \<Rightarrow> string \<Rightarrow> bool" where
  "DoesJobExist doc jobName = gm_has (yd_Jobs doc) jobName"

definition DoesJobGroupExist :: "yaml_document \<Rightarrow> string \<Rightarrow> bool" where
  "DoesJobGroupExist doc jobGroupName = gm_has (yd_JobGroups doc) jobGroupName"

fun find_group :: "(string, job_group) gomap \<Rightarrow> string \<Rightarrow> string option" where
  "find_group [] jobName = None"
| "find_group ((_, grp) # gs) jobName =
     (if list_ex (\<lambda>ji. ji_JobName ji = jobName) (jg_JobInvocations grp)
      then Some (jg_Name grp) else find_group gs jobName)"

definition FindJobGroupContainingJob :: "yaml_document \<Rightarrow> string \<Rightarrow> string option" where
  "FindJobGroupContainingJob doc jobName = find_group (yd_JobGroups doc) jobName"

definition DoesCommandExist :: "yaml_document \<Rightarrow> string \<Rightarrow> bool" where
  "DoesCommandExist doc commandName = gm_has (yd_Commands doc) commandName"

definition DoesExecutorExist :: "yaml_document \<Rightarrow> string \<Rightarrow> bool" where
  "DoesExecutorExist doc executorName = gm_has (yd_Executors doc) executorName"

definition DoesWorkflowExist :: "yaml_document \<Rightarrow> string \<Rightarrow> bool" where
  "DoesWorkflowExist doc workflowName = gm_has (yd_Workflows doc) workflowName"

definition GetWorkflows :: "yaml_document \<Rightarrow> text_and_range list" where
  "GetWorkflows doc =
     map (\<lambda>(_, w). \<lparr>tr_Text = wfl_Name w,
           tr_Range = mk_range (Start (wfl_NameRange w)) (End (wfl_NameRange w))\<rparr>)
       (yd_Workflows doc)"

definition doc_addDiagnostic :: "diagnostic \<Rightarrow> yaml_document \<Rightarrow> yaml_document" where
  "doc_addDiagnostic d doc = doc\<lparr>yd_Diagnostics := yd_Diagnostics doc @ [d]\<rparr>"

definition DoesCommandOrJobOrExecutorExist :: "yaml_document \<Rightarrow> string \<Rightarrow> bool \<Rightarrow> bool" where
  "DoesCommandOrJobOrExecutorExist doc name includeCommands =
     (if gm_has (yd_Jobs doc) name then True
      else if gm_has (yd_Commands doc) name \<and> includeCommands then True
      else if gm_has (yd_Executors doc) name then True
      else IsOrbReference doc name)"

subsection \<open>yamlparser.go: parameters visible at a position\<close>

text \<open>
  The parameters of the first entity of a section that contains the position; \<open>None\<close> when the
  section has none there.
\<close>

definition params_at ::
    "range \<Rightarrow> position \<Rightarrow> ('v \<Rightarrow> range) \<Rightarrow> ('v \<Rightarrow> params) \<Rightarrow> (string, 'v) gomap \<Rightarrow> params option" where
  "params_at section_range pos rng ps m =
     (if PosInRange section_range pos
      then map_option (\<lambda>(_, v). ps v) (find (\<lambda>(_, v). PosInRange (rng v) pos) m)
      else None)"

definition GetOrbParameters :: "orb_info \<Rightarrow> position \<Rightarrow> params" where
  "GetOrbParameters orb pos =
     (let a = oi_Attributes orb
      in case params_at (oa_CommandsRange a) pos cmd_Range cmd_Parameters (oa_Commands a) of
           Some p \<Rightarrow> p
         | None \<Rightarrow>
             (case params_at (oa_JobsRange a) pos job_Range job_Parameters (oa_Jobs a) of
                Some p \<Rightarrow> p
              | None \<Rightarrow>
                  (case params_at (oa_ExecutorsRange a) pos executor_GetRange
                          executor_GetParameters (oa_Executors a) of
                     Some p \<Rightarrow> p
                   | None \<Rightarrow> [])))"

text \<open>
  The outer \<open>None\<close> is the dereference of a local orb that has no entry; the parser adds the
  entry with the orb.
\<close>

definition GetParamsWithPosition :: "yaml_document \<Rightarrow> position \<Rightarrow> params option" where
  "GetParamsWithPosition doc pos =
     (case params_at (yd_CommandsRange doc) pos cmd_Range cmd_Parameters (yd_Commands doc) of
        Some p \<Rightarrow> Some p
      | None \<Rightarrow>
     (case params_at (yd_JobsRange doc) pos job_Range job_Parameters (yd_Jobs doc) of
        Some p \<Rightarrow> Some p
      | None \<Rightarrow>
     (case (if PosInRange (yd_OrbsRange doc) pos
            then find (\<lambda>(_, orb). ou_IsLocal (orb_Url orb) \<and> PosInRange (orb_Range orb) pos)
                   (yd_Orbs doc)
            else None) of
        Some (_, orb) \<Rightarrow>
          map_option (\<lambda>info. GetOrbParameters info pos) (gm_get (yd_LocalOrbInfo doc) (orb_Name orb))
      | None \<Rightarrow>
     (case params_at (yd_ExecutorsRange doc) pos executor_GetRange executor_GetParameters
             (yd_Executors doc) of
        Some p \<Rightarrow> Some p
      | None \<Rightarrow> Some []))))"

definition zero_executor :: executor where
  "zero_executor = ExBase
     \<lparr>be_Name = [], be_NameRange = zero_range, be_Range = zero_range, be_ResourceClass = [],
      be_ResourceClassRange = zero_range,
      be_BuiltInParameters = \<lparr>ep_Description = [], ep_Shell = [], ep_WorkingDirectory = []\<rparr>,
      be_UserParameters = [], be_UserParametersRange = zero_range, be_Uncomplete = False,
      be_Environment = \<lparr>env_Range = zero_range, env_Keys = []\<rparr>\<rparr>"

definition GetExecutorDefinedAtPosition :: "yaml_document \<Rightarrow> position \<Rightarrow> executor" where
  "GetExecutorDefinedAtPosition doc pos =
     (case find (\<lambda>(_, e). PosInRange (executor_GetRange e) pos) (yd_Executors doc) of
        Some (_, e) \<Rightarrow> e | None \<Rightarrow> zero_executor)"

subsection \<open>yamlparser.go: editing\<close>

text \<open>
  \<open>InsertText\<close> walks over the bytes of the content and converts each to a string: Go takes
  the byte as a code point, so a byte from \<open>0x80\<close> on becomes two bytes.
\<close>

definition string_of_byte :: "char \<Rightarrow> string" where
  "string_of_byte c =
     (let b = of_char c :: nat
      in if b < 128 then [c] else [char_of (192 + b div 64), char_of (128 + b mod 64)])"

fun insert_loop :: "string \<Rightarrow> nat \<Rightarrow> nat \<Rightarrow> string \<Rightarrow> string" where
  "insert_loop [] i posIdx text = []"
| "insert_loop (r # rs) i posIdx text =
     (if i = posIdx then text else []) @ string_of_byte r @ insert_loop rs (Suc i) posIdx text"

definition inserted_content :: "string \<Rightarrow> position \<Rightarrow> string \<Rightarrow> string" where
  "inserted_content content pos text = insert_loop content 0 (PosToIndex pos content) text"

subsection \<open>yamlparser.go: local orbs\<close>

definition ToOrbParsedAttributes :: "yaml_document \<Rightarrow> orb_parsed_attributes" where
  "ToOrbParsedAttributes doc =
     \<lparr>oa_URI = [], oa_Name = [], oa_Commands = yd_Commands doc, oa_Jobs = yd_Jobs doc,
      oa_Executors = yd_Executors doc, oa_PipelineParameters = yd_PipelineParameters doc,
      oa_ExecutorsRange = yd_ExecutorsRange doc, oa_CommandsRange = yd_CommandsRange doc,
      oa_JobsRange = yd_JobsRange doc, oa_PipelineParametersRange = yd_PipelineParametersRange doc,
      oa_WorkflowRange = yd_WorkflowRange doc, oa_OrbsRange = yd_OrbsRange doc\<rparr>"

definition zero_ls_context :: ls_context where
  "zero_ls_context =
     \<lparr>ls_Api = \<lparr>api_Token = [], api_HostUrl = [], api_userId = []\<rparr>,
      ls_UserIdForTelemetry = [], ls_IsCciExtension = False\<rparr>"

definition FromOrbParsedAttributesToYamlDocument ::
    "yaml_document \<Rightarrow> orb_parsed_attributes \<Rightarrow> yaml_document" where
  "FromOrbParsedAttributesToYamlDocument doc orb =
     \<lparr>yd_Content = yd_Content doc, yd_Tree = yd_Tree doc, yd_RootNode = yd_RootNode doc,
      yd_Version = Finite 0 1, yd_Description = [], yd_URI = oa_URI orb, yd_Diagnostics = [],
      yd_Context = zero_ls_context, yd_SchemaLocation = [], yd_Setup = False, yd_Orbs = [],
      yd_LocalOrbs = [], yd_Executors = oa_Executors orb, yd_Commands = oa_Commands orb,
      yd_Jobs = oa_Jobs orb, yd_JobGroups = [], yd_Workflows = [],
      yd_PipelineParameters = oa_PipelineParameters orb, yd_YamlAnchors = [],
      yd_SetupRange = zero_range, yd_OrbsRange = oa_OrbsRange orb,
      yd_ExecutorsRange = oa_ExecutorsRange orb, yd_CommandsRange = oa_CommandsRange orb,
      yd_JobsRange = oa_JobsRange orb, yd_JobGroupsRange = zero_range,
      yd_WorkflowRange = oa_WorkflowRange orb,
      yd_PipelineParametersRange = oa_PipelineParametersRange orb, yd_VersionRange = zero_range,
      yd_LocalOrbInfo = [], yd_LocalOrbName = oa_Name orb, yd_Offset = zero_pos,
      yd_SuppressionInfo = None\<rparr>"

definition getAttributeName :: "yaml_document \<Rightarrow> string \<Rightarrow> string" where
  "getAttributeName doc attribute =
     (if yd_LocalOrbName doc \<noteq> [] then yd_LocalOrbName doc @ ''/'' @ attribute else attribute)"

subsection \<open>context.go: the contexts a job runs with\<close>

text \<open>
  A job and the copy of it share the slice of contexts through a pointer, so adding to it is an
  update of the document's map.
\<close>

definition add_context :: "string \<Rightarrow> string list \<Rightarrow> string list" where
  "add_context ctx cs = (if ctx \<notin> set cs then cs @ [ctx] else cs)"

definition addContextToJob :: "string \<Rightarrow> string \<Rightarrow> yaml_document \<Rightarrow> yaml_document" where
  "addContextToJob jobName ctx doc =
     (case gm_get (yd_Jobs doc) jobName of
        None \<Rightarrow> doc
      | Some j \<Rightarrow>
          doc\<lparr>yd_Jobs := gm_put jobName (j\<lparr>job_Contexts := add_context ctx (job_Contexts j)\<rparr>) (yd_Jobs doc)\<rparr>)"

definition addContextToCommand :: "string \<Rightarrow> string \<Rightarrow> yaml_document \<Rightarrow> yaml_document" where
  "addContextToCommand commandName ctx doc =
     (case gm_get (yd_Commands doc) commandName of
        None \<Rightarrow> doc
      | Some c \<Rightarrow>
          doc\<lparr>yd_Commands := gm_put commandName (c\<lparr>cmd_Contexts := add_context ctx (cmd_Contexts c)\<rparr>) (yd_Commands doc)\<rparr>)"

definition assign_step :: "string \<Rightarrow> step \<Rightarrow> yaml_document \<Rightarrow> yaml_document" where
  "assign_step ctx step doc =
     (let n = step_GetName step
      in if DoesCommandExist doc n then addContextToCommand n ctx doc
         else if DoesJobExist doc n then addContextToJob n ctx doc
         else doc)"

definition assign_context :: "string \<Rightarrow> string \<Rightarrow> yaml_document \<Rightarrow> yaml_document" where
  "assign_context jobName ctx doc =
     (case gm_get (yd_Jobs doc) jobName of
        None \<Rightarrow> doc
      | Some j \<Rightarrow> fold (assign_step ctx) (job_steps j) (addContextToJob jobName ctx doc))"

definition assignContexts :: "yaml_document \<Rightarrow> yaml_document" where
  "assignContexts doc =
     fold (\<lambda>(_, workflow).
       fold (\<lambda>ji. fold (\<lambda>ctx. assign_context (ji_JobName ji) (tr_Text ctx)) (ji_Context ji))
         (wfl_JobInvocations workflow))
       (yd_Workflows doc) doc"

subsection \<open>orbs.go: the text of an orb reference\<close>

definition getOrbURL :: "string \<Rightarrow> orb_url" where
  "getOrbURL orbUrl =
     (case split_on (CHR ''@'') orbUrl of
        name # version # _ \<Rightarrow> \<lparr>ou_IsLocal = False, ou_Name = name, ou_Version = version\<rparr>
      | name # [] \<Rightarrow> \<lparr>ou_IsLocal = False, ou_Name = name, ou_Version = ''volatile''\<rparr>
      | [] \<Rightarrow> \<lparr>ou_IsLocal = False, ou_Name = [], ou_Version = ''volatile''\<rparr>)"

definition getOrbVersionRange :: "yaml_document \<Rightarrow> node option \<Rightarrow> range" where
  "getOrbVersionRange doc orbNode =
     (let orbRange = NodeToRange doc orbNode
      in case index_of ''@'' (GetRawNodeText doc orbNode) of
           None \<Rightarrow> zero_range
         | Some atIndex \<Rightarrow>
             mk_range (mk_pos (Line (Start orbRange))
                         (Character (Start orbRange) + word_of_nat atIndex + 1))
               (End orbRange))"

definition zero_tr :: text_and_range where
  "zero_tr = \<lparr>tr_Text = [], tr_Range = zero_range\<rparr>"

definition move_char :: "position \<Rightarrow> u32 \<Rightarrow> position" where
  "move_char p k = mk_pos (Line p) (Character p + k)"

text \<open>
  Slicing from the end of the namespace to an at sign before it is out of range: the program
  aborts, the result is \<open>None\<close>.
\<close>

definition getOrbDefinitionFromTextAndRange :: "string \<Rightarrow> range \<Rightarrow> orb_url_definition option" where
  "getOrbDefinitionFromTextAndRange orbText orbRange =
     (let endOfNs = (case index_of ''/'' orbText of None \<Rightarrow> length orbText | Some i \<Rightarrow> i);
          ns = \<lparr>tr_Text = take endOfNs orbText,
                tr_Range = mk_range (Start orbRange) (move_char (Start orbRange) (word_of_nat endOfNs))\<rparr>
      in if endOfNs = length orbText
         then Some \<lparr>od_Namespace = ns, od_Name = zero_tr, od_Version = zero_tr\<rparr>
         else
           let endOfName = (case index_of ''@'' orbText of None \<Rightarrow> length orbText | Some i \<Rightarrow> i)
           in if endOfName < endOfNs + 1 then None
              else
                let nm = \<lparr>tr_Text = take (endOfName - (endOfNs + 1)) (drop (endOfNs + 1) orbText),
                          tr_Range = mk_range (move_char (End (tr_Range ns)) 1)
                            (move_char (Start orbRange) (word_of_nat endOfName))\<rparr>
                in if endOfName = length orbText
                   then Some \<lparr>od_Namespace = ns, od_Name = nm, od_Version = zero_tr\<rparr>
                   else Some \<lparr>od_Namespace = ns, od_Name = nm,
                     od_Version = \<lparr>tr_Text = drop (endOfName + 1) orbText,
                       tr_Range = mk_range (move_char (End (tr_Range nm)) 1) (End orbRange)\<rparr>\<rparr>)"

definition GetOrbURLDefinition :: "yaml_document \<Rightarrow> node option \<Rightarrow> orb_url_definition option" where
  "GetOrbURLDefinition doc n = getOrbDefinitionFromTextAndRange (GetNodeText doc n) (NodeToRange doc n)"

subsection \<open>dockerImageParser.go\<close>

definition docker_name_class :: cclass where
  "docker_name_class =
     In (chars_between (CHR ''a'') (CHR ''z'') @ chars_between (CHR ''0'') (CHR ''9'') @
         [CHR ''-'', CHR ''_''])"

definition alias_name_class :: cclass where
  "alias_name_class =
     In (chars_between (CHR ''a'') (CHR ''z'') @ chars_between (CHR ''A'') (CHR ''Z'') @
         chars_between (CHR ''0'') (CHR ''9'') @ [CHR ''-'', CHR ''_''])"

definition dockerImageRegex :: regex where
  "dockerImageRegex =
     rx_seq [RBegin,
       ROpt (RGroup 1 (RSeq (rx_plus docker_name_class) (rx_lit ''/''))),
       RGroup 2 (rx_plus docker_name_class),
       ROpt (RGroup 3 (RSeq (rx_lit '':'') (RGroup 4 (RStar (NotIn [CHR ''@'']))))),
       ROpt (RGroup 5 (RSeq (rx_lit ''@'') (RGroup 6 (rx_plus re_dot)))),
       REnd]"

definition aliasRemover :: regex where
  "aliasRemover = rx_seq [RBegin, rx_lit ''&'', rx_plus alias_name_class, RStar re_space]"

definition remove_alias :: "string \<Rightarrow> string" where
  "remove_alias value =
     (case rx_find_from aliasRemover (length value) value of
        None \<Rightarrow> value
      | Some (i, st) \<Rightarrow> take i value @ fst st)"

definition submatch :: "(nat \<times> string) list \<Rightarrow> nat \<Rightarrow> string" where
  "submatch caps k = gm_get_or [] caps k"

definition ParseDockerImageValue :: "string \<Rightarrow> docker_image_info" where
  "ParseDockerImageValue value0 =
     (let value = remove_alias value0
      in case rx_submatch dockerImageRegex value of
           None \<Rightarrow> \<lparr>di_Namespace = ''library'', di_Name = [], di_Tag = [], di_Digest = [],
                    di_FullPath = value\<rparr>
         | Some caps \<Rightarrow>
             (let ns = submatch caps 1
              in \<lparr>di_Namespace = (if ns = [] then ''library'' else take (length ns - 1) ns),
                  di_Name = submatch caps 2, di_Tag = submatch caps 4,
                  di_Digest = submatch caps 6, di_FullPath = value\<rparr>))"

subsection \<open>References to orbs\<close>

lemma getOrbDefinition_None:
  "getOrbDefinitionFromTextAndRange s rng = None \<longleftrightarrow>
    (\<exists>i j. index_of ''/'' s = Some i \<and> index_of ''@'' s = Some j \<and> j < i)"
proof (cases "index_of ''/'' s")
  case None
  then show ?thesis by (simp add: getOrbDefinitionFromTextAndRange_def Let_def)
next
  case (Some i)
  then have i: "i < length s" "s ! i = CHR ''/''" by (simp_all add: index_of_char_Some)
  show ?thesis
  proof (cases "index_of ''@'' s")
    case None
    with Some i show ?thesis by (simp add: getOrbDefinitionFromTextAndRange_def Let_def)
  next
    case (Some j)
    then have j: "j < length s" "s ! j = CHR ''@''" by (simp_all add: index_of_char_Some)
    with i have "i \<noteq> j" by auto
    with Some \<open>index_of ''/'' s = Some i\<close> i j show ?thesis
      by (auto simp: getOrbDefinitionFromTextAndRange_def Let_def)
  qed
qed

lemma getOrbDefinition_parts:
  assumes "CHR ''/'' \<notin> set ns" "CHR ''@'' \<notin> set ns" "CHR ''@'' \<notin> set nm"
  shows "\<exists>d. getOrbDefinitionFromTextAndRange (ns @ ''/'' @ nm @ ''@'' @ v) rng = Some d \<and>
    tr_Text (od_Namespace d) = ns \<and> tr_Text (od_Name d) = nm \<and> tr_Text (od_Version d) = v"
proof -
  let ?s = "ns @ ''/'' @ nm @ ''@'' @ v"
  have i: "index_of ''/'' ?s = Some (length ns)"
    using index_of_char_append [OF assms(1), of "nm @ ''@'' @ v"] by simp
  have j: "index_of ''@'' ?s = Some (Suc (length ns + length nm))"
    using index_of_char_append [of "CHR ''@''" "ns @ ''/'' @ nm" v] assms by simp
  have "take (length nm) (drop (Suc (length ns)) ?s) = nm"
    by simp
  then show ?thesis
    unfolding getOrbDefinitionFromTextAndRange_def i j by (simp add: Let_def)
qed

lemma split_on_notin: "c \<notin> set s \<Longrightarrow> split_on c s = [s]"
  by (induction s) auto

lemma split_on_append_sep: "c \<notin> set a \<Longrightarrow> split_on c (a @ c # b) = a # split_on c b"
  by (induction a) auto

subsection \<open>Docker image references\<close>

lemma class_prefix_unique:
  assumes "p @ c # r = p' @ c' # r'" and "\<forall>x\<in>set p. in_class k x" "\<not> in_class k c"
    and "\<forall>x\<in>set p'. in_class k x" "\<not> in_class k c'"
  shows "p = p' \<and> c = c' \<and> r = r'"
  using assms
proof (induction p arbitrary: p')
  case Nil
  then show ?case by (cases p') auto
next
  case (Cons x p)
  then show ?case by (cases p') auto
qed

definition docker_word :: "string \<Rightarrow> bool" where
  "docker_word s \<longleftrightarrow> s \<noteq> [] \<and> (\<forall>x\<in>set s. in_class docker_name_class x)"

text \<open>The texts of a reference's optional parts; \<open>None\<close> when a part is absent.\<close>

definition image_ref ::
    "string option \<Rightarrow> string \<Rightarrow> string option \<Rightarrow> string option \<Rightarrow> string" where
  "image_ref ns nm tag dig =
     (case ns of None \<Rightarrow> [] | Some n \<Rightarrow> n @ ''/'') @ nm @
     (case tag of None \<Rightarrow> [] | Some t \<Rightarrow> '':'' @ t) @
     (case dig of None \<Rightarrow> [] | Some d \<Rightarrow> ''@'' @ d)"

definition image_parts_ok ::
    "string option \<Rightarrow> string \<Rightarrow> string option \<Rightarrow> string option \<Rightarrow> bool" where
  "image_parts_ok ns nm tag dig \<longleftrightarrow>
     (\<forall>n. ns = Some n \<longrightarrow> docker_word n) \<and> docker_word nm \<and>
     (\<forall>t. tag = Some t \<longrightarrow> CHR ''@'' \<notin> set t) \<and>
     (\<forall>d. dig = Some d \<longrightarrow> d \<noteq> [] \<and> CHR 0x0A \<notin> set d)"

definition image_caps ::
    "string option \<Rightarrow> string \<Rightarrow> string option \<Rightarrow> string option \<Rightarrow> (nat \<times> string) list" where
  "image_caps ns nm tag dig =
     (case dig of None \<Rightarrow> [] | Some d \<Rightarrow> [(5, ''@'' @ d), (6, d)]) @
     (case tag of None \<Rightarrow> [] | Some t \<Rightarrow> [(3, '':'' @ t), (4, t)]) @
     [(2, nm)] @
     (case ns of None \<Rightarrow> [] | Some n \<Rightarrow> [(1, n @ ''/'')])"

text \<open>Every match of the expression splits the text into the parts of a reference.\<close>

lemma rxm_opt_group:
  assumes body: "\<And>caps2. rxm a n (s, caps) (s', caps2) \<longleftrightarrow> (\<exists>p. A p \<and> s = g p @ s' \<and> caps2 = X p)"
  shows "rxm (ROpt (RGroup k a)) n (s, caps) (s', caps') \<longleftrightarrow>
    s = s' \<and> caps' = caps \<or> (\<exists>p. A p \<and> s = g p @ s' \<and> caps' = (k, g p) # X p)"
proof -
  have "rxm (ROpt (RGroup k a)) n (s, caps) (s', caps') \<longleftrightarrow>
      s = s' \<and> caps' = caps \<or>
      (\<exists>caps2. rxm a n (s, caps) (s', caps2) \<and> caps' = (k, take (length s - length s') s) # caps2)"
    by auto
  also have "\<dots> \<longleftrightarrow> s = s' \<and> caps' = caps \<or>
      (\<exists>p. A p \<and> s = g p @ s' \<and> caps' = (k, take (length s - length s') s) # X p)"
    unfolding body by blast
  also have "(\<exists>p. A p \<and> s = g p @ s' \<and> caps' = (k, take (length s - length s') s) # X p) \<longleftrightarrow>
      (\<exists>p. A p \<and> s = g p @ s' \<and> caps' = (k, g p) # X p)"
    by (intro arg_cong [of _ _ Ex] ext conj_cong refl) simp
  finally show ?thesis .
qed

lemma rxm_plus_lit:
  "rxm (RSeq (rx_plus c) (rx_lit w)) n (s, caps) (s', caps') \<longleftrightarrow>
    (\<exists>p. (p \<noteq> [] \<and> (\<forall>x\<in>set p. in_class c x)) \<and> s = (p @ w) @ s' \<and> caps' = caps)"
  by (auto simp: rxm_plus rxm_lit)

lemma rxm_lit_group_star:
  "rxm (RSeq (rx_lit w) (RGroup k (RStar c))) n (s, caps) (s', caps') \<longleftrightarrow>
    (\<exists>p. (\<forall>x\<in>set p. in_class c x) \<and> s = (w @ p) @ s' \<and> caps' = (k, p) # caps)"
  by (auto simp: rxm_lit)

lemma rxm_lit_group_plus:
  "rxm (RSeq (rx_lit w) (RGroup k (rx_plus c))) n (s, caps) (s', caps') \<longleftrightarrow>
    (\<exists>p. (p \<noteq> [] \<and> (\<forall>x\<in>set p. in_class c x)) \<and> s = (w @ p) @ s' \<and> caps' = (k, p) # caps)"
  by (auto simp: rxm_lit rxm_plus)

lemma not_in_ball: "(\<forall>x\<in>set p. x \<noteq> c) \<longleftrightarrow> c \<notin> set p"
  by blast

lemma ex_option: "(\<exists>x. P x) \<longleftrightarrow> P None \<or> (\<exists>y. P (Some y))"
  by (metis option.exhaust)

lemma rxm_docker_ns:
  "rxm (ROpt (RGroup 1 (RSeq (rx_plus docker_name_class) (rx_lit ''/'')))) n (s, caps) (s', caps') \<longleftrightarrow>
    (\<exists>ns. (\<forall>n. ns = Some n \<longrightarrow> docker_word n) \<and>
      s = (case ns of None \<Rightarrow> [] | Some n \<Rightarrow> n @ ''/'') @ s' \<and>
      caps' = (case ns of None \<Rightarrow> [] | Some n \<Rightarrow> [(1, n @ ''/'')]) @ caps)"
  unfolding rxm_opt_group [OF rxm_plus_lit] ex_option docker_word_def by simp

lemma rxm_docker_tag:
  "rxm (ROpt (RGroup 3 (RSeq (rx_lit '':'') (RGroup 4 (RStar (NotIn [CHR ''@'']))))))  n
      (s, caps) (s', caps') \<longleftrightarrow>
    (\<exists>tag. (\<forall>t. tag = Some t \<longrightarrow> CHR ''@'' \<notin> set t) \<and>
      s = (case tag of None \<Rightarrow> [] | Some t \<Rightarrow> '':'' @ t) @ s' \<and>
      caps' = (case tag of None \<Rightarrow> [] | Some t \<Rightarrow> [(3, '':'' @ t), (4, t)]) @ caps)"
  unfolding rxm_opt_group [OF rxm_lit_group_star] ex_option by (simp add: not_in_ball)

lemma rxm_docker_digest:
  "rxm (ROpt (RGroup 5 (RSeq (rx_lit ''@'') (RGroup 6 (rx_plus re_dot))))) n (s, caps) (s', caps') \<longleftrightarrow>
    (\<exists>dig. (\<forall>d. dig = Some d \<longrightarrow> d \<noteq> [] \<and> CHR 0x0A \<notin> set d) \<and>
      s = (case dig of None \<Rightarrow> [] | Some d \<Rightarrow> ''@'' @ d) @ s' \<and>
      caps' = (case dig of None \<Rightarrow> [] | Some d \<Rightarrow> [(5, ''@'' @ d), (6, d)]) @ caps)"
  unfolding rxm_opt_group [OF rxm_lit_group_plus] ex_option re_dot_def by (simp add: not_in_ball)

lemma rxm_docker_name:
  "rxm (RGroup 2 (rx_plus docker_name_class)) n (s, caps) (s', caps') \<longleftrightarrow>
    (\<exists>nm. docker_word nm \<and> s = nm @ s' \<and> caps' = (2, nm) # caps)"
  by (auto simp: rxm_plus docker_word_def)

lemma rxm_seqI: "rxm r n st m \<Longrightarrow> rxm (rx_seq rs) n m st' \<Longrightarrow> rxm (rx_seq (r # rs)) n st st'"
  unfolding rx_seq.simps rxm.simps by blast

lemma rxm_docker:
  "rxm dockerImageRegex (length s) (s, []) st \<longleftrightarrow>
    (\<exists>ns nm tag dig. s = image_ref ns nm tag dig \<and> image_parts_ok ns nm tag dig \<and>
      st = ([], image_caps ns nm tag dig))"
  (is "?l \<longleftrightarrow> ?r")
proof
  let ?n = "length s"
  assume ?l
  then obtain m1 m2 m3 where m:
    "rxm (ROpt (RGroup 1 (RSeq (rx_plus docker_name_class) (rx_lit ''/'')))) ?n (s, []) m1"
    "rxm (RGroup 2 (rx_plus docker_name_class)) ?n m1 m2"
    "rxm (ROpt (RGroup 3 (RSeq (rx_lit '':'') (RGroup 4 (RStar (NotIn [CHR ''@''])))))) ?n m2 m3"
    "rxm (ROpt (RGroup 5 (RSeq (rx_lit ''@'') (RGroup 6 (rx_plus re_dot))))) ?n m3 st"
    "fst st = []"
    unfolding dockerImageRegex_def rx_seq.simps rxm.simps(1,4,8,9) by blast
  obtain s1 c1 s2 c2 s3 c3 c4 where eq: "m1 = (s1, c1)" "m2 = (s2, c2)" "m3 = (s3, c3)" and
    st: "st = ([], c4)"
    using m(5) by (metis prod.exhaust_sel)
  note 1 = m(1) [unfolded eq] and 2 = m(2) [unfolded eq] and 3 = m(3) [unfolded eq]
    and 4 = m(4) [unfolded eq st]
  from 1 obtain ns where ns: "\<forall>n. ns = Some n \<longrightarrow> docker_word n"
    "s = (case ns of None \<Rightarrow> [] | Some n \<Rightarrow> n @ ''/'') @ s1"
    "c1 = (case ns of None \<Rightarrow> [] | Some n \<Rightarrow> [(1, n @ ''/'')]) @ []"
    unfolding rxm_docker_ns by blast
  from 2 obtain nm where nm: "docker_word nm" "s1 = nm @ s2" "c2 = (2, nm) # c1"
    unfolding rxm_docker_name by blast
  from 3 obtain tag where tag: "\<forall>t. tag = Some t \<longrightarrow> CHR ''@'' \<notin> set t"
    "s2 = (case tag of None \<Rightarrow> [] | Some t \<Rightarrow> '':'' @ t) @ s3"
    "c3 = (case tag of None \<Rightarrow> [] | Some t \<Rightarrow> [(3, '':'' @ t), (4, t)]) @ c2"
    unfolding rxm_docker_tag by blast
  from 4 obtain dig where dig: "\<forall>d. dig = Some d \<longrightarrow> d \<noteq> [] \<and> CHR 0x0A \<notin> set d"
    "s3 = (case dig of None \<Rightarrow> [] | Some d \<Rightarrow> ''@'' @ d) @ []"
    "c4 = (case dig of None \<Rightarrow> [] | Some d \<Rightarrow> [(5, ''@'' @ d), (6, d)]) @ c3"
    unfolding rxm_docker_digest by blast
  have "s = image_ref ns nm tag dig" "image_parts_ok ns nm tag dig" "c4 = image_caps ns nm tag dig"
    unfolding image_ref_def image_parts_ok_def image_caps_def
    using ns nm tag dig by simp_all
  with st show ?r by blast
next
  assume ?r
  then obtain ns nm tag dig where s: "s = image_ref ns nm tag dig"
    and ok: "image_parts_ok ns nm tag dig" and st: "st = ([], image_caps ns nm tag dig)" by blast
  let ?dig = "case dig of None \<Rightarrow> [] | Some d \<Rightarrow> ''@'' @ d"
  let ?tag = "case tag of None \<Rightarrow> [] | Some t \<Rightarrow> '':'' @ t"
  let ?c1 = "case ns of None \<Rightarrow> [] | Some n \<Rightarrow> [(1, n @ ''/'')]"
  let ?c3 = "(case tag of None \<Rightarrow> [] | Some t \<Rightarrow> [(3, '':'' @ t), (4, t)]) @ (2, nm) # ?c1"
  have a1: "rxm (ROpt (RGroup 1 (RSeq (rx_plus docker_name_class) (rx_lit ''/'')))) (length s) (s, [])
      (nm @ ?tag @ ?dig, ?c1)"
    unfolding rxm_docker_ns using ok s unfolding image_ref_def image_parts_ok_def by auto
  have a2: "rxm (RGroup 2 (rx_plus docker_name_class)) (length s) (nm @ ?tag @ ?dig, ?c1)
      (?tag @ ?dig, (2, nm) # ?c1)"
    unfolding rxm_docker_name using ok unfolding image_parts_ok_def by auto
  have a3: "rxm (ROpt (RGroup 3 (RSeq (rx_lit '':'') (RGroup 4 (RStar (NotIn [CHR ''@''])))))) 
      (length s) (?tag @ ?dig, (2, nm) # ?c1) (?dig, ?c3)"
    unfolding rxm_docker_tag using ok unfolding image_parts_ok_def by blast
  have a4: "rxm (ROpt (RGroup 5 (RSeq (rx_lit ''@'') (RGroup 6 (rx_plus re_dot))))) (length s)
      (?dig, ?c3) st"
    unfolding st rxm_docker_digest image_caps_def using ok unfolding image_parts_ok_def
    by (intro exI [of _ dig]) simp
  have first: "rxm RBegin (length s) (s, []) (s, [])" and fin: "rxm (rx_seq [REnd]) (length s) st st"
    by (simp_all add: st)
  show ?l
    unfolding dockerImageRegex_def
    by (rule rxm_seqI [OF first rxm_seqI [OF a1 rxm_seqI [OF a2 rxm_seqI [OF a3 rxm_seqI [OF a4 fin]]]]])
qed

text \<open>The parts are determined by the text.\<close>

lemma docker_class_apart [simp]:
  "\<not> in_class docker_name_class (CHR ''/'')" "\<not> in_class docker_name_class (CHR '':'')"
  "\<not> in_class docker_name_class (CHR ''@'')" "\<not> in_class docker_name_class (CHR ''&'')"
  by (simp_all add: docker_name_class_def set_chars_between)

lemma docker_word_split:
  assumes "docker_word a" "docker_word a'" "a @ r = a' @ r'"
    and "r = [] \<or> \<not> in_class docker_name_class (hd r)"
    and "r' = [] \<or> \<not> in_class docker_name_class (hd r')"
  shows "a = a' \<and> r = r'"
proof -
  have "takeWhile (in_class docker_name_class) (a @ r) = a"
    "takeWhile (in_class docker_name_class) (a' @ r') = a'"
    using assms(1,2,4,5) by (cases r; cases r'; force simp: docker_word_def takeWhile_append)+
  with assms(3) show ?thesis by auto
qed

lemma image_tail_cases:
  "(case tag of None \<Rightarrow> [] | Some t \<Rightarrow> '':'' @ t) @ (case dig of None \<Rightarrow> [] | Some d \<Rightarrow> ''@'' @ d) = r \<Longrightarrow>
    r = [] \<or> \<not> in_class docker_name_class (hd r) \<and> hd r \<noteq> CHR ''/''"
  by (auto split: option.splits)

lemma image_digest_unique:
  assumes "t @ (case dig of None \<Rightarrow> [] | Some d \<Rightarrow> ''@'' @ d) =
      t' @ (case dig' of None \<Rightarrow> [] | Some d \<Rightarrow> ''@'' @ d)"
    and "CHR ''@'' \<notin> set t" "CHR ''@'' \<notin> set t'"
  shows "t = t' \<and> dig = dig'"
proof -
  have "takeWhile (\<lambda>c. c \<noteq> CHR ''@'') (t @ (case dig of None \<Rightarrow> [] | Some d \<Rightarrow> ''@'' @ d)) = t"
    "takeWhile (\<lambda>c. c \<noteq> CHR ''@'') (t' @ (case dig' of None \<Rightarrow> [] | Some d \<Rightarrow> ''@'' @ d)) = t'"
    using assms(2,3) by (cases dig; cases dig'; force simp: takeWhile_append)+
  with assms(1) have "t = t'" by simp
  with assms(1) show ?thesis by (cases dig; cases dig') auto
qed

lemma image_tail_unique:
  assumes "(case tag of None \<Rightarrow> [] | Some t \<Rightarrow> '':'' @ t) @ (case dig of None \<Rightarrow> [] | Some d \<Rightarrow> ''@'' @ d) =
      (case tag' of None \<Rightarrow> [] | Some t \<Rightarrow> '':'' @ t) @ (case dig' of None \<Rightarrow> [] | Some d \<Rightarrow> ''@'' @ d)"
    and "\<forall>t. tag = Some t \<longrightarrow> CHR ''@'' \<notin> set t" "\<forall>t. tag' = Some t \<longrightarrow> CHR ''@'' \<notin> set t"
  shows "tag = tag' \<and> dig = dig'"
proof -
  let ?t = "case tag of None \<Rightarrow> [] | Some t \<Rightarrow> '':'' @ t"
  let ?t' = "case tag' of None \<Rightarrow> [] | Some t \<Rightarrow> '':'' @ t"
  have "CHR ''@'' \<notin> set ?t" "CHR ''@'' \<notin> set ?t'" using assms(2,3) by (auto split: option.split)
  from image_digest_unique [OF assms(1) this] show ?thesis
    by (cases tag; cases tag') auto
qed

lemma image_ref_unique:
  assumes "image_ref ns nm tag dig = image_ref ns' nm' tag' dig'"
    and ok: "image_parts_ok ns nm tag dig" "image_parts_ok ns' nm' tag' dig'"
  shows "ns = ns' \<and> nm = nm' \<and> tag = tag' \<and> dig = dig'"
proof -
  define r where "r = (case tag of None \<Rightarrow> [] | Some t \<Rightarrow> '':'' @ t) @
    (case dig of None \<Rightarrow> [] | Some d \<Rightarrow> ''@'' @ d)"
  define r' where "r' = (case tag' of None \<Rightarrow> [] | Some t \<Rightarrow> '':'' @ t) @
    (case dig' of None \<Rightarrow> [] | Some d \<Rightarrow> ''@'' @ d)"
  note R = image_tail_cases [OF r_def [symmetric]] and R' = image_tail_cases [OF r'_def [symmetric]]
  have eq: "(case ns of None \<Rightarrow> [] | Some n \<Rightarrow> n @ ''/'') @ nm @ r =
      (case ns' of None \<Rightarrow> [] | Some n \<Rightarrow> n @ ''/'') @ nm' @ r'"
    using assms(1) by (simp add: image_ref_def r_def r'_def)
  have nm: "docker_word nm" "docker_word nm'"
    using ok by (simp_all add: image_parts_ok_def)
  have "ns = ns' \<and> nm = nm' \<and> r = r'"
  proof (cases ns; cases ns')
    assume ns: "ns = None" "ns' = None"
    with eq have "nm @ r = nm' @ r'" by simp
    from docker_word_split [OF nm this] R R' ns show ?thesis by blast
  next
    fix n assume ns: "ns = None" "ns' = Some n"
    with eq ok have e: "nm @ r = n @ (''/'' @ nm' @ r')" "docker_word n"
      by (simp_all add: image_parts_ok_def)
    from docker_word_split [OF nm(1) e(2,1)] R have "r = ''/'' @ nm' @ r'" by auto
    with R show ?thesis by auto
  next
    fix n assume ns: "ns = Some n" "ns' = None"
    with eq ok have e: "n @ (''/'' @ nm @ r) = nm' @ r'" "docker_word n"
      by (simp_all add: image_parts_ok_def)
    from docker_word_split [OF e(2) nm(2) e(1)] R' have "r' = ''/'' @ nm @ r" by auto
    with R' show ?thesis by auto
  next
    fix n n' assume ns: "ns = Some n" "ns' = Some n'"
    with eq ok have e: "n @ (''/'' @ nm @ r) = n' @ (''/'' @ nm' @ r')" "docker_word n" "docker_word n'"
      by (simp_all add: image_parts_ok_def)
    from docker_word_split [OF e(2,3,1)] have "n = n' \<and> nm @ r = nm' @ r'" by auto
    with docker_word_split [OF nm, of r r'] R R' ns show ?thesis by blast
  qed
  moreover have "tag = tag' \<and> dig = dig'"
    using calculation image_tail_unique [of tag dig tag' dig'] ok
    by (simp add: r_def r'_def image_parts_ok_def)
  ultimately show ?thesis by blast
qed

lemma docker_submatch:
  assumes "image_parts_ok ns nm tag dig"
  shows "rx_submatch dockerImageRegex (image_ref ns nm tag dig) = Some (image_caps ns nm tag dig)"
proof -
  let ?s = "image_ref ns nm tag dig"
  have m: "rxm dockerImageRegex (length ?s) (?s, []) st \<longleftrightarrow> st = ([], image_caps ns nm tag dig)" for st
    unfolding rxm_docker using assms image_ref_unique [OF _ assms] by blast
  then have set: "set (rx dockerImageRegex (length ?s) (?s, [])) = {([], image_caps ns nm tag dig)}"
    unfolding set_eq_iff set_rx by simp
  then have "rx dockerImageRegex (length ?s) (?s, []) \<noteq> []" by auto
  with set have hd: "\<exists>xs. rx dockerImageRegex (length ?s) (?s, []) = ([], image_caps ns nm tag dig) # xs"
    by (cases "rx dockerImageRegex (length ?s) (?s, [])") auto
  then show ?thesis
    by (cases ?s) (auto simp: rx_submatch_def)
qed

lemma remove_alias_id:
  assumes "s \<noteq> []" and "hd s \<noteq> CHR ''&''"
  shows "remove_alias s = s"
proof -
  have "rx_find_from aliasRemover (length s) s = None"
    unfolding rx_find_from_None
    using assms by (cases s) (auto simp: aliasRemover_def Cons_eq_append_conv)
  then show ?thesis by (simp add: remove_alias_def)
qed

lemma image_ref_head:
  assumes "image_parts_ok ns nm tag dig"
  shows "image_ref ns nm tag dig \<noteq> [] \<and> hd (image_ref ns nm tag dig) \<noteq> CHR ''&''"
proof -
  have "\<exists>x r. image_ref ns nm tag dig = x # r \<and> in_class docker_name_class x"
  proof (cases ns)
    case None
    with assms obtain x w where "nm = x # w" "in_class docker_name_class x"
      by (cases nm) (auto simp: image_parts_ok_def docker_word_def)
    with None show ?thesis by (simp add: image_ref_def)
  next
    case (Some n)
    with assms obtain x w where "n = x # w" "in_class docker_name_class x"
      by (cases n) (auto simp: image_parts_ok_def docker_word_def)
    with Some show ?thesis by (simp add: image_ref_def)
  qed
  then show ?thesis by auto
qed

subsection \<open>Inserting text\<close>

lemma string_of_byte_ascii: "of_char c < (128 :: nat) \<Longrightarrow> string_of_byte c = [c]"
  by (simp add: string_of_byte_def)

lemma insert_loop_past: "i > p \<Longrightarrow> \<forall>c\<in>set cs. of_char c < (128 :: nat) \<Longrightarrow> insert_loop cs i p t = cs"
  by (induction cs arbitrary: i) (simp_all add: string_of_byte_ascii)

lemma insert_loop_ascii:
  "i \<le> p \<Longrightarrow> \<forall>c\<in>set cs. of_char c < (128 :: nat) \<Longrightarrow>
    insert_loop cs i p t =
      (if p - i < length cs then take (p - i) cs @ t @ drop (p - i) cs else cs)"
proof (induction cs arbitrary: i)
  case (Cons c cs)
  show ?case
  proof (cases "i = p")
    case True
    with Cons.prems show ?thesis by (simp add: string_of_byte_ascii insert_loop_past)
  next
    case False
    with Cons.prems have "Suc i \<le> p" by simp
    moreover from this obtain k where "p - i = Suc k" "p - Suc i = k"
      by (metis Suc_diff_Suc Suc_le_lessD)
    ultimately show ?thesis
      using Cons.IH [of "Suc i"] Cons.prems(2) by (simp add: string_of_byte_ascii False)
  qed
qed simp

subsection \<open>The contexts of the jobs\<close>

text \<open>What a list of assignments adds to a job: its own contexts and those of the added pairs.\<close>

definition job_contexts :: "yaml_document \<Rightarrow> string \<Rightarrow> string set" where
  "job_contexts doc j = (case gm_get (yd_Jobs doc) j of None \<Rightarrow> {} | Some jb \<Rightarrow> set (job_Contexts jb))"

definition same_shape :: "yaml_document \<Rightarrow> yaml_document \<Rightarrow> bool" where
  "same_shape d d' \<longleftrightarrow>
     (\<forall>j. map_option job_Steps (gm_get (yd_Jobs d') j) = map_option job_Steps (gm_get (yd_Jobs d) j)) \<and>
     (\<forall>c. gm_has (yd_Commands d') c = gm_has (yd_Commands d) c)"

lemma same_shape_refl [simp]: "same_shape d d"
  by (simp add: same_shape_def)

lemma same_shape_trans: "same_shape a b \<Longrightarrow> same_shape b c \<Longrightarrow> same_shape a c"
  by (simp add: same_shape_def)

lemma same_shape_exists:
  assumes "same_shape d d'"
  shows "DoesJobExist d' j = DoesJobExist d j" and "DoesCommandExist d' j = DoesCommandExist d j"
proof -
  have "map_option job_Steps (gm_get (yd_Jobs d') j) = map_option job_Steps (gm_get (yd_Jobs d) j)"
    using assms by (simp add: same_shape_def)
  then show "DoesJobExist d' j = DoesJobExist d j"
    by (cases "gm_get (yd_Jobs d) j"; cases "gm_get (yd_Jobs d') j")
      (simp_all add: DoesJobExist_def gm_has_def)
  show "DoesCommandExist d' j = DoesCommandExist d j"
    using assms by (simp add: same_shape_def DoesCommandExist_def)
qed

lemma set_add_context [simp]: "set (add_context c cs) = insert c (set cs)"
  by (auto simp: add_context_def)

lemma addContextToJob_props:
  "same_shape d (addContextToJob j c d)"
  "job_contexts (addContextToJob j c d) k =
    job_contexts d k \<union> (if k = j \<and> DoesJobExist d j then {c} else {})"
  by (auto simp: addContextToJob_def same_shape_def job_contexts_def DoesJobExist_def gm_has_def
      split: option.splits)

lemma addContextToCommand_props:
  "same_shape d (addContextToCommand j c d)"
  "job_contexts (addContextToCommand j c d) k = job_contexts d k"
  by (auto simp: addContextToCommand_def same_shape_def job_contexts_def gm_has_def
      split: option.splits)

text \<open>A step of a job adds its context to the job it names, unless a command has that name.\<close>

definition step_gives :: "yaml_document \<Rightarrow> step \<Rightarrow> string \<Rightarrow> bool" where
  "step_gives d st k \<longleftrightarrow> step_GetName st = k \<and> \<not> DoesCommandExist d k \<and> DoesJobExist d k"

lemma assign_step_props:
  "same_shape d (assign_step c st d)"
  "job_contexts (assign_step c st d) k = job_contexts d k \<union> (if step_gives d st k then {c} else {})"
  by (auto simp: assign_step_def Let_def addContextToJob_props addContextToCommand_props
      step_gives_def)

lemma step_gives_shape: "same_shape d d' \<Longrightarrow> step_gives d' st k = step_gives d st k"
  by (simp add: step_gives_def same_shape_exists)

lemma fold_assign_step:
  "same_shape d (fold (assign_step c) ss d) \<and>
    job_contexts (fold (assign_step c) ss d) k =
      job_contexts d k \<union> (if \<exists>st\<in>set ss. step_gives d st k then {c} else {})"
proof (induction ss arbitrary: d)
  case (Cons s ss)
  note S = assign_step_props [where d = d and c = c and st = s]
  from Cons [of "assign_step c s d"] S(1) show ?case
    by (auto simp: S(2) step_gives_shape [OF S(1)] intro: same_shape_trans)
qed simp

text \<open>The jobs an invoked job hands a context to: itself and what its steps name.\<close>

definition invocation_gives :: "yaml_document \<Rightarrow> string \<Rightarrow> string \<Rightarrow> bool" where
  "invocation_gives d j k \<longleftrightarrow>
     (case gm_get (yd_Jobs d) j of None \<Rightarrow> False
      | Some jb \<Rightarrow> k = j \<or> (\<exists>st\<in>set (job_steps jb). step_gives d st k))"

lemma invocation_gives_shape:
  assumes "same_shape d d'"
  shows "invocation_gives d' j k = invocation_gives d j k"
proof -
  have "map_option job_Steps (gm_get (yd_Jobs d') j) = map_option job_Steps (gm_get (yd_Jobs d) j)"
    using assms by (simp add: same_shape_def)
  then show ?thesis
    by (cases "gm_get (yd_Jobs d) j"; cases "gm_get (yd_Jobs d') j")
      (simp_all add: invocation_gives_def job_steps_def step_gives_shape [OF assms])
qed

lemma assign_context_props:
  "same_shape d (assign_context j c d) \<and>
    job_contexts (assign_context j c d) k =
      job_contexts d k \<union> (if invocation_gives d j k then {c} else {})"
proof (cases "gm_get (yd_Jobs d) j")
  case None
  then show ?thesis by (simp add: assign_context_def invocation_gives_def)
next
  case (Some jb)
  then have ex: "DoesJobExist d j" by (simp add: DoesJobExist_def gm_has_def)
  note A = addContextToJob_props [where d = d and j = j and c = c]
  note F = fold_assign_step [of "addContextToJob j c d" c "job_steps jb" k]
  from F A(1) have "same_shape d (assign_context j c d)"
    by (simp add: assign_context_def Some) (blast intro: same_shape_trans)
  moreover have "job_contexts (assign_context j c d) k =
      job_contexts d k \<union> (if invocation_gives d j k then {c} else {})"
    using F by (auto simp: assign_context_def Some A(2) ex invocation_gives_def
        step_gives_shape [OF A(1)])
  ultimately show ?thesis by blast
qed

lemma fold_assign:
  assumes step: "\<And>x d. same_shape d (f x d) \<and> job_contexts (f x d) k = job_contexts d k \<union> g d x"
    and shape: "\<And>x d d'. same_shape d d' \<Longrightarrow> g d' x = g d x"
  shows "same_shape d (fold f xs d) \<and>
    job_contexts (fold f xs d) k = job_contexts d k \<union> (\<Union>x\<in>set xs. g d x)"
proof (induction xs arbitrary: d)
  case (Cons x xs)
  from step have S: "same_shape d (f x d)" "job_contexts (f x d) k = job_contexts d k \<union> g d x"
    by blast+
  from Cons [of "f x d"] S(1) show ?case
    by (auto simp: S(2) shape [OF S(1)] intro: same_shape_trans)
qed simp

lemma fold_contexts_props:
  "same_shape d (fold (\<lambda>ctx. assign_context j (tr_Text ctx)) cs d) \<and>
    job_contexts (fold (\<lambda>ctx. assign_context j (tr_Text ctx)) cs d) k = job_contexts d k \<union>
      (\<Union>ctx\<in>set cs. if invocation_gives d j k then {tr_Text ctx} else {})"
  by (rule fold_assign) (simp_all add: assign_context_props invocation_gives_shape)

lemma fold_invocations_props:
  "same_shape d (fold (\<lambda>ji. fold (\<lambda>ctx. assign_context (ji_JobName ji) (tr_Text ctx)) (ji_Context ji)) jis d) \<and>
    job_contexts (fold (\<lambda>ji. fold (\<lambda>ctx. assign_context (ji_JobName ji) (tr_Text ctx)) (ji_Context ji)) jis d) k =
      job_contexts d k \<union> (\<Union>ji\<in>set jis. \<Union>ctx\<in>set (ji_Context ji).
        if invocation_gives d (ji_JobName ji) k then {tr_Text ctx} else {})"
  by (rule fold_assign) (rule fold_contexts_props, simp add: invocation_gives_shape)

lemma UN_if_singleton: "(\<Union>x\<in>A. if P then {f x} else {}) = {f x | x. x \<in> A \<and> P}"
  by auto

lemma UN_pair_collect:
  "(\<Union>w\<in>W. \<Union>j\<in>J (snd w). {f x | x. x \<in> C j \<and> P j}) =
    {f x | n w j x. (n, w) \<in> W \<and> j \<in> J w \<and> x \<in> C j \<and> P j}"
  by (auto simp: Bex_def) metis+

subsection \<open>Properties\<close>

text \<open>
  C24: after the contexts are assigned, a job has exactly its own contexts and those of the
  workflow invocations that run it: that invoke it, or invoke a job with a step naming it where
  no command has the same name.
\<close>

theorem assignContexts_spec:
  "job_contexts (assignContexts doc) k = job_contexts doc k \<union>
    {tr_Text ctx | n w ji ctx. (n, w) \<in> set (yd_Workflows doc) \<and> ji \<in> set (wfl_JobInvocations w) \<and>
       ctx \<in> set (ji_Context ji) \<and> invocation_gives doc (ji_JobName ji) k}"
proof -
  have "job_contexts (assignContexts doc) k = job_contexts doc k \<union>
      (\<Union>w\<in>set (yd_Workflows doc). \<Union>ji\<in>set (wfl_JobInvocations (snd w)). \<Union>ctx\<in>set (ji_Context ji).
        if invocation_gives doc (ji_JobName ji) k then {tr_Text ctx} else {})"
    unfolding assignContexts_def
    by (rule fold_assign [THEN conjunct2])
      (simp_all add: fold_invocations_props invocation_gives_shape split_beta)
  then show ?thesis
    unfolding UN_if_singleton
      UN_pair_collect [where W = "set (yd_Workflows doc)" and J = "\<lambda>w. set (wfl_JobInvocations w)" and
        C = "\<lambda>ji. set (ji_Context ji)" and f = tr_Text and P = "\<lambda>ji. invocation_gives doc (ji_JobName ji) k"] .
qed

text \<open>
  C28: reading back a printed image reference gives its parts: an absent namespace is
  \<open>library\<close>, an absent tag or digest is empty.
\<close>

theorem ParseDockerImageValue_image_ref:
  assumes "image_parts_ok ns nm tag dig"
  shows "ParseDockerImageValue (image_ref ns nm tag dig) =
    \<lparr>di_Namespace = (case ns of None \<Rightarrow> ''library'' | Some n \<Rightarrow> n), di_Name = nm,
     di_Tag = (case tag of None \<Rightarrow> [] | Some t \<Rightarrow> t),
     di_Digest = (case dig of None \<Rightarrow> [] | Some d \<Rightarrow> d),
     di_FullPath = image_ref ns nm tag dig\<rparr>"
  using docker_submatch [OF assms] remove_alias_id image_ref_head [OF assms]
  by (auto simp: ParseDockerImageValue_def submatch_def image_caps_def gm_get_or_def
      split: option.split)

theorem ParseDockerImageValue_image_ref_witness:
  "ParseDockerImageValue ''cimg/go:1.22'' =
    \<lparr>di_Namespace = ''cimg'', di_Name = ''go'', di_Tag = ''1.22'', di_Digest = [],
     di_FullPath = ''cimg/go:1.22''\<rparr>"
  using ParseDockerImageValue_image_ref [of "Some ''cimg''" "''go''" "Some ''1.22''" None]
  by (simp add: image_parts_ok_def docker_word_def docker_name_class_def set_chars_between image_ref_def)

text \<open>
  Reading the definition of an orb aborts exactly when an at sign precedes the first slash.
\<close>

lemma getOrbDefinition_aborts:
  "getOrbDefinitionFromTextAndRange s rng = None \<longleftrightarrow>
    (\<exists>i j. index_of ''/'' s = Some i \<and> index_of ''@'' s = Some j \<and> j < i)"
  by (rule getOrbDefinition_None)

text \<open>
  Reading the definition of \<open>ns/name@version\<close> gives back its three parts.
\<close>

lemma getOrbDefinition_roundtrip:
  assumes "CHR ''/'' \<notin> set ns" "CHR ''@'' \<notin> set ns" "CHR ''@'' \<notin> set nm"
  shows "\<exists>d. getOrbDefinitionFromTextAndRange (ns @ ''/'' @ nm @ ''@'' @ v) rng = Some d \<and>
    tr_Text (od_Namespace d) = ns \<and> tr_Text (od_Name d) = nm \<and> tr_Text (od_Version d) = v"
  by (rule getOrbDefinition_parts [OF assms])

theorem getOrbDefinition_roundtrip_witness:
  "\<exists>d. getOrbDefinitionFromTextAndRange (''circleci'' @ ''/'' @ ''node'' @ ''@'' @ ''5.1'') zero_range = Some d \<and>
    tr_Text (od_Namespace d) = ''circleci'' \<and> tr_Text (od_Name d) = ''node'' \<and> tr_Text (od_Version d) = ''5.1''"
  by (rule getOrbDefinition_roundtrip) simp_all

text \<open>
  Inserting into an ASCII text splices at the position's index, but a position at the end
  of the text inserts nothing.
\<close>

lemma inserted_content_ascii:
  assumes "\<forall>c\<in>set content. of_char c < (128 :: nat)"
  shows "inserted_content content pos ins =
      (let i = PosToIndex pos content
       in if i < length content then take i content @ ins @ drop i content else content)"
  using insert_loop_ascii [OF le0 assms, of "PosToIndex pos content" ins]
  by (simp add: inserted_content_def Let_def)

theorem inserted_content_ascii_witness:
  "inserted_content ''ab'' (mk_pos 0 1) ''x'' =
      (let i = PosToIndex (mk_pos 0 1) ''ab''
       in if i < length ''ab'' then take i ''ab'' @ ''x'' @ drop i ''ab'' else ''ab'')"
  by (rule inserted_content_ascii) simp

text \<open>
  A byte beyond ASCII does not survive an insertion: the two bytes of an accented letter
  come back as four.
\<close>

lemma inserted_content_bytes:
  "inserted_content [char_of (195 :: nat), char_of (169 :: nat)] zero_pos [] =
     [char_of (195 :: nat), char_of (131 :: nat), char_of (194 :: nat), char_of (169 :: nat)]"
  by code_simp

end
