(* ===== verification/ParseBase.thy ===== *)
theory ParseBase
  imports Document
begin

text \<open>
  What the parsers of \<open>pkg/parser\<close> share: the walk over mappings with their merge keys and over
  sequences, and the texts they read (\<open>utils.go\<close>).

  A parser reads the document and may add diagnostics to it; it is a value \<open>Some (x, ds)\<close> with the
  diagnostics it adds, or \<open>None\<close> when the code aborts (a nil node is dereferenced, a slice is out of
  range) or does not return. An anchor may refer to itself through the tree, so the recursion is
  not on the tree alone: the first argument \<open>k\<close> bounds the depth of the recursion, and \<open>None\<close> also
  says that the bound was too small. More fuel never changes a result (\<open>refines\<close>).
\<close>

subsection \<open>Parsers\<close>

type_synonym 'a parse = "('a \<times> diagnostic list) option"

definition pret :: "'a \<Rightarrow> 'a parse" where
  "pret x = Some (x, [])"

definition pbind :: "'a parse \<Rightarrow> ('a \<Rightarrow> 'b parse) \<Rightarrow> 'b parse" where
  "pbind m f =
     (case m of
        None \<Rightarrow> None
      | Some (x, ds) \<Rightarrow> (case f x of None \<Rightarrow> None | Some (y, es) \<Rightarrow> Some (y, ds @ es)))"

definition ppanic :: "'a parse" where
  "ppanic = None"

definition plift :: "'a option \<Rightarrow> 'a parse" where
  "plift y = (case y of None \<Rightarrow> None | Some x \<Rightarrow> Some (x, []))"

definition pemit :: "diagnostic list \<Rightarrow> unit parse" where
  "pemit ds = Some ((), ds)"

definition pmap :: "('a \<Rightarrow> 'b) \<Rightarrow> 'a parse \<Rightarrow> 'b parse" where
  "pmap f m = pbind m (\<lambda>x. pret (f x))"

fun pfold :: "('x \<Rightarrow> 's \<Rightarrow> 's parse) \<Rightarrow> 'x list \<Rightarrow> 's \<Rightarrow> 's parse" where
  "pfold f [] s = pret s"
| "pfold f (x # xs) s = pbind (f x s) (pfold f xs)"

text \<open>
  What a returning parser satisfies; that it returns; and that one parser is another with less
  fuel: where the first returns, the second returns the same.
\<close>

definition yields :: "('a \<Rightarrow> bool) \<Rightarrow> 'a parse \<Rightarrow> bool" where
  "yields P m \<longleftrightarrow> (\<forall>x ds. m = Some (x, ds) \<longrightarrow> P x)"

definition returns :: "'a parse \<Rightarrow> bool" where
  "returns m \<longleftrightarrow> m \<noteq> None"

definition refines :: "'a option \<Rightarrow> 'a option \<Rightarrow> bool" where
  "refines m m' \<longleftrightarrow> m = None \<or> m' = m"

named_theorems yields_intros \<open>what returning parsers satisfy\<close>
named_theorems returns_intros \<open>the parsers that return\<close>
named_theorems refines_intros \<open>more fuel, the same result\<close>

lemma yieldsD: "yields P m \<Longrightarrow> m = Some (x, ds) \<Longrightarrow> P x"
  by (simp add: yields_def)

lemma yields_mono: "yields P m \<Longrightarrow> (\<And>x. P x \<Longrightarrow> Q x) \<Longrightarrow> yields Q m"
  by (auto simp: yields_def)

lemma yields_True [simp]: "yields (\<lambda>_. True) m"
  by (simp add: yields_def)

lemma yields_pret [yields_intros]: "P x \<Longrightarrow> yields P (pret x)"
  by (simp add: yields_def pret_def)

lemma yields_ppanic [yields_intros]: "yields P ppanic"
  by (simp add: yields_def ppanic_def)

lemma yields_pbind: "yields Q m \<Longrightarrow> (\<And>x. Q x \<Longrightarrow> yields P (f x)) \<Longrightarrow> yields P (pbind m f)"
  unfolding yields_def pbind_def by (fastforce split: option.splits)

lemma yields_pbind_any [yields_intros]: "(\<And>x. yields P (f x)) \<Longrightarrow> yields P (pbind m f)"
  by (rule yields_pbind [of "\<lambda>_. True"]) simp_all

lemma yields_pfold:
  "P s \<Longrightarrow> (\<And>x s. x \<in> set xs \<Longrightarrow> P s \<Longrightarrow> yields P (f x s)) \<Longrightarrow> yields P (pfold f xs s)"
proof (induction xs arbitrary: s)
  case (Cons x xs)
  have "yields P (pfold f xs s')" if "P s'" for s'
    by (rule Cons.IH [OF that]) (use Cons.prems in auto)
  with Cons.prems show ?case by (auto intro!: yields_pbind [of P])
qed (simp add: yields_pret)

lemma yields_if [yields_intros]: "(c \<Longrightarrow> yields P a) \<Longrightarrow> (\<not> c \<Longrightarrow> yields P b) \<Longrightarrow> yields P (if c then a else b)"
  by simp

lemma yields_case_option [yields_intros]:
  "(y = None \<Longrightarrow> yields P a) \<Longrightarrow> (\<And>x. y = Some x \<Longrightarrow> yields P (f x)) \<Longrightarrow>
    yields P (case y of None \<Rightarrow> a | Some x \<Rightarrow> f x)"
  by (cases y) simp_all

lemma yields_case_prod [yields_intros]:
  "(\<And>x y. p = (x, y) \<Longrightarrow> yields P (f x y)) \<Longrightarrow> yields P (case p of (x, y) \<Rightarrow> f x y)"
  by (cases p) simp

lemma yields_case_sum [yields_intros]:
  "(\<And>e. y = Inl e \<Longrightarrow> yields P (g e)) \<Longrightarrow> (\<And>x. y = Inr x \<Longrightarrow> yields P (f x)) \<Longrightarrow>
    yields P (case y of Inl e \<Rightarrow> g e | Inr x \<Rightarrow> f x)"
  by (cases y) simp_all

lemma returns_pret [returns_intros]: "returns (pret x)"
  by (simp add: returns_def pret_def)

lemma returns_pemit [returns_intros]: "returns (pemit ds)"
  by (simp add: returns_def pemit_def)

lemma returns_plift [returns_intros]: "y \<noteq> None \<Longrightarrow> returns (plift y)"
  by (auto simp: returns_def plift_def)

lemma returns_pbind [returns_intros]:
  "returns m \<Longrightarrow> (\<And>x ds. m = Some (x, ds) \<Longrightarrow> returns (f x)) \<Longrightarrow> returns (pbind m f)"
  unfolding returns_def pbind_def by (fastforce split: option.splits)

lemma returns_pfold [returns_intros]:
  "(\<And>x s. x \<in> set xs \<Longrightarrow> returns (f x s)) \<Longrightarrow> returns (pfold f xs s)"
  by (induction xs arbitrary: s) (auto intro!: returns_intros)

lemma returns_if [returns_intros]: "(c \<Longrightarrow> returns a) \<Longrightarrow> (\<not> c \<Longrightarrow> returns b) \<Longrightarrow> returns (if c then a else b)"
  by simp

lemma returns_case_option [returns_intros]:
  "(y = None \<Longrightarrow> returns a) \<Longrightarrow> (\<And>x. y = Some x \<Longrightarrow> returns (f x)) \<Longrightarrow>
    returns (case y of None \<Rightarrow> a | Some x \<Rightarrow> f x)"
  by (cases y) simp_all

lemma returns_case_prod [returns_intros]:
  "(\<And>x y. p = (x, y) \<Longrightarrow> returns (f x y)) \<Longrightarrow> returns (case p of (x, y) \<Rightarrow> f x y)"
  by (cases p) simp

lemma returns_case_sum [returns_intros]:
  "(\<And>e. y = Inl e \<Longrightarrow> returns (g e)) \<Longrightarrow> (\<And>x. y = Inr x \<Longrightarrow> returns (f x)) \<Longrightarrow>
    returns (case y of Inl e \<Rightarrow> g e | Inr x \<Rightarrow> f x)"
  by (cases y) simp_all

lemma refines_refl [refines_intros]: "refines m m"
  by (simp add: refines_def)

lemma refines_None [refines_intros]: "refines None m"
  by (simp add: refines_def)

lemma refinesD: "refines m m' \<Longrightarrow> m = Some x \<Longrightarrow> m' = Some x"
  by (auto simp: refines_def)

lemma refines_trans: "refines m m' \<Longrightarrow> refines m' m'' \<Longrightarrow> refines m m''"
  by (auto simp: refines_def)

lemma refines_pbind [refines_intros]:
  "refines m m' \<Longrightarrow> (\<And>x. refines (f x) (f' x)) \<Longrightarrow> refines (pbind m f) (pbind m' f')"
proof (cases m)
  case (Some r)
  assume m: "refines m m'" and f: "\<And>x. refines (f x) (f' x)"
  obtain x ds where r: "r = (x, ds)" by (cases r)
  with m Some have "m' = Some (x, ds)" by (simp add: refines_def)
  with Some r f [of x] show ?thesis by (auto simp: refines_def pbind_def)
qed (simp add: refines_def pbind_def)

lemma refines_plift [refines_intros]: "refines y y' \<Longrightarrow> refines (plift y) (plift y')"
  by (auto simp: refines_def plift_def)

lemma refines_pmap [refines_intros]: "refines m m' \<Longrightarrow> refines (pmap f m) (pmap f m')"
  unfolding pmap_def by (intro refines_intros)

lemma refines_pfold [refines_intros]:
  "(\<And>x s. refines (f x s) (f' x s)) \<Longrightarrow> refines (pfold f xs s) (pfold f' xs s)"
  by (induction xs arbitrary: s) (auto intro!: refines_intros)

lemma refines_if [refines_intros]: "refines a a' \<Longrightarrow> refines b b' \<Longrightarrow> refines (if c then a else b) (if c then a' else b')"
  by simp

lemma refines_case_option [refines_intros]:
  "refines a a' \<Longrightarrow> (\<And>x. refines (f x) (f' x)) \<Longrightarrow>
    refines (case y of None \<Rightarrow> a | Some x \<Rightarrow> f x) (case y of None \<Rightarrow> a' | Some x \<Rightarrow> f' x)"
  by (cases y) simp_all

lemma refines_case_prod [refines_intros]:
  "(\<And>x y. refines (f x y) (f' x y)) \<Longrightarrow>
    refines (case p of (x, y) \<Rightarrow> f x y) (case p of (x, y) \<Rightarrow> f' x y)"
  by (cases p) simp

lemma refines_case_sum [refines_intros]:
  "(\<And>e. refines (g e) (g' e)) \<Longrightarrow> (\<And>x. refines (f x) (f' x)) \<Longrightarrow>
    refines (case y of Inl e \<Rightarrow> g e | Inr x \<Rightarrow> f x) (case y of Inl e \<Rightarrow> g' e | Inr x \<Rightarrow> f' x)"
  by (cases y) simp_all

lemmas parse_defs = pret_def pbind_def plift_def pemit_def pmap_def ppanic_def

subsection \<open>Sequences\<close>

text \<open>The children that \<open>iterateOnBlockSequence\<close> calls its function on, in order.\<close>

definition sequence_children :: "sitter \<Rightarrow> node option \<Rightarrow> node list" where
  "sequence_children t n =
     (case n of
        None \<Rightarrow> []
      | Some n \<Rightarrow>
          if st_Type t n \<noteq> ''block_sequence'' \<and> st_Type t n \<noteq> ''flow_sequence'' then []
          else filter (\<lambda>child. st_Type t child \<noteq> ''comment'') (st_Children t n))"

lemma iterateOnBlockSequence_children:
  "iterateOnBlockSequence t n fn s = fold fn (sequence_children t n) s"
proof -
  have "fold (\<lambda>child s. if st_Type t child = ''comment'' then s else fn child s) cs s =
      fold fn (filter (\<lambda>child. st_Type t child \<noteq> ''comment'') cs) s" for cs s
    by (induction cs arbitrary: s) simp_all
  then show ?thesis
    by (simp add: iterateOnBlockSequence_def sequence_children_def split: option.split)
qed

text \<open>The text of an array's element; an alias stands for the anchor's value.\<close>

definition array_text :: "yaml_document \<Rightarrow> node option \<Rightarrow> text_and_range" where
  "array_text doc n =
     (let t = yd_Tree doc in
      case GetChildOfType t n ''alias'' of
        Some alias \<Rightarrow>
          (case gm_get (yd_YamlAnchors doc) (trim_left_set [CHR ''*''] (GetNodeText doc (Some alias))) of
             None \<Rightarrow> \<lparr>tr_Text = [], tr_Range = zero_range\<rparr>
           | Some anchor \<Rightarrow>
               let anchorValueNode = GetFirstChild t (an_ValueNode anchor)
               in \<lparr>tr_Text = GetNodeText doc anchorValueNode, tr_Range = NodeToRange doc anchorValueNode\<rparr>)
      | None \<Rightarrow> \<lparr>tr_Text = GetNodeText doc n, tr_Range = NodeToRange doc n\<rparr>)"

definition array_element :: "yaml_document \<Rightarrow> node \<Rightarrow> text_and_range list" where
  "array_element doc child =
     (let t = yd_Tree doc
      in if st_Type t child = ''flow_node'' then [array_text doc (Some child)]
         else (case GetChildOfType t (Some child) ''flow_node'' of
                 Some element \<Rightarrow> [array_text doc (Some element)]
               | None \<Rightarrow>
                   (case st_Child t child 0 of
                      Some hyphenNode \<Rightarrow> [array_text doc (st_NextSibling t hyphenNode)]
                    | None \<Rightarrow> [])))"

definition getNodeTextArrayWithRange :: "yaml_document \<Rightarrow> node option \<Rightarrow> text_and_range list" where
  "getNodeTextArrayWithRange doc valueNode =
     concat (map (array_element doc)
       (sequence_children (yd_Tree doc) (GetChildSequence (yd_Tree doc) valueNode)))"

definition getNodeTextArray :: "yaml_document \<Rightarrow> node option \<Rightarrow> string list" where
  "getNodeTextArray doc valueNode = map tr_Text (getNodeTextArrayWithRange doc valueNode)"

definition getNodeTextArrayOrText :: "yaml_document \<Rightarrow> node option \<Rightarrow> string list" where
  "getNodeTextArrayOrText doc valueNode =
     (let textArray = getNodeTextArray doc valueNode
      in if textArray = [] then [GetNodeText doc valueNode] else textArray)"

subsection \<open>Mappings and merge keys\<close>

text \<open>
  The names of the anchors a merge key refers to. \<open>None\<close>: the text of an alias is empty, so the
  slice \<open>txt[1:]\<close> aborts.
\<close>

fun extractMergeAnchorNames :: "nat \<Rightarrow> yaml_document \<Rightarrow> node option \<Rightarrow> string list option" where
  "extractMergeAnchorNames 0 doc n = None"
| "extractMergeAnchorNames (Suc k) doc n =
     (let t = yd_Tree doc in
      case n of
        None \<Rightarrow> Some []
      | Some n \<Rightarrow>
          (case st_Child t n 0 of
             None \<Rightarrow> Some []
           | Some child \<Rightarrow>
               if st_Type t child = ''alias''
               then (case GetNodeText doc (Some child) of [] \<Rightarrow> None | _ # name \<Rightarrow> Some [name])
               else if st_Type t child = ''flow_sequence''
               then map_option concat
                      (those (map (\<lambda>c. extractMergeAnchorNames k doc (Some c)) (st_Children t child)))
               else Some []))"

definition key_text :: "yaml_document \<Rightarrow> node \<Rightarrow> string" where
  "key_text doc child = GetNodeText doc (st_ChildByFieldName (yd_Tree doc) child ''key'')"

text \<open>
  The children of merged mappings whose keys are not mapped yet; every key counts once. The set of
  the mapped keys is a list.
\<close>

fun unmapped :: "yaml_document \<Rightarrow> node list \<Rightarrow> string list \<Rightarrow> node list \<times> string list" where
  "unmapped doc [] mapped = ([], mapped)"
| "unmapped doc (child # cs) mapped =
     (let keyName = GetNodeText doc (fst (GetKeyValueNodes doc (Some child)))
      in if keyName \<in> set mapped then unmapped doc cs mapped
         else let (visited, mapped') = unmapped doc cs (keyName # mapped) in (child # visited, mapped'))"

text \<open>The loop over the merged anchors; an unknown one ends it.\<close>

fun merge_loop ::
    "(node option \<Rightarrow> node list option) \<Rightarrow> yaml_document \<Rightarrow> string list \<Rightarrow> string list \<Rightarrow> node list option" where
  "merge_loop sub doc [] mapped = Some []"
| "merge_loop sub doc (anchorName # names) mapped =
     (case gm_get (yd_YamlAnchors doc) anchorName of
        None \<Rightarrow> Some []
      | Some anchor \<Rightarrow>
          if an_ValueNode anchor = None then Some []
          else (case sub (GetFirstChild (yd_Tree doc) (an_ValueNode anchor)) of
                  None \<Rightarrow> None
                | Some cs \<Rightarrow>
                    let (visited, mapped') = unmapped doc cs mapped
                    in map_option (append visited) (merge_loop sub doc names mapped')))"

definition own_children :: "yaml_document \<Rightarrow> node \<Rightarrow> node list" where
  "own_children doc n =
     filter (\<lambda>child. st_Type (yd_Tree doc) child \<noteq> ''comment'' \<and> key_text doc child \<noteq> ''<<'')
       (st_Children (yd_Tree doc) n)"

definition merge_children :: "yaml_document \<Rightarrow> node \<Rightarrow> node list" where
  "merge_children doc n =
     filter (\<lambda>child. st_Type (yd_Tree doc) child \<noteq> ''comment'' \<and> key_text doc child = ''<<'')
       (st_Children (yd_Tree doc) n)"

text \<open>The names under the merge keys of a mapping, each once, in the order of their first mention.\<close>

definition merge_names :: "nat \<Rightarrow> yaml_document \<Rightarrow> node \<Rightarrow> string list option" where
  "merge_names k doc n =
     map_option (\<lambda>names. gm_keys (fold (\<lambda>a m. gm_put a True m) (concat names) []))
       (those (map (\<lambda>child. extractMergeAnchorNames k doc (st_ChildByFieldName (yd_Tree doc) child ''value''))
                (merge_children doc n)))"

text \<open>
  The children that \<open>iterateOnBlockMapping\<close> calls its function on, in order: which they are does
  not depend on the function. The merged anchors are taken in the order of their first mention,
  one of the orders in which the code may range over its map.
\<close>

fun mapping_children :: "nat \<Rightarrow> yaml_document \<Rightarrow> node option \<Rightarrow> node list option" where
  "mapping_children 0 doc n = None"
| "mapping_children (Suc k) doc n =
     (case n of
        None \<Rightarrow> Some []
      | Some n \<Rightarrow>
          if st_Type (yd_Tree doc) n \<noteq> ''block_mapping'' \<and> st_Type (yd_Tree doc) n \<noteq> ''flow_mapping''
          then Some []
          else (case merge_names k doc n of
                  None \<Rightarrow> None
                | Some mergeKeys \<Rightarrow>
                    map_option (append (own_children doc n))
                      (merge_loop (mapping_children k doc) doc mergeKeys
                         (map (key_text doc) (own_children doc n)))))"

definition iterateOnBlockMapping ::
    "nat \<Rightarrow> yaml_document \<Rightarrow> node option \<Rightarrow> (node \<Rightarrow> 's \<Rightarrow> 's parse) \<Rightarrow> 's \<Rightarrow> 's parse" where
  "iterateOnBlockMapping k doc blockMappingNode fn s =
     pbind (plift (mapping_children k doc blockMappingNode)) (\<lambda>cs. pfold fn cs s)"

text \<open>The callbacks that give up without a key or without a value.\<close>

definition on_pair ::
    "yaml_document \<Rightarrow> (node \<Rightarrow> string \<Rightarrow> node \<Rightarrow> 's \<Rightarrow> 's parse) \<Rightarrow> node \<Rightarrow> 's \<Rightarrow> 's parse" where
  "on_pair doc f child s =
     (case GetKeyValueNodes doc (Some child) of
        (Some keyNode, Some valueNode) \<Rightarrow> f child (GetNodeText doc (Some keyNode)) valueNode s
      | _ \<Rightarrow> pret s)"

definition parseDictionary :: "nat \<Rightarrow> yaml_document \<Rightarrow> node option \<Rightarrow> (string, string) gomap parse" where
  "parseDictionary k doc valueNode =
     iterateOnBlockMapping k doc valueNode
       (\<lambda>child dictionary.
          if st_Type (yd_Tree doc) child = ''block_mapping_pair'' \<or> st_Type (yd_Tree doc) child = ''flow_pair''
          then on_pair doc (\<lambda>_ key v d. pret (gm_put key (GetNodeText doc (Some v)) d)) child dictionary
          else pret dictionary) []"

definition parseDescription :: "yaml_document \<Rightarrow> node option \<Rightarrow> string" where
  "parseDescription doc descriptionNode = GetNodeText doc descriptionNode"

subsection \<open>Walking with an invariant\<close>

lemma yields_pmap [yields_intros]: "yields (\<lambda>x. P (f x)) m \<Longrightarrow> yields P (pmap f m)"
  unfolding pmap_def by (erule yields_pbind) (rule yields_pret)

lemma yields_iterateOnBlockMapping:
  "P s \<Longrightarrow> (\<And>c s. P s \<Longrightarrow> yields P (fn c s)) \<Longrightarrow> yields P (iterateOnBlockMapping k doc n fn s)"
  unfolding iterateOnBlockMapping_def by (intro yields_intros yields_pfold)

lemma yields_on_pair: "P s \<Longrightarrow> (\<And>c key v s. P s \<Longrightarrow> yields P (f c key v s)) \<Longrightarrow> yields P (on_pair doc f c s)"
  unfolding on_pair_def by (auto intro!: yields_intros split: prod.split option.split)

lemma yields_plift: "(\<And>x. y = Some x \<Longrightarrow> P x) \<Longrightarrow> yields P (plift y)"
  by (auto simp: yields_def plift_def split: option.splits)

subsection \<open>More fuel, the same children\<close>

lemma refines_those:
  "(\<And>x. refines (f x) (f' x)) \<Longrightarrow> refines (those (map f xs)) (those (map f' xs))"
proof (induction xs)
  case (Cons x xs)
  have 1: "f x = None \<or> f' x = f x" and
    2: "those (map f xs) = None \<or> those (map f' xs) = those (map f xs)"
    using Cons by (auto simp: refines_def)
  then show ?case by (auto simp: refines_def split: option.split)
qed (simp add: refines_def)

lemma refines_map_option [refines_intros]: "refines m m' \<Longrightarrow> refines (map_option f m) (map_option f m')"
  by (auto simp: refines_def)

lemma refines_extractMergeAnchorNames [refines_intros]:
  "k \<le> k' \<Longrightarrow> refines (extractMergeAnchorNames k doc n) (extractMergeAnchorNames k' doc n)"
proof (induction k arbitrary: n k')
  case (Suc k)
  then obtain j where j: "k' = Suc j" "k \<le> j" by (cases k') auto
  show ?case
    unfolding j(1) extractMergeAnchorNames.simps(2) Let_def
    by (intro refines_intros refines_those Suc.IH j(2))
qed (simp add: refines_def)

lemma refines_merge_loop:
  assumes "\<And>n. refines (sub n) (sub' n)"
  shows "refines (merge_loop sub doc names mapped) (merge_loop sub' doc names mapped)"
proof (induction names arbitrary: mapped)
  case (Cons a names)
  show ?case
  proof (cases "gm_get (yd_YamlAnchors doc) a")
    case (Some anchor)
    let ?c = "GetFirstChild (yd_Tree doc) (an_ValueNode anchor)"
    from assms [of ?c] consider "sub ?c = None" | "sub' ?c = sub ?c" by (auto simp: refines_def)
    then show ?thesis
      by cases (auto simp: Some Let_def refines_None refines_refl intro!: refines_intros Cons.IH
          split: option.split prod.split)
  qed (simp add: refines_refl)
qed (simp add: refines_refl)

lemma refines_case_refines:
  "refines m m' \<Longrightarrow> (\<And>x. refines (f x) (f' x)) \<Longrightarrow>
    refines (case m of None \<Rightarrow> None | Some x \<Rightarrow> f x) (case m' of None \<Rightarrow> None | Some x \<Rightarrow> f' x)"
  by (cases m; cases m') (auto simp: refines_def)

lemma refines_merge_names: "k \<le> k' \<Longrightarrow> refines (merge_names k doc n) (merge_names k' doc n)"
  unfolding merge_names_def by (intro refines_intros refines_those)

lemma refines_mapping_children [refines_intros]:
  "k \<le> k' \<Longrightarrow> refines (mapping_children k doc n) (mapping_children k' doc n)"
proof (induction k arbitrary: n k')
  case (Suc k)
  then obtain j where j: "k' = Suc j" "k \<le> j" by (cases k') auto
  show ?case
    unfolding j(1) mapping_children.simps(2)
    by (intro refines_case_option refines_if refines_refl refines_case_refines refines_merge_names
        refines_map_option refines_merge_loop Suc.IH j(2))
qed (simp add: refines_def)

lemma refines_iterateOnBlockMapping [refines_intros]:
  "k \<le> k' \<Longrightarrow> (\<And>c s. refines (fn c s) (fn' c s)) \<Longrightarrow>
    refines (iterateOnBlockMapping k doc n fn s) (iterateOnBlockMapping k' doc n fn' s)"
  unfolding iterateOnBlockMapping_def by (intro refines_intros)

lemma refines_on_pair [refines_intros]:
  "(\<And>c key v s. refines (f c key v s) (f' c key v s)) \<Longrightarrow> refines (on_pair doc f c s) (on_pair doc f' c s)"
  unfolding on_pair_def by (intro refines_intros)

lemma refines_parseDictionary [refines_intros]:
  "k \<le> k' \<Longrightarrow> refines (parseDictionary k doc n) (parseDictionary k' doc n)"
  unfolding parseDictionary_def by (intro refines_intros)

subsection \<open>What a walk visits\<close>

definition pair_key :: "yaml_document \<Rightarrow> node \<Rightarrow> string" where
  "pair_key doc child = GetNodeText doc (fst (GetKeyValueNodes doc (Some child)))"

lemma unmapped_props:
  "unmapped doc cs mapped = (visited, mapped') \<Longrightarrow>
    set visited \<subseteq> set cs \<and> distinct (map (pair_key doc) visited) \<and>
    set (map (pair_key doc) visited) \<inter> set mapped = {} \<and>
    set mapped' = set mapped \<union> set (map (pair_key doc) visited) \<and>
    set (map (pair_key doc) visited) \<union> set mapped = set (map (pair_key doc) cs) \<union> set mapped"
proof (induction cs arbitrary: mapped visited mapped')
  case (Cons c cs)
  show ?case
  proof (cases "pair_key doc c \<in> set mapped")
    case True
    with Cons.prems have "unmapped doc cs mapped = (visited, mapped')"
      by (simp add: pair_key_def)
    from Cons.IH [OF this] True show ?thesis by auto
  next
    case False
    obtain v m where v: "unmapped doc cs (pair_key doc c # mapped) = (v, m)" by fastforce
    with Cons.prems False have "visited = c # v" "mapped' = m"
      by (auto simp: pair_key_def Let_def)
    with Cons.IH [OF v] False show ?thesis by auto
  qed
qed simp

lemma merge_loop_props:
  "merge_loop sub doc names mapped = Some cs \<Longrightarrow>
    distinct (map (pair_key doc) cs) \<and> set (map (pair_key doc) cs) \<inter> set mapped = {}"
proof (induction names arbitrary: mapped cs)
  case (Cons a names)
  show ?case
  proof (cases "gm_get (yd_YamlAnchors doc) a")
    case (Some anchor)
    show ?thesis
    proof (cases "an_ValueNode anchor = None")
      case False
      with Cons.prems Some obtain bs where bs: "sub (GetFirstChild (yd_Tree doc) (an_ValueNode anchor)) = Some bs" by (auto split: option.splits)
      obtain v m where v: "unmapped doc bs mapped = (v, m)" by fastforce
      from Cons.prems False Some bs v obtain rest
        where rest: "merge_loop sub doc names m = Some rest" "cs = v @ rest" by auto
      from Cons.IH [OF rest(1)] unmapped_props [OF v] rest(2) show ?thesis by auto
    qed (use Cons.prems Some in auto)
  qed (use Cons.prems in simp)
qed simp

lemma mapping_children_shape:
  assumes "mapping_children k doc (Some n) = Some cs"
    and "st_Type (yd_Tree doc) n = ''block_mapping'' \<or> st_Type (yd_Tree doc) n = ''flow_mapping''"
  shows "\<exists>merged. cs = own_children doc n @ merged \<and> distinct (map (pair_key doc) merged) \<and>
    (\<forall>c\<in>set merged. pair_key doc c \<notin> key_text doc ` set (own_children doc n))"
proof (cases k)
  case (Suc k')
  with assms obtain names merged where m: "cs = own_children doc n @ merged"
    "merge_loop (mapping_children k' doc) doc names (map (key_text doc) (own_children doc n)) = Some merged"
    by (auto simp: Let_def split: option.splits)
  from merge_loop_props [OF m(2)] m(1) show ?thesis by auto
qed (use assms in simp)

end
