(* ===== verification/ParseSteps.thy ===== *)
theory ParseSteps
  imports ParseBase
begin

text \<open>
  The steps of a job and the values given to parameters, which contain each other:
  \<open>pkg/parser/steps.go\<close> and the values of \<open>pkg/parser/parameters.go\<close>.
\<close>

subsection \<open>utils/diagnostics.go\<close>

definition CreateWarningDiagnosticFromNode :: "sitter \<Rightarrow> node \<Rightarrow> string \<Rightarrow> diagnostic" where
  "CreateWarningDiagnosticFromNode t n msg = CreateWarningDiagnosticFromRange (raw_range t n) msg"

definition CreateErrorDiagnosticFromNode :: "sitter \<Rightarrow> node \<Rightarrow> string \<Rightarrow> diagnostic" where
  "CreateErrorDiagnosticFromNode t n msg = CreateErrorDiagnosticFromRange (raw_range t n) msg"

subsection \<open>Built-in steps\<close>

text \<open>The range of the key that a value belongs to; the code aborts on a value without a parent.\<close>

definition parent_key_range :: "yaml_document \<Rightarrow> node \<Rightarrow> range parse" where
  "parent_key_range doc n =
     plift (map_option (\<lambda>p. NodeToRange doc (st_ChildByFieldName (yd_Tree doc) p ''key''))
              (st_Parent (yd_Tree doc) n))"

definition zero_run :: run_step where
  "zero_run =
     \<lparr>run_Range = zero_range, run_Command = [], run_CommandRange = zero_range, run_RawCommand = [],
      run_Name = [], run_Shell = [], run_Background = False, run_WorkingDirectory = [],
      run_NoOutputTimeout = [], run_When = [], run_WhenRange = zero_range, run_Environment = [],
      run_IsDeployStep = False, run_MaxAutoReruns = [], run_AutoRerunDelay = []\<rparr>"

text \<open>A command given as a text: a flow node, or a block scalar in it.\<close>

definition run_of_text :: "yaml_document \<Rightarrow> node \<Rightarrow> range \<Rightarrow> run_step" where
  "run_of_text doc n rng = zero_run
     \<lparr>run_Name := ''run'', run_Command := GetNodeText doc (Some n),
      run_CommandRange := NodeToRange doc (Some n), run_Range := rng,
      run_RawCommand := GetRawNodeText doc (Some n)\<rparr>"

definition run_field ::
    "nat \<Rightarrow> yaml_document \<Rightarrow> node \<Rightarrow> string \<Rightarrow> node \<Rightarrow> run_step \<Rightarrow> run_step parse" where
  "run_field k doc child keyName v res =
     (let txt = GetNodeText doc (Some v) in
      if keyName = ''name'' then pret (res\<lparr>run_Name := txt\<rparr>)
      else if keyName = ''command''
      then pret (res\<lparr>run_CommandRange := NodeToRange doc (Some v), run_Command := txt,
                     run_RawCommand := GetRawNodeText doc (Some v)\<rparr>)
      else if keyName = ''shell'' then pret (res\<lparr>run_Shell := txt\<rparr>)
      else if keyName = ''background'' then pret (res\<lparr>run_Background := (txt = ''true'')\<rparr>)
      else if keyName = ''working_directory'' then pret (res\<lparr>run_WorkingDirectory := txt\<rparr>)
      else if keyName = ''no_output_timeout'' then pret (res\<lparr>run_NoOutputTimeout := txt\<rparr>)
      else if keyName = ''when''
      then pret (res\<lparr>run_When := txt, run_WhenRange := NodeToRange doc (Some v)\<rparr>)
      else if keyName = ''environment''
      then pmap (\<lambda>d. res\<lparr>run_Environment := d\<rparr>) (parseDictionary k doc (Some v))
      else if keyName = ''max_auto_reruns'' then pret (res\<lparr>run_MaxAutoReruns := txt\<rparr>)
      else if keyName = ''auto_rerun_delay'' then pret (res\<lparr>run_AutoRerunDelay := txt\<rparr>)
      else pret res)"

definition parseRunStep :: "nat \<Rightarrow> yaml_document \<Rightarrow> node \<Rightarrow> run_step parse" where
  "parseRunStep k doc runNode =
     (let t = yd_Tree doc
      in pbind (parent_key_range doc runNode) (\<lambda>rng.
           if st_Type t runNode = ''flow_node'' then pret (run_of_text doc runNode rng)
           else (case GetChildOfType t (Some runNode) ''block_scalar'' of
                   Some blockScalarNode \<Rightarrow> pret (run_of_text doc blockScalarNode rng)
                 | None \<Rightarrow>
                     iterateOnBlockMapping k doc (GetChildMapping t (Some runNode))
                       (on_pair doc (run_field k doc))
                       (zero_run\<lparr>run_Name := ''run'', run_Range := rng\<rparr>))))"

definition parseDeployStep :: "nat \<Rightarrow> yaml_document \<Rightarrow> node \<Rightarrow> run_step parse" where
  "parseDeployStep k doc n = pmap (\<lambda>r. r\<lparr>run_IsDeployStep := True\<rparr>) (parseRunStep k doc n)"

definition parseCheckoutStep :: "nat \<Rightarrow> yaml_document \<Rightarrow> node \<Rightarrow> checkout_step parse" where
  "parseCheckoutStep k doc n =
     (let t = yd_Tree doc
      in pbind (parent_key_range doc n) (\<lambda>rng.
           let res = \<lparr>co_Range = rng, co_Path = ''.'', co_Method = [], co_MethodRange = zero_range,
                      co_Depth = []\<rparr>
           in if st_Type t n = ''flow_node'' then pret res
              else iterateOnBlockMapping k doc (GetChildMapping t (Some n))
                (on_pair doc (\<lambda>child keyName v res.
                   let txt = GetNodeText doc (Some v) in
                   pret (if keyName = ''path'' then res\<lparr>co_Path := txt\<rparr>
                         else if keyName = ''method''
                         then res\<lparr>co_Method := txt, co_MethodRange := NodeToRange doc (Some child)\<rparr>
                         else if keyName = ''depth'' then res\<lparr>co_Depth := txt\<rparr>
                         else res))) res))"

definition parseSetupRemoteDockerStep :: "nat \<Rightarrow> yaml_document \<Rightarrow> node \<Rightarrow> setup_remote_docker parse" where
  "parseSetupRemoteDockerStep k doc n =
     (let t = yd_Tree doc
      in pbind (parent_key_range doc n) (\<lambda>rng.
           let res = \<lparr>srd_Range = rng, srd_DockerLayerCaching = False, srd_Version = []\<rparr>
           in if st_Type t n = ''flow_node'' then pret res
              else iterateOnBlockMapping k doc (GetChildMapping t (Some n))
                (on_pair doc (\<lambda>child keyName v res.
                   let txt = GetNodeText doc (Some v) in
                   pret (if keyName = ''docker_layer_caching''
                         then res\<lparr>srd_DockerLayerCaching := (txt = ''true'')\<rparr>
                         else if keyName = ''version'' then res\<lparr>srd_Version := txt\<rparr>
                         else res))) res))"

text \<open>The steps that hold nothing but texts: the range of the key, then the fields of the mapping.\<close>

definition step_fields ::
    "nat \<Rightarrow> yaml_document \<Rightarrow> node \<Rightarrow> (range \<Rightarrow> 's) \<Rightarrow> (string \<Rightarrow> node \<Rightarrow> 's \<Rightarrow> 's) \<Rightarrow> 's parse" where
  "step_fields k doc n init field =
     pbind (parent_key_range doc n) (\<lambda>rng.
       iterateOnBlockMapping k doc (GetChildMapping (yd_Tree doc) (Some n))
         (on_pair doc (\<lambda>child keyName v res. pret (field keyName v res))) (init rng))"

definition parseSaveCacheStep :: "nat \<Rightarrow> yaml_document \<Rightarrow> node \<Rightarrow> save_cache parse" where
  "parseSaveCacheStep k doc n =
     step_fields k doc n (\<lambda>rng. \<lparr>sc_Range = rng, sc_Paths = [], sc_Key = [], sc_CacheName = []\<rparr>)
       (\<lambda>keyName v res.
          if keyName = ''paths'' then res\<lparr>sc_Paths := getNodeTextArray doc (Some v)\<rparr>
          else if keyName = ''key'' then res\<lparr>sc_Key := GetNodeText doc (Some v)\<rparr>
          else if keyName = ''name'' then res\<lparr>sc_CacheName := GetNodeText doc (Some v)\<rparr>
          else res)"

definition parseRestoreCacheStep :: "nat \<Rightarrow> yaml_document \<Rightarrow> node \<Rightarrow> restore_cache parse" where
  "parseRestoreCacheStep k doc n =
     step_fields k doc n (\<lambda>rng. \<lparr>rc_Range = rng, rc_Key = [], rc_Keys = [], rc_CacheName = []\<rparr>)
       (\<lambda>keyName v res.
          if keyName = ''key'' then res\<lparr>rc_Key := GetNodeText doc (Some v)\<rparr>
          else if keyName = ''keys'' then res\<lparr>rc_Keys := getNodeTextArray doc (Some v)\<rparr>
          else if keyName = ''name'' then res\<lparr>rc_CacheName := GetNodeText doc (Some v)\<rparr>
          else res)"

definition parseStoreArtifactsStep :: "nat \<Rightarrow> yaml_document \<Rightarrow> node \<Rightarrow> store_artifacts parse" where
  "parseStoreArtifactsStep k doc n =
     step_fields k doc n (\<lambda>rng. \<lparr>sa_Range = rng, sa_Path = [], sa_Destination = []\<rparr>)
       (\<lambda>keyName v res.
          if keyName = ''path'' then res\<lparr>sa_Path := GetNodeText doc (Some v)\<rparr>
          else if keyName = ''destination'' then res\<lparr>sa_Destination := GetNodeText doc (Some v)\<rparr>
          else res)"

definition parseStoreTestResultsStep :: "nat \<Rightarrow> yaml_document \<Rightarrow> node \<Rightarrow> store_test_results parse" where
  "parseStoreTestResultsStep k doc n =
     step_fields k doc n (\<lambda>rng. \<lparr>str_Range = rng, str_Path = []\<rparr>)
       (\<lambda>keyName v res. if keyName = ''path'' then res\<lparr>str_Path := GetNodeText doc (Some v)\<rparr> else res)"

definition parsePersistToWorkspaceStep :: "nat \<Rightarrow> yaml_document \<Rightarrow> node \<Rightarrow> persist_to_workspace parse" where
  "parsePersistToWorkspaceStep k doc n =
     step_fields k doc n (\<lambda>rng. \<lparr>ptw_Range = rng, ptw_Root = [], ptw_Paths = []\<rparr>)
       (\<lambda>keyName v res.
          if keyName = ''root'' then res\<lparr>ptw_Root := GetNodeText doc (Some v)\<rparr>
          else if keyName = ''paths'' then res\<lparr>ptw_Paths := getNodeTextArray doc (Some v)\<rparr>
          else res)"

definition parseAttachWorkspaceStep :: "nat \<Rightarrow> yaml_document \<Rightarrow> node \<Rightarrow> attach_workspace parse" where
  "parseAttachWorkspaceStep k doc n =
     step_fields k doc n (\<lambda>rng. \<lparr>aw_Range = rng, aw_At = []\<rparr>)
       (\<lambda>keyName v res. if keyName = ''at'' then res\<lparr>aw_At := GetNodeText doc (Some v)\<rparr> else res)"

definition parseAddSSHKeyStep :: "nat \<Rightarrow> yaml_document \<Rightarrow> node \<Rightarrow> add_ssh_key parse" where
  "parseAddSSHKeyStep k doc n =
     step_fields k doc n (\<lambda>rng. \<lparr>ask_Range = rng, ask_Fingerprints = []\<rparr>)
       (\<lambda>keyName v res.
          if keyName = ''fingerprints'' then res\<lparr>ask_Fingerprints := getNodeTextArray doc (Some v)\<rparr> else res)"

text \<open>The cases of \<open>parseStep\<close> whose step holds no other step; \<open>None\<close> for the other keys.\<close>

definition builtin_step :: "nat \<Rightarrow> yaml_document \<Rightarrow> string \<Rightarrow> node \<Rightarrow> step parse option" where
  "builtin_step k doc keyName v =
     (if keyName = ''deploy'' then Some (pmap Run (parseDeployStep k doc v))
      else if keyName = ''run'' then Some (pmap Run (parseRunStep k doc v))
      else if keyName = ''checkout'' then Some (pmap Checkout (parseCheckoutStep k doc v))
      else if keyName = ''setup_remote_docker''
      then Some (pmap SetupRemoteDocker (parseSetupRemoteDockerStep k doc v))
      else if keyName = ''save_cache'' then Some (pmap SaveCache (parseSaveCacheStep k doc v))
      else if keyName = ''restore_cache'' then Some (pmap RestoreCache (parseRestoreCacheStep k doc v))
      else if keyName = ''store_artifacts'' then Some (pmap StoreArtifacts (parseStoreArtifactsStep k doc v))
      else if keyName = ''store_test_results''
      then Some (pmap StoreTestResults (parseStoreTestResultsStep k doc v))
      else if keyName = ''persist_to_workspace''
      then Some (pmap PersistToWorkspace (parsePersistToWorkspaceStep k doc v))
      else if keyName = ''attach_workspace'' then Some (pmap AttachWorkspace (parseAttachWorkspaceStep k doc v))
      else if keyName = ''add_ssh_keys'' then Some (pmap AddSSHKey (parseAddSSHKeyStep k doc v))
      else if keyName = ''steps''
      then Some (pret (Steps (snd (ExtractParameterName (GetNodeText doc (Some v)))) [] zero_range
                   (NodeToRange doc (Some v)) []))
      else None)"

subsection \<open>Simple values\<close>

text \<open>
  The values of a parameter as the code returns them: an error, or the value. A scalar's type is
  that of its first child; a folded or literal text starts with its indicator.
\<close>

type_synonym value_result = "string + param_value"

definition scalar_value :: "yaml_document \<Rightarrow> string \<Rightarrow> node \<Rightarrow> range \<Rightarrow> string \<Rightarrow> pvalue \<Rightarrow> value_result" where
  "scalar_value doc paramName n rng typ v =
     Inr (ParameterValue paramName v (NodeToRange doc (Some n)) rng typ)"

fun parseSimpleParameterValue ::
    "nat \<Rightarrow> yaml_document \<Rightarrow> string \<Rightarrow> node \<Rightarrow> range \<Rightarrow> value_result parse" where
  "parseSimpleParameterValue 0 doc paramName n rng = ppanic"
| "parseSimpleParameterValue (Suc k) doc paramName n rng =
     (let t = yd_Tree doc; txt = GetNodeText doc (Some n) in
      case GetFirstChild t (Some n) of
        None \<Rightarrow> pret (Inl ''error while parsing simple parameter value'')
      | Some c \<Rightarrow>
          let c = (if st_Type t c = ''>'' \<or> st_Type t c = ''|'' then n else c);
              typ = st_Type t c
          in if typ = ''double_quote_scalar'' \<or> typ = ''string_scalar'' \<or> typ = ''block_scalar''
             then pret (scalar_value doc paramName n rng ''string'' (PVString txt))
             else if typ = ''boolean_scalar''
             then pret (scalar_value doc paramName n rng ''boolean'' (PVBool (GetYAMLBooleanValue txt)))
             else if typ = ''integer_scalar''
             then (case go_Atoi txt of
                     None \<Rightarrow> pret (Inl (''invalid integer value: '' @ txt))
                   | Some i \<Rightarrow> pret (scalar_value doc paramName n rng ''integer'' (PVInt i)))
             else if typ = ''plain_scalar'' then parseSimpleParameterValue k doc paramName c rng
             else pret (Inl ''unsupported parameter value type''))"

definition parseEnumParamValue ::
    "nat \<Rightarrow> yaml_document \<Rightarrow> node \<Rightarrow> string \<Rightarrow> range \<Rightarrow> value_result parse" where
  "parseEnumParamValue k doc child paramName rng =
     (let t = yd_Tree doc;
          c = (if st_Type t child = ''block_sequence_item''
               then GetChildOfType t (Some child) ''flow_node'' else Some child)
      in case c of
           Some c \<Rightarrow>
             if st_Type t c = ''flow_node''
             then pmap (map_sum id (\<lambda>p. ParameterValue (pv_Name p) (pv_Value p) (pv_ValueRange p)
                                       (NodeToRange doc (Some c)) (pv_Type p)))
                    (parseSimpleParameterValue k doc paramName c rng)
             else pret (Inl ''error while parsing enum parameter value'')
         | None \<Rightarrow> pret (Inl ''error while parsing enum parameter value''))"

definition isStep :: "yaml_document \<Rightarrow> node \<Rightarrow> bool" where
  "isStep doc child =
     (let t = yd_Tree doc;
          blockNode = GetChildOfType t (Some child) ''block_node'';
          blockMappingNode = GetChildMapping t blockNode
      in GetChildOfType t blockMappingNode ''block_mapping_pair'' \<noteq> None)"

subsection \<open>Steps and values\<close>

text \<open>An item without content: the position just behind its hyphen, without the document's offset.\<close>

definition empty_step :: "yaml_document \<Rightarrow> node \<Rightarrow> step" where
  "empty_step doc n =
     (let p = st_StartPoint (yd_Tree doc) n
      in NamedStep [] [] zero_range
           (mk_range (mk_pos (pt_Row p) (pt_Column p + 1)) (mk_pos (pt_Row p) (pt_Column p + 2))))"

definition named_step_of :: "yaml_document \<Rightarrow> node \<Rightarrow> step" where
  "named_step_of doc n = NamedStep (GetNodeText doc (Some n)) [] zero_range (NodeToRange doc (Some n))"

text \<open>The anchor that an item \<open>- *name\<close> stands for; the outer \<open>None\<close> is a slice out of range.\<close>

definition alias_target :: "yaml_document \<Rightarrow> node \<Rightarrow> node option option" where
  "alias_target doc child =
     (case GetNodeText doc (Some child) of
        [] \<Rightarrow> None
      | _ # name \<Rightarrow>
          Some (case gm_get (yd_YamlAnchors doc) name of None \<Rightarrow> None | Some anchor \<Rightarrow> an_ValueNode anchor))"

text \<open>
  The functions call each other. Each is a definition over the functions it calls, here named
  \<open>single\<close> (\<open>parseSingleStep\<close>), \<open>step\<close> (\<open>parseStep\<close>) and \<open>value\<close> (\<open>parseParameterValue\<close>); the recursion
  below ties them together, with one unit of fuel for each of these three.
\<close>

type_synonym single_parser = "node option \<Rightarrow> step list parse"
type_synonym step_parser = "node \<Rightarrow> step list parse"
type_synonym value_parser = "node \<Rightarrow> value_result parse"

definition steps_with :: "single_parser \<Rightarrow> yaml_document \<Rightarrow> node \<Rightarrow> step list parse" where
  "steps_with single doc stepsNode =
     (let t = yd_Tree doc
      in pfold (\<lambda>child steps.
             if st_Type t child = ''block_sequence_item''
             then pmap (append steps) (single (Some child))
             else pret steps)
           (sequence_children t (GetChildSequence t (Some stepsNode))) [])"

definition flow_step_with :: "step_parser \<Rightarrow> yaml_document \<Rightarrow> node \<Rightarrow> step list parse" where
  "flow_step_with step doc child =
     (let t = yd_Tree doc in
      case GetFirstChild t (Some child) of
        None \<Rightarrow> ppanic
      | Some first \<Rightarrow>
          if st_Type t first \<noteq> ''alias'' then pret [named_step_of doc child]
          else pbind (plift (alias_target doc child)) (\<lambda>target.
            case target of
              None \<Rightarrow> pret []
            | Some anchored \<Rightarrow>
                (case GetChildOfType t (Some anchored) ''block_mapping'' of
                   None \<Rightarrow>
                     (case GetChildOfType t (Some anchored) ''plain_scalar'' of
                        None \<Rightarrow> pret []
                      | Some scalar \<Rightarrow> pret [named_step_of doc scalar])
                 | Some blockMapping \<Rightarrow> step blockMapping)))"

definition single_step_with :: "step_parser \<Rightarrow> yaml_document \<Rightarrow> node option \<Rightarrow> step list parse" where
  "single_step_with step doc stepNode =
     (let t = yd_Tree doc in
      case stepNode of
        None \<Rightarrow> pret []
      | Some n \<Rightarrow>
          if st_Type t n \<noteq> ''block_sequence_item'' then pret []
          else if st_ChildCount t n = 1 then pret [empty_step doc n]
          else (case st_Child t n 1 of
              None \<Rightarrow> pret []
            | Some child \<Rightarrow>
                if st_Type t child = ''flow_node'' then flow_step_with step doc child
                else if st_Type t child = ''block_node''
                then (case GetChildOfType t (Some child) ''block_mapping'' of
                        None \<Rightarrow> pret [Run (zero_run\<lparr>run_Range := NodeToRange doc (Some child)\<rparr>)]
                      | Some blockMapping \<Rightarrow> step blockMapping)
                else pret [NamedStep [] [] zero_range zero_range]))"

definition anchor_step_with ::
    "single_parser \<Rightarrow> step_parser \<Rightarrow> yaml_document \<Rightarrow> node \<Rightarrow> step list parse" where
  "anchor_step_with single step doc blockNode =
     (let t = yd_Tree doc in
      case GetChildSequence t (Some blockNode) of
        Some blockSequence \<Rightarrow> single (GetChildOfType t (Some blockSequence) ''block_sequence_item'')
      | None \<Rightarrow>
          (case GetChildOfType t (Some blockNode) ''block_mapping'' of
             Some blockMapping \<Rightarrow> step blockMapping
           | None \<Rightarrow> pret []))"

definition when_unless_with :: "single_parser \<Rightarrow> nat \<Rightarrow> yaml_document \<Rightarrow> node \<Rightarrow> step list parse" where
  "when_unless_with single k doc blockNode =
     iterateOnBlockMapping k doc (GetChildMapping (yd_Tree doc) (Some blockNode))
       (on_pair doc (\<lambda>child keyName v steps.
          if keyName = ''steps'' then pmap (append steps) (steps_with single doc v) else pret steps)) []"

definition put_value :: "string \<Rightarrow> value_result \<Rightarrow> (string, param_value) gomap \<Rightarrow> (string, param_value) gomap" where
  "put_value key r m = (case r of Inl _ \<Rightarrow> m | Inr v \<Rightarrow> gm_put key v m)"

definition named_step_with :: "value_parser \<Rightarrow> nat \<Rightarrow> yaml_document \<Rightarrow> string \<Rightarrow> node \<Rightarrow> step parse" where
  "named_step_with value k doc stepName n =
     (let t = yd_Tree doc in
      if st_Type t n = ''flow_node'' \<and> GetChildOfType t (Some n) ''flow_mapping'' = None
      then pret (NamedStep stepName [] zero_range
                   (NodeToRange doc (fst (GetKeyValueNodes doc (st_Parent t n)))))
      else
        let blockMappingNode = GetChildMapping t (Some n);
            paramRange = (case blockMappingNode of
                            None \<Rightarrow> zero_range | Some _ \<Rightarrow> NodeToRange doc blockMappingNode)
        in pbind (parent_key_range doc n) (\<lambda>rng.
             pmap (\<lambda>ps. NamedStep stepName ps paramRange rng)
               (iterateOnBlockMapping k doc blockMappingNode (\<lambda>child ps.
                  let keyName = pair_key doc child
                  in if keyName = [] then pret ps
                     else pmap (\<lambda>r. put_value keyName r ps) (value child)) [])))"

definition step_with ::
    "single_parser \<Rightarrow> step_parser \<Rightarrow> value_parser \<Rightarrow> nat \<Rightarrow> yaml_document \<Rightarrow> node \<Rightarrow> step list parse" where
  "step_with single step value k doc blockMapping =
     (let t = yd_Tree doc;
          blockMappingPair = GetChildOfType t (Some blockMapping) ''block_mapping_pair'';
          keyName = GetNodeText doc (fst (GetKeyValueNodes doc blockMappingPair))
      in case snd (GetKeyValueNodes doc blockMappingPair) of
           None \<Rightarrow> pret []
         | Some valueNode \<Rightarrow>
             (case builtin_step k doc keyName valueNode of
                Some m \<Rightarrow> pmap (\<lambda>s. [s]) m
              | None \<Rightarrow>
                  if keyName = ''when'' \<or> keyName = ''unless'' then when_unless_with single k doc valueNode
                  else if keyName = ''<<'' then anchor_step_with single step doc valueNode
                  else pmap (\<lambda>s. [s]) (named_step_with value k doc keyName valueNode)))"

definition array_value_with ::
    "single_parser \<Rightarrow> nat \<Rightarrow> yaml_document \<Rightarrow> string \<Rightarrow> node \<Rightarrow> range \<Rightarrow> bool \<Rightarrow> param_value parse" where
  "array_value_with single k doc paramName n rng forceSteps =
     (let t = yd_Tree doc
      in pmap (\<lambda>values. ParameterValue paramName (PVArray values) (NodeToRange doc (Some n)) rng ''enum'')
           (pfold (\<lambda>child values.
              if st_Type t child = ''block_sequence_item'' \<or> st_Type t child = ''flow_node''
              then if isStep doc child \<or> forceSteps
                   then pmap (\<lambda>steps. values @ [ParameterValue paramName (PVSteps steps)
                                (NodeToRange doc (Some child)) zero_range ''steps''])
                          (single (Some child))
                   else pmap (\<lambda>r. case r of Inl _ \<Rightarrow> values | Inr p \<Rightarrow> values @ [p])
                          (parseEnumParamValue k doc child paramName rng)
              else pret values)
            (sequence_children t (Some n)) []))"

definition value_node_with ::
    "single_parser \<Rightarrow> value_parser \<Rightarrow> nat \<Rightarrow> yaml_document \<Rightarrow> string \<Rightarrow> range \<Rightarrow> node \<Rightarrow> node \<Rightarrow> value_result parse" where
  "value_node_with single value k doc paramName rng valueNode c =
     (let t = yd_Tree doc; typ = st_Type t c
      in if typ = ''plain_scalar'' \<or> typ = ''block_scalar''
         then parseSimpleParameterValue k doc paramName c rng
         else if typ = ''block_sequence'' \<or> typ = ''flow_sequence''
         then pmap Inr (array_value_with single k doc paramName c rng False)
         else if typ = ''double_quote_scalar'' \<or> typ = ''single_quote_scalar''
         then pret (scalar_value doc paramName c rng ''string'' (PVString (GetNodeText doc (Some c))))
         else if typ = ''alias''
         then pret (scalar_value doc paramName c rng ''alias''
                      (PVNode (st_ChildByFieldName t valueNode ''value'')))
         else if typ = ''block_mapping''
         then pmap (\<lambda>m. scalar_value doc paramName c rng ''map'' (PVMap m))
                (iterateOnBlockMapping k doc (Some c)
                   (\<lambda>child. on_pair doc (\<lambda>child key v m. pmap (\<lambda>r. put_value key r m) (value child)) child) [])
         else pret (Inr (ParameterValue paramName PVNil zero_range zero_range [])))"

definition value_with ::
    "single_parser \<Rightarrow> value_parser \<Rightarrow> nat \<Rightarrow> yaml_document \<Rightarrow> node \<Rightarrow> value_result parse" where
  "value_with single value k doc child =
     (let t = yd_Tree doc;
          paramName = GetNodeText doc (fst (GetKeyValueNodes doc (Some child)));
          rng = NodeToRange doc (Some child)
      in case fst (GetKeyValueNodes doc (Some child)) of
           None \<Rightarrow> pret (Inl ''key not defined'')
         | Some keyNode \<Rightarrow>
             (case snd (GetKeyValueNodes doc (Some child)) of
                None \<Rightarrow>
                  pbind (pemit [CreateWarningDiagnosticFromNode t keyNode ''No value defined for the parameter''])
                    (\<lambda>_. pret (Inl ''no parameter value''))
              | Some valueNode \<Rightarrow>
                  (case GetFirstChild t (Some valueNode) of
                     None \<Rightarrow> pret (Inl ''error while parsing parameter value'')
                   | Some c \<Rightarrow> value_node_with single value k doc paramName rng valueNode c)))"

fun parseSingleStep :: "nat \<Rightarrow> yaml_document \<Rightarrow> node option \<Rightarrow> step list parse"
and parseStep :: "nat \<Rightarrow> yaml_document \<Rightarrow> node \<Rightarrow> step list parse"
and parseParameterValue :: "nat \<Rightarrow> yaml_document \<Rightarrow> node \<Rightarrow> value_result parse" where
  "parseSingleStep 0 doc n = ppanic"
| "parseSingleStep (Suc k) doc n = single_step_with (parseStep k doc) doc n"
| "parseStep 0 doc m = ppanic"
| "parseStep (Suc k) doc m =
     step_with (parseSingleStep k doc) (parseStep k doc) (parseParameterValue k doc) k doc m"
| "parseParameterValue 0 doc m = ppanic"
| "parseParameterValue (Suc k) doc m =
     value_with (parseSingleStep k doc) (parseParameterValue k doc) k doc m"

definition parseSteps :: "nat \<Rightarrow> yaml_document \<Rightarrow> node \<Rightarrow> step list parse" where
  "parseSteps k doc stepsNode = steps_with (parseSingleStep k doc) doc stepsNode"

definition parseAnchorStep :: "nat \<Rightarrow> yaml_document \<Rightarrow> node \<Rightarrow> step list parse" where
  "parseAnchorStep k doc blockNode = anchor_step_with (parseSingleStep k doc) (parseStep k doc) doc blockNode"

definition parseWhenUnlessStep :: "nat \<Rightarrow> yaml_document \<Rightarrow> node \<Rightarrow> step list parse" where
  "parseWhenUnlessStep k doc blockNode = when_unless_with (parseSingleStep k doc) k doc blockNode"

definition parseNamedStepWithParameters :: "nat \<Rightarrow> yaml_document \<Rightarrow> string \<Rightarrow> node \<Rightarrow> step parse" where
  "parseNamedStepWithParameters k doc stepName n = named_step_with (parseParameterValue k doc) k doc stepName n"

definition parseArrayParameterValue ::
    "nat \<Rightarrow> yaml_document \<Rightarrow> string \<Rightarrow> node \<Rightarrow> range \<Rightarrow> bool \<Rightarrow> param_value parse" where
  "parseArrayParameterValue k doc paramName n rng forceSteps =
     array_value_with (parseSingleStep k doc) k doc paramName n rng forceSteps"
subsection \<open>More fuel, the same steps and values\<close>

lemma refines_step_fields [refines_intros]:
  "k \<le> k' \<Longrightarrow> refines (step_fields k doc n init field) (step_fields k' doc n init field)"
  unfolding step_fields_def by (intro refines_intros)

lemma refines_parseRunStep [refines_intros]:
  "k \<le> k' \<Longrightarrow> refines (parseRunStep k doc n) (parseRunStep k' doc n)"
  unfolding parseRunStep_def run_field_def Let_def by (intro refines_intros)

lemma refines_builtin_step:
  assumes "k \<le> k'"
  shows "builtin_step k doc key v = None \<and> builtin_step k' doc key v = None \<or>
    (\<exists>m m'. builtin_step k doc key v = Some m \<and> builtin_step k' doc key v = Some m' \<and> refines m m')"
proof -
  note intros = refines_intros assms
  have "refines (pmap Run (parseDeployStep k doc v)) (pmap Run (parseDeployStep k' doc v))"
    "refines (pmap Checkout (parseCheckoutStep k doc v)) (pmap Checkout (parseCheckoutStep k' doc v))"
    "refines (pmap SetupRemoteDocker (parseSetupRemoteDockerStep k doc v))
       (pmap SetupRemoteDocker (parseSetupRemoteDockerStep k' doc v))"
    unfolding parseDeployStep_def parseCheckoutStep_def parseSetupRemoteDockerStep_def Let_def
    by (intro intros)+
  moreover have "refines (pmap Run (parseRunStep k doc v)) (pmap Run (parseRunStep k' doc v))"
    "refines (pmap SaveCache (parseSaveCacheStep k doc v)) (pmap SaveCache (parseSaveCacheStep k' doc v))"
    "refines (pmap RestoreCache (parseRestoreCacheStep k doc v)) (pmap RestoreCache (parseRestoreCacheStep k' doc v))"
    "refines (pmap StoreArtifacts (parseStoreArtifactsStep k doc v))
       (pmap StoreArtifacts (parseStoreArtifactsStep k' doc v))"
    "refines (pmap StoreTestResults (parseStoreTestResultsStep k doc v))
       (pmap StoreTestResults (parseStoreTestResultsStep k' doc v))"
    "refines (pmap PersistToWorkspace (parsePersistToWorkspaceStep k doc v))
       (pmap PersistToWorkspace (parsePersistToWorkspaceStep k' doc v))"
    "refines (pmap AttachWorkspace (parseAttachWorkspaceStep k doc v))
       (pmap AttachWorkspace (parseAttachWorkspaceStep k' doc v))"
    "refines (pmap AddSSHKey (parseAddSSHKeyStep k doc v)) (pmap AddSSHKey (parseAddSSHKeyStep k' doc v))"
    unfolding parseSaveCacheStep_def parseRestoreCacheStep_def parseStoreArtifactsStep_def
      parseStoreTestResultsStep_def parsePersistToWorkspaceStep_def parseAttachWorkspaceStep_def
      parseAddSSHKeyStep_def
    by (intro intros)+
  ultimately show ?thesis by (simp add: builtin_step_def refines_refl)
qed

lemma refines_parseSimpleParameterValue [refines_intros]:
  "k \<le> k' \<Longrightarrow> refines (parseSimpleParameterValue k doc p n rng) (parseSimpleParameterValue k' doc p n rng)"
proof (induction k arbitrary: n k')
  case (Suc k)
  then obtain j where j: "k' = Suc j" "k \<le> j" by (cases k') auto
  show ?case
    unfolding j(1) parseSimpleParameterValue.simps(2) Let_def
    by (intro refines_intros Suc.IH j(2))
qed (simp add: ppanic_def refines_def)

lemma refines_parseEnumParamValue [refines_intros]:
  "k \<le> k' \<Longrightarrow> refines (parseEnumParamValue k doc c p rng) (parseEnumParamValue k' doc c p rng)"
  unfolding parseEnumParamValue_def Let_def by (intro refines_intros)

lemma refines_steps_with [refines_intros]:
  "(\<And>n. refines (single n) (single' n)) \<Longrightarrow> refines (steps_with single doc n) (steps_with single' doc n)"
  unfolding steps_with_def Let_def by (intro refines_intros)

lemma refines_array_value_with [refines_intros]:
  "k \<le> k' \<Longrightarrow> (\<And>n. refines (single n) (single' n)) \<Longrightarrow>
    refines (array_value_with single k doc p n rng f) (array_value_with single' k' doc p n rng f)"
  unfolding array_value_with_def Let_def by (intro refines_intros)

lemma refines_step_with:
  assumes "k \<le> k'" "\<And>n. refines (single n) (single' n)" "\<And>n. refines (step n) (step' n)"
    "\<And>n. refines (value n) (value' n)"
  shows "refines (step_with single step value k doc n) (step_with single' step' value' k' doc n)"
proof -
  have 1: "refines (when_unless_with single k doc v) (when_unless_with single' k' doc v)"
    "refines (anchor_step_with single step doc v) (anchor_step_with single' step' doc v)"
    "refines (named_step_with value k doc key v) (named_step_with value' k' doc key v)" for v key
    unfolding when_unless_with_def anchor_step_with_def named_step_with_def Let_def
    by (intro refines_intros assms)+
  have builtin: "refines (case builtin_step k doc key v of Some m \<Rightarrow> pmap (\<lambda>s. [s]) m | None \<Rightarrow> r)
      (case builtin_step k' doc key v of Some m \<Rightarrow> pmap (\<lambda>s. [s]) m | None \<Rightarrow> r')"
    if "refines r r'" for key v and r r' :: "step list parse"
    using refines_builtin_step [OF assms(1), of doc key v] that by (auto intro!: refines_pmap)
  show ?thesis
    unfolding step_with_def Let_def by (intro refines_case_option refines_if refines_pmap refines_refl builtin 1)
qed

lemma refines_parsers:
  "k \<le> k' \<Longrightarrow> refines (parseSingleStep k doc m) (parseSingleStep k' doc m) \<and>
    refines (parseStep k doc n) (parseStep k' doc n) \<and>
    refines (parseParameterValue k doc n) (parseParameterValue k' doc n)"
proof (induction k arbitrary: m n k')
  case (Suc k)
  then obtain j where j: "k' = Suc j" "k \<le> j" by (cases k') auto
  note IH = Suc.IH [OF j(2), THEN conjunct1] Suc.IH [OF j(2), THEN conjunct2, THEN conjunct1]
    Suc.IH [OF j(2), THEN conjunct2, THEN conjunct2]
  have "refines (parseSingleStep (Suc k) doc m) (parseSingleStep (Suc j) doc m)"
    unfolding parseSingleStep.simps(2) single_step_with_def flow_step_with_def Let_def
    by (intro refines_intros IH)
  moreover have "refines (parseStep (Suc k) doc n) (parseStep (Suc j) doc n)"
    unfolding parseStep.simps(2) by (intro refines_step_with j(2) IH)
  moreover have "refines (parseParameterValue (Suc k) doc n) (parseParameterValue (Suc j) doc n)"
    unfolding parseParameterValue.simps(2) value_with_def value_node_with_def Let_def
    by (intro refines_intros IH j(2))
  ultimately show ?case by (simp only: j(1) simp_thms)
qed (simp add: ppanic_def refines_def)

lemma refines_parseSingleStep [refines_intros]:
  "k \<le> k' \<Longrightarrow> refines (parseSingleStep k doc m) (parseSingleStep k' doc m)"
  using refines_parsers by blast

lemma refines_parseParameterValue [refines_intros]:
  "k \<le> k' \<Longrightarrow> refines (parseParameterValue k doc n) (parseParameterValue k' doc n)"
  using refines_parsers by blast

lemma refines_parseSteps [refines_intros]:
  "k \<le> k' \<Longrightarrow> refines (parseSteps k doc n) (parseSteps k' doc n)"
  unfolding parseSteps_def by (intro refines_intros)

lemma refines_parseArrayParameterValue [refines_intros]:
  "k \<le> k' \<Longrightarrow> refines (parseArrayParameterValue k doc p n rng f) (parseArrayParameterValue k' doc p n rng f)"
  unfolding parseArrayParameterValue_def by (intro refines_intros)

end
