(* ===== verification/ParseExec.thy ===== *)
theory ParseExec
  imports ParseSteps
begin

text \<open>
  The definitions of parameters (\<open>pkg/parser/parameters.go\<close>), the environments
  (\<open>environment.go\<close>) and the executors (\<open>executors.go\<close>).
\<close>

subsection \<open>Definitions of parameters\<close>

definition getDefaultParameterRange :: "yaml_document \<Rightarrow> node \<Rightarrow> range" where
  "getDefaultParameterRange doc child =
     (let r = NodeToRange doc (Some child)
      in case snd (GetKeyValueNodes doc (Some child)) of
           Some _ \<Rightarrow> r
         | None \<Rightarrow> mk_range (Start r) (mk_pos (Line (End r)) (Character (End r) + 999)))"

definition zero_base :: "string \<Rightarrow> base_parameter" where
  "zero_base paramName =
     \<lparr>bp_Name = paramName, bp_NameRange = zero_range, bp_Range = zero_range, bp_HasDefault = False,
      bp_Description = [], bp_TypeRange = zero_range, bp_DefaultRange = zero_range\<rparr>"

definition set_default :: "yaml_document \<Rightarrow> node \<Rightarrow> base_parameter \<Rightarrow> base_parameter" where
  "set_default doc child b =
     b\<lparr>bp_DefaultRange := getDefaultParameterRange doc child, bp_HasDefault := True\<rparr>"

text \<open>
  The loop that every kind of parameter has over its mapping: the description, and a default of
  the kind's own.
\<close>

definition parameter_fields ::
    "nat \<Rightarrow> yaml_document \<Rightarrow> string \<Rightarrow> node \<Rightarrow> 'd \<Rightarrow>
     (string \<Rightarrow> node \<Rightarrow> node option \<Rightarrow> base_parameter \<times> 'd \<Rightarrow> (base_parameter \<times> 'd) parse) \<Rightarrow>
     (base_parameter \<times> 'd) parse" where
  "parameter_fields k doc paramName paramNode d field =
     iterateOnBlockMapping k doc (Some paramNode) (\<lambda>child s.
       let keyName = pair_key doc child; valueNode = snd (GetKeyValueNodes doc (Some child))
       in if keyName = ''description''
          then pret ((fst s)\<lparr>bp_Description := GetNodeText doc valueNode\<rparr>, snd s)
          else field keyName child valueNode s)
       (zero_base paramName, d)"

text \<open>String, executor and environment variable parameters have a text as their default.\<close>

definition text_parameter ::
    "nat \<Rightarrow> yaml_document \<Rightarrow> string \<Rightarrow> node \<Rightarrow> (base_parameter \<times> string) parse" where
  "text_parameter k doc paramName paramNode =
     parameter_fields k doc paramName paramNode [] (\<lambda>keyName child valueNode (b, d).
       pret (if keyName = ''default''
             then (set_default doc child b, GetNodeText doc (GetFirstChild (yd_Tree doc) valueNode))
             else (b, d)))"

definition parseStringParameter ::
    "nat \<Rightarrow> yaml_document \<Rightarrow> string \<Rightarrow> node \<Rightarrow> (base_parameter \<times> string) parse" where
  "parseStringParameter k doc paramName paramNode = text_parameter k doc paramName paramNode"

definition parseExecutorParameter ::
    "nat \<Rightarrow> yaml_document \<Rightarrow> string \<Rightarrow> node \<Rightarrow> (base_parameter \<times> string) parse" where
  "parseExecutorParameter k doc paramName paramNode = text_parameter k doc paramName paramNode"

definition parseEnvVariableParameter ::
    "nat \<Rightarrow> yaml_document \<Rightarrow> string \<Rightarrow> node \<Rightarrow> (base_parameter \<times> string) parse" where
  "parseEnvVariableParameter k doc paramName paramNode = text_parameter k doc paramName paramNode"

definition parseBooleanParameter ::
    "nat \<Rightarrow> yaml_document \<Rightarrow> string \<Rightarrow> node \<Rightarrow> (base_parameter \<times> bool) parse" where
  "parseBooleanParameter k doc paramName paramNode =
     parameter_fields k doc paramName paramNode False (\<lambda>keyName child valueNode (b, d).
       pret (if keyName = ''default''
             then (set_default doc child b, GetYAMLBooleanValue (GetNodeText doc valueNode))
             else (b, d)))"

definition parseIntegerParameter ::
    "nat \<Rightarrow> yaml_document \<Rightarrow> string \<Rightarrow> node \<Rightarrow> (base_parameter \<times> int) parse" where
  "parseIntegerParameter k doc paramName paramNode =
     parameter_fields k doc paramName paramNode 0 (\<lambda>keyName child valueNode (b, d).
       pret (if keyName = ''default''
             then (case go_Atoi (GetNodeText doc valueNode) of
                     None \<Rightarrow> (b, d) | Some i \<Rightarrow> (set_default doc child b, i))
             else (b, d)))"

definition parseEnumParameter ::
    "nat \<Rightarrow> yaml_document \<Rightarrow> string \<Rightarrow> node \<Rightarrow> (base_parameter \<times> string \<times> string list) parse" where
  "parseEnumParameter k doc paramName paramNode =
     pbind (parameter_fields k doc paramName paramNode ([], []) (\<lambda>keyName child valueNode (b, d, e).
       pret (if keyName = ''default''
             then (set_default doc child b, GetNodeText doc (GetFirstChild (yd_Tree doc) valueNode), e)
             else if keyName = ''enum'' then (b, d, getNodeTextArray doc valueNode)
             else (b, d, e))))
       (\<lambda>(b, d, e).
          pbind (pemit (if bp_HasDefault b \<and> d \<notin> set e
                        then [CreateErrorDiagnosticFromRange (bp_DefaultRange b) ''Default value is not in enum'']
                        else []))
            (\<lambda>_. pret (b, d, e)))"

definition not_steps_diagnostics :: "param_value list \<Rightarrow> diagnostic list" where
  "not_steps_diagnostics vs =
     map (\<lambda>s. CreateErrorDiagnosticFromRange (pv_Range s) ''Not a valid step'')
       (filter (\<lambda>s. pv_Type s \<noteq> ''steps'') vs)"

definition zero_value :: param_value where
  "zero_value = ParameterValue [] PVNil zero_range zero_range []"

definition parseStepsParameter ::
    "nat \<Rightarrow> yaml_document \<Rightarrow> string \<Rightarrow> node \<Rightarrow> (base_parameter \<times> param_value) parse" where
  "parseStepsParameter k doc paramName paramNode =
     parameter_fields k doc paramName paramNode zero_value (\<lambda>keyName child valueNode (b, d).
       if keyName = ''default''
       then (case GetChildSequence (yd_Tree doc) valueNode of
               None \<Rightarrow> pret (b, d)
             | Some stepsNode \<Rightarrow>
                 pbind (parseArrayParameterValue k doc paramName stepsNode (NodeToRange doc (Some child)) True)
                   (\<lambda>v. pbind (case pv_Value v of
                                  PVArray vs \<Rightarrow> pemit (not_steps_diagnostics vs) | _ \<Rightarrow> ppanic)
                          (\<lambda>_. pret (set_default doc child b, v))))
       else pret (b, d))"

text \<open>The text under \<open>type\<close>, and its range, stretched over the line when the value is missing.\<close>

definition GetParameterType :: "nat \<Rightarrow> yaml_document \<Rightarrow> node option \<Rightarrow> (string \<times> range) parse" where
  "GetParameterType k doc paramNode =
     iterateOnBlockMapping k doc (GetChildMapping (yd_Tree doc) paramNode) (\<lambda>child s.
       let valueNode = snd (GetKeyValueNodes doc (Some child)); r = NodeToRange doc (Some child)
       in pret (if pair_key doc child = ''type''
                then (GetNodeText doc valueNode,
                      case valueNode of
                        None \<Rightarrow> mk_range (End r) (mk_pos (Line (End r)) (Character (End r) + 999))
                      | Some _ \<Rightarrow> r)
                else s)) ([], zero_range)"

definition parseSingleParameter :: "nat \<Rightarrow> yaml_document \<Rightarrow> node \<Rightarrow> params \<Rightarrow> params parse" where
  "parseSingleParameter k doc paramNode ps =
     (let keyNode = fst (GetKeyValueNodes doc (Some paramNode));
          valueNode = snd (GetKeyValueNodes doc (Some paramNode));
          paramName = GetNodeText doc keyNode
      in case (keyNode, GetChildMapping (yd_Tree doc) valueNode) of
           (Some _, Some m) \<Rightarrow>
             pbind (GetParameterType k doc valueNode) (\<lambda>(paramType, typeRange).
               let located = (\<lambda>b. b\<lparr>bp_Range := NodeToRange doc (Some paramNode),
                                     bp_NameRange := NodeToRange doc keyNode, bp_TypeRange := typeRange\<rparr>)
               in pmap (\<lambda>p. gm_put paramName p ps)
                 (if paramType = ''string''
                  then pmap (\<lambda>(b, d). StringParameter (located b) d) (parseStringParameter k doc paramName m)
                  else if paramType = ''boolean''
                  then pmap (\<lambda>(b, d). BooleanParameter (located b) d) (parseBooleanParameter k doc paramName m)
                  else if paramType = ''integer''
                  then pmap (\<lambda>(b, d). IntegerParameter (located b) d) (parseIntegerParameter k doc paramName m)
                  else if paramType = ''enum''
                  then pmap (\<lambda>(b, d, e). EnumParameter (located b) d e) (parseEnumParameter k doc paramName m)
                  else if paramType = ''executor''
                  then pmap (\<lambda>(b, d). ExecutorParameter (located b) d) (parseExecutorParameter k doc paramName m)
                  else if paramType = ''steps''
                  then pmap (\<lambda>(b, d). StepsParameter (located b) d) (parseStepsParameter k doc paramName m)
                  else if paramType = ''env_var_name''
                  then pmap (\<lambda>(b, d). EnvVariableParameter (located b) d)
                         (parseEnvVariableParameter k doc paramName m)
                  else pret (StringParameter
                         ((zero_base paramName)\<lparr>bp_NameRange := NodeToRange doc keyNode,
                            bp_Range := NodeToRange doc (Some m), bp_TypeRange := typeRange\<rparr>) [])))
         | _ \<Rightarrow> pret ps)"

text \<open>A nil map, for a value that is no mapping, is \<open>None\<close>.\<close>

definition parseParameters :: "nat \<Rightarrow> yaml_document \<Rightarrow> node option \<Rightarrow> params option parse" where
  "parseParameters k doc paramsNode =
     (case GetChildMapping (yd_Tree doc) paramsNode of
        None \<Rightarrow> pret None
      | Some m \<Rightarrow> pmap Some (iterateOnBlockMapping k doc (Some m) (parseSingleParameter k doc) []))"

definition params_of :: "params option \<Rightarrow> params" where
  "params_of ps = (case ps of None \<Rightarrow> [] | Some ps \<Rightarrow> ps)"
subsection \<open>Environments\<close>

definition parseEnvs :: "nat \<Rightarrow> yaml_document \<Rightarrow> node option \<Rightarrow> environment parse" where
  "parseEnvs k doc n =
     (let t = yd_Tree doc;
          blockMapping = (case n of
            None \<Rightarrow> None
          | Some m \<Rightarrow> if st_Type t m \<noteq> ''block_node'' then None
                      else (case st_Child t m 0 of
                              None \<Rightarrow> None
                            | Some c \<Rightarrow> if st_Type t c = ''block_mapping'' then Some c else None))
      in case blockMapping of
           None \<Rightarrow> pret \<lparr>env_Range = zero_range, env_Keys = []\<rparr>
         | Some c \<Rightarrow>
             pmap (\<lambda>keys. \<lparr>env_Range = NodeToRange doc n, env_Keys = keys\<rparr>)
               (iterateOnBlockMapping k doc (Some c) (\<lambda>child keys. pret (keys @ [pair_key doc child])) []))"

subsection \<open>The fields that executors share\<close>

definition zero_base_executor :: base_executor where
  "zero_base_executor =
     \<lparr>be_Name = [], be_NameRange = zero_range, be_Range = zero_range, be_ResourceClass = [],
      be_ResourceClassRange = zero_range,
      be_BuiltInParameters = \<lparr>ep_Description = [], ep_Shell = [], ep_WorkingDirectory = []\<rparr>,
      be_UserParameters = [], be_UserParametersRange = zero_range, be_Uncomplete = False,
      be_Environment = \<lparr>env_Range = zero_range, env_Keys = []\<rparr>\<rparr>"

definition set_resource_class :: "yaml_document \<Rightarrow> node \<Rightarrow> node option \<Rightarrow> base_executor \<Rightarrow> base_executor" where
  "set_resource_class doc child valueNode b =
     (let rc = GetNodeText doc valueNode; r = NodeToRange doc (Some child)
      in b\<lparr>be_ResourceClass := rc,
           be_ResourceClassRange := (if rc = [] then mk_range (Start r) (mk_pos (Line (End r)) 999) else r)\<rparr>)"

definition base_field ::
    "nat \<Rightarrow> yaml_document \<Rightarrow> string \<Rightarrow> (node option \<Rightarrow> base_executor \<times> 's \<Rightarrow> (base_executor \<times> 's) parse) \<Rightarrow>
     node \<Rightarrow> base_executor \<times> 's \<Rightarrow> (base_executor \<times> 's) parse" where
  "base_field k doc nameStep fn child s =
     (let keyName = pair_key doc child; valueNode = snd (GetKeyValueNodes doc (Some child));
          b = fst s; txt = GetNodeText doc valueNode
      in if keyName = nameStep then fn valueNode s
         else if keyName = ''resource_class'' then pret (set_resource_class doc child valueNode b, snd s)
         else if keyName = ''shell''
         then pret (b\<lparr>be_BuiltInParameters := (be_BuiltInParameters b)\<lparr>ep_Shell := txt\<rparr>\<rparr>, snd s)
         else if keyName = ''working_directory''
         then pret (b\<lparr>be_BuiltInParameters := (be_BuiltInParameters b)\<lparr>ep_WorkingDirectory := txt\<rparr>\<rparr>, snd s)
         else if keyName = ''environment''
         then pmap (\<lambda>e. (b\<lparr>be_Environment := e\<rparr>, snd s)) (parseEnvs k doc valueNode)
         else if keyName = ''parameters''
         then pmap (\<lambda>ps. (b\<lparr>be_UserParametersRange := NodeToRange doc (Some child),
                            be_UserParameters := params_of ps\<rparr>, snd s))
                (parseParameters k doc valueNode)
         else pret s)"

text \<open>The name, and the range of the whole definition: two nodes above the mapping.\<close>

definition finish_base ::
    "yaml_document \<Rightarrow> node option \<Rightarrow> node \<Rightarrow> base_executor \<Rightarrow> base_executor" where
  "finish_base doc nameNode blockMappingNode b =
     (let t = yd_Tree doc;
          b = b\<lparr>be_Name := getAttributeName doc (GetNodeText doc nameNode),
                be_NameRange := NodeToRange doc nameNode\<rparr>
      in case Option.bind (st_Parent t blockMappingNode) (st_Parent t) of
           None \<Rightarrow> b\<lparr>be_Uncomplete := True\<rparr>
         | Some p \<Rightarrow> b\<lparr>be_Range := NodeToRange doc (Some p), be_Uncomplete := False\<rparr>)"

definition parseBaseExecutor ::
    "nat \<Rightarrow> yaml_document \<Rightarrow> node option \<Rightarrow> node \<Rightarrow> string \<Rightarrow>
     (node option \<Rightarrow> base_executor \<times> 's \<Rightarrow> (base_executor \<times> 's) parse) \<Rightarrow>
     base_executor \<times> 's \<Rightarrow> (base_executor \<times> 's) parse" where
  "parseBaseExecutor k doc nameNode blockMappingNode nameStep fn s =
     pmap (\<lambda>(b, s). (finish_base doc nameNode blockMappingNode b, s))
       (iterateOnBlockMapping k doc (Some blockMappingNode) (base_field k doc nameStep fn) s)"

subsection \<open>Machine executors\<close>

definition GetMachineTrueMessage :: "string \<Rightarrow> string" where
  "GetMachineTrueMessage img =
     (let tab = [CHR 0x09]; nl = newline_str
      in ''CircleCI advises against using '' @ [CHR 0x22] @ ''machine: true'' @ [CHR 0x22] @
         '', as support for this feature is not guaranteed to continue in the future.'' @ nl @
         tab @ tab @ nl @
         tab @ ''You can replace it with the following explicit declaration, which uses the same image.'' @ nl @
         tab @ ''machine:'' @ nl @ tab @ tab @ ''image: '' @ img)"

definition machineTrueFix :: "yaml_document \<Rightarrow> range \<Rightarrow> diagnostic" where
  "machineTrueFix doc machineRange =
     (CreateDiagnosticFromRange machineRange SeverityWarning (GetMachineTrueMessage CurrentLinuxImage)
        [CreateCodeActionTextEdit ''Replace with current Ubuntu image'' (yd_URI doc)
           [mk_edit (''machine:'' @ newline_str @ replicate (unat (Character (Start machineRange))) CHR '' '' @
                     ''  image: '' @ CurrentLinuxImage) machineRange] False])
     \<lparr>diag_Tags := [DiagnosticTagDeprecated]\<rparr>"

definition addedMachineTrueDeprecatedDiag :: "yaml_document \<Rightarrow> node option \<Rightarrow> string \<Rightarrow> bool parse" where
  "addedMachineTrueDeprecatedDiag doc child resourceClass =
     (let value = GetNodeText doc (snd (GetKeyValueNodes doc child))
      in if \<not> IsValidYAMLBooleanValue value \<or> \<not> GetYAMLBooleanValue value then pret False
         else if \<not> UseDefaultInstance (ls_Api (yd_Context doc)) \<or> IsSelfHostedRunner resourceClass
         then pret False
         else pbind (pemit [machineTrueFix doc (NodeToRange doc child)]) (\<lambda>_. pret True))"

definition machine_field ::
    "yaml_document \<Rightarrow> node \<Rightarrow> base_executor \<times> machine_executor \<times> node option \<Rightarrow>
     (base_executor \<times> machine_executor \<times> node option) parse" where
  "machine_field doc child = (\<lambda>(b, res, m).
     (let keyName = pair_key doc child; valueNode = snd (GetKeyValueNodes doc (Some child))
      in pret (if keyName = ''image''
               then (b, res\<lparr>me_ImageRange := NodeToRange doc (Some child),
                            me_Image := GetNodeText doc valueNode\<rparr>, m)
               else if keyName = ''docker_layer_caching''
               then (b, res\<lparr>me_DockerLayerCaching := (GetNodeText doc valueNode = ''true'')\<rparr>, m)
               else if keyName = ''resource_class''
               then (b\<lparr>be_ResourceClassRange := NodeToRange doc (Some child),
                       be_ResourceClass := GetNodeText doc valueNode\<rparr>, res, m)
               else (b, res, m))))"

text \<open>The value under \<open>machine\<close>: \<open>true\<close>, or a mapping with the image.\<close>

definition parse_machine ::
    "nat \<Rightarrow> yaml_document \<Rightarrow> node option \<Rightarrow> base_executor \<times> machine_executor \<times> node option \<Rightarrow>
     (base_executor \<times> machine_executor \<times> node option) parse" where
  "parse_machine k doc blockNode = (\<lambda>(b, res, m).
     (let t = yd_Tree doc in
      case blockNode of
        None \<Rightarrow> pret (b, res, m)
      | Some n \<Rightarrow>
          let boolNode = GetChildOfType t (GetChildOfType t (Some n) ''plain_scalar'') ''boolean_scalar'';
              res = (if st_Type t n = ''flow_node'' \<and> boolNode \<noteq> None
                     then res\<lparr>me_Machine := GetYAMLBooleanValue (GetNodeText doc boolNode)\<rparr> else res)
          in iterateOnBlockMapping k doc (GetChildMapping t (Some n)) (machine_field doc) (b, res, Some n)))"

definition parseSingleExecutorMachine ::
    "nat \<Rightarrow> yaml_document \<Rightarrow> node option \<Rightarrow> node \<Rightarrow> machine_executor parse" where
  "parseSingleExecutorMachine k doc nameNode valueNode =
     (let zero = \<lparr>me_Base = zero_base_executor, me_Image = [], me_ImageRange = zero_range,
                  me_DockerLayerCaching = False, me_Machine = False, me_IsDeprecated = False\<rparr>
      in pbind (parseBaseExecutor k doc nameNode valueNode ''machine'' (parse_machine k doc)
                  (zero_base_executor, zero, None))
           (\<lambda>(b, res, m).
              pbind (case m of
                       None \<Rightarrow> pret False
                     | Some n \<Rightarrow> addedMachineTrueDeprecatedDiag doc (st_Parent (yd_Tree doc) n) (be_ResourceClass b))
                (\<lambda>deprecated. pret (res\<lparr>me_Base := b, me_IsDeprecated := deprecated\<rparr>))))"

subsection \<open>macOS and Docker executors\<close>

definition parseSingleExecutorMacOS ::
    "nat \<Rightarrow> yaml_document \<Rightarrow> node option \<Rightarrow> node \<Rightarrow> macos_executor parse" where
  "parseSingleExecutorMacOS k doc nameNode valueNode =
     pmap (\<lambda>(b, res). res\<lparr>mac_Base := b\<rparr>)
       (parseBaseExecutor k doc nameNode valueNode ''macos''
          (\<lambda>blockNode. iterateOnBlockMapping k doc (GetChildMapping (yd_Tree doc) blockNode)
             (\<lambda>child (b, res). pret
                (if pair_key doc child = ''xcode''
                 then (b, res\<lparr>mac_XcodeRange := NodeToRange doc (Some child),
                              mac_Xcode := GetNodeText doc (snd (GetKeyValueNodes doc (Some child)))\<rparr>)
                 else (b, res))))
          (zero_base_executor, \<lparr>mac_Base = zero_base_executor, mac_Xcode = [], mac_XcodeRange = zero_range\<rparr>))"

definition zero_image :: docker_image where
  "zero_image =
     \<lparr>img_Image = \<lparr>di_Namespace = [], di_Name = [], di_Tag = [], di_Digest = [], di_FullPath = []\<rparr>,
      img_ImageRange = zero_range, img_Name = [], img_Entrypoint = [], img_Command = [], img_User = [],
      img_Environment = [], img_Auth = \<lparr>da_Username = [], da_Password = []\<rparr>,
      img_AwsAuth = \<lparr>aws_AccessKeyID = [], aws_SecretAccessKey = []\<rparr>\<rparr>"

definition image_field :: "nat \<Rightarrow> yaml_document \<Rightarrow> node \<Rightarrow> docker_image \<Rightarrow> docker_image parse" where
  "image_field k doc child img =
     (let keyName = pair_key doc child; v = snd (GetKeyValueNodes doc (Some child));
          txt = GetNodeText doc v;
          dict = parseDictionary k doc (GetChildOfType (yd_Tree doc) v ''block_mapping'')
      in if keyName = ''image''
         then pret (img\<lparr>img_Image := ParseDockerImageValue txt, img_ImageRange := NodeToRange doc (Some child)\<rparr>)
         else if keyName = ''name'' then pret (img\<lparr>img_Name := txt\<rparr>)
         else if keyName = ''entrypoint'' then pret (img\<lparr>img_Entrypoint := getNodeTextArrayOrText doc v\<rparr>)
         else if keyName = ''command'' then pret (img\<lparr>img_Command := getNodeTextArrayOrText doc v\<rparr>)
         else if keyName = ''user'' then pret (img\<lparr>img_User := txt\<rparr>)
         else if keyName = ''environment'' then pmap (\<lambda>d. img\<lparr>img_Environment := d\<rparr>) dict
         else if keyName = ''auth''
         then pmap (\<lambda>d. img\<lparr>img_Auth := \<lparr>da_Username = gm_get_or [] d ''username'',
                                          da_Password = gm_get_or [] d ''password''\<rparr>\<rparr>) dict
         else if keyName = ''aws_auth''
         then pmap (\<lambda>d. img\<lparr>img_AwsAuth := \<lparr>aws_AccessKeyID = gm_get_or [] d ''AWS_ACCESS_KEY_ID'',
                                 aws_SecretAccessKey = gm_get_or [] d ''AWS_SECRET_ACCESS_KEY''\<rparr>\<rparr>) dict
         else pret img)"

definition parseDockerImage :: "nat \<Rightarrow> yaml_document \<Rightarrow> node \<Rightarrow> docker_image parse" where
  "parseDockerImage k doc imageNode =
     (let t = yd_Tree doc
      in iterateOnBlockMapping k doc (GetChildMapping t (GetChildOfType t (Some imageNode) ''block_node''))
           (image_field k doc) zero_image)"

definition parseSingleExecutorDocker ::
    "nat \<Rightarrow> yaml_document \<Rightarrow> node option \<Rightarrow> node \<Rightarrow> docker_executor parse" where
  "parseSingleExecutorDocker k doc nameNode valueNode =
     (let t = yd_Tree doc
      in pmap (\<lambda>(b, res). res\<lparr>de_Base := b\<rparr>)
        (parseBaseExecutor k doc nameNode valueNode ''docker''
          (\<lambda>blockNode s.
             pfold (\<lambda>child (b, res).
                if st_Type t child = ''block_sequence_item''
                then pmap (\<lambda>img. (b, res\<lparr>de_Image := de_Image res @ [img]\<rparr>)) (parseDockerImage k doc child)
                else pret (b, res))
              (sequence_children t (GetChildSequence t blockNode)) s)
          (zero_base_executor, \<lparr>de_Base = zero_base_executor, de_Image = [], de_ServiceImages = []\<rparr>)))"


subsection \<open>The executors of a document\<close>

definition already_defined :: "range \<Rightarrow> string \<Rightarrow> diagnostic" where
  "already_defined rng msg = mk_diag rng msg SeverityWarning ''cci-language-server''"

type_synonym executors = "(string, executor) gomap"

definition executor_field ::
    "nat \<Rightarrow> yaml_document \<Rightarrow> node option \<Rightarrow> node \<Rightarrow> string \<Rightarrow> node \<Rightarrow> executors \<Rightarrow> executors parse" where
  "executor_field k doc nameNode m executorName child es =
     (let keyName = pair_key doc child
      in if keyName = ''docker''
         then pmap (\<lambda>e. gm_put executorName (ExDocker e) es) (parseSingleExecutorDocker k doc nameNode m)
         else if keyName = ''machine''
         then pmap (\<lambda>e. gm_put executorName (ExMachine e) es) (parseSingleExecutorMachine k doc nameNode m)
         else if keyName = ''macos''
         then pmap (\<lambda>e. gm_put executorName (ExMacOS e) es) (parseSingleExecutorMacOS k doc nameNode m)
         else pret es)"

text \<open>The executors are the state: the document's own map, as the code fills it.\<close>

definition parseSingleExecutor :: "nat \<Rightarrow> yaml_document \<Rightarrow> node \<Rightarrow> executors \<Rightarrow> executors parse" where
  "parseSingleExecutor k doc executorNode es =
     (let nameNode = fst (GetKeyValueNodes doc (Some executorNode));
          executorName = getAttributeName doc (GetNodeText doc nameNode)
      in case GetChildMapping (yd_Tree doc) (snd (GetKeyValueNodes doc (Some executorNode))) of
           None \<Rightarrow> pret es
         | Some m \<Rightarrow>
             (case gm_get es executorName of
                Some definedExecutor \<Rightarrow>
                  pbind (pemit [already_defined (NodeToRange doc nameNode) ''Executor already defined'',
                                already_defined (executor_GetNameRange definedExecutor) ''Executor already defined''])
                    (\<lambda>_. pret es)
              | None \<Rightarrow>
                  pbind (iterateOnBlockMapping k doc (Some m) (executor_field k doc nameNode m executorName) es)
                    (\<lambda>es.
                      if gm_has es executorName then pret es
                      else pmap (\<lambda>(b, _). gm_put executorName (ExBase (b\<lparr>be_Uncomplete := True\<rparr>)) es)
                             (parseBaseExecutor k doc nameNode m ''dummy'' (\<lambda>_. pret)
                                (zero_base_executor, ())))))"

definition parseExecutors :: "nat \<Rightarrow> yaml_document \<Rightarrow> node option \<Rightarrow> executors \<Rightarrow> executors parse" where
  "parseExecutors k doc executorsNode es =
     (case GetChildMapping (yd_Tree doc) executorsNode of
        None \<Rightarrow> pret es
      | Some m \<Rightarrow> iterateOnBlockMapping k doc (Some m) (parseSingleExecutor k doc) es)"

subsection \<open>References to executors\<close>

text \<open>The value of a flow node behind an anchor.\<close>

definition behind_anchor :: "sitter \<Rightarrow> node option \<Rightarrow> node option" where
  "behind_anchor t n =
     (case n of
        Some c \<Rightarrow> if st_Type t c = ''anchor'' then st_NextSibling t c else Some c
      | None \<Rightarrow> None)"

definition executor_ref_field ::
    "nat \<Rightarrow> yaml_document \<Rightarrow> node \<Rightarrow> string \<times> (string, param_value) gomap \<Rightarrow>
     (string \<times> (string, param_value) gomap) parse" where
  "executor_ref_field k doc child = (\<lambda>(name, ps).
     (let t = yd_Tree doc; keyName = pair_key doc child
      in if keyName = ''name''
         then pret (GetNodeText doc (behind_anchor t (GetFirstChild t (snd (GetKeyValueNodes doc (Some child))))), ps)
         else pmap (\<lambda>r. (name, put_value keyName r ps)) (parseParameterValue k doc child)))"

definition executor_ref_mapping ::
    "nat \<Rightarrow> yaml_document \<Rightarrow> node \<Rightarrow> range \<Rightarrow> (string \<times> range \<times> (string, param_value) gomap) parse" where
  "executor_ref_mapping k doc v childRange =
     (case GetChildMapping (yd_Tree doc) (Some v) of
        None \<Rightarrow> pret ([], zero_range, [])
      | Some m \<Rightarrow>
          pmap (\<lambda>(name, ps). (name, childRange, ps))
            (iterateOnBlockMapping k doc (Some m) (executor_ref_field k doc) ([], [])))"

definition parseExecutorRef ::
    "nat \<Rightarrow> yaml_document \<Rightarrow> node option \<Rightarrow> node \<Rightarrow>
     (string \<times> range \<times> (string, param_value) gomap) parse" where
  "parseExecutorRef k doc valueNode child =
     (let t = yd_Tree doc; childRange = NodeToRange doc (Some child) in
      case valueNode of
        None \<Rightarrow>
          (let line = Line (Start childRange); column = Character (Start childRange) + 9
           in pret ([], mk_range (mk_pos line column) (mk_pos line (column + 999)), []))
      | Some v \<Rightarrow>
          (case GetFirstChild t (Some v) of
             Some c \<Rightarrow>
               if st_Type t v = ''flow_node'' \<and> st_Type t c \<noteq> ''flow_mapping''
               then pret (GetNodeText doc (behind_anchor t (Some c)), childRange, [])
               else executor_ref_mapping k doc v childRange
           | None \<Rightarrow> executor_ref_mapping k doc v childRange))"
end
