(* ===== verification/ParseJobs.thy ===== *)
theory ParseJobs
  imports ParseExec
begin

text \<open>
  Jobs, commands, the invocations of jobs, job groups and workflows: \<open>pkg/parser/jobs.go\<close>,
  \<open>commands.go\<close>, \<open>job_invocation.go\<close>, \<open>job_groups.go\<close>, \<open>workflows.go\<close>, \<open>retention.go\<close>.
\<close>

subsection \<open>retention.go\<close>

definition is_pair :: "yaml_document \<Rightarrow> node \<Rightarrow> bool" where
  "is_pair doc child \<longleftrightarrow>
     st_Type (yd_Tree doc) child = ''block_mapping_pair'' \<or> st_Type (yd_Tree doc) child = ''flow_pair''"

definition parseRetention :: "nat \<Rightarrow> yaml_document \<Rightarrow> node \<Rightarrow> retention_settings parse" where
  "parseRetention k doc retentionNode =
     iterateOnBlockMapping k doc (GetChildMapping (yd_Tree doc) (Some retentionNode))
       (\<lambda>child res.
          if is_pair doc child
          then on_pair doc (\<lambda>child keyName v res.
                 pret (if keyName = ''caches''
                       then res\<lparr>rs_Caches := \<lparr>tr_Text = GetNodeText doc (Some v),
                                               tr_Range = NodeToRange doc (Some child)\<rparr>\<rparr>
                       else res)) child res
          else pret res)
       \<lparr>rs_Caches = \<lparr>tr_Text = [], tr_Range = zero_range\<rparr>, rs_Range = NodeToRange doc (Some retentionNode)\<rparr>"

subsection \<open>jobs.go\<close>

definition zero_job :: job where
  "zero_job =
     \<lparr>job_Range = zero_range, job_Name = [], job_NameRange = zero_range, job_Shell = [],
      job_WorkingDirectory = [], job_Parallelism = - 1, job_ParallelismRange = zero_range,
      job_ResourceClass = [], job_ResourceClassRange = zero_range, job_Steps = None,
      job_StepsRange = zero_range, job_Description = [], job_Executor = [], job_ExecutorParameters = [],
      job_ExecutorRange = zero_range, job_Parameters = [], job_ParametersRange = zero_range,
      job_Docker = \<lparr>de_Base = zero_base_executor, de_Image = [], de_ServiceImages = []\<rparr>,
      job_DockerRange = zero_range, job_Environment = [], job_EnvironmentRange = zero_range,
      job_Contexts = [],
      job_Machine = \<lparr>me_Base = zero_base_executor, me_Image = [], me_ImageRange = zero_range,
                     me_DockerLayerCaching = False, me_Machine = False, me_IsDeprecated = False\<rparr>,
      job_MachineRange = zero_range,
      job_MacOS = \<lparr>mac_Base = zero_base_executor, mac_Xcode = [], mac_XcodeRange = zero_range\<rparr>,
      job_MacOSRange = zero_range,
      job_Retention = \<lparr>rs_Caches = \<lparr>tr_Text = [], tr_Range = zero_range\<rparr>, rs_Range = zero_range\<rparr>,
      job_RetentionRange = zero_range, job_CompletionItem = [], job_Type = [], job_TypeRange = zero_range,
      job_PlanName = [], job_PlanNameRange = zero_range, job_Key = [], job_KeyRange = zero_range\<rparr>"

text \<open>
  The state of the loop over a job's fields: the job, whether its parameters are a nil map, and the
  last pair with the key \<open>machine\<close>.
\<close>

type_synonym job_state = "job \<times> bool \<times> node option"

text \<open>The fields that hold a text.\<close>

definition job_text_field ::
    "yaml_document \<Rightarrow> node \<Rightarrow> string \<Rightarrow> node \<Rightarrow> job \<Rightarrow> job" where
  "job_text_field doc child keyName v j =
     (let txt = GetNodeText doc (Some v); r = NodeToRange doc (Some child)
      in if keyName = ''shell'' then j\<lparr>job_Shell := txt\<rparr>
         else if keyName = ''working_directory'' then j\<lparr>job_WorkingDirectory := txt\<rparr>
         else if keyName = ''description'' then j\<lparr>job_Description := txt\<rparr>
         else if keyName = ''parallelism''
         then (case go_ParseInt8 txt of
                 None \<Rightarrow> j | Some i \<Rightarrow> j\<lparr>job_Parallelism := i, job_ParallelismRange := r\<rparr>)
         else if keyName = ''resource_class'' then j\<lparr>job_ResourceClass := txt\<rparr>
         else if keyName = ''type'' then j\<lparr>job_Type := txt, job_TypeRange := r\<rparr>
         else if keyName = ''plan_name'' then j\<lparr>job_PlanName := txt, job_PlanNameRange := r\<rparr>
         else if keyName = ''key'' then j\<lparr>job_Key := txt, job_KeyRange := r\<rparr>
         else j)"

definition job_field ::
    "nat \<Rightarrow> yaml_document \<Rightarrow> node \<Rightarrow> node \<Rightarrow> string \<Rightarrow> node \<Rightarrow> job_state \<Rightarrow> job_state parse" where
  "job_field k doc blockMappingNode child keyName v = (\<lambda>(j, pn, m).
     (let keyNode = fst (GetKeyValueNodes doc (Some child)); r = NodeToRange doc (Some child)
      in if keyName = ''retention''
         then pmap (\<lambda>x. (j\<lparr>job_RetentionRange := r, job_Retention := x\<rparr>, pn, m)) (parseRetention k doc v)
         else if keyName = ''steps''
         then pmap (\<lambda>ss. (j\<lparr>job_StepsRange := r, job_Steps := Some ss\<rparr>, pn, m)) (parseSteps k doc v)
         else if keyName = ''executor''
         then pmap (\<lambda>(e, er, ps). (j\<lparr>job_Executor := e, job_ExecutorRange := er,
                                      job_ExecutorParameters := ps\<rparr>, pn, m))
                (parseExecutorRef k doc (Some v) child)
         else if keyName = ''parameters''
         then pmap (\<lambda>ps. (j\<lparr>job_ParametersRange := r, job_Parameters := params_of ps\<rparr>, ps = None, m))
                (parseParameters k doc (Some v))
         else if keyName = ''docker''
         then pmap (\<lambda>e. (j\<lparr>job_Docker := e, job_DockerRange := r\<rparr>, pn, m))
                (parseSingleExecutorDocker k doc keyNode blockMappingNode)
         else if keyName = ''machine''
         then pmap (\<lambda>e. (j\<lparr>job_Machine := e, job_MachineRange := r\<rparr>, pn, Some child))
                (parseSingleExecutorMachine k doc keyNode blockMappingNode)
         else if keyName = ''macos''
         then pmap (\<lambda>e. (j\<lparr>job_MacOS := e, job_MacOSRange := r\<rparr>, pn, m))
                (parseSingleExecutorMacOS k doc keyNode blockMappingNode)
         else if keyName = ''environment''
         then pmap (\<lambda>d. (j\<lparr>job_Environment := d, job_EnvironmentRange := r\<rparr>, pn, m))
                (parseDictionary k doc (GetChildMapping (yd_Tree doc) (Some v)))
         else pret (job_text_field doc child keyName v j, pn, m)))"

definition jobCompletionItem :: "bool \<Rightarrow> job \<Rightarrow> job" where
  "jobCompletionItem paramsNil j =
     (let add = (\<lambda>b label cs j. if b then AddCompletionItem label cs j else j);
          colon = '':''; blank = '' ''; nl = newline_str; tab = [CHR 0x09];
          j = add (job_Steps j = None) ''steps'' [colon, nl, tab] j;
          j = add (job_Description j = []) ''description'' [colon, blank] j;
          bare = (job_Executor j = []);
          j = add bare ''executor'' [colon, blank] j;
          j = add (bare \<and> job_ResourceClass j = []) ''resource_class'' [colon, blank] j;
          j = add (bare \<and> job_Shell j = []) ''shell'' [colon, blank] j;
          j = add (bare \<and> job_WorkingDirectory j = []) ''working_directory'' [colon, blank] j;
          j = add paramsNil ''parameters'' [colon, nl, blank] j;
          j = add (job_Parallelism j = 0) ''parallelism'' [colon, blank] j;
          j = add (job_Type j = []) ''type'' [colon, blank] j;
          j = add (job_PlanName j = []) ''plan_name'' [colon, blank] j
      in add (job_Key j = []) ''key'' [colon, blank] j)"

definition parseSingleJob :: "nat \<Rightarrow> yaml_document \<Rightarrow> node \<Rightarrow> job parse" where
  "parseSingleJob k doc jobNode =
     (let t = yd_Tree doc;
          nameNode = fst (GetKeyValueNodes doc (Some jobNode));
          valueNode = snd (GetKeyValueNodes doc (Some jobNode))
      in case (nameNode, GetChildMapping t valueNode) of
           (Some _, Some m) \<Rightarrow>
             pbind (iterateOnBlockMapping k doc (Some m)
                      (\<lambda>child s. if is_pair doc child then on_pair doc (job_field k doc m) child s else pret s)
                      (zero_job\<lparr>job_Name := getAttributeName doc (GetNodeText doc nameNode),
                                job_Range := NodeToRange doc (Some jobNode),
                                job_NameRange := NodeToRange doc nameNode\<rparr>, False, None))
               (\<lambda>(j, paramsNil, machineNode).
                  pbind (case machineNode of
                           None \<Rightarrow> pret False
                         | Some n \<Rightarrow> addedMachineTrueDeprecatedDiag doc (Some n) (job_ResourceClass j))
                    (\<lambda>_. pret (jobCompletionItem paramsNil j)))
         | _ \<Rightarrow> pret zero_job)"

type_synonym jobs = "(string, job) gomap"

definition add_job :: "job \<Rightarrow> jobs \<Rightarrow> jobs parse" where
  "add_job j js =
     (case gm_get js (job_Name j) of
        Some definedJob \<Rightarrow>
          pbind (pemit [already_defined (job_NameRange j) ''Job already defined'',
                        already_defined (job_NameRange definedJob) ''Job already defined''])
            (\<lambda>_. pret js)
      | None \<Rightarrow> pret (gm_put (job_Name j) j js))"

definition parseJobs :: "nat \<Rightarrow> yaml_document \<Rightarrow> node \<Rightarrow> jobs \<Rightarrow> jobs parse" where
  "parseJobs k doc jobsNode js =
     (case GetChildMapping (yd_Tree doc) (Some jobsNode) of
        None \<Rightarrow> pret js
      | Some m \<Rightarrow>
          iterateOnBlockMapping k doc (Some m) (\<lambda>child js. pbind (parseSingleJob k doc child) (\<lambda>j. add_job j js)) js)"

subsection \<open>commands.go\<close>

definition command_field ::
    "nat \<Rightarrow> yaml_document \<Rightarrow> node \<Rightarrow> command \<Rightarrow> command parse" where
  "command_field k doc child c =
     (let keyName = pair_key doc child in
      case snd (GetKeyValueNodes doc (Some child)) of
        None \<Rightarrow> pret c
      | Some v \<Rightarrow>
          if keyName = ''description''
          then pret (c\<lparr>cmd_DescriptionRange := NodeToRange doc (Some child),
                       cmd_Description := parseDescription doc (Some v)\<rparr>)
          else if keyName = ''steps''
          then pmap (\<lambda>ss. c\<lparr>cmd_StepsRange := NodeToRange doc (Some v), cmd_Steps := ss\<rparr>) (parseSteps k doc v)
          else if keyName = ''parameters''
          then pmap (\<lambda>ps. c\<lparr>cmd_ParametersRange := NodeToRange doc (Some v), cmd_Parameters := params_of ps\<rparr>)
                 (parseParameters k doc (Some v))
          else pret c)"

definition parseSingleCommand :: "nat \<Rightarrow> yaml_document \<Rightarrow> node \<Rightarrow> command parse" where
  "parseSingleCommand k doc commandNode =
     (let nameNode = fst (GetKeyValueNodes doc (Some commandNode));
          valueNode = snd (GetKeyValueNodes doc (Some commandNode));
          zero = \<lparr>cmd_Range = zero_range, cmd_Name = [], cmd_NameRange = zero_range, cmd_Description = [],
                  cmd_DescriptionRange = zero_range, cmd_Steps = [], cmd_StepsRange = zero_range,
                  cmd_Parameters = [], cmd_ParametersRange = zero_range, cmd_Contexts = []\<rparr>
      in case (nameNode, GetChildMapping (yd_Tree doc) valueNode) of
           (Some _, Some m) \<Rightarrow>
             iterateOnBlockMapping k doc (Some m) (command_field k doc)
               (zero\<lparr>cmd_Name := getAttributeName doc (GetNodeText doc nameNode),
                     cmd_Range := NodeToRange doc (Some commandNode), cmd_NameRange := NodeToRange doc nameNode\<rparr>)
         | _ \<Rightarrow> pret zero)"

type_synonym commands = "(string, command) gomap"

definition add_command :: "command \<Rightarrow> commands \<Rightarrow> commands parse" where
  "add_command c cs =
     (case gm_get cs (cmd_Name c) of
        Some definedCommand \<Rightarrow>
          pbind (pemit [already_defined (cmd_NameRange c) ''Command already defined'',
                        already_defined (cmd_NameRange definedCommand) ''Command already defined''])
            (\<lambda>_. pret cs)
      | None \<Rightarrow> pret (if cmd_Name c \<noteq> [] then gm_put (cmd_Name c) c cs else cs))"

definition parseCommands :: "nat \<Rightarrow> yaml_document \<Rightarrow> node \<Rightarrow> commands \<Rightarrow> commands parse" where
  "parseCommands k doc commandsNode cs =
     (case GetChildMapping (yd_Tree doc) (Some commandsNode) of
        None \<Rightarrow> pret cs
      | Some m \<Rightarrow>
          iterateOnBlockMapping k doc (Some m)
            (\<lambda>child cs. pbind (parseSingleCommand k doc child) (\<lambda>c. add_command c cs)) cs)"

end
