(* ===== verification/Cycles.thy ===== *)
theory Cycles
  imports Ast "HOL-Library.Multiset"
begin

text \<open>
  The requirement graph of a workflow: \<open>buildJobsDAG\<close> of \<open>pkg/parser/job_invocation.go\<close> and
  the cycle search \<open>isValidDAG\<close> of \<open>pkg/parser/validate/cycles.go\<close>, a worklist algorithm
  over a map from a node to its children. The abstract view is the edge relation
  \<open>dag_edges\<close>; \<open>cyclic_part\<close> is what the search is to return: the nodes reachable from a
  cycle.
\<close>

subsection \<open>job_invocation.go: buildJobsDAG\<close>

definition add_requirements :: "job_invocation \<Rightarrow> dag \<Rightarrow> dag" where
  "add_requirements jobInvocation res =
     fold (\<lambda>requirement res.
             gm_put (rq_Name requirement)
               (gm_get_or [] res (rq_Name requirement) @ [ji_StepName jobInvocation]) res)
       (ji_Requires jobInvocation) res"

definition buildJobsDAG :: "job_invocation list \<Rightarrow> dag" where
  "buildJobsDAG jobInvocations = fold add_requirements jobInvocations []"

subsection \<open>cycles.go: isValidDAG\<close>

definition init_in_degree :: "dag \<Rightarrow> (string, int) gomap" where
  "init_in_degree d = fold (\<lambda>(node, _) m. gm_put node 0 m) d []"

definition count_children :: "string list \<Rightarrow> (string, int) gomap \<Rightarrow> (string, int) gomap" where
  "count_children children m = fold (\<lambda>child m. gm_put child (gm_get_or 0 m child + 1) m) children m"

definition in_degrees :: "dag \<Rightarrow> (string, int) gomap" where
  "in_degrees d = fold (\<lambda>(_, children) m. count_children children m) d (init_in_degree d)"

definition init_visited :: "(string, int) gomap \<Rightarrow> (string, bool) gomap" where
  "init_visited in_degree = fold (\<lambda>(node, _) v. gm_put node False v) in_degree []"

fun release_children ::
    "string list \<Rightarrow> string list \<times> (string, int) gomap \<Rightarrow> string list \<times> (string, int) gomap" where
  "release_children [] (queue, in_degree) = (queue, in_degree)"
| "release_children (child # cs) (queue, in_degree) =
     (let in_degree' = gm_put child (gm_get_or 0 in_degree child - 1) in_degree
      in release_children cs
           (if gm_get_or 0 in_degree' child = 0 then queue @ [child] else queue, in_degree'))"

definition dag_children :: "dag \<Rightarrow> string \<Rightarrow> string list" where
  "dag_children d node = gm_get_or [] d node"

definition dag_nodes :: "dag \<Rightarrow> string set" where
  "dag_nodes d = set (gm_keys d) \<union> \<Union> (set ` snd ` set d)"

definition visited_set :: "(string, bool) gomap \<Rightarrow> string set" where
  "visited_set v = {n. gm_get_or False v n}"

lemma finite_dag_nodes [simp]: "finite (dag_nodes d)"
  by (simp add: dag_nodes_def)

lemma dag_children_nodes: "set (dag_children d n) \<subseteq> dag_nodes d"
proof (cases "gm_get d n")
  case (Some cs)
  then have "(n, cs) \<in> set d" by (rule map_of_SomeD)
  then show ?thesis by (force simp: Some dag_children_def gm_get_or_def dag_nodes_def)
qed (simp add: dag_children_def gm_get_or_def)

lemma dag_children_key: "dag_children d n \<noteq> [] \<Longrightarrow> n \<in> set (gm_keys d)"
  by (auto simp: dag_children_def gm_get_or_def intro: gm_keys_get split: option.splits)

lemma release_children_queue:
  "set (fst (release_children cs (q, m))) \<subseteq> set q \<union> set cs"
proof (induction cs arbitrary: q m)
  case (Cons c cs)
  let ?m = "gm_put c (gm_get_or 0 m c - 1) m"
  let ?q = "if gm_get_or 0 ?m c = 0 then q @ [c] else q"
  have "set (fst (release_children cs (?q, ?m))) \<subseteq> set ?q \<union> set cs" by (rule Cons)
  then show ?case by (auto simp: Let_def split: if_splits)
qed simp

lemma visited_set_put: "visited_set (gm_put n True v) = insert n (visited_set v)"
  by (auto simp: visited_set_def)

function kahn_loop ::
    "dag \<Rightarrow> string list \<Rightarrow> (string, int) gomap \<Rightarrow> (string, bool) gomap \<Rightarrow> (string, bool) gomap" where
  "kahn_loop d [] in_degree visited = visited"
| "kahn_loop d (node # queue) in_degree visited =
     (if gm_get_or False visited node then kahn_loop d queue in_degree visited
      else (let r = release_children (dag_children d node) (queue, in_degree)
            in kahn_loop d (fst r) (snd r) (gm_put node True visited)))"
  by pat_completeness auto
termination
proof (relation "measures
    [\<lambda>(d, q, m, v). card ((dag_nodes d \<union> set q) - visited_set v), \<lambda>(d, q, m, v). length q]")
  fix d node queue in_degree visited
  let ?old = "(dag_nodes d \<union> set (node # queue)) - visited_set visited"
  {
    have "card ((dag_nodes d \<union> set queue) - visited_set visited) \<le> card ?old"
      by (rule card_mono) auto
    then show "((d, queue, in_degree, visited), (d, node # queue, in_degree, visited)) \<in> measures
        [\<lambda>(d, q, m, v). card ((dag_nodes d \<union> set q) - visited_set v), \<lambda>(d, q, m, v). length q]"
      by auto
  next
    fix r
    assume nv: "\<not> gm_get_or False visited node"
      and r: "r = release_children (dag_children d node) (queue, in_degree)"
    have "(dag_nodes d \<union> set (fst r)) - visited_set (gm_put node True visited) \<subset> ?old"
    proof
      show "(dag_nodes d \<union> set (fst r)) - visited_set (gm_put node True visited) \<subseteq> ?old"
        using release_children_queue [of "dag_children d node" queue in_degree]
          dag_children_nodes [of d node]
        unfolding r visited_set_put by auto
      have "node \<in> ?old" using nv by (simp add: visited_set_def)
      then show "(dag_nodes d \<union> set (fst r)) - visited_set (gm_put node True visited) \<noteq> ?old"
        unfolding visited_set_put by blast
    qed
    then have "card ((dag_nodes d \<union> set (fst r)) - visited_set (gm_put node True visited)) < card ?old"
      by (intro psubset_card_mono) simp_all
    then show "((d, fst r, snd r, gm_put node True visited), (d, node # queue, in_degree, visited))
        \<in> measures
        [\<lambda>(d, q, m, v). card ((dag_nodes d \<union> set q) - visited_set v), \<lambda>(d, q, m, v). length q]"
      by simp
  }
qed simp

definition isValidDAG :: "dag \<Rightarrow> string list" where
  "isValidDAG d =
     (let in_degree = in_degrees d;
          queue = map fst (filter (\<lambda>(node, degree). degree = 0) in_degree);
          visited = kahn_loop d queue in_degree (init_visited in_degree)
      in map fst (filter (\<lambda>(node, v). \<not> v) visited))"

subsection \<open>The abstract view\<close>

definition dag_edges :: "dag \<Rightarrow> (string \<times> string) set" where
  "dag_edges d = {(u, v). v \<in> set (dag_children d u)}"

definition cyclic_part :: "('a \<times> 'a) set \<Rightarrow> 'a set" where
  "cyclic_part E = {n. \<exists>m. (m, m) \<in> E\<^sup>+ \<and> (m, n) \<in> E\<^sup>*}"

lemma cyclic_part_empty: "cyclic_part E = {} \<longleftrightarrow> acyclic E"
  by (auto simp: cyclic_part_def acyclic_def)

lemma cyclic_part_step: "m \<in> cyclic_part E \<Longrightarrow> (m, n) \<in> E \<Longrightarrow> n \<in> cyclic_part E"
  unfolding cyclic_part_def by (blast intro: rtrancl_into_rtrancl)

lemma cyclic_part_pred:
  assumes "n \<in> cyclic_part E"
  shows "\<exists>p \<in> cyclic_part E. (p, n) \<in> E"
proof -
  from assms obtain m where m: "(m, m) \<in> E\<^sup>+" "(m, n) \<in> E\<^sup>*"
    by (auto simp: cyclic_part_def)
  then have "(m, n) \<in> E\<^sup>+" by (metis rtranclD trancl_trans)
  then obtain p where "(m, p) \<in> E\<^sup>*" "(p, n) \<in> E" by (meson tranclD2)
  with m(1) show ?thesis by (auto simp: cyclic_part_def)
qed

text \<open>
  In a finite graph, a set of nodes of which each has a predecessor in the set lies in the
  cyclic part.
\<close>

lemma no_source_cyclic:
  assumes "finite A" and pred: "\<And>a. a \<in> A \<Longrightarrow> \<exists>p \<in> A. (p, a) \<in> E"
  shows "A \<subseteq> cyclic_part E"
proof (rule ccontr)
  assume "\<not> A \<subseteq> cyclic_part E"
  then obtain a where a: "a \<in> A - cyclic_part E" by blast
  let ?B = "A - cyclic_part E"
  let ?R = "E \<inter> ?B \<times> ?B"
  have "acyclic ?R"
  proof (rule acyclicI, rule allI, rule notI)
    fix x assume x: "(x, x) \<in> ?R\<^sup>+"
    have "?R\<^sup>+ \<subseteq> E\<^sup>+" by (rule trancl_mono_subset) blast
    with x have "x \<in> cyclic_part E" by (auto simp: cyclic_part_def)
    moreover from tranclD [OF x] have "x \<in> ?B" by blast
    ultimately show False by blast
  qed
  moreover have "finite ?R" by (rule finite_subset [of _ "?B \<times> ?B"]) (use assms(1) in auto)
  ultimately have "wf ?R" by (rule finite_acyclic_wf [rotated])
  from this a obtain z where z: "z \<in> ?B" "\<And>y. (y, z) \<in> ?R \<Longrightarrow> y \<notin> ?B"
    by (rule wfE_min) iprover
  with pred obtain p where p: "p \<in> A" "(p, z) \<in> E" by blast
  have "p \<notin> cyclic_part E" using cyclic_part_step [OF _ p(2)] z(1) by auto
  with p(1) have "p \<in> ?B" by simp
  moreover have "(p, z) \<in> ?R" using p(2) z(1) \<open>p \<in> ?B\<close> by simp
  ultimately show False using z(2) [of p] by blast
qed

subsection \<open>Degrees\<close>

definition mult :: "dag \<Rightarrow> string \<Rightarrow> string \<Rightarrow> nat" where
  "mult d u v = count_list (dag_children d u) v"

lemma mult_pos_iff: "0 < mult d u v \<longleftrightarrow> (u, v) \<in> dag_edges d"
  using count_list_0_iff [of "dag_children d u" v] by (auto simp: mult_def dag_edges_def)

lemma edges_nodes: "(u, v) \<in> dag_edges d \<Longrightarrow> u \<in> dag_nodes d \<and> v \<in> dag_nodes d"
  using dag_children_nodes [of d u] dag_children_key [of d u]
  by (cases "dag_children d u") (auto simp: dag_edges_def dag_nodes_def)

lemma count_children_get:
  "gm_get_or 0 (count_children cs m) v = gm_get_or 0 m v + int (count_list cs v)"
  by (induction cs arbitrary: m) (auto simp: count_children_def)

lemma count_children_keys:
  "set (gm_keys (count_children cs m)) = set (gm_keys m) \<union> set cs"
  unfolding count_children_def by (induction cs arbitrary: m) simp_all

lemma count_children_wf: "gm_wf m \<Longrightarrow> gm_wf (count_children cs m)"
  unfolding count_children_def by (induction cs arbitrary: m) auto

lemma in_degrees_fold_get:
  "gm_get_or 0 (fold (\<lambda>(_, children) m. count_children children m) d m) v =
    gm_get_or 0 m v + int (\<Sum>(u, cs)\<leftarrow>d. count_list cs v)"
  by (induction d arbitrary: m) (auto simp: count_children_get)

lemma in_degrees_fold_keys:
  "set (gm_keys (fold (\<lambda>(_, children) m. count_children children m) d m)) =
    set (gm_keys m) \<union> \<Union> (set ` snd ` set d)"
  by (induction d arbitrary: m) (auto simp: count_children_keys)

lemma in_degrees_fold_wf:
  "gm_wf m \<Longrightarrow> gm_wf (fold (\<lambda>(_, children) m. count_children children m) d m)"
  by (induction d arbitrary: m) (auto simp: count_children_wf)

lemma init_fold_props:
  "gm_wf m \<Longrightarrow> gm_wf (fold (\<lambda>(node, _) m. gm_put node z m) d m) \<and>
   set (gm_keys (fold (\<lambda>(node, _) m. gm_put node z m) d m)) = set (gm_keys m) \<union> set (gm_keys d) \<and>
   ((\<forall>k. gm_get_or z m k = z) \<longrightarrow>
     (\<forall>k. gm_get_or z (fold (\<lambda>(node, _) m. gm_put node z m) d m) k = z))"
  by (induction d arbitrary: m) (auto split: prod.splits)

lemma sum_list_children:
  assumes "gm_wf d"
  shows "(\<Sum>(u, cs)\<leftarrow>d. count_list cs v) = (\<Sum>u\<in>set (gm_keys d). mult d u v)"
proof -
  have "(\<Sum>(u, cs)\<leftarrow>d. count_list cs v) = (\<Sum>(u, cs)\<in>set d. count_list cs v)"
    using assms by (intro sum_list_distinct_conv_sum_set) (auto simp: gm_wf_def distinct_map)
  also have "\<dots> = (\<Sum>p\<in>set d. mult d (fst p) v)"
    using assms by (intro sum.cong)
      (auto simp: mult_def dag_children_def gm_get_or_def gm_wf_def)
  also have "\<dots> = (\<Sum>u\<in>fst ` set d. mult d u v)"
    using assms by (intro sum.reindex_cong [symmetric, of fst]) (auto simp: gm_wf_def distinct_map)
  finally show ?thesis by (simp add: gm_keys_def)
qed

lemma in_degrees_props:
  assumes "gm_wf d"
  shows "gm_wf (in_degrees d)"
    and "set (gm_keys (in_degrees d)) = dag_nodes d"
    and "gm_get_or 0 (in_degrees d) v = (\<Sum>u\<in>dag_nodes d. int (mult d u v))"
proof -
  have init: "gm_wf (init_in_degree d) \<and> set (gm_keys (init_in_degree d)) = set (gm_keys d) \<and>
      (\<forall>k. gm_get_or 0 (init_in_degree d) k = 0)"
    using init_fold_props [of "[]" 0 d] by (simp add: init_in_degree_def gm_get_or_def)
  show "gm_wf (in_degrees d)"
    unfolding in_degrees_def using init by (intro in_degrees_fold_wf) simp
  show "set (gm_keys (in_degrees d)) = dag_nodes d"
    unfolding in_degrees_def in_degrees_fold_keys dag_nodes_def using init by simp
  have "(\<Sum>u\<in>set (gm_keys d). mult d u v) = (\<Sum>u\<in>dag_nodes d. mult d u v)"
  proof (rule sum.mono_neutral_left)
    have "dag_children d u = []" if "u \<notin> set (gm_keys d)" for u
      using that dag_children_key by blast
    then show "\<forall>u\<in>dag_nodes d - set (gm_keys d). mult d u v = 0"
      by (simp add: mult_def)
  qed (auto simp: dag_nodes_def)
  then show "gm_get_or 0 (in_degrees d) v = (\<Sum>u\<in>dag_nodes d. int (mult d u v))"
    unfolding in_degrees_def in_degrees_fold_get using init
    by (simp add: sum_list_children [OF assms])
qed

subsection \<open>One round of the worklist\<close>

lemma release_children_props:
  assumes "\<And>v. int (count_list cs v) \<le> gm_get_or 0 m v"
  shows "gm_get_or 0 (snd (release_children cs (q, m))) v = gm_get_or 0 m v - int (count_list cs v)"
    and "set (fst (release_children cs (q, m))) =
      set q \<union> {v \<in> set cs. gm_get_or 0 m v = int (count_list cs v)}"
    and "set (gm_keys (snd (release_children cs (q, m)))) = set (gm_keys m) \<union> set cs"
proof -
  have "gm_get_or 0 (snd (release_children cs (q, m))) v = gm_get_or 0 m v - int (count_list cs v) \<and>
    set (fst (release_children cs (q, m))) =
      set q \<union> {v \<in> set cs. gm_get_or 0 m v = int (count_list cs v)} \<and>
    set (gm_keys (snd (release_children cs (q, m)))) = set (gm_keys m) \<union> set cs"
    using assms
  proof (induction cs arbitrary: q m)
    case (Cons c cs)
    let ?m = "gm_put c (gm_get_or 0 m c - 1) m"
    let ?q = "if gm_get_or 0 ?m c = 0 then q @ [c] else q"
    have le: "int (count_list cs v) \<le> gm_get_or 0 ?m v" for v
      using Cons.prems [of v] by (auto split: if_splits)
    note IH = Cons.IH [of ?m ?q, OF le]
    have zero: "c \<notin> set cs" if "gm_get_or 0 m c = 1"
      using le [of c] that count_list_0_iff [of cs c] by auto
    have q: "set ?q \<union> {v \<in> set cs. gm_get_or 0 ?m v = int (count_list cs v)} =
        set q \<union> {v \<in> set (c # cs). gm_get_or 0 m v = int (count_list (c # cs) v)}"
    proof (cases "gm_get_or 0 m c = 1")
      case True
      with zero show ?thesis by (auto split: if_splits)
    next
      case False
      then have "gm_get_or 0 m c = int (count_list (c # cs) c) \<longrightarrow> c \<in> set cs"
        using count_list_0_iff [of cs c] by auto
      with False show ?thesis by (auto split: if_splits)
    qed
    have step: "release_children (c # cs) (q, m) = release_children cs (?q, ?m)"
      by (simp add: Let_def)
    show ?case
      unfolding step using IH q by auto
  qed (simp add: gm_get_or_def)
  then show "gm_get_or 0 (snd (release_children cs (q, m))) v = gm_get_or 0 m v - int (count_list cs v)"
    and "set (fst (release_children cs (q, m))) =
      set q \<union> {v \<in> set cs. gm_get_or 0 m v = int (count_list cs v)}"
    and "set (gm_keys (snd (release_children cs (q, m)))) = set (gm_keys m) \<union> set cs"
    by simp_all
qed

text \<open>
  The invariant of the worklist: the degree of a node counts the edges from the nodes not yet
  visited; a node of degree zero is visited or queued and conversely; visited nodes lie
  outside the cyclic part.
\<close>

definition kahn_inv ::
    "dag \<Rightarrow> string list \<Rightarrow> (string, int) gomap \<Rightarrow> (string, bool) gomap \<Rightarrow> bool" where
  "kahn_inv d q m v \<longleftrightarrow>
     set (gm_keys v) = dag_nodes d \<and> gm_wf v \<and> set q \<subseteq> dag_nodes d \<and>
     (\<forall>n. gm_get_or 0 m n = (\<Sum>u\<in>dag_nodes d - visited_set v. int (mult d u n))) \<and>
     (\<forall>n\<in>dag_nodes d. gm_get_or 0 m n = 0 \<longleftrightarrow> n \<in> visited_set v \<or> n \<in> set q) \<and>
     visited_set v \<subseteq> dag_nodes d \<and> visited_set v \<inter> cyclic_part (dag_edges d) = {}"

lemma kahn_inv_queue:
  "kahn_inv d q m v \<Longrightarrow> n \<in> dag_nodes d \<Longrightarrow>
    gm_get_or 0 m n = 0 \<longleftrightarrow> n \<in> visited_set v \<or> n \<in> set q"
  unfolding kahn_inv_def by blast

lemma kahn_inv_sets:
  assumes "kahn_inv d q m v"
  shows "gm_wf v" and "set (gm_keys v) = dag_nodes d" and "set q \<subseteq> dag_nodes d"
    and "visited_set v \<subseteq> dag_nodes d" and "visited_set v \<inter> cyclic_part (dag_edges d) = {}"
  using assms unfolding kahn_inv_def by simp_all

lemma degree_zero_iff:
  assumes "kahn_inv d q m v"
  shows "gm_get_or 0 m n = 0 \<longleftrightarrow> (\<forall>u. (u, n) \<in> dag_edges d \<longrightarrow> u \<in> visited_set v)"
proof -
  have "gm_get_or 0 m n = 0 \<longleftrightarrow> (\<forall>u\<in>dag_nodes d - visited_set v. mult d u n = 0)"
    using assms by (simp add: kahn_inv_def sum_nonneg_eq_0_iff)
  also have "\<dots> \<longleftrightarrow> (\<forall>u\<in>dag_nodes d - visited_set v. (u, n) \<notin> dag_edges d)"
    by (simp add: mult_pos_iff [symmetric])
  also have "\<dots> \<longleftrightarrow> (\<forall>u. (u, n) \<in> dag_edges d \<longrightarrow> u \<in> visited_set v)"
    using edges_nodes [of _ n d] by blast
  finally show ?thesis .
qed

lemma kahn_inv_skip:
  "kahn_inv d (n # q) m v \<Longrightarrow> gm_get_or False v n \<Longrightarrow> kahn_inv d q m v"
  by (auto simp: kahn_inv_def visited_set_def)

lemma kahn_inv_visit:
  assumes inv: "kahn_inv d (n # q) m v" and nv: "\<not> gm_get_or False v n"
    and r: "r = release_children (dag_children d n) (q, m)"
  shows "kahn_inv d (fst r) (snd r) (gm_put n True v)"
proof -
  let ?N = "dag_nodes d" and ?V = "visited_set v" and ?cs = "dag_children d n"
  have nN: "n \<in> ?N" using kahn_inv_sets(3) [OF inv] by simp
  have nV: "n \<notin> ?V" using nv by (simp add: visited_set_def)
  have deg: "gm_get_or 0 m w = (\<Sum>u\<in>?N - ?V. int (mult d u w))" for w
    using inv unfolding kahn_inv_def by blast
  have split: "gm_get_or 0 m w =
      int (count_list ?cs w) + (\<Sum>u\<in>?N - insert n ?V. int (mult d u w))" for w
  proof -
    have "(\<Sum>u\<in>?N - ?V. int (mult d u w)) =
        int (mult d n w) + (\<Sum>u\<in>?N - ?V - {n}. int (mult d u w))"
      using nN nV unfolding mult_def by (intro sum.remove) simp_all
    moreover have "?N - ?V - {n} = ?N - insert n ?V" by auto
    ultimately show ?thesis by (simp only: deg mult_def)
  qed
  have le: "int (count_list ?cs w) \<le> gm_get_or 0 m w" for w
    unfolding split by (simp add: sum_nonneg)
  note R = release_children_props [OF le, of q, folded r]
  have V': "visited_set (gm_put n True v) = insert n ?V" by (rule visited_set_put)
  have deg': "gm_get_or 0 (snd r) w = (\<Sum>u\<in>?N - insert n ?V. int (mult d u w))" for w
    using R(1) [of w] split [of w] by simp
  have zero: "gm_get_or 0 (snd r) w = 0 \<longleftrightarrow> w \<in> insert n ?V \<or> w \<in> set (fst r)" if "w \<in> ?N" for w
  proof -
    have old: "gm_get_or 0 m w = 0 \<longleftrightarrow> w \<in> ?V \<or> w \<in> set (n # q)"
      by (rule kahn_inv_queue [OF inv that])
    have new: "gm_get_or 0 (snd r) w = 0 \<longleftrightarrow> gm_get_or 0 m w = int (count_list ?cs w)"
      using R(1) [of w] by simp
    show ?thesis
    proof (cases "w \<in> set ?cs")
      case True
      then have "gm_get_or 0 m w \<noteq> 0" using le [of w] count_list_0_iff [of ?cs w] by auto
      with old have w: "w \<notin> ?V" "w \<notin> set (n # q)" by blast+
      show ?thesis unfolding new R(2) using w True by auto
    next
      case False
      then have "count_list ?cs w = 0" by (simp add: count_list_0_iff)
      then have same: "gm_get_or 0 m w = int (count_list ?cs w) \<longleftrightarrow> gm_get_or 0 m w = 0"
        by linarith
      note trans [OF new trans [OF same old]]
      moreover have "w \<in> set (fst r) \<longleftrightarrow> w \<in> set q" unfolding R(2) using False by blast
      ultimately show ?thesis unfolding insert_iff list.set by blast
    qed
  qed
  have "n \<notin> cyclic_part (dag_edges d)"
  proof
    assume "n \<in> cyclic_part (dag_edges d)"
    from cyclic_part_pred [OF this]
    obtain p where p: "p \<in> cyclic_part (dag_edges d)" "(p, n) \<in> dag_edges d" by blast
    have "gm_get_or 0 m n = 0" using kahn_inv_queue [OF inv nN] by simp
    with degree_zero_iff [OF inv] p(2) have "p \<in> ?V" by blast
    with p(1) kahn_inv_sets(5) [OF inv] show False by blast
  qed
  note n_acyclic = this
  note I = kahn_inv_sets [OF inv]
  show ?thesis
    unfolding kahn_inv_def V'
  proof (intro conjI allI ballI)
    show "set (gm_keys (gm_put n True v)) = ?N" using I(2) nN by auto
    show "gm_wf (gm_put n True v)" using I(1) by simp
    show "set (fst r) \<subseteq> ?N" unfolding R(2) using I(3) dag_children_nodes [of d n] by auto
    show "insert n ?V \<subseteq> ?N" using I(4) nN by blast
    show "insert n ?V \<inter> cyclic_part (dag_edges d) = {}" using I(5) n_acyclic by blast
  qed (rule deg', rule zero)
qed

lemma kahn_loop_inv:
  "kahn_inv d q m v \<Longrightarrow> \<exists>m'. kahn_inv d [] m' (kahn_loop d q m v)"
proof (induction d q m v rule: kahn_loop.induct)
  case (2 d node queue m v)
  show ?case
  proof (cases "gm_get_or False v node")
    case True
    then have "kahn_inv d queue m v" using 2(3) kahn_inv_skip by blast
    with 2(1) True show ?thesis by simp
  next
    case False
    let ?r = "release_children (dag_children d node) (queue, m)"
    have "kahn_inv d (fst ?r) (snd ?r) (gm_put node True v)"
      using kahn_inv_visit [OF 2(3) False refl] .
    from 2(2) [OF False refl this] False show ?thesis by (simp add: Let_def)
  qed
qed auto

lemma kahn_inv_final:
  assumes "kahn_inv d [] m v"
  shows "dag_nodes d - visited_set v = cyclic_part (dag_edges d)"
proof
  have "\<exists>p \<in> dag_nodes d - visited_set v. (p, a) \<in> dag_edges d"
    if a: "a \<in> dag_nodes d - visited_set v" for a
  proof -
    have "gm_get_or 0 m a \<noteq> 0" using kahn_inv_queue [OF assms, of a] a by simp
    then obtain u where "(u, a) \<in> dag_edges d" "u \<notin> visited_set v"
      using degree_zero_iff [OF assms, of a] by blast
    then show ?thesis using edges_nodes [of u a d] by blast
  qed
  then show "dag_nodes d - visited_set v \<subseteq> cyclic_part (dag_edges d)"
    by (rule no_source_cyclic [OF finite_Diff [OF finite_dag_nodes]])
  have "cyclic_part (dag_edges d) \<subseteq> dag_nodes d"
  proof
    fix n assume "n \<in> cyclic_part (dag_edges d)"
    from cyclic_part_pred [OF this] obtain p where "(p, n) \<in> dag_edges d" by blast
    then show "n \<in> dag_nodes d" using edges_nodes by blast
  qed
  moreover note kahn_inv_sets(5) [OF assms]
  ultimately show "cyclic_part (dag_edges d) \<subseteq> dag_nodes d - visited_set v"
    by blast
qed

lemma kahn_inv_start:
  assumes "gm_wf d"
  shows "kahn_inv d (map fst (filter (\<lambda>(node, degree). degree = 0) (in_degrees d))) (in_degrees d)
    (init_visited (in_degrees d))"
proof -
  note P = in_degrees_props [OF assms]
  have iv: "gm_wf (init_visited (in_degrees d))"
    "set (gm_keys (init_visited (in_degrees d))) = dag_nodes d"
    "visited_set (init_visited (in_degrees d)) = {}"
    using init_fold_props [of "[]" False "in_degrees d"] P(2)
    by (auto simp: init_visited_def visited_set_def gm_get_or_def)
  have q: "n \<in> set (map fst (filter (\<lambda>(node, degree). degree = 0) (in_degrees d))) \<longleftrightarrow>
      n \<in> dag_nodes d \<and> gm_get_or 0 (in_degrees d) n = 0" for n
  proof -
    have "n \<in> set (map fst (filter (\<lambda>(node, degree). degree = 0) (in_degrees d))) \<longleftrightarrow>
        (n, 0) \<in> set (in_degrees d)" by force
    also have "\<dots> \<longleftrightarrow> gm_get (in_degrees d) n = Some 0"
      using gm_wf_get_iff [OF P(1)] by simp
    also have "\<dots> \<longleftrightarrow> n \<in> set (gm_keys (in_degrees d)) \<and> gm_get_or 0 (in_degrees d) n = 0"
      using gm_has_iff [of "in_degrees d" n]
      by (auto simp: gm_get_or_def gm_has_def split: option.splits)
    finally show ?thesis unfolding P(2) .
  qed
  have mem: "n \<in> set (map fst (filter (\<lambda>(node, degree). degree = 0) (in_degrees d))) \<Longrightarrow>
      n \<in> dag_nodes d" for n
    by (simp only: q)
  show ?thesis
    unfolding kahn_inv_def iv(2,3)
  proof (intro conjI allI ballI)
    show "set (map fst (filter (\<lambda>(node, degree). degree = 0) (in_degrees d))) \<subseteq> dag_nodes d"
      using mem by blast
    show "gm_get_or 0 (in_degrees d) n = 0 \<longleftrightarrow> n \<in> {} \<or>
        n \<in> set (map fst (filter (\<lambda>(node, degree). degree = 0) (in_degrees d)))"
      if "n \<in> dag_nodes d" for n
      unfolding q using that by simp
    show "gm_get_or 0 (in_degrees d) n = (\<Sum>u\<in>dag_nodes d - {}. int (mult d u n))" for n
      unfolding Diff_empty by (rule P(3))
  qed (rule refl iv(1) empty_subsetI Int_empty_left)+
qed

lemma isValidDAG_set:
  assumes "gm_wf d"
  shows "set (isValidDAG d) = cyclic_part (dag_edges d)" and "distinct (isValidDAG d)"
proof -
  let ?q = "map fst (filter (\<lambda>(node, degree). degree = 0) (in_degrees d))"
  let ?v = "kahn_loop d ?q (in_degrees d) (init_visited (in_degrees d))"
  obtain m' where inv: "kahn_inv d [] m' ?v"
    using kahn_loop_inv [OF kahn_inv_start [OF assms]] by blast
  then have wf: "gm_wf ?v" and keys: "set (gm_keys ?v) = dag_nodes d"
    by (simp_all add: kahn_inv_def)
  have res: "isValidDAG d = map fst (filter (\<lambda>(node, b). \<not> b) ?v)"
    by (simp add: isValidDAG_def Let_def)
  have "n \<in> set (isValidDAG d) \<longleftrightarrow> n \<in> dag_nodes d - visited_set ?v" for n
  proof -
    have "n \<in> set (isValidDAG d) \<longleftrightarrow> (n, False) \<in> set ?v"
      unfolding res by force
    also have "\<dots> \<longleftrightarrow> gm_get ?v n = Some False"
      using gm_wf_get_iff [OF wf] by simp
    also have "\<dots> \<longleftrightarrow> n \<in> dag_nodes d - visited_set ?v"
      using keys gm_has_iff [of ?v n]
      by (auto simp: visited_set_def gm_get_or_def gm_has_def split: option.splits)
    finally show ?thesis .
  qed
  then show "set (isValidDAG d) = cyclic_part (dag_edges d)"
    using kahn_inv_final [OF inv] by blast
  show "distinct (isValidDAG d)"
    unfolding res using wf by (simp add: gm_wf_def distinct_map_filter)
qed

subsection \<open>The graph of a list of invocations\<close>

definition requirement_edges :: "job_invocation list \<Rightarrow> (string \<times> string) set" where
  "requirement_edges invs =
     {(rq_Name rq, ji_StepName ji) | rq ji. ji \<in> set invs \<and> rq \<in> set (ji_Requires ji)}"

lemma add_requirements_props:
  assumes "gm_wf res"
  shows "gm_wf (add_requirements ji res) \<and>
    dag_edges (add_requirements ji res) = dag_edges res \<union> requirement_edges [ji]"
proof -
  have "gm_wf (fold (\<lambda>rq res. gm_put (rq_Name rq) (gm_get_or [] res (rq_Name rq) @ [s]) res) rqs res) \<and>
    dag_edges (fold (\<lambda>rq res. gm_put (rq_Name rq) (gm_get_or [] res (rq_Name rq) @ [s]) res) rqs res) =
      dag_edges res \<union> {(rq_Name rq, s) | rq. rq \<in> set rqs}" for rqs s
    using assms
  proof (induction rqs arbitrary: res)
    case (Cons rq rqs)
    let ?res = "gm_put (rq_Name rq) (gm_get_or [] res (rq_Name rq) @ [s]) res"
    have "dag_edges ?res = insert (rq_Name rq, s) (dag_edges res)"
      by (auto simp: dag_edges_def dag_children_def split: if_splits)
    then show ?case using Cons.IH [of ?res] Cons.prems by auto
  qed auto
  then show ?thesis by (auto simp: add_requirements_def requirement_edges_def)
qed

lemma fold_add_requirements:
  "gm_wf res \<Longrightarrow> gm_wf (fold add_requirements invs res) \<and>
    dag_edges (fold add_requirements invs res) = dag_edges res \<union> requirement_edges invs"
proof (induction invs arbitrary: res)
  case (Cons ji invs)
  note A = add_requirements_props [OF Cons.prems, of ji]
  from Cons.IH [of "add_requirements ji res"] A show ?case
    by (auto simp: requirement_edges_def)
qed (simp add: requirement_edges_def)

lemma buildJobsDAG_wf [simp]: "gm_wf (buildJobsDAG invs)"
  using fold_add_requirements [of "[]" invs] by (simp add: buildJobsDAG_def)

lemma buildJobsDAG_edges: "dag_edges (buildJobsDAG invs) = requirement_edges invs"
  using fold_add_requirements [of "[]" invs]
  by (simp add: buildJobsDAG_def dag_edges_def dag_children_def gm_get_or_def)

text \<open>
  The search does not depend on the order in which a Go map is iterated.
\<close>

lemma dag_edges_perm:
  assumes "gm_wf d" and "mset d = mset d'"
  shows "gm_wf d'" and "dag_edges d = dag_edges d'"
proof -
  have wf: "gm_wf d'"
    using assms unfolding gm_wf_def by (metis mset_map mset_eq_imp_distinct_iff)
  then show "gm_wf d'" .
  have "gm_get d k = gm_get d' k" for k
    using assms wf mset_eq_setD [OF assms(2)]
    by (intro option.expand) (metis gm_wf_get_iff not_Some_eq option.sel option.distinct(1))+
  then show "dag_edges d = dag_edges d'"
    by (simp add: dag_edges_def dag_children_def gm_get_or_def)
qed

subsection \<open>Properties\<close>

text \<open>
  C1: for the requirement graph built from a workflow's job invocations, the search returns
  exactly the nodes that lie on a cycle of the requirements or are reachable from one; so it
  reports nothing precisely when the requirements are acyclic.
\<close>

theorem isValidDAG_cyclic_part:
  "set (isValidDAG (buildJobsDAG invs)) = cyclic_part (requirement_edges invs) \<and>
   distinct (isValidDAG (buildJobsDAG invs)) \<and>
   (isValidDAG (buildJobsDAG invs) = [] \<longleftrightarrow> acyclic (requirement_edges invs))"
proof -
  note S = isValidDAG_set [OF buildJobsDAG_wf, of invs]
  have "isValidDAG (buildJobsDAG invs) = [] \<longleftrightarrow> cyclic_part (requirement_edges invs) = {}"
    unfolding buildJobsDAG_edges [symmetric] S(1) [symmetric] by simp
  with S show ?thesis by (simp add: buildJobsDAG_edges cyclic_part_empty)
qed

text \<open>
  The set of nodes the search reports does not depend on the order in which the maps are
  iterated: two association lists with the same entries give the same report.
\<close>

lemma isValidDAG_order_independent:
  assumes "gm_wf d" and "mset d = mset d'"
  shows "set (isValidDAG d) = set (isValidDAG d')"
  using dag_edges_perm [OF assms] isValidDAG_set(1) [OF assms(1)] isValidDAG_set(1) by simp

theorem isValidDAG_order_independent_witness:
  "set (isValidDAG [(''a'', [''b'']), (''b'', [''a'', ''c''])]) =
   set (isValidDAG [(''b'', [''a'', ''c'']), (''a'', [''b''])])"
  by (rule isValidDAG_order_independent) (simp_all add: gm_wf_def add_mset_commute)

end
