(* ===== verification/ParseFlow.thy ===== *)
theory ParseFlow
  imports ParseJobs Cycles
begin

text \<open>
  The invocations of jobs with their requirements, contexts and matrices, the job groups and the
  workflows with their triggers: \<open>pkg/parser/job_invocation.go\<close>, \<open>job_groups.go\<close>, \<open>workflows.go\<close>.
\<close>

subsection \<open>job\_invocation.go: requirements, contexts, matrices\<close>

definition parseContext :: "yaml_document \<Rightarrow> node \<Rightarrow> text_and_range list" where
  "parseContext doc n =
     (let t = yd_Tree doc
      in if st_ChildCount t n \<noteq> 1 then []
         else if st_Type t n = ''flow_node'' \<and> map_option (st_Type t) (st_Child t n 0) = Some ''plain_scalar''
         then [GetNodeTextWithRange doc (Some n)]
         else getNodeTextArrayWithRange doc (Some n))"

text \<open>The local function \<open>getRequire\<close>.\<close>

definition getRequire :: "yaml_document \<Rightarrow> node \<Rightarrow> require" where
  "getRequire doc n =
     (let t = yd_Tree doc; defaultStatus = [''success''] in
      case GetChildOfType t (Some n) ''alias'' of
        Some alias \<Rightarrow>
          (case gm_get (yd_YamlAnchors doc) (trim_left_set [CHR ''*''] (GetNodeText doc (Some alias))) of
             None \<Rightarrow> \<lparr>rq_Name = [], rq_Status = [], rq_Range = zero_range, rq_StatusRange = zero_range\<rparr>
           | Some anchor \<Rightarrow>
               let anchorValueNode = GetFirstChild t (an_ValueNode anchor)
               in \<lparr>rq_Name = GetNodeText doc anchorValueNode, rq_Status = defaultStatus,
                   rq_Range = NodeToRange doc anchorValueNode, rq_StatusRange = NodeToRange doc (Some n)\<rparr>)
      | None \<Rightarrow>
          \<lparr>rq_Name = GetNodeText doc (Some n), rq_Status = defaultStatus,
           rq_Range = NodeToRange doc (Some n), rq_StatusRange = NodeToRange doc (Some n)\<rparr>)"

text \<open>The texts of a sequence of statuses, and whether it is written over several lines.\<close>

definition require_statuses :: "yaml_document \<Rightarrow> node \<Rightarrow> string list \<times> bool" where
  "require_statuses doc statusesNode =
     (let t = yd_Tree doc; items = sequence_children t (Some statusesNode)
      in (concat (map (\<lambda>item.
            if st_Type t item = ''flow_node'' then [GetNodeText doc (Some item)]
            else if st_Type t item = ''block_sequence_item'' then [GetNodeText doc (st_Child t item 1)]
            else []) items),
          list_ex (\<lambda>item. st_Type t item = ''block_sequence_item'') items))"

text \<open>A requirement with statuses, \<open>key: value\<close>; a value without a child aborts.\<close>

definition require_with_status :: "yaml_document \<Rightarrow> node \<Rightarrow> node \<Rightarrow> require option" where
  "require_with_status doc key val =
     (let t = yd_Tree doc; keyRange = NodeToRange doc (Some key); valueRange = NodeToRange doc (Some val)
      in case GetFirstChild t (Some val) of
           None \<Rightarrow> None
         | Some first \<Rightarrow>
             if st_Type t first = ''plain_scalar''
             then Some \<lparr>rq_Name = GetNodeText doc (Some key), rq_Status = [GetNodeText doc (Some val)],
                        rq_Range = keyRange, rq_StatusRange = valueRange\<rparr>
             else
               let (status, isBlockSequence) = require_statuses doc first
               in Some \<lparr>rq_Name = GetNodeText doc (Some key), rq_Status = status, rq_Range = keyRange,
                        rq_StatusRange =
                          (if isBlockSequence
                           then mk_range (mk_pos (Line (End keyRange)) (Character (End keyRange) + 1))
                                  (End valueRange)
                           else NodeToRange doc (Some first))\<rparr>)"

definition require_item :: "yaml_document \<Rightarrow> node \<Rightarrow> require list option" where
  "require_item doc item =
     (let t = yd_Tree doc in
      if st_Type t item = ''flow_node'' then Some [getRequire doc item]
      else
        let element = st_Child t item 1;
            pair = GetKeyValueNodes doc
                     (GetChildOfType t (GetChildOfType t element ''block_mapping'') ''block_mapping_pair'')
        in case element of
             Some e \<Rightarrow>
               if st_Type t e = ''flow_node'' then Some [getRequire doc e]
               else (case pair of
                       (Some key, Some val) \<Rightarrow> map_option (\<lambda>r. [r]) (require_with_status doc key val)
                     | _ \<Rightarrow> Some [])
           | None \<Rightarrow> Some [])"

definition parseSingleJobRequires :: "yaml_document \<Rightarrow> node \<Rightarrow> require list option" where
  "parseSingleJobRequires doc requiresNode =
     (let t = yd_Tree doc
      in map_option concat
           (those (map (require_item doc) (sequence_children t (GetChildSequence t (Some requiresNode))))))"

type_synonym matrix_params = "(string, param_value list) gomap"

definition parseMatrixParam :: "nat \<Rightarrow> yaml_document \<Rightarrow> node \<Rightarrow> matrix_params parse" where
  "parseMatrixParam k doc n =
     (let t = yd_Tree doc
      in iterateOnBlockMapping k doc (GetChildOfType t (Some n) ''block_mapping'')
           (\<lambda>child res.
              case st_ChildByFieldName t child ''key'' of
                None \<Rightarrow> pret res
              | Some keyNode \<Rightarrow>
                  let keyName = GetNodeText doc (Some keyNode)
                  in pmap (\<lambda>r. case r of Inl _ \<Rightarrow> res
                                | Inr v \<Rightarrow> gm_put keyName (gm_get_or [] res keyName @ [v]) res)
                       (parseParameterValue k doc child)) [])"

definition parseMatrixAttributes :: "nat \<Rightarrow> yaml_document \<Rightarrow> node \<Rightarrow> (matrix_params \<times> string) parse" where
  "parseMatrixAttributes k doc n =
     iterateOnBlockMapping k doc (GetChildOfType (yd_Tree doc) (Some n) ''block_mapping'')
       (on_pair doc (\<lambda>_ keyName v (res, alias).
          if keyName = ''parameters'' then pmap (\<lambda>res. (res, alias)) (parseMatrixParam k doc v)
          else if keyName = ''alias'' then pret (res, GetNodeText doc (Some v))
          else pret (res, alias))) ([], [])"

subsection \<open>job\_invocation.go: invocations\<close>

definition zero_invocation :: job_invocation where
  "zero_invocation =
     \<lparr>ji_JobInvocationRange = zero_range, ji_JobName = [], ji_JobNameRange = zero_range, ji_StepName = [],
      ji_StepNameRange = zero_range, ji_Requires = [], ji_Context = [], ji_Type = [],
      ji_TypeRange = zero_range, ji_Parameters = [], ji_SerialGroup = [], ji_SerialGroupRange = zero_range,
      ji_OverrideWith = [], ji_OverrideWithRange = zero_range, ji_PreSteps = [], ji_PreStepsRange = zero_range,
      ji_PostSteps = [], ji_PostStepsRange = zero_range, ji_HasMatrix = False, ji_MatrixRange = zero_range,
      ji_MatrixParams = []\<rparr>"

definition invocation_field ::
    "nat \<Rightarrow> yaml_document \<Rightarrow> node \<Rightarrow> job_invocation \<Rightarrow> job_invocation parse" where
  "invocation_field k doc child j =
     (let keyName = pair_key doc child; r = NodeToRange doc (Some child) in
      case snd (GetKeyValueNodes doc (Some child)) of
        None \<Rightarrow> pret j
      | Some v \<Rightarrow>
          let txt = GetNodeText doc (Some v); vr = NodeToRange doc (Some v)
          in if keyName = [] then pret j
             else if keyName = ''type'' then pret (j\<lparr>ji_Type := txt, ji_TypeRange := vr\<rparr>)
             else if keyName = ''requires''
             then pmap (\<lambda>rs. j\<lparr>ji_Requires := rs\<rparr>) (plift (parseSingleJobRequires doc v))
             else if keyName = ''name''
             then pret (j\<lparr>ji_StepNameRange := vr,
                          ji_StepName := GetNodeText doc (GetFirstChild (yd_Tree doc) (Some v))\<rparr>)
             else if keyName = ''context'' then pret (j\<lparr>ji_Context := parseContext doc v\<rparr>)
             else if keyName = ''filters'' \<or> keyName = ''branches'' \<or> keyName = ''tags'' then pret j
             else if keyName = ''matrix''
             then pmap (\<lambda>(params, alias).
                    let j = j\<lparr>ji_HasMatrix := True, ji_MatrixRange := r, ji_MatrixParams := params\<rparr>
                    in if alias \<noteq> [] then j\<lparr>ji_StepName := alias\<rparr> else j)
                    (parseMatrixAttributes k doc v)
             else if keyName = ''serial-group''
             then pret (j\<lparr>ji_SerialGroup := txt, ji_SerialGroupRange := vr\<rparr>)
             else if keyName = ''override-with''
             then pret (j\<lparr>ji_OverrideWith := txt, ji_OverrideWithRange := vr\<rparr>)
             else if keyName = ''pre-steps''
             then pmap (\<lambda>ss. j\<lparr>ji_PreStepsRange := r, ji_PreSteps := ss\<rparr>) (parseSteps k doc v)
             else if keyName = ''post-steps''
             then pmap (\<lambda>ss. j\<lparr>ji_PostStepsRange := r, ji_PostSteps := ss\<rparr>) (parseSteps k doc v)
             else pmap (\<lambda>p. j\<lparr>ji_Parameters := put_value keyName p (ji_Parameters j)\<rparr>)
                    (parseParameterValue k doc child))"

text \<open>The invocation written in an element, which is nil when an alias leads nowhere.\<close>

definition invocation_element ::
    "nat \<Rightarrow> yaml_document \<Rightarrow> node option \<Rightarrow> job_invocation \<Rightarrow> job_invocation parse" where
  "invocation_element k doc element j =
     (let t = yd_Tree doc;
          named = (\<lambda>name rng. j\<lparr>ji_JobName := name, ji_JobNameRange := rng, ji_StepName := name,
                                 ji_StepNameRange := rng\<rparr>);
          pair = GetChildOfType t (GetChildOfType t element ''block_mapping'') ''block_mapping_pair''
      in if map_option (st_Type t) element = Some ''flow_node''
         then pret (named (GetNodeText doc (GetChildOfType t element ''plain_scalar'')) (NodeToRange doc element))
         else (case GetKeyValueNodes doc pair of
                 (Some key, Some val) \<Rightarrow>
                   iterateOnBlockMapping k doc (GetChildOfType t (Some val) ''block_mapping'')
                     (invocation_field k doc)
                     (named (GetNodeText doc (Some key)) (NodeToRange doc (Some key)))
               | _ \<Rightarrow> pret j))"

definition parseSingleJobInvocation :: "nat \<Rightarrow> yaml_document \<Rightarrow> node \<Rightarrow> job_invocation parse" where
  "parseSingleJobInvocation k doc n =
     (let t = yd_Tree doc; p = st_StartPoint t n;
          res = zero_invocation\<lparr>ji_JobInvocationRange := NodeToRange doc (Some n)\<rparr>;
          element = st_Child t n 1
      in if st_Type t n \<noteq> ''block_sequence_item'' then pret res
         else if st_ChildCount t n = 1
         then pret (res\<lparr>ji_JobNameRange := mk_range (mk_pos (pt_Row p) (pt_Column p + 1))
                                                   (mk_pos (pt_Row p) (pt_Column p + 2))\<rparr>)
         else (case GetChildOfType t element ''alias'' of
                 None \<Rightarrow> invocation_element k doc element res
               | Some alias \<Rightarrow>
                   (case gm_get (yd_YamlAnchors doc) (trim_prefix ''*'' (GetNodeText doc (Some alias))) of
                      None \<Rightarrow> pret res
                    | Some anchor \<Rightarrow> invocation_element k doc (an_ValueNode anchor) res)))"

definition parseJobInvocations :: "nat \<Rightarrow> yaml_document \<Rightarrow> node \<Rightarrow> job_invocation list parse" where
  "parseJobInvocations k doc n =
     (let t = yd_Tree doc
      in pfold (\<lambda>child js. pmap (\<lambda>j. js @ [j]) (parseSingleJobInvocation k doc child))
           (sequence_children t (GetChildSequence t (Some n))) [])"

subsection \<open>job\_groups.go\<close>

definition zero_job_group :: job_group where
  "zero_job_group =
     \<lparr>jg_Range = zero_range, jg_Name = [], jg_NameRange = zero_range, jg_JobInvocations = [],
      jg_JobsRange = zero_range, jg_JobsDAG = []\<rparr>"

definition parseSingleJobGroup :: "nat \<Rightarrow> yaml_document \<Rightarrow> node \<Rightarrow> job_group parse" where
  "parseSingleJobGroup k doc n =
     (let t = yd_Tree doc; res = zero_job_group\<lparr>jg_Range := NodeToRange doc (Some n)\<rparr> in
      case GetKeyValueNodes doc (Some n) of
        (Some nameNode, Some valueNode) \<Rightarrow>
          let res = res\<lparr>jg_Name := getAttributeName doc (GetNodeText doc (Some nameNode)),
                        jg_NameRange := NodeToRange doc (Some nameNode)\<rparr>
          in (case GetChildMapping t (Some valueNode) of
                None \<Rightarrow> pret res
              | Some m \<Rightarrow>
                  iterateOnBlockMapping k doc (Some m)
                    (on_pair doc (\<lambda>child keyName v res.
                       if keyName = ''jobs''
                       then pmap (\<lambda>js. res\<lparr>jg_JobsRange := NodeToRange doc (Some child),
                                           jg_JobInvocations := js, jg_JobsDAG := buildJobsDAG js\<rparr>)
                              (parseJobInvocations k doc v)
                       else pret res)) res)
      | _ \<Rightarrow> pret res)"

type_synonym job_groups = "(string, job_group) gomap"

definition parseJobGroups :: "nat \<Rightarrow> yaml_document \<Rightarrow> node \<Rightarrow> job_groups \<Rightarrow> job_groups parse" where
  "parseJobGroups k doc n gs =
     (case GetChildMapping (yd_Tree doc) (Some n) of
        None \<Rightarrow> pret gs
      | Some m \<Rightarrow>
          iterateOnBlockMapping k doc (Some m)
            (\<lambda>child gs. pmap (\<lambda>g. gm_put (jg_Name g) g gs) (parseSingleJobGroup k doc child)) gs)"

subsection \<open>workflows.go: triggers\<close>

text \<open>The next node when the given one is the hyphen of an item.\<close>

definition past_hyphen :: "sitter \<Rightarrow> node \<Rightarrow> node option" where
  "past_hyphen t n = (if st_Type t n = ''-'' then st_NextSibling t n else Some n)"

definition sequence_string :: "yaml_document \<Rightarrow> node \<Rightarrow> string list option" where
  "sequence_string doc child =
     (let t = yd_Tree doc
      in if st_Type t child = ''block_sequence_item''
         then map_option (\<lambda>c. [GetNodeText doc (past_hyphen t c)]) (st_Child t child 0)
         else if st_Type t child = ''flow_node'' then Some [GetNodeText doc (Some child)]
         else Some [])"

definition sequenceToStrings :: "yaml_document \<Rightarrow> node \<Rightarrow> string list option" where
  "sequenceToStrings doc n =
     (let t = yd_Tree doc
      in if st_Type t n \<noteq> ''block_sequence'' \<and> st_Type t n \<noteq> ''flow_sequence'' then Some []
         else map_option concat (those (map (sequence_string doc) (st_Children t n))))"

text \<open>
  The mapping below a block node for the filters and the schedule: the outer \<open>None\<close> is a block node
  without a child, which aborts, the inner one anything but a mapping.
\<close>

definition block_mapping_below :: "yaml_document \<Rightarrow> node option \<Rightarrow> node option option" where
  "block_mapping_below doc n =
     (let t = yd_Tree doc in
      case n of
        None \<Rightarrow> Some None
      | Some n \<Rightarrow>
          if st_Type t n \<noteq> ''block_node'' then Some None
          else map_option (\<lambda>m. if st_Type t m \<noteq> ''block_mapping'' then None else Some m) (st_Child t n 0))"

definition branch_names :: "yaml_document \<Rightarrow> node \<Rightarrow> string list \<Rightarrow> string list option" where
  "branch_names doc valueNode old =
     (case st_Child (yd_Tree doc) valueNode 0 of None \<Rightarrow> Some old | Some c \<Rightarrow> sequenceToStrings doc c)"

definition zero_branches :: branches_filter where
  "zero_branches = \<lparr>bf_Range = zero_range, bf_Only = [], bf_OnlyRange = zero_range, bf_Ignore = [],
                    bf_IgnoreRange = zero_range\<rparr>"

definition parseBranchFilter :: "nat \<Rightarrow> yaml_document \<Rightarrow> node option \<Rightarrow> branches_filter option parse" where
  "parseBranchFilter k doc n =
     pbind (plift (block_mapping_below doc n)) (\<lambda>below.
       case below of
         None \<Rightarrow> pret None
       | Some m \<Rightarrow>
           pmap Some (iterateOnBlockMapping k doc (Some m) (\<lambda>child f.
             let key = pair_key doc child in
             case snd (GetKeyValueNodes doc (Some child)) of
               None \<Rightarrow> pret f
             | Some v \<Rightarrow>
                 if key = ''only''
                 then pmap (\<lambda>names. f\<lparr>bf_Only := names, bf_OnlyRange := NodeToRange doc (Some v)\<rparr>)
                        (plift (branch_names doc v (bf_Only f)))
                 else if key = ''ignore''
                 then pmap (\<lambda>names. f\<lparr>bf_Ignore := names, bf_IgnoreRange := NodeToRange doc (Some v)\<rparr>)
                        (plift (branch_names doc v (bf_Ignore f)))
                 else pret f) (zero_branches\<lparr>bf_Range := NodeToRange doc (Some m)\<rparr>)))"

definition parseFilters :: "nat \<Rightarrow> yaml_document \<Rightarrow> node option \<Rightarrow> workflow_filters option parse" where
  "parseFilters k doc n =
     pbind (plift (block_mapping_below doc n)) (\<lambda>below.
       case below of
         None \<Rightarrow> pret None
       | Some m \<Rightarrow>
           pmap Some (iterateOnBlockMapping k doc (Some m) (\<lambda>child f.
             if pair_key doc child = ''branches''
             then pmap (\<lambda>b. case b of None \<Rightarrow> f | Some b \<Rightarrow> f\<lparr>wf_Branches := b\<rparr>)
                    (parseBranchFilter k doc (snd (GetKeyValueNodes doc (Some child))))
             else pret f) \<lparr>wf_Range = NodeToRange doc (Some m), wf_Branches = zero_branches\<rparr>))"

definition parseSingleScheduleTrigger :: "nat \<Rightarrow> yaml_document \<Rightarrow> node option \<Rightarrow> schedule_trigger option parse" where
  "parseSingleScheduleTrigger k doc n =
     pbind (plift (block_mapping_below doc n)) (\<lambda>below.
       case below of
         None \<Rightarrow> pret None
       | Some m \<Rightarrow>
           pmap (\<lambda>(crontab, filters).
                  Some \<lparr>st_Cron = crontab, st_Filters = filters, st_Range = NodeToRange doc (Some m)\<rparr>)
             (iterateOnBlockMapping k doc (Some m) (\<lambda>child (crontab, filters).
                let key = pair_key doc child; v = snd (GetKeyValueNodes doc (Some child))
                in if key = ''cron'' then pret (GetNodeText doc v, filters)
                   else if key = ''filters''
                   then pmap (\<lambda>f. case f of None \<Rightarrow> (crontab, filters) | Some f \<Rightarrow> (crontab, f))
                          (parseFilters k doc v)
                   else pret (crontab, filters))
                ([], \<lparr>wf_Range = zero_range, wf_Branches = zero_branches\<rparr>)))"

text \<open>The first pair of a trigger's mapping, when it has one.\<close>

definition trigger_pair :: "sitter \<Rightarrow> node option \<Rightarrow> node option" where
  "trigger_pair t n =
     (let is = (\<lambda>typ m. case m of None \<Rightarrow> None | Some x \<Rightarrow> if st_Type t x = typ then Some x else None);
          below = (\<lambda>m. case m of None \<Rightarrow> None | Some x \<Rightarrow> st_Child t x 0);
          child = (case below (is ''block_node'' n) of None \<Rightarrow> None | Some c \<Rightarrow> past_hyphen t c)
      in is ''block_mapping_pair'' (below (is ''block_mapping'' child)))"

definition parseSingleWorkflowTrigger :: "nat \<Rightarrow> yaml_document \<Rightarrow> node option \<Rightarrow> workflow_trigger option parse" where
  "parseSingleWorkflowTrigger k doc n =
     (case trigger_pair (yd_Tree doc) n of
        None \<Rightarrow> pret None
      | Some child \<Rightarrow>
          let valueNode = snd (GetKeyValueNodes doc (Some child))
          in if pair_key doc child = ''schedule''
             then pmap (map_option (\<lambda>schedule. \<lparr>wt_Schedule = schedule, wt_Range = NodeToRange doc valueNode\<rparr>))
                    (parseSingleScheduleTrigger k doc valueNode)
             else pret None)"

definition parseWorkflowTriggers :: "nat \<Rightarrow> yaml_document \<Rightarrow> node \<Rightarrow> workflow_trigger list parse" where
  "parseWorkflowTriggers k doc triggersNode =
     (let t = yd_Tree doc;
          sequence = st_Child t triggersNode 0
      in if st_Type t triggersNode \<noteq> ''block_node'' \<or>
           map_option (st_Type t) sequence \<noteq> Some ''block_sequence'' then pret []
         else pfold (\<lambda>seqItem triggers.
                case st_Child t seqItem 0 of
                  None \<Rightarrow> pret triggers
                | Some blockNode \<Rightarrow>
                    pmap (\<lambda>trigger. triggers @ (case trigger of None \<Rightarrow> [] | Some x \<Rightarrow> [x]))
                      (parseSingleWorkflowTrigger k doc (past_hyphen t blockNode)))
              (sequence_children t sequence) [])"

subsection \<open>workflows.go: workflows\<close>

definition zero_workflow :: workflow where
  "zero_workflow =
     \<lparr>wfl_Range = zero_range, wfl_Name = [], wfl_NameRange = zero_range, wfl_JobsRange = zero_range,
      wfl_JobInvocations = [], wfl_JobsDAG = [], wfl_HasTrigger = False, wfl_Triggers = [],
      wfl_TriggersRange = zero_range, wfl_MaxAutoReruns = 0, wfl_MaxAutoRerunsRange = zero_range,
      wfl_HasMaxAutoReruns = False\<rparr>"

definition workflow_field ::
    "nat \<Rightarrow> yaml_document \<Rightarrow> node \<Rightarrow> string \<Rightarrow> node \<Rightarrow> workflow \<Rightarrow> workflow parse" where
  "workflow_field k doc child keyName v w =
     (let r = NodeToRange doc (Some child); txt = GetNodeText doc (Some v)
      in if keyName = ''jobs''
         then pmap (\<lambda>js. w\<lparr>wfl_JobsRange := r, wfl_JobInvocations := js, wfl_JobsDAG := buildJobsDAG js\<rparr>)
                (parseJobInvocations k doc v)
         else if keyName = ''triggers''
         then pmap (\<lambda>ts. w\<lparr>wfl_HasTrigger := True, wfl_TriggersRange := r, wfl_Triggers := ts\<rparr>)
                (parseWorkflowTriggers k doc v)
         else if keyName = ''max_auto_reruns''
         then pret (w\<lparr>wfl_MaxAutoRerunsRange := NodeToRange doc (Some v), wfl_HasMaxAutoReruns := True,
                      wfl_MaxAutoReruns :=
                        (case (if txt = [] then None else go_Atoi txt) of
                           None \<Rightarrow> wfl_MaxAutoReruns w | Some n \<Rightarrow> n)\<rparr>)
         else pret w)"

definition parseSingleWorkflow :: "nat \<Rightarrow> yaml_document \<Rightarrow> node \<Rightarrow> workflow parse" where
  "parseSingleWorkflow k doc n =
     (let t = yd_Tree doc; res = zero_workflow\<lparr>wfl_Range := NodeToRange doc (Some n)\<rparr> in
      case GetKeyValueNodes doc (Some n) of
        (Some keyNode, Some valueNode) \<Rightarrow>
          iterateOnBlockMapping k doc (GetChildOfType t (Some valueNode) ''block_mapping'')
            (on_pair doc (workflow_field k doc))
            (res\<lparr>wfl_Name := GetNodeText doc (Some keyNode), wfl_NameRange := NodeToRange doc (Some keyNode)\<rparr>)
      | _ \<Rightarrow> pret res)"

type_synonym workflows = "(string, workflow) gomap"

definition add_workflow :: "workflow \<Rightarrow> workflows \<Rightarrow> workflows parse" where
  "add_workflow w ws =
     (case gm_get ws (wfl_Name w) of
        Some definedWorkflow \<Rightarrow>
          pbind (pemit [already_defined (wfl_NameRange w) ''Workflow already defined'',
                        already_defined (wfl_NameRange definedWorkflow) ''Workflow already defined''])
            (\<lambda>_. pret ws)
      | None \<Rightarrow> pret (gm_put (wfl_Name w) w ws))"

text \<open>The constant \<open>2.1\<close> as a \<open>float32\<close>.\<close>

definition version_2_1 :: "int \<times> nat" where
  "version_2_1 = (8808038, 4194304)"

definition deprecated_version_key :: "yaml_document \<Rightarrow> range \<Rightarrow> diagnostic" where
  "deprecated_version_key doc rng =
     CreateDiagnosticFromRange rng SeverityWarning ''Version key is deprecated since 2.1''
       [CreateCodeActionTextEdit ''Delete version key'' (yd_URI doc) [mk_edit [] rng] False]"

definition parseWorkflows :: "nat \<Rightarrow> yaml_document \<Rightarrow> node \<Rightarrow> workflows \<Rightarrow> workflows parse" where
  "parseWorkflows k doc n ws =
     iterateOnBlockMapping k doc (GetChildOfType (yd_Tree doc) (Some n) ''block_mapping'')
       (\<lambda>child ws.
          if key_text doc child = ''version''
          then pbind (pemit (if float_ge (yd_Version doc) version_2_1
                             then [deprecated_version_key doc (NodeToRange doc (Some child))] else []))
                 (\<lambda>_. pret ws)
          else pbind (parseSingleWorkflow k doc child) (\<lambda>w. add_workflow w ws)) ws"


end
