(* ===== verification/ParseDoc.thy ===== *)
theory ParseDoc
  imports ParseFlow
begin

text \<open>
  A whole document: the orbs with their local definitions (\<open>pkg/parser/orbs.go\<close>, \<open>local_orb.go\<close>)
  and the walk over the top level of a file (\<open>pkg/parser/yamlparser.go\<close>). The grammar of the
  third-party parser is an argument \<open>g\<close>: the tree and the root node of a content.
\<close>

type_synonym grammar = "string \<Rightarrow> sitter \<times> node"

definition ParseFile :: "grammar \<Rightarrow> string \<Rightarrow> ls_context \<Rightarrow> yaml_document" where
  "ParseFile g content ctx =
     \<lparr>yd_Content = content, yd_Tree = fst (g content), yd_RootNode = snd (g content),
      yd_Version = Finite 0 1, yd_Description = [], yd_URI = [], yd_Diagnostics = [],
      yd_Context = ctx, yd_SchemaLocation = [], yd_Setup = False, yd_Orbs = [], yd_LocalOrbs = [],
      yd_Executors = [], yd_Commands = [], yd_Jobs = [], yd_JobGroups = [], yd_Workflows = [],
      yd_PipelineParameters = [], yd_YamlAnchors = [], yd_SetupRange = zero_range,
      yd_OrbsRange = zero_range, yd_ExecutorsRange = zero_range, yd_CommandsRange = zero_range,
      yd_JobsRange = zero_range, yd_JobGroupsRange = zero_range, yd_WorkflowRange = zero_range,
      yd_PipelineParametersRange = zero_range, yd_VersionRange = zero_range, yd_LocalOrbInfo = [],
      yd_LocalOrbName = [], yd_Offset = zero_pos, yd_SuppressionInfo = None\<rparr>"

subsection \<open>local\_orb.go, orbs.go\<close>

text \<open>
  The parser of an orb's content at a position, \<open>ParseFromContent\<close>, is the argument \<open>sub\<close>. The code
  changes the document through a pointer, so a step of it maps documents to documents.
\<close>

type_synonym sub_parser = "string \<Rightarrow> position \<Rightarrow> yaml_document option"

definition local_orb_info :: "yaml_document \<Rightarrow> string \<Rightarrow> string \<Rightarrow> yaml_document \<Rightarrow> orb_info" where
  "local_orb_info doc name orbContent orbDoc =
     \<lparr>oi_Attributes = (ToOrbParsedAttributes orbDoc)\<lparr>oa_URI := yd_URI doc, oa_Name := name\<rparr>,
      oi_IsLocal = True, oi_CreatedAt = [], oi_Description = yd_Description orbDoc, oi_Source = orbContent,
      oi_RemoteInfo = \<lparr>ri_ID = [], ri_FilePath = [], ri_Version = [], ri_LatestVersion = [],
                       ri_LatestMinorVersion = [], ri_LatestPatchVersion = []\<rparr>\<rparr>"

definition parseLocalOrb ::
    "sub_parser \<Rightarrow> string \<Rightarrow> node \<Rightarrow> yaml_document \<Rightarrow> (string option \<times> yaml_document) parse" where
  "parseLocalOrb sub name orbNode doc =
     (let orbRange = NodeToRange doc (Some orbNode);
          orbContent = replicate (unat (Character (Start orbRange))) (CHR 0x20) @ GetNodeText doc (Some orbNode)
      in if st_Type (yd_Tree doc) orbNode \<noteq> ''block_node'' then pret (None, doc)
         else pbind (plift (sub orbContent (mk_pos (Line (Start orbRange)) 0))) (\<lambda>orbDoc.
                pbind (pemit (yd_Diagnostics orbDoc)) (\<lambda>_.
                  pret (Some name,
                    doc\<lparr>yd_LocalOrbInfo :=
                          gm_put name (local_orb_info doc name orbContent orbDoc) (yd_LocalOrbInfo doc)\<rparr>))))"

definition parseSingleOrb ::
    "sub_parser \<Rightarrow> node \<Rightarrow> yaml_document \<Rightarrow> ((orb option \<times> string option) \<times> yaml_document) parse" where
  "parseSingleOrb sub orbNode doc =
     (let orbNameNode = fst (GetKeyValueNodes doc (Some orbNode));
          orbName = GetNodeText doc orbNameNode
      in case snd (GetKeyValueNodes doc (Some orbNode)) of
           None \<Rightarrow> pret ((None, None), doc)
         | Some orbContent \<Rightarrow>
             let orb = \<lparr>orb_Url = getOrbURL (GetNodeText doc (Some orbContent)), orb_Name = orbName,
                        orb_Range = NodeToRange doc (Some orbNode),
                        orb_NameRange = NodeToRange doc orbNameNode,
                        orb_VersionRange = getOrbVersionRange doc (Some orbContent),
                        orb_ValueRange = NodeToRange doc (Some orbContent),
                        orb_ValueNode = Some orbContent\<rparr>
             in if st_Type (yd_Tree doc) orbContent = ''flow_node'' then pret ((Some orb, None), doc)
                else if st_Type (yd_Tree doc) orbContent = ''block_node''
                then pmap (\<lambda>(localOrb, doc).
                       case localOrb of
                         None \<Rightarrow> ((None, None), doc)
                       | Some name \<Rightarrow>
                           ((Some (orb\<lparr>orb_Url := \<lparr>ou_IsLocal = True, ou_Name = orbName, ou_Version = []\<rparr>,
                                        orb_VersionRange := zero_range\<rparr>), Some name), doc))
                       (parseLocalOrb sub orbName orbContent doc)
                else pret ((None, None), doc))"

definition parseOrbs :: "sub_parser \<Rightarrow> nat \<Rightarrow> node \<Rightarrow> yaml_document \<Rightarrow> yaml_document parse" where
  "parseOrbs sub k orbsNode doc =
     (case GetChildMapping (yd_Tree doc) (Some orbsNode) of
        None \<Rightarrow> pret doc
      | Some m \<Rightarrow>
          iterateOnBlockMapping k doc (Some m) (\<lambda>child doc.
            pmap (\<lambda>((orb, localOrb), doc).
                let doc = (case orb of None \<Rightarrow> doc
                           | Some orb \<Rightarrow> doc\<lparr>yd_Orbs := gm_put (orb_Name orb) orb (yd_Orbs doc)\<rparr>)
                in case localOrb of None \<Rightarrow> doc
                   | Some name \<Rightarrow> doc\<lparr>yd_LocalOrbs := yd_LocalOrbs doc @ [name]\<rparr>)
              (parseSingleOrb sub child doc)) doc)"

subsection \<open>yamlparser.go: the top level\<close>

definition parseVersion :: "node \<Rightarrow> yaml_document \<Rightarrow> yaml_document" where
  "parseVersion versionNode doc =
     (case ParseFloat32 (GetNodeText doc (Some versionNode)) of
        None \<Rightarrow> doc | Some v \<Rightarrow> doc\<lparr>yd_Version := v\<rparr>)"

text \<open>One pair of the file's top level.\<close>

definition root_field :: "sub_parser \<Rightarrow> nat \<Rightarrow> node \<Rightarrow> yaml_document \<Rightarrow> yaml_document parse" where
  "root_field sub k child doc =
     (let keyName = pair_key doc child;
          valueNode = snd (GetKeyValueNodes doc (Some child));
          r = NodeToRange doc (Some child);
          vr = NodeToRange doc valueNode;
          text = trim_space (GetNodeText doc valueNode)
      in if keyName = ''version''
         then pret ((case valueNode of None \<Rightarrow> doc | Some v \<Rightarrow> parseVersion v doc)\<lparr>yd_VersionRange := r\<rparr>)
         else if keyName = ''setup''
         then pret ((if text \<noteq> [] \<and> text \<noteq> ''false'' then doc\<lparr>yd_Setup := True\<rparr> else doc)\<lparr>yd_SetupRange := r\<rparr>)
         else if keyName = ''orbs''
         then (case valueNode of
                 None \<Rightarrow> pret (doc\<lparr>yd_OrbsRange := r\<rparr>)
               | Some v \<Rightarrow> parseOrbs sub k v (doc\<lparr>yd_OrbsRange := vr\<rparr>))
         else if keyName = ''commands''
         then (case valueNode of
                 None \<Rightarrow> pret (doc\<lparr>yd_CommandsRange := r\<rparr>)
               | Some v \<Rightarrow> pmap (\<lambda>cs. doc\<lparr>yd_CommandsRange := vr, yd_Commands := cs\<rparr>)
                             (parseCommands k doc v (yd_Commands doc)))
         else if keyName = ''jobs''
         then (case valueNode of
                 None \<Rightarrow> pret doc
               | Some v \<Rightarrow> pmap (\<lambda>js. doc\<lparr>yd_JobsRange := vr, yd_Jobs := js\<rparr>) (parseJobs k doc v (yd_Jobs doc)))
         else if keyName = ''job-groups''
         then (case valueNode of
                 None \<Rightarrow> pret doc
               | Some v \<Rightarrow> pmap (\<lambda>gs. doc\<lparr>yd_JobGroupsRange := vr, yd_JobGroups := gs\<rparr>)
                             (parseJobGroups k doc v (yd_JobGroups doc)))
         else if keyName = ''workflows''
         then (case valueNode of
                 None \<Rightarrow> pret doc
               | Some v \<Rightarrow> pmap (\<lambda>ws. doc\<lparr>yd_WorkflowRange := vr, yd_Workflows := ws\<rparr>)
                             (parseWorkflows k doc v (yd_Workflows doc)))
         else if keyName = ''executors''
         then (case valueNode of
                 None \<Rightarrow> pret (doc\<lparr>yd_ExecutorsRange := r\<rparr>)
               | Some v \<Rightarrow> pmap (\<lambda>es. doc\<lparr>yd_ExecutorsRange := vr, yd_Executors := es\<rparr>)
                             (parseExecutors k doc (Some v) (yd_Executors doc)))
         else if keyName = ''description''
         then pret (case valueNode of None \<Rightarrow> doc | Some v \<Rightarrow> doc\<lparr>yd_Description := GetNodeText doc (Some v)\<rparr>)
         else if keyName = ''parameters''
         then (case valueNode of
                 None \<Rightarrow> pret (doc\<lparr>yd_PipelineParametersRange := r\<rparr>)
               | Some v \<Rightarrow> pmap (\<lambda>ps. doc\<lparr>yd_PipelineParametersRange := vr, yd_PipelineParameters := params_of ps\<rparr>)
                             (parseParameters k doc (Some v)))
         else pret doc)"

text \<open>
  What \<open>ParseYAML\<close> does before its walk, the walk, and what it does with the walk's diagnostics: the
  suppression comments may have left some before.
\<close>

definition prepare_document :: "yaml_document \<Rightarrow> position \<Rightarrow> yaml_document" where
  "prepare_document doc offset =
     (let doc = doc\<lparr>yd_Offset := offset\<rparr>
      in parse_suppression (doc\<lparr>yd_YamlAnchors := ParseYamlAnchors doc\<rparr>))"

definition walk_document :: "sub_parser \<Rightarrow> nat \<Rightarrow> yaml_document \<Rightarrow> yaml_document parse" where
  "walk_document sub k doc =
     iterateOnBlockMapping k doc (GetBlockMappingNode (yd_Tree doc) (Some (yd_RootNode doc)))
       (root_field sub k) doc"

definition add_diagnostics :: "yaml_document \<times> diagnostic list \<Rightarrow> yaml_document" where
  "add_diagnostics r = (fst r)\<lparr>yd_Diagnostics := yd_Diagnostics (fst r) @ snd r\<rparr>"

text \<open>The fuel bounds the depth of the orbs within orbs and, within each document, of its parsers.\<close>

fun ParseYAML :: "nat \<Rightarrow> grammar \<Rightarrow> yaml_document \<Rightarrow> position \<Rightarrow> yaml_document option" where
  "ParseYAML 0 g doc offset = None"
| "ParseYAML (Suc k) g doc offset =
     (if yd_Diagnostics doc \<noteq> [] then Some doc
      else map_option (assignContexts \<circ> add_diagnostics)
             (walk_document
                (\<lambda>content pos.
                   ParseYAML k g ((ParseFile g content (yd_Context doc))\<lparr>yd_URI := yd_URI doc\<rparr>) pos)
                k (prepare_document doc offset)))"

definition ParseFromContent ::
    "nat \<Rightarrow> grammar \<Rightarrow> string \<Rightarrow> ls_context \<Rightarrow> string \<Rightarrow> position \<Rightarrow> yaml_document option" where
  "ParseFromContent k g content ctx uri offset =
     ParseYAML k g ((ParseFile g content ctx)\<lparr>yd_URI := uri\<rparr>) offset"

text \<open>\<open>Inl\<close> of the URI is \<open>CacheMissingError\<close>.\<close>

definition ParseFromUriWithCache ::
    "nat \<Rightarrow> grammar \<Rightarrow> string \<Rightarrow> file_cache \<Rightarrow> ls_context \<Rightarrow> (string + yaml_document) option" where
  "ParseFromUriWithCache k g uri cache ctx =
     (case FileCache_GetFile cache uri of
        None \<Rightarrow> Some (Inl uri)
      | Some cachedFile \<Rightarrow>
          map_option Inr (ParseFromContent k g (td_Text (cf_TextDocument cachedFile)) ctx uri zero_pos))"

definition InsertText ::
    "nat \<Rightarrow> grammar \<Rightarrow> yaml_document \<Rightarrow> position \<Rightarrow> string \<Rightarrow> yaml_document option" where
  "InsertText k g doc pos text =
     ParseFromContent k g (inserted_content (yd_Content doc) pos text) (yd_Context doc) (yd_URI doc)
       (yd_Offset doc)"

text \<open>The captures of the errors the grammar finds, then the document that a stream must have.\<close>

definition ValidateYAML :: "yaml_document \<Rightarrow> yaml_document" where
  "ValidateYAML doc =
     (let t = yd_Tree doc; root = yd_RootNode doc
      in doc\<lparr>yd_Diagnostics := yd_Diagnostics doc @
           map (\<lambda>n. CreateErrorDiagnosticFromNode t n ''Error! Please fix your yaml file'')
             (concat (st_Query t root ''(ERROR) @flows'')) @
           (if GetChildOfType t (Some root) ''document'' = None
            then [CreateErrorDiagnosticFromNode t root ''Invalid yaml file''] else [])\<rparr>)"


end
