(* ===== verification/Session.thy ===== *)
theory Session
  imports Document
begin

text \<open>
  What the validators share: the state they thread (the diagnostics found so far, the caches,
  the memory of which orbs exist), the services and third-party functions they call, and the
  remote orbs of \<open>pkg/parser/orbs.go\<close> and \<open>remoteOrb.go\<close>. An action takes the state and
  returns a result with the new state; \<open>None\<close> is a run-time panic of the Go program. An action
  is \<open>framed\<close> when it does not look at the diagnostics found before it, only appends to them, and leaves
  the cached files alone.
\<close>

subsection \<open>Services and third-party functions\<close>

record orb_query =
  oq_Id :: string
  oq_Version :: string
  oq_Versions :: "string list"
  oq_Source :: string

text \<open>
  The fields in order: the orb version query and the orb name query of the GraphQL service
  (the decoded response and the error), the namespace query (\<open>None\<close>: error), the parser of a
  source, the URI of a file without a name, the write of an orb's source to the file system (the path, or an error), the Go
  module \<open>semver\<close>, whether \<open>Masterminds/semver\<close> reads a version, the Docker Hub client and the
  catalog of machine offerings.
\<close>

record env =
  en_GqlOrbVersion :: "ls_context \<Rightarrow> string \<Rightarrow> orb_query \<times> string option"
  en_GqlOrbByName :: "ls_context \<Rightarrow> string \<Rightarrow> string \<times> string option"
  en_GqlNamespace :: "ls_context \<Rightarrow> string \<Rightarrow> bool option"
  en_ParseFromContent :: "string \<Rightarrow> ls_context \<Rightarrow> string \<Rightarrow> yaml_document"
  en_EmptyFileURI :: string
  en_WriteOrbSource :: "string \<Rightarrow> string \<Rightarrow> string \<times> string option"
  en_SemverMajor :: "string \<Rightarrow> string"
  en_SemverMajorMinor :: "string \<Rightarrow> string"
  en_SemverCompare :: "string \<Rightarrow> string \<Rightarrow> int"
  en_SemverIsValid :: "string \<Rightarrow> bool"
  en_LooseSemver :: "string \<Rightarrow> bool"
  en_DoesImageExist :: "string \<Rightarrow> string \<Rightarrow> bool"
  en_GetImageTags :: "string \<Rightarrow> string \<Rightarrow> string list option"
  en_ImageHasTag :: "string \<Rightarrow> string \<Rightarrow> string \<Rightarrow> bool"
  en_Offerings :: offerings_api

subsection \<open>Actions\<close>

record vstate =
  vs_Diagnostics :: "diagnostic list"
  vs_Cache :: cache
  vs_OrbExists :: "(string, bool) gomap"

type_synonym 'a action = "vstate \<Rightarrow> ('a \<times> vstate) option"

definition vret :: "'a \<Rightarrow> 'a action" where
  "vret x = (\<lambda>s. Some (x, s))"

definition vbind :: "'a action \<Rightarrow> ('a \<Rightarrow> 'b action) \<Rightarrow> 'b action" where
  "vbind m f = (\<lambda>s. case m s of None \<Rightarrow> None | Some (x, s') \<Rightarrow> f x s')"

definition vpanic :: "'a action" where
  "vpanic = (\<lambda>s. None)"

definition vlift :: "'a option \<Rightarrow> 'a action" where
  "vlift x = (case x of None \<Rightarrow> vpanic | Some y \<Rightarrow> vret y)"

definition vemit :: "diagnostic list \<Rightarrow> unit action" where
  "vemit ds = (\<lambda>s. Some ((), s\<lparr>vs_Diagnostics := vs_Diagnostics s @ ds\<rparr>))"

definition vskip :: "unit action" where
  "vskip = vret ()"

text \<open>\<open>utils.go\<close>: \<open>addDiagnostic\<close>.\<close>

definition addDiagnostic :: "diagnostic \<Rightarrow> unit action" where
  "addDiagnostic d = vemit [d]"

fun vseq :: "unit action list \<Rightarrow> unit action" where
  "vseq [] = vskip"
| "vseq (m # ms) = vbind m (\<lambda>_. vseq ms)"

fun viter :: "('x \<Rightarrow> unit action) \<Rightarrow> 'x list \<Rightarrow> unit action" where
  "viter f [] = vskip"
| "viter f (x # xs) = vbind (f x) (\<lambda>_. viter f xs)"

definition vwhen :: "bool \<Rightarrow> unit action \<Rightarrow> unit action" where
  "vwhen b m = (if b then m else vskip)"

text \<open>An action on the caches and on the memory of the orbs.\<close>

definition vcache :: "(cache \<Rightarrow> 'a \<times> cache) \<Rightarrow> 'a action" where
  "vcache f = (\<lambda>s. let (x, c) = f (vs_Cache s) in Some (x, s\<lparr>vs_Cache := c\<rparr>))"

definition vorbs :: "((string, bool) gomap \<Rightarrow> 'a \<times> (string, bool) gomap) \<Rightarrow> 'a action" where
  "vorbs f = (\<lambda>s. let (x, m) = f (vs_OrbExists s) in Some (x, s\<lparr>vs_OrbExists := m\<rparr>))"

definition vget :: "(cache \<Rightarrow> 'a) \<Rightarrow> 'a action" where
  "vget f = vcache (\<lambda>c. (f c, c))"

definition vput :: "(cache \<Rightarrow> cache) \<Rightarrow> unit action" where
  "vput f = vcache (\<lambda>c. ((), f c))"

text \<open>\<open>\"%s\"\<close> of a format, and \<open>slices.Contains\<close> of a slice that may be nil.\<close>

definition quoted :: "string \<Rightarrow> string" where
  "quoted s = [CHR 0x22] @ s @ [CHR 0x22]"

definition single_quoted :: "string \<Rightarrow> string" where
  "single_quoted s = [CHR 0x27] @ s @ [CHR 0x27]"

definition slices_Contains :: "string list option \<Rightarrow> string \<Rightarrow> bool" where
  "slices_Contains xs x = (case xs of None \<Rightarrow> False | Some l \<Rightarrow> x \<in> set l)"

text \<open>The receiver of every validator: \<open>validate.go\<close>, without the state it points to.\<close>

record val =
  val_Doc :: yaml_document
  val_Context :: ls_context
  val_IsLocalOrb :: bool
  val_Env :: env

subsection \<open>Actions that only append\<close>

definition before :: "diagnostic list \<Rightarrow> vstate \<Rightarrow> vstate" where
  "before ds s = s\<lparr>vs_Diagnostics := ds @ vs_Diagnostics s\<rparr>"

definition framed :: "'a action \<Rightarrow> bool" where
  "framed m \<longleftrightarrow>
     (\<forall>ds s. m (before ds s) = map_option (\<lambda>(x, s'). (x, before ds s')) (m s)) \<and>
     (\<forall>s x s'. m s = Some (x, s') \<longrightarrow> ca_FileCache (vs_Cache s') = ca_FileCache (vs_Cache s))"

named_theorems framed_intros \<open>actions that only append diagnostics\<close>

lemma framedD: "framed m \<Longrightarrow> m (before ds s) = map_option (\<lambda>(x, s'). (x, before ds s')) (m s)"
  by (simp add: framed_def)

lemma framed_files: "framed m \<Longrightarrow> m s = Some (x, s') \<Longrightarrow> ca_FileCache (vs_Cache s') = ca_FileCache (vs_Cache s)"
  unfolding framed_def by blast

lemma framed_vret [framed_intros]: "framed (vret x)"
  by (simp add: framed_def vret_def)

lemma framed_vskip [framed_intros]: "framed vskip"
  by (simp add: vskip_def framed_vret)

lemma framed_vpanic [framed_intros]: "framed vpanic"
  by (simp add: framed_def vpanic_def)

lemma framed_vlift [framed_intros]: "framed (vlift x)"
  by (cases x) (simp_all add: vlift_def framed_vpanic framed_vret)

lemma framed_vbind [framed_intros]:
  assumes "framed m" and "\<And>x. framed (f x)"
  shows "framed (vbind m f)"
proof (unfold framed_def, intro conjI allI impI)
  fix ds s
  show "vbind m f (before ds s) = map_option (\<lambda>(x, s'). (x, before ds s')) (vbind m f s)"
    using framedD [OF assms(1), of ds s] framedD [OF assms(2)]
    by (cases "m s") (auto simp: vbind_def)
next
  fix s y s'
  assume "vbind m f s = Some (y, s')"
  then obtain x s1 where "m s = Some (x, s1)" "f x s1 = Some (y, s')"
    by (auto simp: vbind_def split: option.splits)
  then show "ca_FileCache (vs_Cache s') = ca_FileCache (vs_Cache s)"
    using framed_files [OF assms(1)] framed_files [OF assms(2)] by metis
qed

lemma framed_vemit [framed_intros]: "framed (vemit ds)"
  by (simp add: framed_def vemit_def before_def)

lemma framed_addDiagnostic [framed_intros]: "framed (addDiagnostic d)"
  by (simp add: addDiagnostic_def framed_vemit)

lemma framed_vseq_Nil [framed_intros]: "framed (vseq [])"
  by (simp add: framed_vskip)

lemma framed_vseq_Cons [framed_intros]: "framed m \<Longrightarrow> framed (vseq ms) \<Longrightarrow> framed (vseq (m # ms))"
  by (simp add: framed_vbind)

lemma framed_viter [framed_intros]: "(\<And>x. framed (f x)) \<Longrightarrow> framed (viter f xs)"
  by (induction xs) (auto intro!: framed_intros)

lemma framed_vwhen [framed_intros]: "framed m \<Longrightarrow> framed (vwhen b m)"
  by (simp add: vwhen_def framed_vskip)

lemma framed_vcache [framed_intros]:
  "(\<And>c. ca_FileCache (snd (f c)) = ca_FileCache c) \<Longrightarrow> framed (vcache f)"
  by (auto simp: framed_def vcache_def before_def split: prod.splits) (metis snd_conv)

lemma framed_vget [framed_intros]: "framed (vget f)"
  unfolding vget_def by (intro framed_intros) simp

lemma framed_vput [framed_intros]: "(\<And>c. ca_FileCache (f c) = ca_FileCache c) \<Longrightarrow> framed (vput f)"
  unfolding vput_def by (intro framed_intros) simp

lemma files_docker [framed_intros]:
  "ca_FileCache (c\<lparr>ca_DockerCache := x\<rparr>) = ca_FileCache c"
  "ca_FileCache (c\<lparr>ca_DockerTagsCache := y\<rparr>) = ca_FileCache c"
  by simp_all

lemma framed_vorbs [framed_intros]: "framed (vorbs f)"
  by (auto simp: framed_def vorbs_def before_def split: prod.split)

lemma framed_if [framed_intros]: "framed a \<Longrightarrow> framed b \<Longrightarrow> framed (if c then a else b)"
  by simp

lemma framed_case_option [framed_intros]:
  "framed a \<Longrightarrow> (\<And>x. framed (f x)) \<Longrightarrow> framed (case y of None \<Rightarrow> a | Some x \<Rightarrow> f x)"
  by (cases y) simp_all

lemma framed_case_prod [framed_intros]:
  "(\<And>x y. framed (f x y)) \<Longrightarrow> framed (case p of (x, y) \<Rightarrow> f x y)"
  by (cases p) simp

lemma framed_case_bool [framed_intros]:
  "framed a \<Longrightarrow> framed b \<Longrightarrow> framed (case c of True \<Rightarrow> a | False \<Rightarrow> b)"
  by (cases c) simp_all

lemma framed_case_list [framed_intros]:
  "framed a \<Longrightarrow> (\<And>y ys. framed (f y ys)) \<Longrightarrow> framed (case xs of [] \<Rightarrow> a | y # ys \<Rightarrow> f y ys)"
  by (cases xs) simp_all

lemma framed_Let [framed_intros]: "(\<And>x. framed (f x)) \<Longrightarrow> framed (let x = y in f x)"
  by simp

subsection \<open>Actions that never abort\<close>

definition total :: "'a action \<Rightarrow> bool" where
  "total m \<longleftrightarrow> (\<forall>s. m s \<noteq> None)"

named_theorems total_intros \<open>actions that never abort\<close>

lemma totalD: "total m \<Longrightarrow> \<exists>x s'. m s = Some (x, s')"
  unfolding total_def by (metis not_Some_eq surj_pair)

lemma total_unit: "total (m :: unit action) \<Longrightarrow> \<exists>s'. m s = Some ((), s')"
  using totalD [of m s] by simp

lemma total_basic [total_intros]:
  "total (vret x)" "total vskip" "total (vemit ds)" "total (addDiagnostic d)" "total (vcache f)"
  "total (vget h)" "total (vput g)" "total (vorbs k)" "total (vseq [])"
  by (simp_all add: total_def vret_def vskip_def vemit_def addDiagnostic_def vcache_def vget_def
      vput_def vorbs_def split: prod.split)

lemma total_vlift [total_intros]: "x \<noteq> None \<Longrightarrow> total (vlift x)"
  by (auto simp: vlift_def total_def vret_def)

lemma total_vbind [total_intros]: "total m \<Longrightarrow> (\<And>x. total (f x)) \<Longrightarrow> total (vbind m f)"
  by (auto simp: total_def vbind_def split: option.split)

lemma total_vseq [total_intros]: "total m \<Longrightarrow> total (vseq ms) \<Longrightarrow> total (vseq (m # ms))"
  by (simp add: total_vbind)

lemma total_viter [total_intros]: "(\<And>x. x \<in> set xs \<Longrightarrow> total (f x)) \<Longrightarrow> total (viter f xs)"
  by (induction xs) (auto intro!: total_intros)

lemma total_vwhen [total_intros]: "(b \<Longrightarrow> total m) \<Longrightarrow> total (vwhen b m)"
  by (simp add: vwhen_def total_basic)

lemma total_if [total_intros]: "(c \<Longrightarrow> total a) \<Longrightarrow> (\<not> c \<Longrightarrow> total b) \<Longrightarrow> total (if c then a else b)"
  by simp

lemma total_case_option [total_intros]:
  "(y = None \<Longrightarrow> total a) \<Longrightarrow> (\<And>x. y = Some x \<Longrightarrow> total (f x)) \<Longrightarrow>
    total (case y of None \<Rightarrow> a | Some x \<Rightarrow> f x)"
  by (cases y) simp_all

lemma total_case_prod [total_intros]:
  "(\<And>x y. p = (x, y) \<Longrightarrow> total (f x y)) \<Longrightarrow> total (case p of (x, y) \<Rightarrow> f x y)"
  by (cases p) simp

lemma total_Let [total_intros]: "total (f y) \<Longrightarrow> total (let x = y in f x)"
  by simp

text \<open>Running the building blocks on a state.\<close>

lemma run_simps:
  "vret x s = Some (x, s)"
  "vskip s = Some ((), s)"
  "vemit ds s = Some ((), s\<lparr>vs_Diagnostics := vs_Diagnostics s @ ds\<rparr>)"
  "addDiagnostic d s = Some ((), s\<lparr>vs_Diagnostics := vs_Diagnostics s @ [d]\<rparr>)"
  "vpanic s = None"
  "vlift (Some y) s = Some (y, s)"
  "vlift None s = None"
  "vwhen True m s = m s"
  "vwhen False m s = Some ((), s)"
  "vget h s = Some (h (vs_Cache s), s)"
  "vput g s = Some ((), s\<lparr>vs_Cache := g (vs_Cache s)\<rparr>)"
  by (simp_all add: vret_def vskip_def vemit_def addDiagnostic_def vpanic_def vlift_def vwhen_def
      vget_def vput_def vcache_def)

lemma run_vbind: "m s = Some (x, s') \<Longrightarrow> vbind m f s = f x s'"
  by (simp add: vbind_def)

lemma run_vbind_ret [simp]: "vbind (vret x) f = f x"
  by (simp add: vbind_def vret_def)

lemma vlift_Some [simp]: "vlift (Some x) = vret x"
  by (simp add: vlift_def)

lemma run_vbind_skip [simp]: "vbind vskip f = f ()"
  by (simp add: vskip_def)

lemma run_vseq_cons: "m s = Some ((), s') \<Longrightarrow> vseq (m # ms) s = vseq ms s'"
  by (simp add: vbind_def)

text \<open>The contract of a validator and what its clients know from it.\<close>

locale validator =
  fixes run :: "'a action"
  assumes framed: "framed run"
begin

lemma appends:
  assumes "run s = Some (x, s')"
  shows "\<exists>es. vs_Diagnostics s' = vs_Diagnostics s @ es"
proof -
  have "before (vs_Diagnostics s) (s\<lparr>vs_Diagnostics := []\<rparr>) = s" by (simp add: before_def)
  with framedD [OF framed, of "vs_Diagnostics s" "s\<lparr>vs_Diagnostics := []\<rparr>"] assms
  have "Some (x, s') = map_option (\<lambda>(x, s'). (x, before (vs_Diagnostics s) s'))
      (run (s\<lparr>vs_Diagnostics := []\<rparr>))" by simp
  then show ?thesis
    by (cases "run (s\<lparr>vs_Diagnostics := []\<rparr>)") (auto simp: before_def)
qed

lemma independent:
  assumes "run s = Some (x, s')"
  shows "run (before ds s) = Some (x, before ds s')"
  using framedD [OF framed, of ds s] assms by simp

lemma panics_alike: "run (before ds s) = None \<longleftrightarrow> run s = None"
  using framedD [OF framed, of ds s] by simp

end

subsection \<open>What an action reports\<close>

text \<open>
  \<open>reports d m\<close>: whenever \<open>m\<close> returns, the diagnostic \<open>d\<close> is among those found. \<open>only P m\<close>: every
  diagnostic that \<open>m\<close> adds satisfies \<open>P\<close>; \<open>only (\<lambda>_. False) m\<close> says that it adds none.
\<close>

definition reports :: "diagnostic \<Rightarrow> 'a action \<Rightarrow> bool" where
  "reports d m \<longleftrightarrow> (\<forall>s x s'. m s = Some (x, s') \<longrightarrow> d \<in> set (vs_Diagnostics s'))"

definition only :: "(diagnostic \<Rightarrow> bool) \<Rightarrow> 'a action \<Rightarrow> bool" where
  "only P m \<longleftrightarrow> (\<forall>s x s'. m s = Some (x, s') \<longrightarrow>
     (\<exists>es. vs_Diagnostics s' = vs_Diagnostics s @ es \<and> (\<forall>e\<in>set es. P e)))"

named_theorems only_intros \<open>what the actions add\<close>

lemma reportsD: "reports d m \<Longrightarrow> m s = Some (x, s') \<Longrightarrow> d \<in> set (vs_Diagnostics s')"
  by (auto simp: reports_def)

lemma framed_appends:
  assumes "framed m" and "m s = Some (x, s')"
  shows "\<exists>es. vs_Diagnostics s' = vs_Diagnostics s @ es"
  by (rule validator.appends [OF validator.intro [OF assms(1)] assms(2)])

lemma reports_addDiagnostic: "reports d (addDiagnostic d)"
  by (auto simp: reports_def addDiagnostic_def vemit_def)

lemma reports_vbind_first: "reports d m \<Longrightarrow> (\<And>x. framed (f x)) \<Longrightarrow> reports d (vbind m f)"
  unfolding reports_def vbind_def
  by (fastforce split: option.splits dest: framed_appends)

lemma reports_vbind_second: "(\<And>x. reports d (f x)) \<Longrightarrow> reports d (vbind m f)"
  unfolding reports_def vbind_def by (auto split: option.splits)

lemma reports_vseq_first: "reports d m \<Longrightarrow> framed (vseq ms) \<Longrightarrow> reports d (vseq (m # ms))"
  by (simp add: reports_vbind_first)

lemma reports_vseq_rest: "reports d (vseq ms) \<Longrightarrow> reports d (vseq (m # ms))"
  by (simp add: reports_vbind_second)

lemma reports_viter:
  "x \<in> set xs \<Longrightarrow> reports d (f x) \<Longrightarrow> (\<And>x. framed (f x)) \<Longrightarrow> reports d (viter f xs)"
  by (induction xs) (auto intro: reports_vbind_first reports_vbind_second framed_viter)

lemma reports_vwhen: "b \<Longrightarrow> reports d m \<Longrightarrow> reports d (vwhen b m)"
  by (simp add: vwhen_def)

lemma onlyD: "only P m \<Longrightarrow> m s = Some (x, s') \<Longrightarrow>
    \<exists>es. vs_Diagnostics s' = vs_Diagnostics s @ es \<and> (\<forall>e\<in>set es. P e)"
  by (auto simp: only_def)

lemma only_mono: "only P m \<Longrightarrow> (\<And>d. P d \<Longrightarrow> Q d) \<Longrightarrow> only Q m"
  unfolding only_def by blast

lemma only_basic [only_intros]:
  "only P (vret x)" "only P vskip" "only P (vcache f)" "only P (vget h)" "only P (vput g)"
  "only P (vorbs k)" "only P (vlift y)" "only P vpanic" "only P (vseq [])"
  by (auto simp: only_def vret_def vskip_def vcache_def vget_def vput_def vorbs_def vlift_def
      vpanic_def split: option.splits prod.splits)

lemma only_addDiagnostic [only_intros]: "P d \<Longrightarrow> only P (addDiagnostic d)"
  by (auto simp: only_def addDiagnostic_def vemit_def)

lemma only_vbind [only_intros]:
  assumes "only P m" and "\<And>x. only P (f x)"
  shows "only P (vbind m f)"
proof (unfold only_def, intro allI impI)
  fix s x s' assume "vbind m f s = Some (x, s')"
  then obtain y s1 where 1: "m s = Some (y, s1)" and 2: "f y s1 = Some (x, s')"
    by (auto simp: vbind_def split: option.splits)
  from onlyD [OF assms(1) 1] onlyD [OF assms(2) 2]
  show "\<exists>es. vs_Diagnostics s' = vs_Diagnostics s @ es \<and> (\<forall>e\<in>set es. P e)"
    by (metis Un_iff append.assoc set_append)
qed

lemma only_vseq [only_intros]: "only P m \<Longrightarrow> only P (vseq ms) \<Longrightarrow> only P (vseq (m # ms))"
  by (simp add: only_vbind)

lemma only_viter [only_intros]: "(\<And>x. x \<in> set xs \<Longrightarrow> only P (f x)) \<Longrightarrow> only P (viter f xs)"
  by (induction xs) (auto intro!: only_intros)

lemma only_vwhen [only_intros]: "(b \<Longrightarrow> only P m) \<Longrightarrow> only P (vwhen b m)"
  by (simp add: vwhen_def only_basic)

lemma only_if [only_intros]: "(c \<Longrightarrow> only P a) \<Longrightarrow> (\<not> c \<Longrightarrow> only P b) \<Longrightarrow> only P (if c then a else b)"
  by simp

lemma only_case_option [only_intros]:
  "(y = None \<Longrightarrow> only P a) \<Longrightarrow> (\<And>x. y = Some x \<Longrightarrow> only P (f x)) \<Longrightarrow>
    only P (case y of None \<Rightarrow> a | Some x \<Rightarrow> f x)"
  by (cases y) simp_all

lemma only_case_prod [only_intros]:
  "(\<And>x y. p = (x, y) \<Longrightarrow> only P (f x y)) \<Longrightarrow> only P (case p of (x, y) \<Rightarrow> f x y)"
  by (cases p) simp

lemma only_Let [only_intros]: "only P (f y) \<Longrightarrow> only P (let x = y in f x)"
  by simp

subsection \<open>remoteOrb.go\<close>

definition version_step ::
    "env \<Rightarrow> string \<Rightarrow> string \<Rightarrow> string \<Rightarrow> string \<times> string \<times> string \<Rightarrow> string \<times> string \<times> string" where
  "version_step env major minor version acc =
     (let (latest, latestMinor, latestPatch) = acc;
          current = ''v'' @ version;
          latest = (if en_SemverCompare env current latest = 1 then current else latest)
      in if en_SemverMajor env current \<noteq> major then (latest, latestMinor, latestPatch)
         else
           let latestMinor = (if en_SemverCompare env current latestMinor = 1 then current else latestMinor)
           in if en_SemverMajorMinor env current \<noteq> minor then (latest, latestMinor, latestPatch)
              else (latest, latestMinor,
                    if en_SemverCompare env current latestPatch = 1 then current else latestPatch))"

definition GetVersionInfo :: "env \<Rightarrow> string list \<Rightarrow> string \<Rightarrow> string \<times> string \<times> string" where
  "GetVersionInfo env versions initialVersion =
     fold (version_step env (en_SemverMajor env initialVersion) (en_SemverMajorMinor env initialVersion))
       versions (initialVersion, initialVersion, initialVersion)"

definition GetRemoteOrb :: "env \<Rightarrow> ls_context \<Rightarrow> string \<Rightarrow> orb_query \<times> string option" where
  "GetRemoteOrb env ctx orbId =
     (if api_HostUrl (ls_Api ctx) = []
      then (\<lparr>oq_Id = [], oq_Version = [], oq_Versions = [], oq_Source = []\<rparr>,
            Some ''host URL not defined'')
      else
        let (q, err) = en_GqlOrbVersion env ctx orbId
        in if oq_Id q = [] then (q, Some (''could not find orb '' @ orbId)) else (q, err))"

definition GetOrbByName :: "env \<Rightarrow> ls_context \<Rightarrow> string \<Rightarrow> string \<times> string option" where
  "GetOrbByName env ctx orbName =
     (if api_HostUrl (ls_Api ctx) = [] then ([], Some ''host URL not defined'')
      else
        let (name, err) = en_GqlOrbByName env ctx orbName
        in case err of
             Some e \<Rightarrow> ([], Some e)
           | None \<Rightarrow> if name = [] then ([], Some ''Orb does not exists'') else (name, None))"

definition zero_orb_info :: orb_info where
  "zero_orb_info =
     \<lparr>oi_Attributes =
        \<lparr>oa_URI = [], oa_Name = [], oa_Commands = [], oa_Jobs = [], oa_Executors = [],
         oa_PipelineParameters = [], oa_ExecutorsRange = zero_range, oa_CommandsRange = zero_range,
         oa_JobsRange = zero_range, oa_PipelineParametersRange = zero_range,
         oa_WorkflowRange = zero_range, oa_OrbsRange = zero_range\<rparr>,
      oi_IsLocal = False, oi_CreatedAt = [], oi_Description = [], oi_Source = [],
      oi_RemoteInfo = \<lparr>ri_ID = [], ri_FilePath = [], ri_Version = [], ri_LatestVersion = [],
                       ri_LatestMinorVersion = [], ri_LatestPatchVersion = []\<rparr>\<rparr>"

definition fetched_orb :: "env \<Rightarrow> ls_context \<Rightarrow> orb_query \<Rightarrow> string \<Rightarrow> orb_info" where
  "fetched_orb env ctx q filePath =
     (let parsed = en_ParseFromContent env (oq_Source q) ctx (en_EmptyFileURI env);
          (latest, latestMinor, latestPatch) =
            GetVersionInfo env (oq_Versions q) (''v'' @ oq_Version q)
      in \<lparr>oi_Attributes = ToOrbParsedAttributes parsed, oi_IsLocal = False, oi_CreatedAt = [],
          oi_Description = yd_Description parsed, oi_Source = oq_Source q,
          oi_RemoteInfo = \<lparr>ri_ID = oq_Id q, ri_FilePath = filePath, ri_Version = oq_Version q,
            ri_LatestVersion = drop 1 latest, ri_LatestMinorVersion = drop 1 latestMinor,
            ri_LatestPatchVersion = drop 1 latestPatch\<rparr>\<rparr>)"

definition fetchOrbInfo ::
    "env \<Rightarrow> ls_context \<Rightarrow> string \<Rightarrow> cache \<Rightarrow> (orb_info option \<times> string option) \<times> cache" where
  "fetchOrbInfo env ctx orbVersionCode c =
     (let (q, err) = GetRemoteOrb env ctx orbVersionCode
      in case err of
           Some e \<Rightarrow> ((Some zero_orb_info, Some e), c)
         | None \<Rightarrow>
             (let (filePath, err) = en_WriteOrbSource env orbVersionCode (oq_Source q)
              in case err of
                   Some e \<Rightarrow> ((Some zero_orb_info, Some e), c)
                 | None \<Rightarrow>
                     let orb = fetched_orb env ctx q filePath
                     in ((Some orb, None),
                         c\<lparr>ca_OrbCache := OrbCache_SetOrb orbVersionCode orb (ca_OrbCache c)\<rparr>)))"

definition GetOrbInfo ::
    "env \<Rightarrow> ls_context \<Rightarrow> string \<Rightarrow> cache \<Rightarrow> (orb_info option \<times> string option) \<times> cache" where
  "GetOrbInfo env ctx orbVersionCode c =
     (if \<not> OrbCache_HasOrb (ca_OrbCache c) orbVersionCode
      then fetchOrbInfo env ctx orbVersionCode c
      else ((OrbCache_GetOrb (ca_OrbCache c) orbVersionCode, None), c))"

subsection \<open>orbs.go\<close>

definition GetOrFetchOrbInfo ::
    "env \<Rightarrow> yaml_document \<Rightarrow> orb \<Rightarrow> (orb_info option \<times> string option) action" where
  "GetOrFetchOrbInfo env doc orb =
     (case gm_get (yd_LocalOrbInfo doc) (orb_Name orb) of
        Some info \<Rightarrow> vret (Some info, None)
      | None \<Rightarrow>
          vcache (\<lambda>c.
            let orbId = GetOrbID (orb_Url orb)
            in case OrbCache_GetOrb (ca_OrbCache c) orbId of
                 Some info \<Rightarrow> ((Some info, None), c)
               | None \<Rightarrow>
                   (case GetOrbInfo env (yd_Context doc) orbId c of
                      ((info, Some e), c) \<Rightarrow> ((Some zero_orb_info, Some e), c)
                    | ((info, None), c) \<Rightarrow> ((info, None), c))))"

definition GetOrbInfoFromName ::
    "env \<Rightarrow> yaml_document \<Rightarrow> string \<Rightarrow> (orb_info option \<times> string option) action" where
  "GetOrbInfoFromName env doc name =
     (case gm_get (yd_LocalOrbInfo doc) name of
        Some info \<Rightarrow> vret (Some info, None)
      | None \<Rightarrow>
          (case gm_get (yd_Orbs doc) name of
             None \<Rightarrow> vret (None, None)
           | Some orb \<Rightarrow> GetOrFetchOrbInfo env doc orb))"

definition DoesOrbExist :: "env \<Rightarrow> yaml_document \<Rightarrow> orb \<Rightarrow> bool action" where
  "DoesOrbExist env doc orb =
     vorbs (\<lambda>known.
       let lookup = ou_Name (orb_Url orb)
       in case gm_get known lookup of
            Some exists \<Rightarrow> (exists, known)
          | None \<Rightarrow>
              let (name, err) = GetOrbByName env (yd_Context doc) lookup;
                  exists = (err = None \<and> name \<noteq> [])
              in (exists, gm_put lookup exists known))"

subsection \<open>yamlparser.go: entities of orbs\<close>

definition orb_has ::
    "env \<Rightarrow> yaml_document \<Rightarrow> (orb_parsed_attributes \<Rightarrow> (string, 'v) gomap) \<Rightarrow> string \<Rightarrow> bool action" where
  "orb_has env doc field orbCommand =
     (case split_reference orbCommand of
        None \<Rightarrow> vret False
      | Some (orbName, commandName) \<Rightarrow>
          vbind (GetOrbInfoFromName env doc orbName) (\<lambda>(orbInfo, err).
            vret (case (err, orbInfo) of
                    (None, Some info) \<Rightarrow> gm_has (field (oi_Attributes info)) commandName
                  | _ \<Rightarrow> False)))"

definition IsOrbCommand :: "env \<Rightarrow> yaml_document \<Rightarrow> string \<Rightarrow> bool action" where
  "IsOrbCommand env doc orbCommand = orb_has env doc oa_Commands orbCommand"

definition IsOrbJob :: "env \<Rightarrow> yaml_document \<Rightarrow> string \<Rightarrow> bool action" where
  "IsOrbJob env doc orbCommand = orb_has env doc oa_Jobs orbCommand"

definition zero_orb :: orb where
  "zero_orb = \<lparr>orb_Url = \<lparr>ou_IsLocal = False, ou_Name = [], ou_Version = []\<rparr>, orb_Name = [],
     orb_Range = zero_range, orb_NameRange = zero_range, orb_VersionRange = zero_range,
     orb_ValueRange = zero_range, orb_ValueNode = None\<rparr>"

definition GetOrbDefinedParams :: "env \<Rightarrow> yaml_document \<Rightarrow> string \<Rightarrow> params action" where
  "GetOrbDefinedParams env doc entityName =
     (case split_on (CHR ''/'') entityName of
        orbName # commandOrJob # _ \<Rightarrow>
          vbind (GetOrFetchOrbInfo env doc (gm_get_or zero_orb (yd_Orbs doc) orbName)) (\<lambda>(orbInfo, err).
            if err \<noteq> None then vret []
            else vbind (vlift orbInfo) (\<lambda>info.
              let a = oi_Attributes info;
                  ps = (case gm_get (oa_Commands a) commandOrJob of
                          None \<Rightarrow> [] | Some c \<Rightarrow> cmd_Parameters c)
              in vret (case gm_get (oa_Jobs a) commandOrJob of
                         None \<Rightarrow> ps | Some j \<Rightarrow> job_Parameters j)))
      | _ \<Rightarrow> vpanic)"

definition GetDefinedParams :: "env \<Rightarrow> yaml_document \<Rightarrow> string \<Rightarrow> params action" where
  "GetDefinedParams env doc entityName =
     (let ps = (case gm_get (yd_Commands doc) entityName of None \<Rightarrow> [] | Some c \<Rightarrow> cmd_Parameters c);
          ps = (case gm_get (yd_Jobs doc) entityName of None \<Rightarrow> ps | Some j \<Rightarrow> job_Parameters j)
      in vbind (IsOrbCommand env doc entityName) (\<lambda>isCommand.
         vbind (if isCommand then vret True else IsOrbJob env doc entityName) (\<lambda>isOrb.
           if isOrb then GetOrbDefinedParams env doc entityName else vret ps)))"

subsection \<open>The orb actions only append\<close>

lemma GetOrbInfo_files [framed_intros]: "ca_FileCache (snd (GetOrbInfo env ctx n c)) = ca_FileCache c"
  by (auto simp: GetOrbInfo_def fetchOrbInfo_def Let_def split: prod.split option.split)

lemma framed_GetOrFetchOrbInfo [framed_intros]: "framed (GetOrFetchOrbInfo env doc orb)"
  unfolding GetOrFetchOrbInfo_def
proof (intro framed_intros)
  fix c
  have files: "ca_FileCache (snd (GetOrbInfo env ctx n c)) = ca_FileCache c" for ctx n
    by (rule GetOrbInfo_files)
  show "ca_FileCache (snd (let orbId = GetOrbID (orb_Url orb)
      in case OrbCache_GetOrb (ca_OrbCache c) orbId of
           Some info \<Rightarrow> ((Some info, None), c)
         | None \<Rightarrow>
             (case GetOrbInfo env (yd_Context doc) orbId c of
                ((info, Some e), c) \<Rightarrow> ((Some zero_orb_info, Some e), c)
              | ((info, None), c) \<Rightarrow> ((info, None), c)))) = ca_FileCache c"
    using files [of "yd_Context doc" "GetOrbID (orb_Url orb)"]
    by (auto simp: Let_def split: option.split prod.split)
qed

lemma framed_GetOrbInfoFromName [framed_intros]: "framed (GetOrbInfoFromName env doc name)"
  unfolding GetOrbInfoFromName_def by (intro framed_intros)

lemma framed_DoesOrbExist [framed_intros]: "framed (DoesOrbExist env doc orb)"
  unfolding DoesOrbExist_def by (intro framed_intros)

lemma framed_orb_has [framed_intros]: "framed (orb_has env doc field n)"
  unfolding orb_has_def by (intro framed_intros)

lemma framed_IsOrbCommand [framed_intros]: "framed (IsOrbCommand env doc n)"
  unfolding IsOrbCommand_def by (intro framed_intros)

lemma framed_IsOrbJob [framed_intros]: "framed (IsOrbJob env doc n)"
  unfolding IsOrbJob_def by (intro framed_intros)

lemma framed_GetOrbDefinedParams [framed_intros]: "framed (GetOrbDefinedParams env doc n)"
  unfolding GetOrbDefinedParams_def by (intro framed_intros)

lemma framed_GetDefinedParams [framed_intros]: "framed (GetDefinedParams env doc n)"
  unfolding GetDefinedParams_def by (intro framed_intros)

text \<open>Looking up an orb leaves the diagnostics alone and only adds orbs to the cache.\<close>

lemma GetOrFetchOrbInfo_cached:
  assumes "GetOrFetchOrbInfo env doc orb s = Some ((i, None), s')"
  shows "gm_get (yd_LocalOrbInfo doc) (orb_Name orb) = i \<and> i \<noteq> None \<or>
    gm_get (yd_LocalOrbInfo doc) (orb_Name orb) = None \<and> i \<noteq> None \<and>
    OrbCache_GetOrb (ca_OrbCache (vs_Cache s')) (GetOrbID (orb_Url orb)) = i"
  using assms
  by (auto simp: GetOrFetchOrbInfo_def vret_def vcache_def Let_def GetOrbInfo_def fetchOrbInfo_def
      OrbCache_HasOrb_def OrbCache_GetOrb_def gm_has_def OrbCache_SetOrb_def
      split: option.splits prod.splits if_splits)

lemma GetOrFetchOrbInfo_hit:
  "gm_get (yd_LocalOrbInfo doc) (orb_Name orb) = Some info \<Longrightarrow>
    GetOrFetchOrbInfo env doc orb s = Some ((Some info, None), s)"
  "gm_get (yd_LocalOrbInfo doc) (orb_Name orb) = None \<Longrightarrow>
    OrbCache_GetOrb (ca_OrbCache (vs_Cache s)) (GetOrbID (orb_Url orb)) = Some info \<Longrightarrow>
    GetOrFetchOrbInfo env doc orb s = Some ((Some info, None), s)"
  by (simp_all add: GetOrFetchOrbInfo_def vret_def vcache_def Let_def)

subsection \<open>The versions of an orb\<close>

text \<open>
  What the documentation of \<open>semver.Compare\<close> promises: a comparison that is transitive and
  antisymmetric in its three results.
\<close>

definition compare_ok :: "(string \<Rightarrow> string \<Rightarrow> int) \<Rightarrow> bool" where
  "compare_ok cmp \<longleftrightarrow>
     (\<forall>a. cmp a a = 0) \<and> (\<forall>a b. cmp a b = 1 \<longleftrightarrow> cmp b a = - 1) \<and>
     (\<forall>a b c. cmp a b \<noteq> 1 \<longrightarrow> cmp b c \<noteq> 1 \<longrightarrow> cmp a c \<noteq> 1)"

definition max_step :: "(string \<Rightarrow> string \<Rightarrow> int) \<Rightarrow> (string \<Rightarrow> bool) \<Rightarrow> string \<Rightarrow> string \<Rightarrow> string" where
  "max_step cmp P v best = (if P (''v'' @ v) \<and> cmp (''v'' @ v) best = 1 then ''v'' @ v else best)"

lemma GetVersionInfo_folds:
  "GetVersionInfo env versions v0 =
    (fold (max_step (en_SemverCompare env) (\<lambda>_. True)) versions v0,
     fold (max_step (en_SemverCompare env) (\<lambda>v. en_SemverMajor env v = en_SemverMajor env v0)) versions v0,
     fold (max_step (en_SemverCompare env) (\<lambda>v. en_SemverMajor env v = en_SemverMajor env v0 \<and>
       en_SemverMajorMinor env v = en_SemverMajorMinor env v0)) versions v0)"
proof -
  have "fold (version_step env M m) versions (a, b, c) =
    (fold (max_step (en_SemverCompare env) (\<lambda>_. True)) versions a,
     fold (max_step (en_SemverCompare env) (\<lambda>v. en_SemverMajor env v = M)) versions b,
     fold (max_step (en_SemverCompare env) (\<lambda>v. en_SemverMajor env v = M \<and>
       en_SemverMajorMinor env v = m)) versions c)" for M m a b c
    by (induction versions arbitrary: a b c) (simp_all add: version_step_def max_step_def Let_def)
  then show ?thesis by (simp add: GetVersionInfo_def)
qed

lemma fold_max_step:
  assumes "compare_ok cmp"
  shows "(\<forall>v\<in>set vs. P (''v'' @ v) \<longrightarrow> cmp (''v'' @ v) (fold (max_step cmp P) vs b) \<noteq> 1) \<and>
    cmp b (fold (max_step cmp P) vs b) \<noteq> 1 \<and>
    (fold (max_step cmp P) vs b = b \<or>
      (\<exists>v\<in>set vs. P (''v'' @ v) \<and> fold (max_step cmp P) vs b = ''v'' @ v))"
proof (induction vs arbitrary: b)
  case Nil
  then show ?case using assms by (simp add: compare_ok_def)
next
  case (Cons v vs)
  let ?b = "max_step cmp P v b"
  let ?r = "fold (max_step cmp P) vs ?b"
  note IH = Cons [of ?b]
  have anti: "cmp x y = 1 \<Longrightarrow> cmp y x \<noteq> 1" and refl: "cmp x x = 0" for x y
    using assms unfolding compare_ok_def by auto
  have eq: "?b = b \<or> P (''v'' @ v) \<and> ?b = ''v'' @ v"
    by (simp only: max_step_def split: if_split) blast
  have le: "cmp b ?b \<noteq> 1" "P (''v'' @ v) \<Longrightarrow> cmp (''v'' @ v) ?b \<noteq> 1"
    using anti [of "''v'' @ v" b] refl by (auto simp: max_step_def)
  have trans: "cmp x ?b \<noteq> 1 \<Longrightarrow> cmp x ?r \<noteq> 1" for x
    using assms IH unfolding compare_ok_def by blast
  have mem: "?r = b \<or> (\<exists>w\<in>set (v # vs). P (''v'' @ w) \<and> ?r = ''v'' @ w)"
    using IH eq by (metis list.set_intros(1) list.set_intros(2))
  have up: "\<forall>w\<in>set (v # vs). P (''v'' @ w) \<longrightarrow> cmp (''v'' @ w) ?r \<noteq> 1"
    using IH trans [OF le(2)] by (metis set_ConsD)
  show ?case unfolding fold.simps comp_apply
    using up trans [OF le(1)] mem by blast
qed

lemma fold_max_step_mem: "fold (max_step cmp P) vs b \<in> insert b ((@) ''v'' ` set vs)"
  by (induction vs arbitrary: b) (auto simp: max_step_def)

text \<open>An environment in which every service answers, for the witnesses.\<close>

definition sample_tree :: sitter where
  "sample_tree =
     \<lparr>st_Type = (\<lambda>_. ''stream''), st_ChildCount = (\<lambda>_. 0), st_Child = (\<lambda>_ _. None),
      st_ChildByFieldName = (\<lambda>_ _. None), st_Parent = (\<lambda>_. None), st_NextSibling = (\<lambda>_. None),
      st_StartByte = (\<lambda>_. 0), st_EndByte = (\<lambda>_. 0), st_StartPoint = (\<lambda>_. \<lparr>pt_Row = 0, pt_Column = 0\<rparr>),
      st_EndPoint = (\<lambda>_. \<lparr>pt_Row = 0, pt_Column = 0\<rparr>), st_Query = (\<lambda>_ _. [])\<rparr>"

definition sample_doc :: yaml_document where
  "sample_doc =
     \<lparr>yd_Content = [], yd_Tree = sample_tree, yd_RootNode = 0,
      yd_Version = Finite 0 1, yd_Description = [], yd_URI = [], yd_Diagnostics = [],
      yd_Context = zero_ls_context, yd_SchemaLocation = [], yd_Setup = False, yd_Orbs = [],
      yd_LocalOrbs = [], yd_Executors = [], yd_Commands = [],
      yd_Jobs = [], yd_JobGroups = [], yd_Workflows = [],
      yd_PipelineParameters = [], yd_YamlAnchors = [],
      yd_SetupRange = zero_range, yd_OrbsRange = zero_range,
      yd_ExecutorsRange = zero_range, yd_CommandsRange = zero_range,
      yd_JobsRange = zero_range, yd_JobGroupsRange = zero_range,
      yd_WorkflowRange = zero_range,
      yd_PipelineParametersRange = zero_range, yd_VersionRange = zero_range,
      yd_LocalOrbInfo = [], yd_LocalOrbName = [], yd_Offset = zero_pos,
      yd_SuppressionInfo = None\<rparr>"

definition sample_offerings :: offerings where
  "sample_offerings =
     \<lparr>of_Linux = [(''medium'', [''ubuntu-2404:current''])], of_Windows = [],
      of_MacOS = [(''m4pro.medium'', [''xcode:16.4.0''])], of_Deprecated = []\<rparr>"

definition sample_env :: env where
  "sample_env =
     \<lparr>en_GqlOrbVersion = (\<lambda>_ n. (\<lparr>oq_Id = n, oq_Version = ''1'', oq_Versions = [''1'', ''2''],
                                   oq_Source = []\<rparr>, None)),
      en_GqlOrbByName = (\<lambda>_ n. (n, None)), en_GqlNamespace = (\<lambda>_ _. Some True),
      en_ParseFromContent = (\<lambda>_ _ _. sample_doc), en_EmptyFileURI = [],
      en_WriteOrbSource = (\<lambda>n _. (n, None)), en_SemverMajor = take 2,
      en_SemverMajorMinor = take 4,
      en_SemverCompare = (\<lambda>a b. if a = b then 0 else if b < a then 1 else - 1),
      en_SemverIsValid = (\<lambda>_. True), en_LooseSemver = (\<lambda>t. t \<noteq> []),
      en_DoesImageExist = (\<lambda>_ _. True), en_GetImageTags = (\<lambda>_ _. Some [''1.22'']),
      en_ImageHasTag = (\<lambda>_ _ t. t = ''latest''), en_Offerings = (\<lambda>_. Some (200, Some sample_offerings))\<rparr>"

definition sample_state :: vstate where
  "sample_state = \<lparr>vs_Diagnostics = [], vs_Cache = CreateCache, vs_OrbExists = []\<rparr>"

definition sample_found :: vstate where
  "sample_found = sample_state\<lparr>vs_Cache := CreateCache\<lparr>ca_OrbCache := [(GetOrbID (orb_Url zero_orb), zero_orb_info)]\<rparr>\<rparr>"

definition sample_val :: val where
  "sample_val = \<lparr>val_Doc = sample_doc, val_Context = zero_ls_context, val_IsLocalOrb = False,
     val_Env = sample_env\<rparr>"

lemma sample_compare_ok: "compare_ok (en_SemverCompare sample_env)"
  by (auto simp: compare_ok_def sample_env_def)

subsection \<open>Properties\<close>

text \<open>
  An orb that was found once is found again without asking any service, with the same
  result and no change of the state.
\<close>

lemma GetOrFetchOrbInfo_again:
  assumes "GetOrFetchOrbInfo env doc orb s = Some ((i, None), s')"
  shows "GetOrFetchOrbInfo env' doc orb s' = Some ((i, None), s')"
  using GetOrFetchOrbInfo_cached [OF assms] GetOrFetchOrbInfo_hit by (metis option.exhaust)

theorem GetOrFetchOrbInfo_again_witness:
  "GetOrFetchOrbInfo (sample_env\<lparr>en_GqlOrbByName := (\<lambda>_ _. ([], Some ''error''))\<rparr>) sample_doc zero_orb sample_found =
    Some ((Some zero_orb_info, None), sample_found)"
proof -
  have "GetOrFetchOrbInfo sample_env sample_doc zero_orb sample_found =
      Some ((Some zero_orb_info, None), sample_found)"
    by (rule GetOrFetchOrbInfo_hit(2)) (simp_all add: sample_found_def sample_doc_def OrbCache_GetOrb_def)
  from GetOrFetchOrbInfo_again [OF this] show ?thesis .
qed

text \<open>
  Whether an orb exists is asked at most once per name: later questions get the same
  answer from the memory, whatever the service says then.
\<close>

lemma DoesOrbExist_once:
  assumes "DoesOrbExist env doc orb s = Some (b, s')"
    and "ou_Name (orb_Url orb') = ou_Name (orb_Url orb)"
  shows "DoesOrbExist env' doc' orb' s' = Some (b, s')"
  using assms by (auto simp: DoesOrbExist_def vorbs_def Let_def split: option.splits prod.splits)

theorem DoesOrbExist_once_witness:
  "\<exists>b s'. DoesOrbExist sample_env sample_doc zero_orb sample_state = Some (b, s') \<and>
    DoesOrbExist (sample_env\<lparr>en_GqlOrbByName := (\<lambda>_ _. ([], Some ''error''))\<rparr>) sample_doc zero_orb s' = Some (b, s')"
proof -
  obtain b s' where r: "DoesOrbExist sample_env sample_doc zero_orb sample_state = Some (b, s')"
    unfolding DoesOrbExist_def vorbs_def Let_def by (metis (no_types, lifting) case_prod_unfold)
  from DoesOrbExist_once [OF r refl] r show ?thesis by blast
qed



end
