(* ===== verification/ValExec.thy ===== *)
theory ValExec
  imports Session
begin

text \<open>
  The executor validators: \<open>pkg/parser/validate/executor.go\<close> and \<open>dockerImage.go\<close>, and the
  executor part of \<open>orb.go\<close>. Docker Hub, the GraphQL service and the catalog of machine
  offerings are services of the environment; their answers go through the caches.
\<close>

subsection \<open>dockerImage.go\<close>

definition validDigestRegex :: regex where
  "validDigestRegex =
     rx_seq [RBegin, rx_lit ''sha256:'',
       rx_times 64 (In (chars_between (CHR ''a'') (CHR ''f'') @ chars_between (CHR ''0'') (CHR ''9''))),
       REnd]"

definition isValidDockerDigest :: "string \<Rightarrow> bool" where
  "isValidDockerDigest digest = rx_match validDigestRegex digest"

definition isDockerImageCheckable :: "docker_image \<Rightarrow> bool" where
  "isDockerImageCheckable img =
     (di_Name (img_Image img) \<noteq> [] \<and>
      img_Auth img = \<lparr>da_Username = [], da_Password = []\<rparr> \<and>
      img_AwsAuth img = \<lparr>aws_AccessKeyID = [], aws_SecretAccessKey = []\<rparr> \<and>
      \<not> fst (CheckIfParamIsPartiallyReferenced (di_Tag (img_Image img))))"

definition DoesDockerImageExists :: "env \<Rightarrow> docker_image \<Rightarrow> bool action" where
  "DoesDockerImageExists env img =
     (let i = img_Image img;
          lookup = vget (\<lambda>c. DockerCache_Get (ca_DockerCache c) (di_FullPath i))
      in vbind lookup (\<lambda>cached.
           if \<not> isDockerImageCheckable img then vret True
           else vbind
             (case cached of
                Some info \<Rightarrow> vret (Some info)
              | None \<Rightarrow>
                  vbind (vput (\<lambda>c. c\<lparr>ca_DockerCache :=
                           DockerCache_Add (di_FullPath i)
                             (en_DoesImageExist env (di_Namespace i) (di_Name i)) (ca_DockerCache c)\<rparr>))
                    (\<lambda>_. lookup))
             (\<lambda>cached. vbind (vlift cached) (\<lambda>info. vret (cdi_Exists info)))))"

definition chooseTagToRecommend :: "env \<Rightarrow> string list \<Rightarrow> string" where
  "chooseTagToRecommend env allTags =
     (let tags = filter (\<lambda>tag. tag \<noteq> ''latest'') allTags
      in case tags of
           [] \<Rightarrow> []
         | first # _ \<Rightarrow>
             (case find (en_LooseSemver env) tags of Some tag \<Rightarrow> tag | None \<Rightarrow> first))"

definition GetImageTagInfo :: "env \<Rightarrow> docker_image \<Rightarrow> cached_docker_tags option action" where
  "GetImageTagInfo env img =
     (let ns = di_Namespace (img_Image img); nm = di_Name (img_Image img)
      in vcache (\<lambda>c.
           case DockerTagsCache_Get (ca_DockerTagsCache c) ns nm of
             Some tagInfo \<Rightarrow> (Some tagInfo, c)
           | None \<Rightarrow>
               (case en_GetImageTags env ns nm of
                  None \<Rightarrow> (None, c)
                | Some tags \<Rightarrow>
                    let tagInfo = \<lparr>cdt_Recommended = chooseTagToRecommend env tags,
                                   cdt_CheckedTags = fold (\<lambda>tag m. gm_put tag True m) tags []\<rparr>
                    in (Some tagInfo,
                        c\<lparr>ca_DockerTagsCache :=
                            DockerTagsCache_Add ns nm tagInfo (ca_DockerTagsCache c)\<rparr>))))"

definition DoesTagExist :: "env \<Rightarrow> docker_image \<Rightarrow> string \<Rightarrow> bool action" where
  "DoesTagExist env img searchedTag =
     (let ns = di_Namespace (img_Image img); nm = di_Name (img_Image img)
      in vbind (GetImageTagInfo env img) (\<lambda>info.
           case info of
             None \<Rightarrow> vret True
           | Some tagInfo \<Rightarrow>
               (case gm_get (cdt_CheckedTags tagInfo) searchedTag of
                  Some tagExists \<Rightarrow> vret tagExists
                | None \<Rightarrow>
                    let tagExists = en_ImageHasTag env ns nm searchedTag;
                        tagInfo = tagInfo\<lparr>cdt_CheckedTags :=
                          gm_put searchedTag tagExists (cdt_CheckedTags tagInfo)\<rparr>
                    in vbind (vput (\<lambda>c. c\<lparr>ca_DockerTagsCache :=
                                DockerTagsCache_Add ns nm tagInfo (ca_DockerTagsCache c)\<rparr>))
                         (\<lambda>_. vret tagExists))))"

definition createTagTextEdit :: "docker_image \<Rightarrow> string \<Rightarrow> text_edit" where
  "createTagTextEdit img tag =
     (let version = last (split_on (CHR '':'') (di_FullPath (img_Image img)));
          versionLength = (of_nat (length version) + 1 :: u32);
          e = End (img_ImageRange img)
      in mk_edit ('':'' @ tag)
           (mk_range (mk_pos (Line e) (Character e - versionLength))
              (mk_pos (Line e) (Character e + 1 + of_nat (length tag) - versionLength))))"

definition GetImageTagActions :: "env \<Rightarrow> yaml_document \<Rightarrow> docker_image \<Rightarrow> code_action list action" where
  "GetImageTagActions env doc img =
     vbind (GetImageTagInfo env img) (\<lambda>info.
       case info of
         None \<Rightarrow> vret []
       | Some tagInfo \<Rightarrow>
           let actions =
             (if cdt_Recommended tagInfo \<noteq> []
              then [CreateCodeActionTextEdit ''Use last tag'' (yd_URI doc)
                      [createTagTextEdit img (cdt_Recommended tagInfo)] True]
              else [])
           in vbind (DoesTagExist env img ''latest'') (\<lambda>latest.
                vret (if latest
                      then actions @ [CreateCodeActionTextEdit (''Use '' @ single_quoted ''latest'') (yd_URI doc)
                             [createTagTextEdit img ''latest''] False]
                      else actions)))"

subsection \<open>executor.go: resource classes\<close>

definition vofferings :: "val \<Rightarrow> (offerings option \<Rightarrow> 'a) \<Rightarrow> 'a action" where
  "vofferings v f =
     vcache (\<lambda>c.
       let (o', m) = machineOfferings (en_Offerings (val_Env v)) (val_Context v)
                       (ca_MachineOfferingsCache c)
       in (f o', c\<lparr>ca_MachineOfferingsCache := m\<rparr>))"

definition validateExecutorNamespace :: "val \<Rightarrow> string \<Rightarrow> range \<Rightarrow> unit action" where
  "validateExecutorNamespace v resourceClass resourceClassRange =
     (case en_GqlNamespace (val_Env v) (val_Context v) resourceClass of
        None \<Rightarrow> vskip
      | Some exists \<Rightarrow>
          vwhen (\<not> exists)
            (addDiagnostic (CreateErrorDiagnosticFromRange resourceClassRange
               (''Namespace '' @ quoted resourceClass @ '' does not exist''))))"

definition checkIfValidResourceClass ::
    "val \<Rightarrow> string \<Rightarrow> string list option \<Rightarrow> range \<Rightarrow> string \<Rightarrow> unit action" where
  "checkIfValidResourceClass v resourceClass validResourceClasses resourceClassRange ctx =
     vseq
       [vwhen (\<not> CheckIfOnlyParamUsed resourceClass \<and> resourceClass \<noteq> [] \<and>
               \<not> slices_Contains validResourceClasses resourceClass \<and>
               \<not> IsSelfHostedRunner resourceClass)
          (addDiagnostic (CreateErrorDiagnosticFromRange resourceClassRange
             (if ctx = [] then ''Invalid resource class '' @ quoted resourceClass
              else ''Invalid resource class '' @ quoted resourceClass @ '' for '' @ ctx))),
        vwhen (IsSelfHostedRunner resourceClass)
          (validateExecutorNamespace v (hd (split_on (CHR ''/'') resourceClass)) resourceClassRange)]"

subsection \<open>executor.go: macOS and machine executors\<close>

definition validateMacOSExecutor :: "val \<Rightarrow> macos_executor \<Rightarrow> unit action" where
  "validateMacOSExecutor v e =
     vbind (vofferings v XcodeVersions) (\<lambda>xcodeVersions.
       if xcodeVersions = None then vskip
       else if slices_Contains xcodeVersions (mac_Xcode e)
       then vbind (vofferings v MacOSResourceClasses) (\<lambda>classes.
              checkIfValidResourceClass v (be_ResourceClass (mac_Base e)) classes
                (be_ResourceClassRange (mac_Base e)) (''Xcode version '' @ quoted (mac_Xcode e)))
       else vbind (vofferings v DeprecatedXcodeVersions) (\<lambda>deprecated.
              if slices_Contains deprecated (mac_Xcode e)
              then addDiagnostic (CreateDeprecatedDiagnosticFromRange (mac_XcodeRange e)
                     (''Xcode version '' @ quoted (mac_Xcode e) @ '' is deprecated''))
              else addDiagnostic (CreateErrorDiagnosticFromRange (mac_XcodeRange e)
                     (''Unknown Xcode version '' @ quoted (mac_Xcode e)))))"

text \<open>
  The loop over the pairs: \<open>None\<close> when it returns early at a pair that fits, otherwise whether
  some pair has the resource class and whether some pair has the image.
\<close>

fun machine_pairs_loop ::
    "machine_executor \<Rightarrow> bool \<Rightarrow> bool \<Rightarrow> machine_pair list \<Rightarrow> bool \<Rightarrow> bool \<Rightarrow> (bool \<times> bool) option" where
  "machine_pairs_loop e rcParam imgParam [] validResourceClass validImage =
     Some (validResourceClass, validImage)"
| "machine_pairs_loop e rcParam imgParam (pair # pairs) validResourceClass validImage =
     (let rc = be_ResourceClass (me_Base e);
          hasRC = (mp_ResourceClass pair = rc \<or> rcParam \<or> rc = []);
          hasImg = (me_Image e \<in> set (mp_Images pair) \<or> imgParam)
      in if hasRC \<and> hasImg then None
         else machine_pairs_loop e rcParam imgParam pairs
                (validResourceClass \<or> hasRC \<or> rcParam) (validImage \<or> hasImg \<or> imgParam))"

definition validateMachineExecutor :: "val \<Rightarrow> machine_executor \<Rightarrow> unit action" where
  "validateMachineExecutor v e =
     (let rc = be_ResourceClass (me_Base e);
          rcRange = be_ResourceClassRange (me_Base e);
          img = me_Image e;
          rcParam = ContainsParam rc;
          imgParam = ContainsParam img
      in if me_IsDeprecated e then vskip
         else vbind (vofferings v MachinePairs) (\<lambda>pairs.
           case pairs of
             None \<Rightarrow> vskip
           | Some pairs \<Rightarrow>
             if img = []
             then if rc \<noteq> [] \<and> \<not> IsSelfHostedRunner rc \<and> \<not> rcParam
                  then vbind (vofferings v MachineResourceClasses) (\<lambda>classes.
                         vwhen (\<not> slices_Contains classes rc)
                           (addDiagnostic (CreateErrorDiagnosticFromRange rcRange
                              (''Unknown resource class '' @ quoted rc))))
                  else vskip
             else if IsSelfHostedRunner rc
             then addDiagnostic (CreateErrorDiagnosticFromRange (be_Range (me_Base e))
                    (''Extraneous image '' @ quoted img @ '' for self-hosted runner '' @ quoted rc))
             else
               (case machine_pairs_loop e rcParam imgParam pairs False False of
                  None \<Rightarrow> vskip
                | Some (validResourceClass, validImage) \<Rightarrow>
                    vseq
                      [vwhen (\<not> validResourceClass)
                         (addDiagnostic (CreateErrorDiagnosticFromRange rcRange
                            (''Unknown resource class '' @ quoted rc))),
                       vwhen (\<not> validImage)
                         (vbind (vofferings v DeprecatedMachineImages) (\<lambda>deprecated.
                            if slices_Contains deprecated img
                            then addDiagnostic (CreateDeprecatedDiagnosticFromRange (me_ImageRange e)
                                   (''Machine image '' @ quoted img @ '' is deprecated''))
                            else addDiagnostic (CreateErrorDiagnosticFromRange (me_ImageRange e)
                                   (''Unknown machine image '' @ quoted img)))),
                       vwhen (validResourceClass \<and> validImage)
                         (addDiagnostic (CreateErrorDiagnosticFromRange (be_Range (me_Base e))
                            (''Machine image '' @ quoted img @ '' is not available for resource class '' @
                             quoted rc)))])))"

subsection \<open>executor.go: docker executors\<close>

definition check_image_tag :: "val \<Rightarrow> docker_image \<Rightarrow> unit action" where
  "check_image_tag v img =
     (let i = img_Image img;
          imgTag = (if di_Tag i = [] then ''latest'' else di_Tag i)
      in vbind (DoesTagExist (val_Env v) img imgTag) (\<lambda>tagExists.
           vseq
             [vwhen (\<not> tagExists)
                (vbind (GetImageTagActions (val_Env v) (val_Doc v) img) (\<lambda>actions.
                   addDiagnostic (CreateDiagnosticFromRange (img_ImageRange img) SeverityError
                     (''Docker image '' @ quoted (di_FullPath i) @ '' has no tag '' @ quoted imgTag)
                     actions))),
              vwhen (tagExists \<and> di_Tag i = [])
                (vbind (GetImageTagActions (val_Env v) (val_Doc v) img) (\<lambda>actions.
                   addDiagnostic (CreateDiagnosticFromRange (img_ImageRange img) SeverityHint
                     ''It is recommended to set explicit tags'' actions)))]))"

definition circleci_namespace_warning :: "val \<Rightarrow> docker_image \<Rightarrow> unit action" where
  "circleci_namespace_warning v img =
     vwhen (di_Namespace (img_Image img) = ''circleci'')
       (addDiagnostic (CreateDiagnosticFromRange (img_ImageRange img) SeverityWarning
          ''Docker images from `circleci` namespace are deprecated. Please use its `cimg` namespace's alternative.''
          [CreateCodeActionTextEdit ''Use `cimg` namespace's alternative'' (yd_URI (val_Doc v))
             [mk_edit (''image: '' @ replace_first (di_FullPath (img_Image img)) ''circleci'' ''cimg'')
                (img_ImageRange img)] True]))"

definition validate_docker_image :: "val \<Rightarrow> docker_image \<Rightarrow> unit action" where
  "validate_docker_image v img =
     (let i = img_Image img
      in if \<not> isDockerImageCheckable img then vskip
         else vbind (DoesDockerImageExists (val_Env v) img) (\<lambda>imageExists.
           if \<not> imageExists
           then vseq
             [addDiagnostic (CreateErrorDiagnosticFromRange (img_ImageRange img)
                (''Docker image not found '' @ quoted (di_FullPath i))),
              circleci_namespace_warning v img]
           else if di_Digest i \<noteq> [] \<and> \<not> isValidDockerDigest (di_Digest i)
           then addDiagnostic (CreateErrorDiagnosticFromRange (img_ImageRange img)
                  (''Invalid Docker image digest format '' @ quoted (di_Digest i) @
                   ''. Expected format: sha256:<64 hex characters>''))
           else vseq
             [vwhen (di_Tag i \<noteq> [] \<or> di_Digest i = []) (check_image_tag v img),
              circleci_namespace_warning v img]))"

definition validateDockerExecutor :: "val \<Rightarrow> docker_executor \<Rightarrow> unit action" where
  "validateDockerExecutor v e =
     vseq
       [vbind (vofferings v DockerResourceClasses) (\<lambda>classes.
          vwhen (classes \<noteq> None)
            (checkIfValidResourceClass v (be_ResourceClass (de_Base e)) classes
               (be_ResourceClassRange (de_Base e)) ''Docker executor'')),
        viter (validate_docker_image v) (de_Image e)]"

definition validate_executor :: "val \<Rightarrow> executor \<Rightarrow> unit action" where
  "validate_executor v e =
     (case e of
        ExMacOS m \<Rightarrow> validateMacOSExecutor v m
      | ExMachine m \<Rightarrow> validateMachineExecutor v m
      | ExDocker d \<Rightarrow> validateDockerExecutor v d
      | ExBase _ \<Rightarrow> vskip)"

definition ValidateExecutors :: "val \<Rightarrow> unit action" where
  "ValidateExecutors v =
     (if yd_Executors (val_Doc v) = [] \<and> \<not> IsDefaultRange (yd_ExecutorsRange (val_Doc v))
      then addDiagnostic (CreateEmptyAssignationWarning (yd_ExecutorsRange (val_Doc v)))
      else viter (\<lambda>(_, e). validate_executor v e) (yd_Executors (val_Doc v)))"

subsection \<open>orb.go and executor.go: references to executors\<close>

definition doesOrbExecutorExist :: "val \<Rightarrow> string \<Rightarrow> range \<Rightarrow> (bool \<times> string option) action" where
  "doesOrbExecutorExist v executorName executorRange =
     (case split_reference executorName of
        None \<Rightarrow> vret (False, None)
      | Some (orbName, entity) \<Rightarrow>
          (case gm_get (yd_Orbs (val_Doc v)) orbName of
             None \<Rightarrow>
               (let err = ''unknown orb referenced: '' @ orbName
                in vbind (addDiagnostic (CreateWarningDiagnosticFromRange executorRange err))
                     (\<lambda>_. vret (False, Some err)))
           | Some orb \<Rightarrow>
               vbind (vcache (GetOrbInfo (val_Env v) (val_Context v) (GetOrbID (orb_Url orb))))
                 (\<lambda>(remoteOrb, err).
                    case err of
                      Some e \<Rightarrow>
                        vbind (addDiagnostic (CreateWarningDiagnosticFromRange executorRange
                                 (''Invalid orb or error trying to fetch it: '' @ e)))
                          (\<lambda>_. vret (False, Some e))
                    | None \<Rightarrow>
                        vbind (vlift remoteOrb) (\<lambda>info.
                          vret (gm_has (oa_Executors (oi_Attributes info)) entity, None)))))"

definition validateOrbExecutor :: "val \<Rightarrow> string \<Rightarrow> range \<Rightarrow> unit action" where
  "validateOrbExecutor v executorName executorRange =
     (if IsFromUnfetchableOrb (val_Doc v) executorName then vskip
      else vbind (doesOrbExecutorExist v executorName executorRange) (\<lambda>(orbExecutorExist, err).
        if \<not> orbExecutorExist \<and> err = None
        then (case split_on (CHR ''/'') executorName of
                orbName # entity # _ \<Rightarrow>
                  addDiagnostic (CreateErrorDiagnosticFromRange executorRange
                    (''Cannot find executor '' @ entity @ '' in orb '' @ orbName))
              | _ \<Rightarrow> vpanic)
        else vskip))"

definition validateExecutorReference :: "val \<Rightarrow> string \<Rightarrow> range \<Rightarrow> unit action" where
  "validateExecutorReference v executor rng =
     (let doc = val_Doc v
      in if DoesExecutorExist doc executor then vskip
         else if IsOrbReference doc executor then validateOrbExecutor v executor rng
         else
           (case CouldBeOrbReference executor of
              (possibleOrbName, True) \<Rightarrow>
                addDiagnostic (mk_diag rng
                  (''Cannot find orb '' @ quoted possibleOrbName @ ''. Looking for executor named '' @
                   quoted executor @ ''.'') SeverityError [])
            | (_, False) \<Rightarrow>
                addDiagnostic (mk_diag rng
                  (''Executor '' @ quoted executor @ '' does not exist'') SeverityError [])))"

subsection \<open>The actions only append\<close>

lemma framed_DoesDockerImageExists [framed_intros]: "framed (DoesDockerImageExists env img)"
  unfolding DoesDockerImageExists_def Let_def by (intro framed_intros)

lemma framed_GetImageTagInfo [framed_intros]: "framed (GetImageTagInfo env img)"
  unfolding GetImageTagInfo_def Let_def by (intro framed_intros) (simp split: option.split)

lemma framed_DoesTagExist [framed_intros]: "framed (DoesTagExist env img tag)"
  unfolding DoesTagExist_def by (intro framed_intros)

lemma framed_GetImageTagActions [framed_intros]: "framed (GetImageTagActions env doc img)"
  unfolding GetImageTagActions_def by (intro framed_intros)

lemma framed_vofferings [framed_intros]: "framed (vofferings v f)"
  unfolding vofferings_def by (intro framed_intros) (simp split: prod.split)

lemma framed_validateExecutorNamespace [framed_intros]: "framed (validateExecutorNamespace v n r)"
  unfolding validateExecutorNamespace_def by (intro framed_intros)

lemma framed_checkIfValidResourceClass [framed_intros]: "framed (checkIfValidResourceClass v c cs r x)"
  unfolding checkIfValidResourceClass_def by (intro framed_intros)

lemma framed_validateMacOSExecutor [framed_intros]: "framed (validateMacOSExecutor v e)"
  unfolding validateMacOSExecutor_def by (intro framed_intros)

lemma framed_validateMachineExecutor [framed_intros]: "framed (validateMachineExecutor v e)"
  unfolding validateMachineExecutor_def by (intro framed_intros)

lemma framed_check_image_tag [framed_intros]: "framed (check_image_tag v img)"
  unfolding check_image_tag_def by (intro framed_intros)

lemma framed_circleci_namespace_warning [framed_intros]: "framed (circleci_namespace_warning v img)"
  unfolding circleci_namespace_warning_def by (intro framed_intros)

lemma framed_validate_docker_image [framed_intros]: "framed (validate_docker_image v img)"
  unfolding validate_docker_image_def by (intro framed_intros)

lemma framed_validateDockerExecutor [framed_intros]: "framed (validateDockerExecutor v e)"
  unfolding validateDockerExecutor_def by (intro framed_intros)

lemma framed_validate_executor [framed_intros]: "framed (validate_executor v e)"
  unfolding validate_executor_def by (cases e) (simp_all add: framed_intros)

lemma framed_ValidateExecutors [framed_intros]: "framed (ValidateExecutors v)"
  unfolding ValidateExecutors_def by (intro framed_intros)

lemma framed_doesOrbExecutorExist [framed_intros]: "framed (doesOrbExecutorExist v n r)"
  unfolding doesOrbExecutorExist_def by (intro framed_intros)

lemma framed_validateOrbExecutor [framed_intros]: "framed (validateOrbExecutor v n r)"
  unfolding validateOrbExecutor_def
  by (intro framed_intros)

lemma framed_validateExecutorReference [framed_intros]: "framed (validateExecutorReference v n r)"
  unfolding validateExecutorReference_def
  by (intro framed_intros)

interpretation executors: validator "ValidateExecutors v" for v
  by unfold_locales (rule framed_ValidateExecutors)

interpretation executor_reference: validator "validateExecutorReference v n r" for v n r
  by unfold_locales (rule framed_validateExecutorReference)

subsection \<open>What the executor checks decide\<close>

lemma machine_pairs_loop_None:
  "machine_pairs_loop e rp ip pairs vr vi = None \<longleftrightarrow>
    (\<exists>p\<in>set pairs. (mp_ResourceClass p = be_ResourceClass (me_Base e) \<or> rp \<or> be_ResourceClass (me_Base e) = []) \<and>
       (me_Image e \<in> set (mp_Images p) \<or> ip))"
  by (induction pairs arbitrary: vr vi) (auto simp: Let_def)

lemma machine_pairs_loop_Some:
  "machine_pairs_loop e rp ip pairs vr vi = Some (r, i) \<Longrightarrow>
    (r \<longleftrightarrow> vr \<or> (\<exists>p\<in>set pairs. mp_ResourceClass p = be_ResourceClass (me_Base e) \<or> rp \<or> be_ResourceClass (me_Base e) = [])) \<and>
    (i \<longleftrightarrow> vi \<or> (\<exists>p\<in>set pairs. me_Image e \<in> set (mp_Images p) \<or> ip))"
proof (induction pairs arbitrary: vr vi)
  case (Cons p pairs)
  from Cons.prems have "machine_pairs_loop e rp ip pairs
      (vr \<or> (mp_ResourceClass p = be_ResourceClass (me_Base e) \<or> rp \<or> be_ResourceClass (me_Base e) = []) \<or> rp)
      (vi \<or> (me_Image e \<in> set (mp_Images p) \<or> ip) \<or> ip) = Some (r, i)"
    unfolding machine_pairs_loop.simps Let_def by (metis option.distinct(1))
  from Cons.IH [OF this] show ?case by auto
qed simp

lemma isValidDockerDigest_lang:
  "isValidDockerDigest d \<longleftrightarrow>
    (\<exists>h. d = ''sha256:'' @ h \<and> length h = 64 \<and>
      (\<forall>c\<in>set h. c \<in> set (chars_between (CHR ''a'') (CHR ''f'')) \<or> c \<in> set (chars_between (CHR ''0'') (CHR ''9''))))"
proof -
  have "isValidDockerDigest d \<longleftrightarrow> (\<exists>caps. rxm validDigestRegex (length d) (d, []) ([], caps))"
    unfolding isValidDockerDigest_def rx_match_iff
    by (auto simp: validDigestRegex_def rxm_lit rxm_times)
  then show ?thesis
    by (auto simp: validDigestRegex_def rxm_lit rxm_times)
qed

text \<open>The catalog a validator sees in a state of the caches, and the caches after it was asked for.\<close>

definition known_offerings :: "val \<Rightarrow> cache \<Rightarrow> offerings option" where
  "known_offerings v c =
     fst (machineOfferings (en_Offerings (val_Env v)) (val_Context v) (ca_MachineOfferingsCache c))"

definition after_offerings :: "val \<Rightarrow> cache \<Rightarrow> cache" where
  "after_offerings v c = c\<lparr>ca_MachineOfferingsCache :=
     snd (machineOfferings (en_Offerings (val_Env v)) (val_Context v) (ca_MachineOfferingsCache c))\<rparr>"

lemma vofferings_run:
  "vofferings v f s =
    Some (f (known_offerings v (vs_Cache s)), s\<lparr>vs_Cache := after_offerings v (vs_Cache s)\<rparr>)"
  by (simp add: vofferings_def vcache_def known_offerings_def after_offerings_def split: prod.split)

subsection \<open>The executor checks never abort\<close>

lemma total_DoesDockerImageExists [total_intros]: "total (DoesDockerImageExists env img)"
  by (auto simp: total_def DoesDockerImageExists_def Let_def vbind_def run_simps
      DockerCache_Get_def DockerCache_Add_def split: option.splits)

lemma total_GetImageTagInfo [total_intros]: "total (GetImageTagInfo env img)"
  unfolding GetImageTagInfo_def by (intro total_intros)

lemma total_DoesTagExist [total_intros]: "total (DoesTagExist env img tag)"
  unfolding DoesTagExist_def by (intro total_intros)

lemma total_GetImageTagActions [total_intros]: "total (GetImageTagActions env doc img)"
  unfolding GetImageTagActions_def by (intro total_intros)

lemma total_vofferings [total_intros]: "total (vofferings v f)"
  unfolding vofferings_def by (intro total_intros)

lemma total_checkIfValidResourceClass [total_intros]: "total (checkIfValidResourceClass v c cs r x)"
  unfolding checkIfValidResourceClass_def validateExecutorNamespace_def by (intro total_intros)

lemma total_validateMacOSExecutor [total_intros]: "total (validateMacOSExecutor v e)"
  unfolding validateMacOSExecutor_def by (intro total_intros)

lemma total_validateMachineExecutor [total_intros]: "total (validateMachineExecutor v e)"
  unfolding validateMachineExecutor_def by (intro total_intros)

lemma total_validate_docker_image [total_intros]: "total (validate_docker_image v img)"
  unfolding validate_docker_image_def check_image_tag_def circleci_namespace_warning_def
  by (intro total_intros)

lemma total_validateDockerExecutor [total_intros]: "total (validateDockerExecutor v e)"
  unfolding validateDockerExecutor_def by (intro total_intros)

lemma total_validate_executor [total_intros]: "total (validate_executor v e)"
  unfolding validate_executor_def by (cases e) (simp_all add: total_intros)

lemma total_ValidateExecutors [total_intros]: "total (ValidateExecutors v)"
  unfolding ValidateExecutors_def by (intro total_intros)

lemma GetOrbInfo_found: "GetOrbInfo env ctx n c = ((i, None), c') \<Longrightarrow> i \<noteq> None"
  by (auto simp: GetOrbInfo_def fetchOrbInfo_def OrbCache_HasOrb_def OrbCache_GetOrb_def gm_has_def
      Let_def split: if_splits option.splits prod.splits)

lemma doesOrbExecutorExist_run:
  "\<exists>b err c ds. doesOrbExecutorExist v n r s =
      Some ((b, err), s\<lparr>vs_Cache := c, vs_Diagnostics := vs_Diagnostics s @ ds\<rparr>) \<and>
    length ds = (if err = None then 0 else 1)"
proof (cases "split_reference n")
  case (Some p)
  obtain a b where p: "p = (a, b)" by force
  show ?thesis
  proof (cases "gm_get (yd_Orbs (val_Doc v)) a")
    case (Some orb)
    obtain i e c where g: "GetOrbInfo (val_Env v) (val_Context v) (GetOrbID (orb_Url orb)) (vs_Cache s) = ((i, e), c)"
      by (metis surj_pair)
    have "i \<noteq> None" if "e = None" using GetOrbInfo_found g that by blast
    then show ?thesis
      using \<open>split_reference n = Some p\<close> Some g
      by (cases e; cases i) (auto simp: p doesOrbExecutorExist_def vbind_def vcache_def run_simps
          intro!: exI [of _ c])
  next
    case None
    with Some show ?thesis
      by (intro exI [of _ False] exI [of _ "Some (''unknown orb referenced: '' @ a)"]
            exI [of _ "vs_Cache s"]
            exI [of _ "[CreateWarningDiagnosticFromRange r (''unknown orb referenced: '' @ a)]"]) (simp add: p doesOrbExecutorExist_def vbind_def run_simps Let_def)
  qed
qed (auto simp: doesOrbExecutorExist_def run_simps intro!: exI [of _ "vs_Cache s"])

text \<open>A machine executor and a docker image, for the witnesses.\<close>

definition sample_machine :: machine_executor where
  "sample_machine =
     \<lparr>me_Base = (executor_base zero_executor)\<lparr>be_ResourceClass := ''medium''\<rparr>,
      me_Image = ''ubuntu-2404:current'', me_ImageRange = zero_range, me_DockerLayerCaching = False,
      me_Machine = False, me_IsDeprecated = False\<rparr>"

definition sample_image :: docker_image where
  "sample_image =
     \<lparr>img_Image = ParseDockerImageValue ''cimg/go:1.22'', img_ImageRange = zero_range, img_Name = [],
      img_Entrypoint = [], img_Command = [], img_User = [], img_Environment = [],
      img_Auth = \<lparr>da_Username = [], da_Password = []\<rparr>,
      img_AwsAuth = \<lparr>aws_AccessKeyID = [], aws_SecretAccessKey = []\<rparr>\<rparr>"

subsection \<open>Properties\<close>

text \<open>
  A digest is accepted exactly when it is \<open>sha256:\<close> and 64 characters of \<open>a-f0-9\<close>.
\<close>

lemma isValidDockerDigest_iff:
  "isValidDockerDigest d \<longleftrightarrow>
    (\<exists>h. d = ''sha256:'' @ h \<and> length h = 64 \<and> set h \<subseteq> set ''0123456789abcdef'')"
proof -
  have "set (chars_between (CHR ''a'') (CHR ''f'')) \<union> set (chars_between (CHR ''0'') (CHR ''9'')) =
      set ''0123456789abcdef''"
    by code_simp
  then show ?thesis unfolding isValidDockerDigest_lang by blast
qed

text \<open>
  C34: with a catalog at hand, an explicit image on a CircleCI resource class is accepted without
  a diagnostic exactly when the catalog has a pair of the class (or any class when none is given)
  with the image; the check never aborts.
\<close>

theorem validateMachineExecutor_silent:
  assumes "\<not> me_IsDeprecated e" and "me_Image e \<noteq> []"
    and "\<not> IsSelfHostedRunner (be_ResourceClass (me_Base e))"
    and "\<not> ContainsParam (be_ResourceClass (me_Base e))" and "\<not> ContainsParam (me_Image e)"
    and "MachinePairs (known_offerings v (vs_Cache s)) = Some pairs"
  shows "\<exists>s'. validateMachineExecutor v e s = Some ((), s') \<and>
    (vs_Diagnostics s' = vs_Diagnostics s \<longleftrightarrow>
      (\<exists>p\<in>set pairs. (mp_ResourceClass p = be_ResourceClass (me_Base e) \<or> be_ResourceClass (me_Base e) = []) \<and>
         me_Image e \<in> set (mp_Images p)))"
proof (cases "machine_pairs_loop e False False pairs False False")
  case None
  then show ?thesis
    using assms machine_pairs_loop_None [of e False False pairs False False]
    by (simp add: validateMachineExecutor_def Let_def vbind_def vofferings_run run_simps)
next
  case (Some ri)
  obtain r i where ri: "ri = (r, i)" by force
  show ?thesis
    using assms Some machine_pairs_loop_None [of e False False pairs False False]
    by (cases r; cases i)
      (simp_all add: ri validateMachineExecutor_def Let_def vbind_def vofferings_run run_simps)
qed

theorem validateMachineExecutor_silent_witness:
  "\<exists>s'. validateMachineExecutor sample_val sample_machine sample_state = Some ((), s') \<and>
    (vs_Diagnostics s' = vs_Diagnostics sample_state \<longleftrightarrow>
      (\<exists>p\<in>set [\<lparr>mp_ResourceClass = ''medium'', mp_Images = [''ubuntu-2404:current'']\<rparr>].
         (mp_ResourceClass p = be_ResourceClass (me_Base sample_machine) \<or>
          be_ResourceClass (me_Base sample_machine) = []) \<and>
         me_Image sample_machine \<in> set (mp_Images p)))"
  by (rule validateMachineExecutor_silent) code_simp+

text \<open>
  Checking a reference to an executor never aborts, adds at most one diagnostic, and none
  for an executor of the document.
\<close>

lemma validateExecutorReference_one:
  "\<exists>s' ds. validateExecutorReference v n r s = Some ((), s') \<and>
    vs_Diagnostics s' = vs_Diagnostics s @ ds \<and>
    length ds \<le> (if DoesExecutorExist (val_Doc v) n then 0 else 1)"
proof -
  consider (found) "DoesExecutorExist (val_Doc v) n"
    | (orb) "\<not> DoesExecutorExist (val_Doc v) n" "IsOrbReference (val_Doc v) n"
    | (other) "\<not> DoesExecutorExist (val_Doc v) n" "\<not> IsOrbReference (val_Doc v) n" by blast
  then show ?thesis
  proof cases
    case orb
    obtain a b where ab: "split_on (CHR ''/'') n = [a, b]"
      using orb(2) by (auto simp: IsOrbReference_def split_reference_def split: list.splits option.splits)
    obtain x err c ds where run: "doesOrbExecutorExist v n r s =
        Some ((x, err), s\<lparr>vs_Cache := c, vs_Diagnostics := vs_Diagnostics s @ ds\<rparr>)"
      and len: "length ds = (if err = None then 0 else 1)"
      using doesOrbExecutorExist_run by blast
    show ?thesis
      using orb len
      by (auto simp: validateExecutorReference_def validateOrbExecutor_def vbind_def run run_simps ab
          split: if_splits)
  qed (auto simp: validateExecutorReference_def run_simps split: prod.split bool.split)
qed

text \<open>
  The existence of a docker image is asked once: asking again gives the same answer from the
  cache, whatever Docker Hub answers then.
\<close>

lemma DoesDockerImageExists_again:
  assumes "DoesDockerImageExists env img s = Some (b, s')"
  shows "DoesDockerImageExists env' img s' = Some (b, s')"
  using assms
  by (auto simp: DoesDockerImageExists_def Let_def vbind_def run_simps DockerCache_Get_def
      DockerCache_Add_def split: option.splits if_splits)

theorem DoesDockerImageExists_again_witness:
  "\<exists>b s'. DoesDockerImageExists sample_env sample_image sample_state = Some (b, s') \<and>
    DoesDockerImageExists (sample_env\<lparr>en_DoesImageExist := (\<lambda>_ _. False)\<rparr>) sample_image s' = Some (b, s')"
proof -
  obtain b s' where r: "DoesDockerImageExists sample_env sample_image sample_state = Some (b, s')"
    using totalD [OF total_DoesDockerImageExists] by blast
  from DoesDockerImageExists_again [OF r] r show ?thesis by blast
qed

end
