(* ===== verification/ValParams.thy ===== *)
theory ValParams
  imports ValExec
begin

text \<open>
  The parameter validators: \<open>pkg/parser/validate/parameters.go\<close>, \<open>enum.go\<close> and
  \<open>createParameterError\<close> of \<open>utils.go\<close>. A type assertion on a parameter's value that fails is an
  abort; \<open>well_typed\<close> states what the parser guarantees about values, and under it the checks
  never abort.
\<close>

subsection \<open>Values\<close>

definition value_string :: "param_value \<Rightarrow> string option" where
  "value_string p = (case pv_Value p of PVString s \<Rightarrow> Some s | _ \<Rightarrow> None)"

definition value_array :: "param_value \<Rightarrow> param_value list option" where
  "value_array p = (case pv_Value p of PVArray vs \<Rightarrow> Some vs | _ \<Rightarrow> None)"

definition value_map :: "param_value \<Rightarrow> (string, param_value) gomap option" where
  "value_map p = (case pv_Value p of PVMap m \<Rightarrow> Some m | _ \<Rightarrow> None)"

subsection \<open>parameters.go\<close>

definition createParameterError :: "param_value \<Rightarrow> string \<Rightarrow> string \<Rightarrow> unit action" where
  "createParameterError param stepName shouldBeType =
     addDiagnostic (CreateErrorDiagnosticFromRange (pv_Range param)
       (''Parameter '' @ pv_Name param @ '' for '' @ stepName @ '' must be a '' @ shouldBeType))"

definition ValidatePipelineParameters :: "val \<Rightarrow> unit action" where
  "ValidatePipelineParameters v =
     vwhen (yd_PipelineParameters (val_Doc v) = [] \<and>
            \<not> IsDefaultRange (yd_PipelineParametersRange (val_Doc v)))
       (addDiagnostic (CreateEmptyAssignationWarning (yd_PipelineParametersRange (val_Doc v))))"

definition checkIfParamAssigned ::
    "(string, param_value) gomap \<Rightarrow> parameter \<Rightarrow> string \<Rightarrow> range \<Rightarrow> bool action" where
  "checkIfParamAssigned ps definedParam stepName stepRange =
     (let assigned = gm_has ps (param_GetName definedParam)
      in if \<not> assigned \<and> \<not> param_IsOptional definedParam
         then vbind (addDiagnostic (CreateErrorDiagnosticFromRange stepRange
                (''Parameter '' @ param_GetName definedParam @ '' is required for '' @ stepName)))
                (\<lambda>_. vret False)
         else vret assigned)"

text \<open>\<open>GetParamNameUsedAtPos\<close> on the text of the document.\<close>

definition checkParamType :: "string \<Rightarrow> val \<Rightarrow> param_value \<Rightarrow> string \<Rightarrow> parameter \<Rightarrow> unit action" where
  "checkParamType paramType v param stepName definedParam =
     (let paramName = fst (GetParamNameUsedAtPos (yd_Content (val_Doc v)) (End (pv_Range param)))
      in if paramName \<noteq> []
         then (case gm_get (yd_PipelineParameters (val_Doc v)) paramName of
                 Some pipelineParam \<Rightarrow>
                   vwhen (param_GetType pipelineParam \<noteq> paramType)
                     (createParameterError param stepName (param_GetType definedParam))
               | None \<Rightarrow> vskip)
         else vwhen (pv_Type param \<noteq> paramType)
                (createParameterError param stepName (param_GetType definedParam)))"

definition checkExecutorParamValue :: "val \<Rightarrow> param_value \<Rightarrow> unit action" where
  "checkExecutorParamValue v param =
     (if pv_Type param = ''map''
      then vbind (vlift (value_map param)) (\<lambda>m.
        case gm_get m ''name'' of
          Some nameParam \<Rightarrow>
            if pv_Type nameParam \<noteq> ''string''
            then addDiagnostic (CreateErrorDiagnosticFromRange (pv_Range param) ''Missing executor name'')
            else vbind (vlift (value_string nameParam)) (\<lambda>executorName.
                   validateExecutorReference v executorName (pv_Range nameParam))
        | None \<Rightarrow>
            addDiagnostic (CreateErrorDiagnosticFromRange (pv_Range param) ''Missing executor name''))
      else if pv_Type param = ''string''
      then vbind (vlift (value_string param)) (\<lambda>executorName.
             validateExecutorReference v executorName (pv_Range param))
      else validateExecutorReference v [] (pv_Range param))"

definition check_steps_value :: "val \<Rightarrow> string \<Rightarrow> parameter \<Rightarrow> param_value \<Rightarrow> unit action" where
  "check_steps_value v stepName definedParam value =
     (if pv_Type value = ''string''
      then vbind (vlift (value_string value)) (\<lambda>commandName.
             vwhen (\<not> gm_has (yd_Commands (val_Doc v)) commandName)
               (addDiagnostic (CreateErrorDiagnosticFromRange (pv_Range value)
                  (''Cannot find a definition for command named '' @ commandName))))
      else vwhen (pv_Type value \<noteq> ''steps'')
             (createParameterError value stepName (param_GetType definedParam)))"

definition checkParamSimpleType :: "val \<Rightarrow> param_value \<Rightarrow> string \<Rightarrow> parameter \<Rightarrow> unit action" where
  "checkParamSimpleType v param stepName definedParam =
     (case definedParam of
        StringParameter _ _ \<Rightarrow> checkParamType ''string'' v param stepName definedParam
      | BooleanParameter _ _ \<Rightarrow> checkParamType ''boolean'' v param stepName definedParam
      | IntegerParameter _ _ \<Rightarrow> checkParamType ''integer'' v param stepName definedParam
      | EnumParameter _ _ enum \<Rightarrow>
          if pv_Type param \<noteq> ''string'' then createParameterError param stepName ''string''
          else vbind (vlift (value_string param)) (\<lambda>value.
                 vwhen (value \<notin> set enum)
                   (addDiagnostic (CreateErrorDiagnosticFromRange (pv_Range param)
                      (''Parameter '' @ value @ '' is not a valid value for '' @
                       param_GetName definedParam))))
      | ExecutorParameter _ _ \<Rightarrow> checkExecutorParamValue v param
      | StepsParameter _ _ \<Rightarrow>
          (case value_array param of
             None \<Rightarrow> createParameterError param stepName (param_GetType definedParam)
           | Some values \<Rightarrow> viter (check_steps_value v stepName definedParam) values)
      | EnvVariableParameter _ _ \<Rightarrow>
          vwhen (pv_Type param \<noteq> ''string'' \<and> pv_Type param \<noteq> ''integer'')
            (createParameterError param stepName (param_GetType definedParam)))"

definition checkParamUsedWithParam ::
    "val \<Rightarrow> param_value \<Rightarrow> string \<Rightarrow> parameter \<Rightarrow> params \<Rightarrow> unit action" where
  "checkParamUsedWithParam v param stepName definedParam ps =
     (let (paramName, isPipelineParam) =
            GetParamNameUsedAtPos (yd_Content (val_Doc v)) (End (pv_Range param))
      in case gm_get (if isPipelineParam then yd_PipelineParameters (val_Doc v) else ps) paramName of
           None \<Rightarrow> vskip
         | Some paramUsedAsValue \<Rightarrow>
             (let definedType = param_GetType definedParam;
                  valueType = param_GetType paramUsedAsValue
              in vwhen (definedType \<noteq> valueType \<and> \<not> (definedType = ''string'' \<and> valueType = ''enum''))
                   (createParameterError param stepName (param_GetType definedParam))))"

subsection \<open>enum.go\<close>

definition checkEnumTypeDefinition :: "base_parameter \<Rightarrow> string \<Rightarrow> string list \<Rightarrow> unit action" where
  "checkEnumTypeDefinition base dflt enum =
     vwhen (bp_HasDefault base \<and> dflt \<notin> set enum)
       (addDiagnostic (CreateErrorDiagnosticFromRange (bp_Range base)
          (''Default value '' @ dflt @ '' is not in enum '' @
           single_quoted (join_with '', '' enum))))"

subsection \<open>Values of a call\<close>

definition validate_defined_param ::
    "val \<Rightarrow> (string, param_value) gomap \<Rightarrow> string \<Rightarrow> range \<Rightarrow> params \<Rightarrow> parameter \<Rightarrow> unit action" where
  "validate_defined_param v paramsValue calledEntity entityRange usableParams definedParam =
     vbind (case definedParam of
              EnumParameter base dflt enum \<Rightarrow> checkEnumTypeDefinition base dflt enum
            | _ \<Rightarrow> vskip) (\<lambda>_.
     vbind (checkIfParamAssigned paramsValue definedParam calledEntity entityRange) (\<lambda>assigned.
       if \<not> assigned then vskip
       else vbind (vlift (gm_get paramsValue (param_GetName definedParam))) (\<lambda>param.
         vbind (if pv_Type param = ''string''
                then vbind (vlift (value_string param)) (\<lambda>s. vret (CheckIfOnlyParamUsed s))
                else vret False) (\<lambda>onlyParam.
           if onlyParam
           then checkParamUsedWithParam v param calledEntity definedParam usableParams
           else checkParamSimpleType v param calledEntity definedParam))))"

definition validateParametersValue ::
    "val \<Rightarrow> (string, param_value) gomap \<Rightarrow> string \<Rightarrow> range \<Rightarrow> params \<Rightarrow> params \<Rightarrow> unit action" where
  "validateParametersValue v paramsValue calledEntity entityRange calledEntityDefinedParams usableParams =
     vseq
       [viter (\<lambda>(_, definedParam).
          validate_defined_param v paramsValue calledEntity entityRange usableParams definedParam)
          calledEntityDefinedParams,
        viter (\<lambda>(_, param).
          vwhen (\<not> gm_has calledEntityDefinedParams (pv_Name param))
            (addDiagnostic (CreateErrorDiagnosticFromRange (pv_Range param)
               (''Parameter '' @ pv_Name param @ '' is not defined for '' @ calledEntity))))
          paramsValue]"

subsection \<open>References to parameters\<close>

definition undefined_param_range :: "val \<Rightarrow> node \<Rightarrow> param_ref \<Rightarrow> range" where
  "undefined_param_range v n param =
     (let t = yd_Tree (val_Doc v);
          r = pr_ParamRange param;
          row = pt_Row (st_StartPoint t n);
          column = pt_Column (st_StartPoint t n);
          shift = (\<lambda>p. mk_pos (Line p + row) (Character p + column));
          back = (\<lambda>p. if st_Type t n = ''block_scalar'' then mk_pos (Line p) (Character p - column) else p)
      in mk_range (back (shift (Start r))) (back (shift (End r))))"

definition check_param_ref :: "val \<Rightarrow> node \<Rightarrow> param_ref \<Rightarrow> unit action" where
  "check_param_ref v n param =
     (let isPipeline = has_prefix ''pipeline'' (pr_FullName param)
      in vbind
           (if isPipeline then vret (yd_PipelineParameters (val_Doc v))
            else vlift (GetParamsWithPosition (val_Doc v) (Start (NodeToRange (val_Doc v) (Some n)))))
           (\<lambda>ps.
              vwhen (\<not> gm_has ps (pr_Name param))
                (addDiagnostic (CreateErrorDiagnosticFromRange (undefined_param_range v n param)
                   (if isPipeline then ''Pipeline parameter '' @ pr_Name param @ '' is not defined''
                    else ''Parameter '' @ pr_Name param @ '' is not defined'')))))"

definition check_params_of_node :: "val \<Rightarrow> node \<Rightarrow> unit action" where
  "check_params_of_node v n =
     vbind (vlift (GetParamsInString (GetRawNodeText (val_Doc v) (Some n)))) (\<lambda>ps.
       viter (check_param_ref v n) ps)"

definition CheckIfParamsExist :: "val \<Rightarrow> unit action" where
  "CheckIfParamsExist v =
     (let query = (\<lambda>q. viter (viter (check_params_of_node v))
                        (st_Query (yd_Tree (val_Doc v)) (yd_RootNode (val_Doc v)) q))
      in vseq [query ''(string_scalar) @string'', query ''(block_scalar) @string''])"

subsection \<open>The actions only append\<close>

lemma framed_case_parameter [framed_intros]:
  assumes "\<And>b x. framed (f1 b x)" "\<And>b x. framed (f2 b x)" "\<And>b x. framed (f3 b x)"
    "\<And>b x y. framed (f4 b x y)" "\<And>b x. framed (f5 b x)" "\<And>b x. framed (f6 b x)"
    "\<And>b x. framed (f7 b x)"
  shows "framed (case d of StringParameter b x \<Rightarrow> f1 b x | BooleanParameter b x \<Rightarrow> f2 b x
    | IntegerParameter b x \<Rightarrow> f3 b x | EnumParameter b x y \<Rightarrow> f4 b x y
    | ExecutorParameter b x \<Rightarrow> f5 b x | StepsParameter b x \<Rightarrow> f6 b x
    | EnvVariableParameter b x \<Rightarrow> f7 b x)"
  using assms by (cases d) simp_all

lemma framed_ValidatePipelineParameters [framed_intros]: "framed (ValidatePipelineParameters v)"
  unfolding ValidatePipelineParameters_def by (intro framed_intros)

lemma framed_createParameterError [framed_intros]: "framed (createParameterError p n t)"
  unfolding createParameterError_def by (intro framed_intros)

lemma framed_checkIfParamAssigned [framed_intros]: "framed (checkIfParamAssigned ps d n r)"
  unfolding checkIfParamAssigned_def by (intro framed_intros)

lemma framed_checkParamType [framed_intros]: "framed (checkParamType t v p n d)"
  unfolding checkParamType_def by (intro framed_intros)

lemma framed_checkExecutorParamValue [framed_intros]: "framed (checkExecutorParamValue v p)"
  unfolding checkExecutorParamValue_def by (intro framed_intros)

lemma framed_check_steps_value [framed_intros]: "framed (check_steps_value v n d p)"
  unfolding check_steps_value_def by (intro framed_intros)

lemma framed_checkParamSimpleType [framed_intros]: "framed (checkParamSimpleType v p n d)"
  unfolding checkParamSimpleType_def by (intro framed_intros)

lemma framed_checkParamUsedWithParam [framed_intros]: "framed (checkParamUsedWithParam v p n d ps)"
  unfolding checkParamUsedWithParam_def Let_def by (intro framed_intros)

lemma framed_validate_defined_param [framed_intros]: "framed (validate_defined_param v pv e r up d)"
  unfolding validate_defined_param_def checkEnumTypeDefinition_def by (intro framed_intros)

lemma framed_validateParametersValue [framed_intros]: "framed (validateParametersValue v pv e r ps up)"
  unfolding validateParametersValue_def by (intro framed_intros)

lemma framed_CheckIfParamsExist [framed_intros]: "framed (CheckIfParamsExist v)"
  unfolding CheckIfParamsExist_def check_params_of_node_def check_param_ref_def Let_def
  by (intro framed_intros)

interpretation parameter_values: validator "validateParametersValue v pv e r ps up" for v pv e r ps up
  by unfold_locales (rule framed_validateParametersValue)

interpretation parameter_references: validator "CheckIfParamsExist v" for v
  by unfold_locales (rule framed_CheckIfParamsExist)

subsection \<open>Values as the parser builds them\<close>

text \<open>
  The type tag of a value agrees with the value, here and \<open>n\<close> levels down in arrays and maps.
\<close>

definition tag_agrees :: "param_value \<Rightarrow> bool" where
  "tag_agrees p \<longleftrightarrow>
     (pv_Type p = ''string'' \<longrightarrow> value_string p \<noteq> None) \<and>
     (pv_Type p = ''map'' \<longrightarrow> value_map p \<noteq> None) \<and>
     (pv_Type p = ''enum'' \<longrightarrow> value_array p \<noteq> None)"

definition value_parts :: "param_value \<Rightarrow> param_value list" where
  "value_parts p =
     (case pv_Value p of PVArray vs \<Rightarrow> vs | PVMap m \<Rightarrow> map snd m | _ \<Rightarrow> [])"

fun well_tagged :: "nat \<Rightarrow> param_value \<Rightarrow> bool" where
  "well_tagged 0 p = tag_agrees p"
| "well_tagged (Suc n) p = (tag_agrees p \<and> (\<forall>q\<in>set (value_parts p). well_tagged n q))"

lemma well_tagged_agrees: "well_tagged n p \<Longrightarrow> tag_agrees p"
  by (cases n) auto

lemma well_tagged_array:
  "well_tagged (Suc n) p \<Longrightarrow> value_array p = Some vs \<Longrightarrow> q \<in> set vs \<Longrightarrow> well_tagged n q"
  by (auto simp: value_array_def value_parts_def split: pvalue.splits)

lemma well_tagged_map:
  "well_tagged (Suc n) p \<Longrightarrow> value_map p = Some m \<Longrightarrow> gm_get m k = Some q \<Longrightarrow> well_tagged n q"
  using map_of_SomeD [of m k q] by (fastforce simp: value_map_def value_parts_def split: pvalue.splits)

lemma total_validateExecutorReference [total_intros]: "total (validateExecutorReference v n r)"
proof -
  have "total (validateOrbExecutor v n r)" if orb: "IsOrbReference (val_Doc v) n"
  proof -
    obtain a b where "split_on (CHR ''/'') n = [a, b]"
      using orb by (auto simp: IsOrbReference_def split_reference_def split: list.splits option.splits)
    moreover have "total (doesOrbExecutorExist v n r)"
      using doesOrbExecutorExist_run unfolding total_def by (metis option.distinct(1))
    ultimately show ?thesis
      unfolding validateOrbExecutor_def by (auto intro!: total_intros)
  qed
  then show ?thesis
    unfolding validateExecutorReference_def Let_def
    by (auto simp: total_basic split: prod.split bool.split)
qed

lemma total_case_parameter [total_intros]:
  assumes "\<And>b x. total (f1 b x)" "\<And>b x. total (f2 b x)" "\<And>b x. total (f3 b x)"
    "\<And>b x y. total (f4 b x y)" "\<And>b x. total (f5 b x)" "\<And>b x. total (f6 b x)"
    "\<And>b x. total (f7 b x)"
  shows "total (case d of StringParameter b x \<Rightarrow> f1 b x | BooleanParameter b x \<Rightarrow> f2 b x
    | IntegerParameter b x \<Rightarrow> f3 b x | EnumParameter b x y \<Rightarrow> f4 b x y
    | ExecutorParameter b x \<Rightarrow> f5 b x | StepsParameter b x \<Rightarrow> f6 b x
    | EnvVariableParameter b x \<Rightarrow> f7 b x)"
  using assms by (cases d) simp_all

lemma total_createParameterError [total_intros]: "total (createParameterError p n t)"
  unfolding createParameterError_def by (intro total_intros)

lemma total_checkParamType [total_intros]: "total (checkParamType t v p n d)"
  unfolding checkParamType_def by (intro total_intros)

lemma total_checkExecutorParamValue:
  assumes "well_tagged (Suc n) p"
  shows "total (checkExecutorParamValue v p)"
proof -
  have q: "value_string q \<noteq> None" if "value_map p = Some m" "gm_get m ''name'' = Some q"
    "\<not> pv_Type q \<noteq> ''string''" for m q
    using well_tagged_agrees [OF well_tagged_map [OF assms that(1,2)]] that(3)
    by (simp add: tag_agrees_def)
  have p: "tag_agrees p" using assms by simp
  show ?thesis
  proof (cases "pv_Type p = ''map''")
    case True
    then obtain m where m: "value_map p = Some m" using p by (auto simp: tag_agrees_def)
    show ?thesis
      unfolding checkExecutorParamValue_def if_P [OF True] m vlift_Some run_vbind_ret
      by (intro total_intros q [OF m])
  next
    case False
    show ?thesis
      unfolding checkExecutorParamValue_def if_not_P [OF False]
      using p by (intro total_intros) (simp add: tag_agrees_def)
  qed
qed

lemma total_checkParamSimpleType:
  assumes "well_tagged (Suc n) p"
  shows "total (checkParamSimpleType v p nm d)"
proof -
  have p: "tag_agrees p" using assms by simp
  have "total (check_steps_value v nm d q)" if "value_array p = Some vs" "q \<in> set vs" for vs q
    unfolding check_steps_value_def
    using well_tagged_agrees [OF well_tagged_array [OF assms that]]
    by (intro total_intros) (simp add: tag_agrees_def)
  then show ?thesis
    unfolding checkParamSimpleType_def
    using p total_checkExecutorParamValue [OF assms]
    by (intro total_intros) (simp_all add: tag_agrees_def)
qed

lemma total_validate_defined_param:
  assumes "\<And>p. p \<in> set (map snd pv) \<Longrightarrow> well_tagged (Suc n) p"
  shows "total (validate_defined_param v pv e r up d)"
proof -
  have p: "well_tagged (Suc n) p" if "gm_get pv k = Some p" for k p
    using map_of_SomeD [OF that] by (intro assms) force
  have "total (checkParamUsedWithParam v p e d up)" for p
    unfolding checkParamUsedWithParam_def Let_def by (intro total_intros)
  then have use: "total (vbind (if pv_Type p = ''string''
        then vbind (vlift (value_string p)) (\<lambda>s. vret (CheckIfOnlyParamUsed s)) else vret False) (\<lambda>onlyParam.
      if onlyParam then checkParamUsedWithParam v p e d up else checkParamSimpleType v p e d))"
    if "gm_get pv k = Some p" for k p
    using well_tagged_agrees [OF p [OF that]]
    by (intro total_intros total_checkParamSimpleType [OF p [OF that]]) (simp_all add: tag_agrees_def)
  have "(case gm_get pv (param_GetName d) of None \<Rightarrow> \<not> gm_has pv (param_GetName d) | Some p \<Rightarrow> True)"
    by (simp add: gm_has_def split: option.split)
  then have "total (vbind (checkIfParamAssigned pv d e r) (\<lambda>assigned.
       if \<not> assigned then vskip
       else vbind (vlift (gm_get pv (param_GetName d))) (\<lambda>p.
         vbind (if pv_Type p = ''string''
                then vbind (vlift (value_string p)) (\<lambda>s. vret (CheckIfOnlyParamUsed s))
                else vret False) (\<lambda>onlyParam.
           if onlyParam then checkParamUsedWithParam v p e d up else checkParamSimpleType v p e d))))"
    using use
    by (cases "gm_get pv (param_GetName d)")
      (auto simp: total_def checkIfParamAssigned_def vbind_def run_simps gm_has_def Let_def split: option.splits)
  then show ?thesis
    unfolding validate_defined_param_def checkEnumTypeDefinition_def
    by (intro total_vbind [OF total_case_parameter]) (assumption | intro total_intros)+
qed

lemma total_validateParametersValue:
  assumes "\<And>p. p \<in> set (map snd pv) \<Longrightarrow> well_tagged (Suc n) p"
  shows "total (validateParametersValue v pv e r ps up)"
  unfolding validateParametersValue_def
  by (intro total_intros total_validate_defined_param [OF assms]) auto

text \<open>A required string parameter, for the witnesses.\<close>

definition sample_required :: parameter where
  "sample_required = StringParameter
     \<lparr>bp_Name = ''n'', bp_NameRange = zero_range, bp_Range = zero_range, bp_HasDefault = False,
      bp_Description = [], bp_TypeRange = zero_range, bp_DefaultRange = zero_range\<rparr> []"

subsection \<open>Properties\<close>

text \<open>
  C35: every required parameter without a value and every value without a parameter of its name
  is reported, whatever else is found.
\<close>

theorem validateParametersValue_reports:
  assumes "validateParametersValue v pv e r ps up s = Some ((), s')"
  shows "(\<forall>d\<in>set (map snd ps). gm_has pv (param_GetName d) \<or> param_IsOptional d \<or>
      CreateErrorDiagnosticFromRange r (''Parameter '' @ param_GetName d @ '' is required for '' @ e)
        \<in> set (vs_Diagnostics s')) \<and>
    (\<forall>p\<in>set (map snd pv). gm_has ps (pv_Name p) \<or>
      CreateErrorDiagnosticFromRange (pv_Range p) (''Parameter '' @ pv_Name p @ '' is not defined for '' @ e)
        \<in> set (vs_Diagnostics s'))"
proof (intro conjI ballI)
  fix d assume d: "d \<in> set (map snd ps)"
  let ?e = "CreateErrorDiagnosticFromRange r (''Parameter '' @ param_GetName d @ '' is required for '' @ e)"
  show "gm_has pv (param_GetName d) \<or> param_IsOptional d \<or> ?e \<in> set (vs_Diagnostics s')"
  proof (cases "gm_has pv (param_GetName d) \<or> param_IsOptional d")
    case False
    then have "reports ?e (checkIfParamAssigned pv d e r)"
      by (simp add: checkIfParamAssigned_def reports_vbind_first reports_addDiagnostic framed_vret)
    then have "reports ?e (validate_defined_param v pv e r up d)"
      unfolding validate_defined_param_def
      by (intro reports_vbind_second reports_vbind_first framed_intros)
    then have "reports ?e (validateParametersValue v pv e r ps up)"
      unfolding validateParametersValue_def using d
      by (intro reports_vseq_first framed_intros) (auto intro!: reports_viter framed_intros)
    from reportsD [OF this assms] show ?thesis by blast
  qed blast
next
  fix p assume p: "p \<in> set (map snd pv)"
  let ?e = "CreateErrorDiagnosticFromRange (pv_Range p) (''Parameter '' @ pv_Name p @ '' is not defined for '' @ e)"
  show "gm_has ps (pv_Name p) \<or> ?e \<in> set (vs_Diagnostics s')"
  proof (cases "gm_has ps (pv_Name p)")
    case False
    have "reports ?e (validateParametersValue v pv e r ps up)"
      unfolding validateParametersValue_def using p False
      by (intro reports_vseq_rest reports_vseq_first framed_intros)
        (auto intro!: reports_viter framed_intros reports_vwhen reports_addDiagnostic)
    from reportsD [OF this assms] show ?thesis by blast
  qed blast
qed

theorem validateParametersValue_reports_witness:
  "\<exists>s' :: vstate. (\<forall>d\<in>set (map snd [(''n'', sample_required)]). gm_has ([] :: (string \<times> param_value) list) (param_GetName d) \<or> param_IsOptional d \<or>
      CreateErrorDiagnosticFromRange zero_range (''Parameter '' @ param_GetName d @ '' is required for '' @ ''cmd'')
        \<in> set (vs_Diagnostics s')) \<and>
    (\<forall>p\<in>set (map snd ([] :: (string \<times> param_value) list)). gm_has [(''n'', sample_required)] (pv_Name p) \<or>
      CreateErrorDiagnosticFromRange (pv_Range p) (''Parameter '' @ pv_Name p @ '' is not defined for '' @ ''cmd'')
        \<in> set (vs_Diagnostics s'))"
proof -
  have "total (validateParametersValue sample_val [] ''cmd'' zero_range [(''n'', sample_required)] [])"
    by (rule total_validateParametersValue) simp
  then obtain s' where r: "validateParametersValue sample_val [] ''cmd'' zero_range [(''n'', sample_required)] [] sample_state = Some ((), s')"
    using total_unit by blast
  show ?thesis by (intro exI [of _ s'] validateParametersValue_reports [OF r])
qed

end
