(* ===== verification/ValSteps.thy ===== *)
theory ValSteps
  imports ValParams GoTime
begin

text \<open>
  The step validators: \<open>pkg/parser/validate/steps.go\<close>.
\<close>

subsection \<open>Run steps\<close>

definition WHEN_KEYWORDS :: "string list" where
  "WHEN_KEYWORDS = [''on_success'', ''always'', ''on_fail'']"

definition AUTO_RERUN_DELAY_REGEX :: regex where
  "AUTO_RERUN_DELAY_REGEX =
     (let d19 = RClass (In (chars_between (CHR ''1'') (CHR ''9'')));
          d09 = In (chars_between (CHR ''0'') (CHR ''9''))
      in rx_seq [RBegin,
           RGroup 1 (RAlt
             (RSeq (RGroup 2 (RAlt (rx_lit ''10'') d19)) (rx_lit ''m''))
             (RSeq (RGroup 3 (RSeq d19 (RStar d09))) (rx_lit ''s''))),
           REnd])"

definition deploy_warning :: "run_step \<Rightarrow> diagnostic" where
  "deploy_warning step =
     (mk_diag (run_Range step)
        ''The `deploy` step is deprecated. Please use the `run` job instead.''
        SeverityWarning [])\<lparr>diag_Tags := [DiagnosticTagDeprecated]\<rparr>"

text \<open>The diagnostics on the automatic reruns of a run step, in the order of the code.\<close>

definition rerun_diagnostics :: "run_step \<Rightarrow> diagnostic list" where
  "rerun_diagnostics step =
     (let err = (\<lambda>msg. mk_diag (run_Range step) msg SeverityError []);
          reruns = run_MaxAutoReruns step;
          delay = run_AutoRerunDelay step
      in (if run_Background step \<and> (reruns \<noteq> [] \<or> delay \<noteq> [])
          then [err ''Background steps cannot use max_auto_reruns or auto_rerun_delay fields''] else []) @
         (if delay \<noteq> [] \<and> reruns = []
          then [err ''auto_rerun_delay requires max_auto_reruns to be specified''] else []) @
         (if reruns \<noteq> []
          then (case go_Atoi reruns of
                  Some rerunCount \<Rightarrow>
                    if rerunCount \<le> 0 \<or> 5 < rerunCount
                    then [err ''max_auto_reruns must be between 1 and 5''] else []
                | None \<Rightarrow> [err ''max_auto_reruns must be between 1 and 5''])
          else []) @
         (if delay \<noteq> []
          then (case ParseDuration delay of
                  None \<Rightarrow> [err ''auto_rerun_delay must be a valid duration'']
                | Some duration \<Rightarrow>
                    (if \<not> rx_match AUTO_RERUN_DELAY_REGEX delay
                     then [err (''auto_rerun_delay must be in the format of 1-10 minutes (e.g., '' @
                            single_quoted ''1m'' @ '', '' @ single_quoted ''10m'' @
                            '') or any number of seconds (e.g., '' @ single_quoted ''30s'' @ '', '' @
                            single_quoted ''120s'' @ '')'')]
                     else []) @
                    (if 10 * 60000000000 < duration
                     then [err ''auto_rerun_delay must not exceed 10 minutes''] else []))
          else []))"

definition when_diagnostics :: "val \<Rightarrow> run_step \<Rightarrow> params \<Rightarrow> diagnostic list" where
  "when_diagnostics v step jobOrCommandParameters =
     (let invalid = (\<lambda>value.
            if value \<in> set WHEN_KEYWORDS then []
            else [CreateErrorDiagnosticFromRange (run_WhenRange step)
                    (''Invalid when condition: expected `'' @ join_with ''`, `'' WHEN_KEYWORDS @
                     ''`; got `'' @ value @ ''`'')])
      in if run_When step = [] \<and> Line (Start (run_WhenRange step)) = 0 then []
         else if CheckIfOnlyParamUsed (run_When step)
         then
           (let (paramName, isPipelineParam) =
                  GetParamNameUsedAtPos (yd_Content (val_Doc v)) (End (run_WhenRange step))
            in case gm_get (if isPipelineParam then yd_PipelineParameters (val_Doc v)
                            else jobOrCommandParameters) paramName of
                 None \<Rightarrow> []
               | Some param \<Rightarrow>
                   if param_IsOptional param
                   then (case param of
                           StringParameter _ dflt \<Rightarrow> invalid dflt
                         | _ \<Rightarrow> [CreateErrorDiagnosticFromRange (run_WhenRange step)
                                  (''Parameter '' @ paramName @
                                   '' is not a string type parameter, and therefore cannot be used inside the `when` field'')])
                   else invalid [])
         else invalid (run_When step))"

definition validateRunCommand :: "val \<Rightarrow> run_step \<Rightarrow> params \<Rightarrow> unit action" where
  "validateRunCommand v step jobOrCommandParameters =
     vemit ((if run_IsDeployStep step then [deploy_warning step] else []) @
            rerun_diagnostics step @ when_diagnostics v step jobOrCommandParameters)"

subsection \<open>Named steps, steps parameters and checkout\<close>

definition named_step_exists :: "val \<Rightarrow> string \<Rightarrow> bool action" where
  "named_step_exists v nm =
     (let doc = val_Doc v
      in if DoesJobExist doc nm \<or> DoesCommandExist doc nm \<or> IsBuiltIn nm then vret True
         else vbind (IsOrbCommand (val_Env v) doc nm) (\<lambda>isOrbCommand.
           vret (isOrbCommand \<or> IsAlias nm)))"

definition validateNamedStep ::
    "val \<Rightarrow> string \<Rightarrow> (string, param_value) gomap \<Rightarrow> range \<Rightarrow> params \<Rightarrow> unit action" where
  "validateNamedStep v nm stepParameters stepRange usableParams =
     vbind (named_step_exists v nm) (\<lambda>commandExists.
       if IsFromUnfetchableOrb (val_Doc v) nm then vskip
       else vseq
         [vwhen (\<not> commandExists)
            (addDiagnostic (CreateErrorDiagnosticFromRange stepRange
               (''Cannot find declaration for step '' @ nm))),
          vwhen (\<not> IsBuiltIn nm)
            (vbind (GetDefinedParams (val_Env v) (val_Doc v) nm) (\<lambda>definedParams.
               validateParametersValue v stepParameters nm stepRange definedParams usableParams)),
          vwhen (nm = ''store_test_results'')
            (addDiagnostic (mk_diag stepRange
               ''Path must be specified for `store_test_results` step'' SeverityError []))])"

definition validateStepSteps :: "val \<Rightarrow> string \<Rightarrow> range \<Rightarrow> string \<Rightarrow> unit action" where
  "validateStepSteps v stepName stepRange nm =
     (case gm_get (yd_Commands (val_Doc v)) nm of
        None \<Rightarrow> vskip
      | Some command \<Rightarrow>
          (case gm_get (cmd_Parameters command) stepName of
             None \<Rightarrow> vskip
           | Some parameter \<Rightarrow>
               vwhen (param_GetType parameter \<noteq> ''steps'')
                 (addDiagnostic (mk_diag stepRange ''Parameter type is not steps''
                    SeverityError ''cci-language-server''))))"

definition checkout_diagnostics :: "checkout_step \<Rightarrow> diagnostic list" where
  "checkout_diagnostics step =
     (let err = (\<lambda>msg. mk_diag (co_Range step) msg SeverityError []);
          meth = co_Method step
      in if meth = [] then []
         else
           (if meth \<notin> set CheckoutMethods
            then [err (''Checkout method '' @ single_quoted meth @ '' is invalid'')] else []) @
           (if meth = ''shallow''
            then (case go_Atoi (co_Depth step) of
                    None \<Rightarrow> [err ''Checkout depth is not an integer'']
                  | Some depth \<Rightarrow>
                      if depth \<le> 0
                      then [err ''Checkout depth must be a positive integer when using the shallow checkout method'']
                      else [])
            else if co_Depth step \<noteq> []
            then [err ''Checkout depth can only be used with the shallow checkout method'']
            else []))"

definition validateCheckout :: "checkout_step \<Rightarrow> unit action" where
  "validateCheckout step = vemit (checkout_diagnostics step)"

definition validate_step :: "val \<Rightarrow> string \<Rightarrow> params \<Rightarrow> step \<Rightarrow> unit action" where
  "validate_step v nm jobOrCommandParameters step =
     (case step of
        Run r \<Rightarrow> validateRunCommand v r jobOrCommandParameters
      | NamedStep n ps _ rng \<Rightarrow> validateNamedStep v n ps rng jobOrCommandParameters
      | Steps n _ _ rng _ \<Rightarrow> validateStepSteps v n rng nm
      | Checkout c \<Rightarrow> validateCheckout c
      | _ \<Rightarrow> vskip)"

definition validateSteps :: "val \<Rightarrow> step list \<Rightarrow> string \<Rightarrow> params \<Rightarrow> unit action" where
  "validateSteps v steps nm jobOrCommandParameters =
     viter (validate_step v nm jobOrCommandParameters) steps"

subsection \<open>Which steps and jobs use an orb\<close>

definition checkIfStepsContainStep :: "step list \<Rightarrow> string \<Rightarrow> bool" where
  "checkIfStepsContainStep steps stepName = list_ex (\<lambda>step. step_GetName step = stepName) steps"

definition checkIfStepsContainOrb :: "val \<Rightarrow> step list \<Rightarrow> string \<Rightarrow> bool" where
  "checkIfStepsContainOrb v steps orbName =
     list_ex (\<lambda>step. IsOrbReference (val_Doc v) (step_GetName step) \<and>
                      hd (split_on (CHR ''/'') (step_GetName step)) = orbName) steps"

fun steps_values_contain_orb :: "param_value list \<Rightarrow> string \<Rightarrow> bool" where
  "steps_values_contain_orb [] orbName = False"
| "steps_values_contain_orb (value # values) orbName =
     (if pv_Type value \<noteq> ''steps'' then False
      else (case pv_Value value of
              PVSteps steps \<Rightarrow>
                if list_ex (\<lambda>step. case split_reference (step_GetName step) of
                                     None \<Rightarrow> False | Some (a, _) \<Rightarrow> a = orbName) steps
                then True else steps_values_contain_orb values orbName
            | _ \<Rightarrow> steps_values_contain_orb values orbName))"

definition checkIfJobParamContainOrb :: "(string, param_value) gomap \<Rightarrow> string \<Rightarrow> bool" where
  "checkIfJobParamContainOrb ps orbName =
     list_ex (\<lambda>(_, p). case value_array p of
                None \<Rightarrow> False | Some values \<Rightarrow> steps_values_contain_orb values orbName) ps"

definition checkIfJobUseOrb :: "val \<Rightarrow> job \<Rightarrow> string \<Rightarrow> bool" where
  "checkIfJobUseOrb v j orbName =
     (checkIfStepsContainOrb v (job_steps j) orbName \<or>
      job_Executor j \<noteq> [] \<and> hd (split_on (CHR ''/'') (job_Executor j)) = orbName)"

subsection \<open>The actions only append\<close>

lemma framed_case_step [framed_intros]:
  assumes "\<And>a b c d. framed (f1 a b c d)" "\<And>a b c d e. framed (f2 a b c d e)" "\<And>r. framed (f3 r)"
    "\<And>r. framed (f4 r)" "framed g"
  shows "framed (case s of Run r \<Rightarrow> f3 r | NamedStep a b c d \<Rightarrow> f1 a b c d
    | Steps a b c d e \<Rightarrow> f2 a b c d e | Checkout r \<Rightarrow> f4 r | _ \<Rightarrow> g)"
  using assms by (cases s) simp_all

lemma framed_named_step_exists [framed_intros]: "framed (named_step_exists v n)"
  unfolding named_step_exists_def by (intro framed_intros)

lemma framed_validateNamedStep [framed_intros]: "framed (validateNamedStep v n ps r up)"
  unfolding validateNamedStep_def by (intro framed_intros)

lemma framed_validateStepSteps [framed_intros]: "framed (validateStepSteps v n r m)"
  unfolding validateStepSteps_def by (intro framed_intros)

lemma framed_validate_step [framed_intros]: "framed (validate_step v n ps s)"
  unfolding validate_step_def validateRunCommand_def validateCheckout_def by (intro framed_intros)

lemma framed_validateSteps [framed_intros]: "framed (validateSteps v ss n ps)"
  unfolding validateSteps_def by (intro framed_intros)

interpretation steps: validator "validateSteps v ss n ps" for v ss n ps
  by unfold_locales (rule framed_validateSteps)

subsection \<open>The steps never abort on values with right tags\<close>

lemma total_case_step [total_intros]:
  assumes "\<And>a b c d. s = NamedStep a b c d \<Longrightarrow> total (f1 a b c d)"
    "\<And>a b c d e. total (f2 a b c d e)" "\<And>r. total (f3 r)" "\<And>r. total (f4 r)" "total g"
  shows "total (case s of Run r \<Rightarrow> f3 r | NamedStep a b c d \<Rightarrow> f1 a b c d
    | Steps a b c d e \<Rightarrow> f2 a b c d e | Checkout r \<Rightarrow> f4 r | _ \<Rightarrow> g)"
  using assms by (cases s) simp_all

lemma GetOrFetchOrbInfo_found:
  "GetOrFetchOrbInfo env doc orb s = Some ((i, None), s') \<Longrightarrow> i \<noteq> None"
  using GetOrFetchOrbInfo_cached by fastforce

lemma total_GetOrFetchOrbInfo [total_intros]: "total (GetOrFetchOrbInfo env doc orb)"
  unfolding GetOrFetchOrbInfo_def by (intro total_intros)

lemma total_orb_has [total_intros]: "total (orb_has env doc field n)"
  unfolding orb_has_def GetOrbInfoFromName_def by (intro total_intros)

lemma total_IsOrbCommand [total_intros]: "total (IsOrbCommand env doc n)"
  unfolding IsOrbCommand_def by (intro total_intros)

lemma total_IsOrbJob [total_intros]: "total (IsOrbJob env doc n)"
  unfolding IsOrbJob_def by (intro total_intros)

lemma orb_has_split: "orb_has env doc field n s = Some (True, s') \<Longrightarrow> split_reference n \<noteq> None"
  by (cases "split_reference n") (auto simp: orb_has_def run_simps)

lemma total_GetOrbDefinedParams:
  assumes "split_reference n \<noteq> None"
  shows "total (GetOrbDefinedParams env doc n)"
proof -
  obtain a b where ab: "split_on (CHR ''/'') n = [a, b]"
    using assms by (auto simp: split_reference_def split: list.splits)
  show ?thesis
    unfolding total_def
  proof
    fix s
    let ?orb = "gm_get_or zero_orb (yd_Orbs doc) a"
    obtain i e s1 where r: "GetOrFetchOrbInfo env doc ?orb s = Some ((i, e), s1)"
      using totalD [OF total_GetOrFetchOrbInfo] by (metis surj_pair)
    then show "GetOrbDefinedParams env doc n s \<noteq> None"
      using GetOrFetchOrbInfo_found [of env doc ?orb s i s1]
      by (cases e; cases i) (simp_all add: GetOrbDefinedParams_def ab vbind_def run_simps Let_def)
  qed
qed

lemma total_GetDefinedParams [total_intros]: "total (GetDefinedParams env doc n)"
proof (cases "split_reference n")
  case None
  then have "orb_has env doc f n = vret False" for f :: "orb_parsed_attributes \<Rightarrow> (string, 'x) gomap"
    by (simp add: orb_has_def)
  then show ?thesis
    unfolding GetDefinedParams_def IsOrbCommand_def IsOrbJob_def Let_def
    by (simp add: orb_has_def None total_basic)
next
  case (Some p)
  then show ?thesis
    unfolding GetDefinedParams_def Let_def
    by (intro total_intros total_GetOrbDefinedParams) simp
qed

lemma total_named_step_exists [total_intros]: "total (named_step_exists v n)"
  unfolding named_step_exists_def by (intro total_intros)

definition step_tagged :: "step \<Rightarrow> bool" where
  "step_tagged s = (case s of NamedStep _ ps _ _ \<Rightarrow> (\<forall>p\<in>set (map snd ps). well_tagged 1 p) | _ \<Rightarrow> True)"

lemma step_tagged_named:
  "step_tagged (NamedStep n ps pr r) \<longleftrightarrow> (\<forall>p\<in>set (map snd ps). well_tagged 1 p)"
  by (simp add: step_tagged_def)

lemma total_validateNamedStep:
  assumes "\<forall>p\<in>set (map snd ps). well_tagged 1 p"
  shows "total (validateNamedStep v n ps r up)"
  unfolding validateNamedStep_def
  by (intro total_intros total_validateParametersValue [of ps 0]) (use assms in auto)

lemma total_validateSteps:
  assumes "list_all step_tagged ss"
  shows "total (validateSteps v ss n ps)"
  unfolding validateSteps_def validate_step_def validateStepSteps_def validateRunCommand_def
    validateCheckout_def
  by (intro total_intros total_validateNamedStep) (metis assms list_all_iff step_tagged_named)

subsection \<open>The format of a rerun delay\<close>

lemma rxm_digit: "rxm (RClass (In (chars_between (CHR ''1'') (CHR ''9'')))) n st st' \<longleftrightarrow>
    (\<exists>c. fst st = c # fst st' \<and> snd st' = snd st \<and> is_digit c \<and> c \<noteq> CHR ''0'')"
proof -
  have "c \<in> set (chars_between (CHR ''1'') (CHR ''9'')) \<longleftrightarrow> is_digit c \<and> c \<noteq> CHR ''0''" for c
  proof -
    have "c = CHR ''0'' \<longleftrightarrow> of_char c = (48 :: nat)"
    proof -
      have "(of_char (CHR ''0'') :: nat) = 48" by simp
      then show ?thesis by (metis of_char_eq_iff)
    qed
    then show ?thesis by (auto simp: set_chars_between is_digit_def)
  qed
  then show ?thesis by (cases st; cases st') auto
qed

definition delay_format :: "string \<Rightarrow> bool" where
  "delay_format s \<longleftrightarrow>
     s = ''10m'' \<or>
     (\<exists>d. s = [d] @ ''m'' \<and> is_digit d \<and> d \<noteq> CHR ''0'') \<or>
     (\<exists>d ds. s = d # ds @ ''s'' \<and> is_digit d \<and> d \<noteq> CHR ''0'' \<and> list_all is_digit ds)"

lemma in_digits: "x \<in> set (chars_between (CHR ''0'') (CHR ''9'')) \<longleftrightarrow> is_digit x"
  by (simp add: set_chars_between is_digit_def)

lemma AUTO_RERUN_DELAY_REGEX_lang:
  "rx_match AUTO_RERUN_DELAY_REGEX s \<longleftrightarrow> delay_format s"
proof -
  let ?minutes = "RSeq (RGroup 2 (RAlt (rx_lit ''10'') (RClass (In (chars_between (CHR ''1'') (CHR ''9'')))))) (rx_lit ''m'')"
  let ?seconds = "RSeq (RGroup 3 (RSeq (RClass (In (chars_between (CHR ''1'') (CHR ''9''))))
      (RStar (In (chars_between (CHR ''0'') (CHR ''9'')))))) (rx_lit ''s'')"
  have m: "(\<exists>caps. rxm ?minutes (length s) (s, []) ([], caps)) \<longleftrightarrow>
      s = ''10m'' \<or> (\<exists>d. s = [d] @ ''m'' \<and> is_digit d \<and> d \<noteq> CHR ''0'')"
    unfolding rxm.simps(4,5,7) rxm_lit rxm_digit by auto
  have sec: "(\<exists>caps. rxm ?seconds (length s) (s, []) ([], caps)) \<longleftrightarrow>
      (\<exists>d ds. s = d # ds @ ''s'' \<and> is_digit d \<and> d \<noteq> CHR ''0'' \<and> list_all is_digit ds)"
    unfolding rxm.simps(3,4,5,7) rxm_lit rxm_digit by (auto simp: in_digits list_all_iff)
  have "rx_match AUTO_RERUN_DELAY_REGEX s \<longleftrightarrow>
      (\<exists>caps. rxm (RAlt ?minutes ?seconds) (length s) (s, []) ([], caps))"
    unfolding rx_match_iff AUTO_RERUN_DELAY_REGEX_def Let_def rx_seq.simps
    by (auto simp del: rxm.simps(5) rx_lit.simps)
  also have "\<dots> \<longleftrightarrow> delay_format s"
    unfolding rxm.simps(5) delay_format_def using m sec by blast
  finally show ?thesis .
qed

lemma dec_string_hd: "\<exists>d ds. dec_string n = d # ds \<and> (d = CHR ''0'' \<longleftrightarrow> n = 0) \<and> (ds = [] \<longleftrightarrow> n < 10)"
proof (induction n rule: dec_string.induct)
  case (1 n)
  show ?case
  proof (cases "n < 10")
    case True
    then have "dec_string n = [digit_char n]" by (subst dec_string.simps) simp
    moreover have "digit_char n = CHR ''0'' \<longleftrightarrow> n = 0"
    proof -
      have "digit_val (digit_char n) = n" "digit_val (CHR ''0'') = 0" "digit_char 0 = CHR ''0''"
        using True by (simp_all add: digit_char_props, code_simp+)
      then show ?thesis by metis
    qed
    ultimately show ?thesis using True by simp
  next
    case False
    then have "dec_string n = dec_string (n div 10) @ [digit_char (n mod 10)]"
      by (subst dec_string.simps) simp
    with 1 [OF False] False show ?thesis by auto
  qed
qed

lemma delay_format_seconds: "delay_format (dec_string n @ ''s'') \<longleftrightarrow> 1 \<le> n"
proof -
  obtain d ds where d: "dec_string n = d # ds" "d = CHR ''0'' \<longleftrightarrow> n = 0" using dec_string_hd by blast
  have "is_digit d" "list_all is_digit ds" using dec_string_digits [of n] d by auto
  with d show ?thesis by (auto simp: delay_format_def append_eq_Cons_conv Cons_eq_append_conv)
qed

lemma delay_format_minutes: "delay_format (dec_string n @ ''m'') \<longleftrightarrow> 1 \<le> n \<and> n \<le> 10"
proof -
  obtain d ds where d: "dec_string n = d # ds" "d = CHR ''0'' \<longleftrightarrow> n = 0" "ds = [] \<longleftrightarrow> n < 10"
    using dec_string_hd by blast
  have dig: "is_digit d" using dec_string_digits [of n] d by auto
  have ten: "dec_string 10 = ''10''" by code_simp
  have "delay_format (dec_string n @ ''m'') \<longleftrightarrow> dec_string n = ''10'' \<or> (ds = [] \<and> d \<noteq> CHR ''0'')"
    using d(1) dig by (auto simp: delay_format_def)
  also have "\<dots> \<longleftrightarrow> n = 10 \<or> n < 10 \<and> n \<noteq> 0"
    using d(2,3) dec_string_inj [of n 10] ten by metis
  also have "\<dots> \<longleftrightarrow> 1 \<le> n \<and> n \<le> 10" by auto
  finally show ?thesis .
qed

lemma if_single_Nil: "(if c then [x] else []) = [] \<longleftrightarrow> \<not> c"
  by simp

lemma rerun_diagnostics_none:
  "rerun_diagnostics step = [] \<longleftrightarrow>
    \<not> (run_Background step \<and> (run_MaxAutoReruns step \<noteq> [] \<or> run_AutoRerunDelay step \<noteq> [])) \<and>
    \<not> (run_AutoRerunDelay step \<noteq> [] \<and> run_MaxAutoReruns step = []) \<and>
    (run_MaxAutoReruns step = [] \<or> (\<exists>k. go_Atoi (run_MaxAutoReruns step) = Some k \<and> 1 \<le> k \<and> k \<le> 5)) \<and>
    (run_AutoRerunDelay step = [] \<or>
      (\<exists>d. ParseDuration (run_AutoRerunDelay step) = Some d \<and> delay_format (run_AutoRerunDelay step) \<and>
         d \<le> 600000000000))"
proof -
  have 1: "(case go_Atoi t of
              Some k \<Rightarrow> if k \<le> 0 \<or> 5 < k then [x] else []
            | None \<Rightarrow> [y]) = [] \<longleftrightarrow> (\<exists>k. go_Atoi t = Some k \<and> 1 \<le> k \<and> k \<le> 5)" for t and x y :: diagnostic
    by (auto split: option.split)
  have 2: "(case ParseDuration t of
              None \<Rightarrow> [x]
            | Some d \<Rightarrow> (if \<not> rx_match AUTO_RERUN_DELAY_REGEX t then [y] else []) @
                (if 10 * 60000000000 < d then [z] else [])) = [] \<longleftrightarrow>
      (\<exists>d. ParseDuration t = Some d \<and> delay_format t \<and> d \<le> 600000000000)" for t and x y z :: diagnostic
    by (auto simp: AUTO_RERUN_DELAY_REGEX_lang split: option.split)
  have 3: "(if c then xs else []) = [] \<longleftrightarrow> \<not> c \<or> xs = []" for c and xs :: "diagnostic list"
    by simp
  show ?thesis
    unfolding rerun_diagnostics_def Let_def append_is_Nil_conv 3 1 2 by blast
qed

text \<open>A run step with reruns, for the witnesses.\<close>

definition sample_run :: run_step where
  "sample_run =
     \<lparr>run_Range = zero_range, run_Command = ''make'', run_CommandRange = zero_range,
      run_RawCommand = ''make'', run_Name = [], run_Shell = [], run_Background = False,
      run_WorkingDirectory = [], run_NoOutputTimeout = [],
      run_When = [], run_WhenRange = zero_range, run_Environment = [], run_IsDeployStep = False,
      run_MaxAutoReruns = dec_string 3, run_AutoRerunDelay = dec_string 90 @ ''s''\<rparr>"

subsection \<open>Properties\<close>

text \<open>
  C36: a delay written as a whole number of minutes or seconds, with a number of reruns, is
  accepted exactly when the step does not run in the background, the reruns are one to five, and
  the delay is one to ten minutes or one to six hundred seconds.
\<close>

theorem rerun_diagnostics_bounds:
  assumes "run_MaxAutoReruns step = dec_string k" and "k < 2 ^ 63"
    and "run_AutoRerunDelay step = dec_string n @ [u]"
    and "u = CHR ''s'' \<or> u = CHR ''m''" and "n \<le> 100000000"
  shows "rerun_diagnostics step = [] \<longleftrightarrow>
    \<not> run_Background step \<and> 1 \<le> k \<and> k \<le> 5 \<and> 1 \<le> n \<and> n \<le> (if u = CHR ''m'' then 10 else 600)"
proof -
  have ne: "dec_string m \<noteq> []" for m using dec_string_digits [of m] by simp
  have atoi: "go_Atoi (dec_string k) = Some (int k)" using assms(2) by (intro go_Atoi_dec_string) simp
  have uc: "unit_char (CHR ''s'')" "unit_char (CHR ''m'')" by code_simp+
  have un: "unit_nanos ''s'' = Some 1000000000" "unit_nanos ''m'' = Some 60000000000" by (simp_all add: unit_nanos_def)
  have sec: "ParseDuration (dec_string n @ ''s'') = Some (int (n * 1000000000))"
    using assms(5) by (intro ParseDuration_units un uc) simp_all
  have min: "ParseDuration (dec_string n @ ''m'') = Some (int (n * 60000000000))"
    using assms(5) by (intro ParseDuration_units un uc) simp_all
  have pos: "run_MaxAutoReruns step \<noteq> []" "run_AutoRerunDelay step \<noteq> []"
    using assms(1,3) ne by simp_all
  from assms(4) show ?thesis
  proof
    assume u: "u = CHR ''s''"
    show ?thesis
      unfolding rerun_diagnostics_none using pos assms(1,3)
      by (simp add: u atoi sec delay_format_seconds)
  next
    assume u: "u = CHR ''m''"
    show ?thesis
      unfolding rerun_diagnostics_none using pos assms(1,3)
      by (simp add: u atoi min delay_format_minutes)
  qed
qed

theorem rerun_diagnostics_bounds_witness:
  "rerun_diagnostics sample_run = [] \<longleftrightarrow>
    \<not> run_Background sample_run \<and> 1 \<le> (3 :: nat) \<and> (3 :: nat) \<le> 5 \<and> 1 \<le> (90 :: nat) \<and>
    (90 :: nat) \<le> (if CHR ''s'' = CHR ''m'' then 10 else 600)"
  by (rule rerun_diagnostics_bounds) (simp_all add: sample_run_def)

text \<open>
  A \<open>when\<close> field that is a reference to a parameter without a default is always reported as
  an invalid condition, although a value can only come from the caller.
\<close>

lemma when_required_parameter:
  assumes "CheckIfOnlyParamUsed (run_When step)"
    and "GetParamNameUsedAtPos (yd_Content (val_Doc v)) (End (run_WhenRange step)) = (nm, False)"
    and "gm_get ps nm = Some p" and "\<not> param_IsOptional p"
  shows "when_diagnostics v step ps = [CreateErrorDiagnosticFromRange (run_WhenRange step)
    (''Invalid when condition: expected `'' @ join_with ''`, `'' WHEN_KEYWORDS @ ''`; got `'' @ [] @ ''`'')]"
proof -
  have "run_When step \<noteq> []"
    using assms(1) param_reference_length [of "[]"] by (auto simp: CheckIfOnlyParamUsed_iff)
  then show ?thesis
    using assms by (simp add: when_diagnostics_def WHEN_KEYWORDS_def)
qed

text \<open>
  A checkout step is accepted exactly when it gives no method, or the shallow method with a
  positive depth, or another known method without a depth.
\<close>

lemma checkout_diagnostics_none:
  "checkout_diagnostics step = [] \<longleftrightarrow>
    co_Method step = [] \<or>
    co_Method step = ''shallow'' \<and> (\<exists>d > 0. go_Atoi (co_Depth step) = Some d) \<or>
    co_Method step \<in> {''blobless'', ''full''} \<and> co_Depth step = []"
  by (auto simp: checkout_diagnostics_def Let_def CheckoutMethods_def split: option.splits)


theorem when_required_parameter_witness:
  "when_diagnostics (sample_val\<lparr>val_Doc := sample_doc\<lparr>yd_Content := ''<< parameters.n >>''\<rparr>\<rparr>)
     (sample_run\<lparr>run_When := ''<< parameters.n >>'', run_WhenRange := mk_range zero_pos (mk_pos 0 19)\<rparr>)
     [(''n'', sample_required)] =
   [CreateErrorDiagnosticFromRange (mk_range zero_pos (mk_pos 0 19))
    (''Invalid when condition: expected `'' @ join_with ''`, `'' WHEN_KEYWORDS @ ''`; got `'' @ [] @ ''`'')]"
proof -
  let ?step = "sample_run\<lparr>run_When := ''<< parameters.n >>'', run_WhenRange := mk_range zero_pos (mk_pos 0 19)\<rparr>"
  have "CheckIfOnlyParamUsed ''<< parameters.n >>''" by code_simp
  moreover have "GetParamNameUsedAtPos ''<< parameters.n >>'' (mk_pos 0 19) = (''n'', False)" by code_simp
  ultimately show ?thesis
    using when_required_parameter [of ?step "sample_val\<lparr>val_Doc := sample_doc\<lparr>yd_Content := ''<< parameters.n >>''\<rparr>\<rparr>"
        "''n''" "[(''n'', sample_required)]" sample_required]
    by (simp add: sample_required_def param_IsOptional_def)
qed

end
