(* ===== verification/ValInvocation.thy ===== *)
theory ValInvocation
  imports ValSteps Cycles
begin

text \<open>
  The validators of workflows, job groups and their invocations:
  \<open>pkg/parser/validate/job_invocation.go\<close>, \<open>workflow.go\<close> and \<open>job_group.go\<close>.
\<close>

subsection \<open>Terminal statuses\<close>

definition TerminalJobStatuses :: "string list" where
  "TerminalJobStatuses = [''success'', ''failed'', ''canceled'', ''not_run'', ''unauthorized'']"

text \<open>\<open>None\<close> when the loop over the statuses returns false.\<close>

fun mark_statuses :: "string list \<Rightarrow> (string, bool) gomap \<Rightarrow> (string, bool) gomap option" where
  "mark_statuses [] terminalSet = Some terminalSet"
| "mark_statuses (s # ss) terminalSet =
     (if gm_has terminalSet s then mark_statuses ss (gm_put s True terminalSet) else None)"

definition requireHasAllTerminalStatuses :: "string list \<Rightarrow> bool" where
  "requireHasAllTerminalStatuses statuses =
     (if length statuses \<noteq> length TerminalJobStatuses then False
      else
        (let terminalSet = fold (\<lambda>status m. gm_put status False m) TerminalJobStatuses []
         in case mark_statuses statuses terminalSet of
              None \<Rightarrow> False
            | Some m \<Rightarrow> list_all snd m))"

subsection \<open>Invocations of jobs\<close>

datatype invocation_kind = InWorkflow | InJobGroup

record invocation_context =
  ic_Kind :: invocation_kind
  ic_JobGroupName :: string

definition doesJobInvocationExist :: "job_invocation list \<Rightarrow> string \<Rightarrow> bool" where
  "doesJobInvocationExist jobInvocations requireName =
     list_ex (\<lambda>ji. ji_JobName ji = requireName \<or> ji_StepName ji = requireName) jobInvocations"

definition validate_matrix_param :: "val \<Rightarrow> string \<Rightarrow> parameter \<Rightarrow> param_value \<Rightarrow> unit action" where
  "validate_matrix_param v jobName definedParam param =
     (if pv_Type param = ''enum''
      then vbind (vlift (value_array param)) (\<lambda>values.
             viter (\<lambda>value. checkParamSimpleType v value jobName definedParam) values)
      else vwhen (pv_Type param \<noteq> ''alias'')
             (addDiagnostic (CreateErrorDiagnosticFromRange (pv_Range param)
                (''Parameter '' @ pv_Name param @ '' is not an enum of values''))))"

definition validate_invocation_param :: "val \<Rightarrow> job_invocation \<Rightarrow> parameter \<Rightarrow> unit action" where
  "validate_invocation_param v ji definedParam =
     (case (gm_get (ji_MatrixParams ji) (param_GetName definedParam),
            gm_get (ji_Parameters ji) (param_GetName definedParam)) of
        (Some matrix, _) \<Rightarrow> viter (validate_matrix_param v (ji_JobName ji) definedParam) matrix
      | (None, Some param) \<Rightarrow> checkParamSimpleType v param (ji_JobName ji) definedParam
      | (None, None) \<Rightarrow>
          vwhen (\<not> param_IsOptional definedParam)
            (addDiagnostic (CreateErrorDiagnosticFromRange (ji_JobInvocationRange ji)
               (''Parameter '' @ param_GetName definedParam @ '' is required for '' @ ji_JobName ji))))"

definition validateJobInvocationParameters :: "val \<Rightarrow> job_invocation \<Rightarrow> unit action" where
  "validateJobInvocationParameters v ji =
     vbind (GetDefinedParams (val_Env v) (val_Doc v) (ji_JobName ji)) (\<lambda>definedParams.
       vseq
         [viter (\<lambda>(_, definedParam). validate_invocation_param v ji definedParam) definedParams,
          viter (\<lambda>(_, param).
            vwhen (\<not> gm_has definedParams (pv_Name param))
              (addDiagnostic (CreateErrorDiagnosticFromRange (pv_Range param)
                 (''Parameter '' @ pv_Name param @ '' is not defined in '' @ ji_JobName ji))))
            (ji_Parameters ji)])"

definition check_contexts :: "val \<Rightarrow> job_invocation \<Rightarrow> unit action" where
  "check_contexts v ji =
     vbind (vget id) (\<lambda>c.
       case FileCache_GetFile (ca_FileCache c) (yd_URI (val_Doc v)) of
         None \<Rightarrow> vskip
       | Some cachedFile \<Rightarrow>
           (let project = cf_Project cachedFile; contexts = ca_ContextCache c
            in vwhen (api_Token (ls_Api (val_Context v)) \<noteq> [] \<and>
                      prj_OrganizationName project \<noteq> [] \<and>
                      IsOrganizationContextListLoaded contexts (prj_OrganizationId project))
                 (viter (\<lambda>ctx.
                    vwhen (tr_Text ctx \<noteq> ''org-global'' \<and>
                           ResolveWorkflowContext contexts (prj_OrganizationId project)
                             (prj_OrganizationSlug project) (tr_Text ctx) = None)
                      (addDiagnostic (CreateErrorDiagnosticFromRange (tr_Range ctx)
                         (''Context '' @ tr_Text ctx @ '' does not exist''))))
                    (ji_Context ji))))"

text \<open>Whether the job of an invocation is declared: in the document or in an orb.\<close>

definition invoked_job_exists :: "val \<Rightarrow> job_invocation \<Rightarrow> bool action" where
  "invoked_job_exists v ji =
     (let doc = val_Doc v; nm = ji_JobName ji
      in if ji_Type ji = ''approval'' \<or> DoesJobExist doc nm then vret True
         else if \<not> IsOrbReference doc nm then vret False
         else vbind (IsOrbCommand (val_Env v) doc nm) (\<lambda>isOrbCommand.
                if isOrbCommand then vret True else IsOrbJob (val_Env v) doc nm))"

definition validateSingleJobInvocation ::
    "val \<Rightarrow> job_invocation \<Rightarrow> invocation_context \<Rightarrow> unit action" where
  "validateSingleJobInvocation v ji ctx =
     vseq
       [vwhen (ic_Kind ctx = InJobGroup \<and> ji_SerialGroup ji \<noteq> [])
          (addDiagnostic (CreateErrorDiagnosticFromRange (ji_SerialGroupRange ji)
             ''Use of `serial-group` on job invocations inside a job-group is not supported. Please consider using `serial-group` on the job-group instead.'')),
        if ji_Type ji \<noteq> [] \<and> ji_Type ji \<noteq> ''approval''
        then addDiagnostic (CreateErrorDiagnosticFromRange (ji_TypeRange ji)
               (''Only jobs with `type: approval` can be defined inline under the `workflows:`/`job-groups:` section. For `type: '' @
                ji_Type ji @ ''`, define the job in the `jobs:` section instead.''))
        else if IsFromUnfetchableOrb (val_Doc v) (ji_JobName ji) then vskip
        else vbind (invoked_job_exists v ji) (\<lambda>exists.
          if \<not> exists
          then addDiagnostic (CreateErrorDiagnosticFromRange (ji_JobInvocationRange ji)
                 (''Cannot find declaration for job '' @ quoted (ji_JobName ji)))
          else vseq
            [vwhen (\<not> IsOrbReference (val_Doc v) (ji_JobName ji) \<and> \<not> IsBuiltIn (ji_JobName ji))
               (validateJobInvocationParameters v ji),
             check_contexts v ji])]"

subsection \<open>Invocations of job groups\<close>

definition validateJobGroupInvocation ::
    "val \<Rightarrow> job_invocation \<Rightarrow> invocation_context \<Rightarrow> unit action" where
  "validateJobGroupInvocation v ji ctx =
     (let err = (\<lambda>rng msg. CreateErrorDiagnosticFromRange rng msg);
          paramNames = sort (map (\<lambda>(nm, _). ''`'' @ nm @ ''`'') (ji_Parameters ji))
      in vemit
        (if ic_Kind ctx = InJobGroup
         then [err (ji_JobNameRange ji)
                 (''Job group '' @ quoted (ic_JobGroupName ctx) @ '' cannot reference job group '' @
                  quoted (ji_JobName ji) @ '' -- nesting is not supported'')]
         else
           (if ji_HasMatrix ji
            then [err (ji_MatrixRange ji) ''Job group invocations do not support `matrix`''] else []) @
           (if ji_OverrideWith ji \<noteq> []
            then [err (ji_OverrideWithRange ji) ''Job group invocations do not support use of `override-with`''] else []) @
           (if ji_Type ji \<noteq> []
            then [err (ji_TypeRange ji) ''Job group invocations do not support use of `type`''] else []) @
           (if ji_Parameters ji \<noteq> []
            then [err (ji_JobInvocationRange ji)
                    (''Job group invocations do not support custom parameters, but found: '' @
                     join_with '', '' paramNames)] else []) @
           (if ji_Context ji \<noteq> []
            then [err (ji_JobInvocationRange ji) ''Job group invocations do not support use of `context`''] else []) @
           (if ji_PreSteps ji \<noteq> []
            then [err (ji_PreStepsRange ji) ''Job group invocations do not support use of `pre-steps`''] else []) @
           (if ji_PostSteps ji \<noteq> []
            then [err (ji_PostStepsRange ji) ''Job group invocations do not support use of `post-steps`''] else [])))"

definition hasBeenRenamed :: "job_invocation \<Rightarrow> bool" where
  "hasBeenRenamed ji = (ji_StepName ji \<noteq> ji_JobName ji)"

text \<open>The invocations of each group, in the order of the invocations.\<close>

definition seen_groups :: "yaml_document \<Rightarrow> job_invocation list \<Rightarrow> (string, job_invocation list) gomap" where
  "seen_groups doc jobInvocations =
     fold (\<lambda>ji seen. if DoesJobGroupExist doc (ji_JobName ji)
                     then gm_put (ji_JobName ji) (gm_get_or [] seen (ji_JobName ji) @ [ji]) seen
                     else seen)
       jobInvocations []"

fun duplicate_entries :: "string \<Rightarrow> string list \<Rightarrow> job_invocation list \<Rightarrow> diagnostic list" where
  "duplicate_entries groupName namesSeen [] = []"
| "duplicate_entries groupName namesSeen (ji # entries) =
     (if \<not> hasBeenRenamed ji
      then CreateErrorDiagnosticFromRange (ji_JobNameRange ji)
             (''Job group '' @ quoted groupName @ '' is invoked multiple times without a '' @
              quoted ''name'' @ '' attribute. Each invocation must have a unique name'') #
           duplicate_entries groupName namesSeen entries
      else if ji_StepName ji \<in> set namesSeen
      then CreateErrorDiagnosticFromRange (ji_StepNameRange ji)
             (''Job group '' @ quoted groupName @ '' is already invoked with the name '' @
              quoted (ji_StepName ji)) #
           duplicate_entries groupName namesSeen entries
      else duplicate_entries groupName (ji_StepName ji # namesSeen) entries)"

definition duplicate_diagnostics :: "yaml_document \<Rightarrow> job_invocation list \<Rightarrow> diagnostic list" where
  "duplicate_diagnostics doc jobInvocations =
     concat (map (\<lambda>(groupName, entries).
               if length entries < 2 then [] else duplicate_entries groupName [] entries)
           (seen_groups doc jobInvocations))"

definition validateDuplicateJobGroupInvocations :: "val \<Rightarrow> job_invocation list \<Rightarrow> unit action" where
  "validateDuplicateJobGroupInvocations v jobInvocations =
     vemit (duplicate_diagnostics (val_Doc v) jobInvocations)"

subsection \<open>All invocations of a workflow or job group\<close>

text \<open>The outcome of the check of a requirement's name: a diagnostic, and whether to go on.\<close>

definition check_require_name ::
    "val \<Rightarrow> job_invocation list \<Rightarrow> invocation_context \<Rightarrow> require \<Rightarrow> diagnostic list \<times> bool" where
  "check_require_name v jobInvocations ctx rq =
     (let err = (\<lambda>msg. CreateErrorDiagnosticFromRange (rq_Range rq) msg);
          missing = ([err (''Cannot find declaration for job invocation '' @ quoted (rq_Name rq))], True)
      in if \<not> doesJobInvocationExist jobInvocations (rq_Name rq) \<and>
            \<not> CheckIfMatrixParamIsPartiallyReferenced (rq_Name rq)
         then
           (case FindJobGroupContainingJob (val_Doc v) (rq_Name rq) of
              None \<Rightarrow> missing
            | Some ownerGroup \<Rightarrow>
                if ic_Kind ctx = InWorkflow
                then ([err (quoted (rq_Name rq) @ '' is defined inside job group '' @ quoted ownerGroup @
                            '', not directly in this workflow'')], False)
                else if ownerGroup \<noteq> ic_JobGroupName ctx
                then ([err (quoted (rq_Name rq) @ '' is not a member of this job group'')], False)
                else missing)
         else ([], True))"

definition terminal_hint :: "val \<Rightarrow> require \<Rightarrow> diagnostic list" where
  "terminal_hint v rq =
     (if requireHasAllTerminalStatuses (rq_Status rq)
      then
        (let r = rq_StatusRange rq;
             newText = (if Line (Start r) \<noteq> Line (End r) then '' terminal'' else ''terminal'');
             codeAction = CreateCodeActionTextEdit
               (''Simplify these statuses to '' @ single_quoted ''terminal'')
               (yd_URI (val_Doc v)) [mk_edit newText r] True
         in [(mk_diag r (''Statuses: '' @ single_quoted (''['' @ join_with '' '' (rq_Status rq) @ '']'') @
                '' can be simplified to just '' @ single_quoted ''terminal'')
                SeverityHint [])\<lparr>diag_Data := Some [codeAction]\<rparr>])
      else [])"

definition check_require ::
    "val \<Rightarrow> job_invocation list \<Rightarrow> invocation_context \<Rightarrow> require \<Rightarrow> diagnostic list" where
  "check_require v jobInvocations ctx rq =
     (let (ds, goOn) = check_require_name v jobInvocations ctx rq
      in ds @ (if goOn then terminal_hint v rq else []))"

definition validate_invocation ::
    "val \<Rightarrow> job_invocation list \<Rightarrow> invocation_context \<Rightarrow> job_invocation \<Rightarrow> unit action" where
  "validate_invocation v jobInvocations ctx ji =
     vseq
       [if DoesJobGroupExist (val_Doc v) (ji_JobName ji)
        then validateJobGroupInvocation v ji ctx
        else validateSingleJobInvocation v ji ctx,
        vemit (concat (map (check_require v jobInvocations ctx) (ji_Requires ji)))]"

definition validateInvocations :: "val \<Rightarrow> job_invocation list \<Rightarrow> invocation_context \<Rightarrow> unit action" where
  "validateInvocations v jobInvocations ctx =
     vseq
       [validateDuplicateJobGroupInvocations v jobInvocations,
        viter (validate_invocation v jobInvocations ctx) jobInvocations]"

definition dag_diagnostics :: "job_invocation list \<Rightarrow> dag \<Rightarrow> diagnostic list" where
  "dag_diagnostics invocations d =
     concat (map (\<lambda>node.
        map (\<lambda>ji. CreateErrorDiagnosticFromRange (ji_JobNameRange ji)
                (''The job `'' @ node @ ''` is part of a cycle''))
          (filter (\<lambda>ji. ji_JobName ji = node) invocations))
       (isValidDAG d))"

definition validateDAG :: "job_invocation list \<Rightarrow> dag \<Rightarrow> unit action" where
  "validateDAG invocations d = vemit (dag_diagnostics invocations d)"

subsection \<open>workflow.go and job_group.go\<close>

definition validateSingleWorkflow :: "val \<Rightarrow> workflow \<Rightarrow> unit action" where
  "validateSingleWorkflow v w =
     vseq
       [vwhen (wfl_HasMaxAutoReruns w)
          (if wfl_MaxAutoReruns w < 1
           then addDiagnostic (CreateErrorDiagnosticFromRange (wfl_MaxAutoRerunsRange w)
                  ''Must be greater than or equal to 1'')
           else if 5 < wfl_MaxAutoReruns w
           then addDiagnostic (CreateErrorDiagnosticFromRange (wfl_MaxAutoRerunsRange w)
                  ''Must be less than or equal to 5'')
           else vskip),
        validateInvocations v (wfl_JobInvocations w) \<lparr>ic_Kind = InWorkflow, ic_JobGroupName = []\<rparr>,
        validateDAG (wfl_JobInvocations w) (wfl_JobsDAG w)]"

definition ValidateWorkflows :: "val \<Rightarrow> unit action" where
  "ValidateWorkflows v = viter (\<lambda>(_, w). validateSingleWorkflow v w) (yd_Workflows (val_Doc v))"

definition isJobGroupUsedInWorkflows :: "val \<Rightarrow> string \<Rightarrow> bool" where
  "isJobGroupUsedInWorkflows v groupName =
     list_ex (\<lambda>(_, w). list_ex (\<lambda>ji. ji_JobName ji = groupName) (wfl_JobInvocations w))
       (yd_Workflows (val_Doc v))"

definition validateSingleJobGroup :: "val \<Rightarrow> job_group \<Rightarrow> unit action" where
  "validateSingleJobGroup v jobGroup =
     vseq
       [validateInvocations v (jg_JobInvocations jobGroup)
          \<lparr>ic_Kind = InJobGroup, ic_JobGroupName = jg_Name jobGroup\<rparr>,
        validateDAG (jg_JobInvocations jobGroup) (jg_JobsDAG jobGroup),
        vwhen (\<not> isJobGroupUsedInWorkflows v (jg_Name jobGroup))
          (addDiagnostic (CreateWarningDiagnosticFromRange (jg_NameRange jobGroup) ''Job group is unused''))]"

definition ValidateJobGroups :: "val \<Rightarrow> unit action" where
  "ValidateJobGroups v = viter (\<lambda>(_, g). validateSingleJobGroup v g) (yd_JobGroups (val_Doc v))"

subsection \<open>The actions only append\<close>

lemma framed_validate_matrix_param [framed_intros]: "framed (validate_matrix_param v n d p)"
  unfolding validate_matrix_param_def by (intro framed_intros)

lemma framed_validate_invocation_param [framed_intros]: "framed (validate_invocation_param v ji d)"
  unfolding validate_invocation_param_def by (intro framed_intros)

lemma framed_validateJobInvocationParameters [framed_intros]: "framed (validateJobInvocationParameters v ji)"
  unfolding validateJobInvocationParameters_def by (intro framed_intros)

lemma framed_check_contexts [framed_intros]: "framed (check_contexts v ji)"
  unfolding check_contexts_def by (intro framed_intros)

lemma framed_invoked_job_exists [framed_intros]: "framed (invoked_job_exists v ji)"
  unfolding invoked_job_exists_def by (intro framed_intros)

lemma framed_validateSingleJobInvocation [framed_intros]: "framed (validateSingleJobInvocation v ji ctx)"
  unfolding validateSingleJobInvocation_def by (intro framed_intros)

lemma framed_validateInvocations [framed_intros]: "framed (validateInvocations v jis ctx)"
  unfolding validateInvocations_def validate_invocation_def validateDuplicateJobGroupInvocations_def
    validateJobGroupInvocation_def
  by (intro framed_intros)

lemma framed_ValidateWorkflows [framed_intros]: "framed (ValidateWorkflows v)"
  unfolding ValidateWorkflows_def validateSingleWorkflow_def validateDAG_def by (intro framed_intros)

lemma framed_ValidateJobGroups [framed_intros]: "framed (ValidateJobGroups v)"
  unfolding ValidateJobGroups_def validateSingleJobGroup_def validateDAG_def by (intro framed_intros)

interpretation workflows: validator "ValidateWorkflows v" for v
  by unfold_locales (rule framed_ValidateWorkflows)

interpretation job_groups: validator "ValidateJobGroups v" for v
  by unfold_locales (rule framed_ValidateJobGroups)

subsection \<open>The invocations never abort on values with right tags\<close>

definition invocation_tagged :: "job_invocation \<Rightarrow> bool" where
  "invocation_tagged ji \<longleftrightarrow>
     (\<forall>(_, p)\<in>set (ji_Parameters ji). well_tagged 1 p) \<and>
     (\<forall>(_, ps)\<in>set (ji_MatrixParams ji). \<forall>p\<in>set ps. well_tagged 2 p)"

lemma total_validate_matrix_param:
  assumes "well_tagged 2 p"
  shows "total (validate_matrix_param v n d p)"
proof -
  have two: "well_tagged (Suc (Suc 0)) p" using assms by (simp add: numeral_2_eq_2)
  show ?thesis
  proof (cases "value_array p")
    case None
    then have "pv_Type p \<noteq> ''enum''" using well_tagged_agrees [OF two] by (auto simp: tag_agrees_def)
    then show ?thesis by (simp add: validate_matrix_param_def total_intros)
  next
    case (Some vs)
    then show ?thesis
      unfolding validate_matrix_param_def Some vlift_Some run_vbind_ret
      by (intro total_intros total_checkParamSimpleType [of 0] well_tagged_array [OF two Some])
  qed
qed

lemma total_validate_invocation_param:
  assumes "invocation_tagged ji"
  shows "total (validate_invocation_param v ji d)"
proof -
  have m: "well_tagged 2 p" if "gm_get (ji_MatrixParams ji) k = Some ps" "p \<in> set ps" for k ps p
    using assms map_of_SomeD [OF that(1)] that(2) by (auto simp: invocation_tagged_def)
  have q: "well_tagged (Suc 0) p" if "gm_get (ji_Parameters ji) k = Some p" for k p
    using assms map_of_SomeD [OF that] by (auto simp: invocation_tagged_def)
  show ?thesis
    unfolding validate_invocation_param_def
    by (auto split: option.split intro!: total_intros total_validate_matrix_param
        total_checkParamSimpleType m q)
qed

lemma total_validateSingleJobInvocation:
  assumes "invocation_tagged ji"
  shows "total (validateSingleJobInvocation v ji ctx)"
  unfolding validateSingleJobInvocation_def invoked_job_exists_def validateJobInvocationParameters_def
    check_contexts_def
  by (intro total_intros total_validate_invocation_param assms)

lemma total_validateInvocations:
  assumes "list_all invocation_tagged jis"
  shows "total (validateInvocations v jis ctx)"
  unfolding validateInvocations_def validate_invocation_def validateDuplicateJobGroupInvocations_def
    validateJobGroupInvocation_def
  by (intro total_intros total_validateSingleJobInvocation) (metis assms list_all_iff)

subsection \<open>What the checks decide\<close>

lemma mark_statuses_props:
  "mark_statuses ss m = Some m' \<Longrightarrow>
    (\<forall>s\<in>set ss. gm_has m s) \<and> gm_keys m' = gm_keys m \<and>
    (\<forall>k. gm_get_or False m' k \<longleftrightarrow> gm_get_or False m k \<or> k \<in> set ss)"
  "(\<forall>s\<in>set ss. gm_has m s) \<Longrightarrow> mark_statuses ss m \<noteq> None"
proof (induction ss arbitrary: m)
  case (Cons s ss)
  { case 1
    have keys: "gm_keys (gm_put s True m) = gm_keys m" if "gm_has m s"
      using that by (simp add: gm_has_iff gm_keys_def update_keys)
    from 1 Cons.IH(1) [of "gm_put s True m"] keys show ?case by (auto split: if_splits) }
  { case 2 then show ?case using Cons.IH(2) [of "gm_put s True m"] by auto }
qed simp_all

lemma length_eq_card_mset:
  assumes "set xs \<subseteq> set ys" and "set ys \<subseteq> set xs" and "length xs = length ys" and "distinct ys"
  shows "mset xs = mset ys"
proof -
  have "set xs = set ys" using assms by blast
  moreover have "distinct xs"
    using assms by (metis calculation card_distinct distinct_card)
  ultimately show ?thesis using assms(4) by (simp add: set_eq_iff_mset_eq_distinct)
qed

lemma requireHasAllTerminalStatuses_mset:
  "requireHasAllTerminalStatuses ss \<longleftrightarrow> mset ss = mset TerminalJobStatuses"
proof -
  let ?m = "fold (\<lambda>status m. gm_put status False m) TerminalJobStatuses []"
  have m: "?m = map (\<lambda>s. (s, False)) TerminalJobStatuses"
    by (simp add: TerminalJobStatuses_def)
  have has: "gm_has ?m s \<longleftrightarrow> s \<in> set TerminalJobStatuses" for s
    unfolding m by (simp add: gm_has_iff gm_keys_def comp_def)
  have dist: "distinct TerminalJobStatuses" by (simp add: TerminalJobStatuses_def)
  show ?thesis
  proof (cases "length ss = length TerminalJobStatuses \<and> set ss \<subseteq> set TerminalJobStatuses")
    case True
    then obtain m' where m': "mark_statuses ss ?m = Some m'"
      using mark_statuses_props(2) [of ss ?m] has by auto
    note P = mark_statuses_props(1) [OF m']
    have keys: "map fst m' = TerminalJobStatuses"
      using P unfolding m by (simp add: gm_keys_def comp_def)
    have "\<not> gm_get_or False ?m k" for k
      unfolding m by (auto simp: gm_get_or_def split: option.split dest: map_of_SomeD)
    then have get: "gm_get_or False m' k \<longleftrightarrow> k \<in> set ss" for k
      using P by blast
    have "list_all snd m' \<longleftrightarrow> (\<forall>k\<in>set TerminalJobStatuses. gm_get_or False m' k)"
    proof -
      have "distinct (map fst m')" using keys dist by simp
      then have "(\<forall>(k, b)\<in>set m'. b) \<longleftrightarrow> (\<forall>k\<in>set (map fst m'). gm_get_or False m' k)"
        by (force simp: gm_get_or_def)
      then show ?thesis using keys by (auto simp: list_all_iff)
    qed
    also have "\<dots> \<longleftrightarrow> set TerminalJobStatuses \<subseteq> set ss" using get by blast
    also have "\<dots> \<longleftrightarrow> mset ss = mset TerminalJobStatuses"
      using True dist length_eq_card_mset [of ss TerminalJobStatuses] by (metis mset_eq_setD order_refl)
    finally show ?thesis using True m' by (simp add: requireHasAllTerminalStatuses_def Let_def)
  next
    case False
    have "mark_statuses ss ?m = None" if "\<not> set ss \<subseteq> set TerminalJobStatuses"
      using mark_statuses_props(1) [of ss ?m] that has by (cases "mark_statuses ss ?m") auto
    with False show ?thesis
      by (auto simp: requireHasAllTerminalStatuses_def Let_def dest: mset_eq_length mset_eq_setD)
  qed
qed

lemma duplicate_entries_none:
  "duplicate_entries g names es = [] \<longleftrightarrow>
    list_all hasBeenRenamed es \<and> set (map ji_StepName es) \<inter> set names = {} \<and> distinct (map ji_StepName es)"
  by (induction g names es rule: duplicate_entries.induct) auto

lemma seen_groups_props:
  "gm_wf (seen_groups doc jis) \<and>
   (\<forall>g. gm_get_or [] (seen_groups doc jis) g =
     (if DoesJobGroupExist doc g then filter (\<lambda>ji. ji_JobName ji = g) jis else []))"
proof -
  let ?f = "\<lambda>ji seen. if DoesJobGroupExist doc (ji_JobName ji)
      then gm_put (ji_JobName ji) (gm_get_or [] seen (ji_JobName ji) @ [ji]) seen else seen"
  have "gm_wf m \<Longrightarrow> gm_wf (fold ?f jis m) \<and>
      (\<forall>g. gm_get_or [] (fold ?f jis m) g =
        gm_get_or [] m g @ (if DoesJobGroupExist doc g then filter (\<lambda>ji. ji_JobName ji = g) jis else []))" for m
    by (induction jis arbitrary: m) auto
  from this [of "[]"] show ?thesis by (simp add: seen_groups_def gm_get_or_def)
qed

lemma duplicate_diagnostics_none:
  "duplicate_diagnostics doc jis = [] \<longleftrightarrow>
    (\<forall>g. \<not> DoesJobGroupExist doc g \<or>
      (let es = filter (\<lambda>ji. ji_JobName ji = g) jis
       in length es < 2 \<or> list_all hasBeenRenamed es \<and> distinct (map ji_StepName es)))"
proof -
  let ?m = "seen_groups doc jis"
  let ?ok = "\<lambda>es. length es < 2 \<or> list_all hasBeenRenamed es \<and> distinct (map ji_StepName es)"
  have wf: "gm_wf ?m" and get: "gm_get_or [] ?m g =
      (if DoesJobGroupExist doc g then filter (\<lambda>ji. ji_JobName ji = g) jis else [])" for g
    using seen_groups_props by auto
  have "duplicate_diagnostics doc jis = [] \<longleftrightarrow> (\<forall>(g, es)\<in>set ?m. ?ok es)"
    by (auto simp: duplicate_diagnostics_def duplicate_entries_none)
  also have "\<dots> \<longleftrightarrow> (\<forall>g. ?ok (gm_get_or [] ?m g))"
  proof
    assume a: "\<forall>(g, es)\<in>set ?m. ?ok es"
    show "\<forall>g. ?ok (gm_get_or [] ?m g)"
      using a by (auto simp: gm_get_or_def split: option.split dest!: map_of_SomeD)
  next
    assume a: "\<forall>g. ?ok (gm_get_or [] ?m g)"
    show "\<forall>(g, es)\<in>set ?m. ?ok es"
    proof (clarify)
      fix g es assume mem: "(g, es) \<in> set ?m" and "\<not> (list_all hasBeenRenamed es \<and> distinct (map ji_StepName es))"
      moreover have "gm_get ?m g = Some es" using mem gm_wf_get_iff [OF wf] by simp
      ultimately show "length es < 2" using a [rule_format, of g] by (auto simp: gm_get_or_def)
    qed
  qed
  also have "\<dots> \<longleftrightarrow> (\<forall>g. \<not> DoesJobGroupExist doc g \<or> ?ok (filter (\<lambda>ji. ji_JobName ji = g) jis))"
    unfolding get by simp
  finally show ?thesis by (simp add: Let_def)
qed

lemma dag_diagnostics_set:
  "set (dag_diagnostics jis (buildJobsDAG jis)) =
    {CreateErrorDiagnosticFromRange (ji_JobNameRange ji) (''The job `'' @ ji_JobName ji @ ''` is part of a cycle'')
      | ji. ji \<in> set jis \<and> ji_JobName ji \<in> cyclic_part (requirement_edges jis)}"
  using isValidDAG_set(1) [OF buildJobsDAG_wf, of jis]
  by (auto simp: dag_diagnostics_def buildJobsDAG_edges)

text \<open>An invocation, for the witnesses.\<close>

definition sample_invocation :: job_invocation where
  "sample_invocation =
     \<lparr>ji_JobInvocationRange = zero_range, ji_JobName = ''build'', ji_JobNameRange = zero_range,
      ji_StepName = ''build'', ji_StepNameRange = zero_range, ji_Requires = [], ji_Context = [],
      ji_Type = [], ji_TypeRange = zero_range,
      ji_Parameters = [(''p'', ParameterValue ''p'' (PVString ''x'') zero_range zero_range ''string'')],
      ji_SerialGroup = [], ji_SerialGroupRange = zero_range, ji_OverrideWith = [],
      ji_OverrideWithRange = zero_range, ji_PreSteps = [], ji_PreStepsRange = zero_range,
      ji_PostSteps = [], ji_PostStepsRange = zero_range, ji_HasMatrix = False,
      ji_MatrixRange = zero_range, ji_MatrixParams = []\<rparr>"

subsection \<open>Properties\<close>

text \<open>
  Statuses can be simplified to \<open>terminal\<close> exactly when they are a permutation of the five
  terminal statuses.
\<close>

lemma requireHasAllTerminalStatuses_iff:
  "requireHasAllTerminalStatuses ss \<longleftrightarrow> mset ss = mset TerminalJobStatuses"
  by (rule requireHasAllTerminalStatuses_mset)

text \<open>
  No duplicate is reported exactly when every job group is invoked at most once, or only by
  renamed invocations with different names.
\<close>

lemma duplicate_diagnostics_iff:
  "duplicate_diagnostics doc jis = [] \<longleftrightarrow>
    (\<nexists>g. DoesJobGroupExist doc g \<and>
      (let es = filter (\<lambda>ji. ji_JobName ji = g) jis
       in 2 \<le> length es \<and> \<not> (list_all hasBeenRenamed es \<and> distinct (map ji_StepName es))))"
  by (auto simp: duplicate_diagnostics_none Let_def not_less)


end
