(* ===== verification/ValJobs.thy ===== *)
theory ValJobs
  imports ValInvocation
begin

text \<open>
  The validators of jobs and commands, names, anchors and retention:
  \<open>pkg/parser/validate/jobs.go\<close>, \<open>commands.go\<close>, \<open>names.go\<close>, \<open>anchors.go\<close>, \<open>retention.go\<close>.
\<close>

subsection \<open>jobs.go: use of a job\<close>

text \<open>
  The loop over the groups that contain a job: \<open>None\<close> when it returns because one of them is used,
  otherwise the names of the unused ones.
\<close>

fun collect_groups ::
    "val \<Rightarrow> string \<Rightarrow> (string, job_group) gomap \<Rightarrow> string list \<Rightarrow> string list option" where
  "collect_groups v jobName [] unusedGroups = Some unusedGroups"
| "collect_groups v jobName ((groupName, g) # groups) unusedGroups =
     (let invs = filter (\<lambda>ji. ji_JobName ji = jobName) (jg_JobInvocations g)
      in if invs \<noteq> [] \<and> isJobGroupUsedInWorkflows v groupName then None
         else collect_groups v jobName groups (unusedGroups @ map (\<lambda>_. groupName) invs))"

definition unused_job_diagnostics :: "val \<Rightarrow> string \<Rightarrow> range \<Rightarrow> diagnostic list" where
  "unused_job_diagnostics v jobName nameRange =
     (if list_ex (\<lambda>(_, j). checkIfStepsContainStep (job_steps j) jobName) (yd_Jobs (val_Doc v)) then []
      else if list_ex (\<lambda>(_, w). list_ex (\<lambda>ji. ji_JobName ji = jobName) (wfl_JobInvocations w))
                (yd_Workflows (val_Doc v)) then []
      else (case collect_groups v jobName (yd_JobGroups (val_Doc v)) [] of
              None \<Rightarrow> []
            | Some unusedGroups \<Rightarrow>
                (case sort unusedGroups of
                   groupName # _ \<Rightarrow>
                     [CreateWarningDiagnosticFromRange nameRange
                        (''Job '' @ quoted jobName @ '' is used in job group '' @ quoted groupName @
                         '', but that group is never invoked in a workflow'')]
                 | [] \<Rightarrow> [CreateWarningDiagnosticFromRange nameRange ''Job is unused''])))"

definition checkAndReportUnusedJob :: "val \<Rightarrow> job \<Rightarrow> unit action" where
  "checkAndReportUnusedJob v j = vemit (unused_job_diagnostics v (job_Name j) (job_NameRange j))"

definition validateJobType :: "job \<Rightarrow> unit action" where
  "validateJobType j =
     (if job_Type j = [] then vskip
      else if job_Type j \<notin> set JobTypes
      then addDiagnostic (CreateErrorDiagnosticFromRange (job_TypeRange j)
             (''Invalid job type '' @ single_quoted (job_Type j) @ ''. Allowed types: '' @
              join_with '', '' JobTypes))
      else vwhen (job_Type j = ''build'')
             (addDiagnostic (mk_diag (job_TypeRange j)
                ''If no `type:` key is specified, the job will default to `type: build`.''
                SeverityHint [])))"

subsection \<open>jobs.go: the executor of a job\<close>

definition check_executor_param :: "val \<Rightarrow> string \<Rightarrow> parameter \<Rightarrow> string \<Rightarrow> range \<Rightarrow> unit action" where
  "check_executor_param v paramName param executorDefault rng =
     vbind (doesOrbExecutorExist v executorDefault rng) (\<lambda>(isOrbExecutor, err).
       if \<not> param_IsOptional param
       then addDiagnostic (mk_diag rng
              (''No default value specified for parameter `'' @ paramName @ ''`.'') SeverityWarning [])
       else vwhen (UseDefaultInstance (ls_Api (val_Context v)) \<and>
                   \<not> DoesExecutorExist (val_Doc v) executorDefault \<and> \<not> isOrbExecutor \<and> err = None)
              (addDiagnostic (mk_diag rng
                 (''Parameter is used as executor but executor `'' @ executorDefault @
                  ''` does not exist.'') SeverityError [])))"

definition validate_job_executor :: "val \<Rightarrow> job \<Rightarrow> unit action" where
  "validate_job_executor v j =
     (if job_Executor j = [] then vskip
      else if CheckIfOnlyParamUsed (job_Executor j)
      then
        (let paramName = snd (ExtractParameterName (job_Executor j))
         in case gm_get (job_Parameters j) paramName of
              Some (ExecutorParameter base dflt) \<Rightarrow>
                check_executor_param v paramName (ExecutorParameter base dflt) dflt (job_ExecutorRange j)
            | _ \<Rightarrow> vskip)
      else
        (case gm_get (yd_Executors (val_Doc v)) (job_Executor j) of
           None \<Rightarrow> validateExecutorReference v (job_Executor j) (job_ExecutorRange j)
         | Some e \<Rightarrow>
             validateParametersValue v (job_ExecutorParameters j) (executor_GetName e)
               (job_ExecutorRange j) (executor_GetParameters e) (job_Parameters j)))"

subsection \<open>jobs.go: a job\<close>

definition parallelism_warning :: "job \<Rightarrow> diagnostic" where
  "parallelism_warning j =
     (mk_diag (job_ParallelismRange j)
        ''To benefit from parallelism, you should select a value greater than 1. You can read more about how to leverage parallelism to speed up pipelines in the CircleCI docs.''
        SeverityWarning ''More info'')
       \<lparr>diag_Href := Some ''https://circleci.com/docs/parallelism-faster-jobs/'', diag_Code := ''Docs''\<rparr>"

definition validateRetention :: "retention_settings \<Rightarrow> unit action" where
  "validateRetention r = vemit (ValidateCaches r)"

definition validateSingleJob :: "val \<Rightarrow> job \<Rightarrow> unit action" where
  "validateSingleJob v j =
     vseq
       [validateJobType j,
        validateSteps v (job_steps j) (job_Name j) (job_Parameters j),
        vwhen (job_Steps j \<noteq> None \<and> job_Type j \<noteq> [] \<and> job_Type j \<noteq> ''build'')
          (addDiagnostic (mk_diag (job_StepsRange j)
             ''Steps only exist in `build` jobs. Steps here will be ignored.'' SeverityWarning [])),
        vwhen (\<not> val_IsLocalOrb v) (checkAndReportUnusedJob v j),
        vwhen (\<not> HasStoreTestResultStep (job_steps j) \<and> str_contains (job_Name j) ''test'')
          (addDiagnostic (mk_diag (job_NameRange j)
             ''You may want to add the `store_test_results` step to visualize the test results in CircleCI''
             SeverityHint [])),
        validate_job_executor v j,
        vwhen (job_Parallelism j = 0 \<or> job_Parallelism j = 1) (addDiagnostic (parallelism_warning j)),
        vwhen (tr_Text (rs_Caches (job_Retention j)) \<noteq> []) (validateRetention (job_Retention j)),
        if de_Image (job_Docker j) \<noteq> [] then validateDockerExecutor v (job_Docker j)
        else if mac_Xcode (job_MacOS j) \<noteq> [] then validateMacOSExecutor v (job_MacOS j)
        else if me_Image (job_Machine j) \<noteq> [] then validateMachineExecutor v (job_Machine j)
        else vskip]"

definition ValidateJobs :: "val \<Rightarrow> unit action" where
  "ValidateJobs v = viter (\<lambda>(_, j). validateSingleJob v j) (yd_Jobs (val_Doc v))"

subsection \<open>commands.go\<close>

definition checkIfCommandIsUsed :: "val \<Rightarrow> string \<Rightarrow> bool" where
  "checkIfCommandIsUsed v commandName =
     (list_ex (\<lambda>(_, c). checkIfStepsContainStep (cmd_Steps c) commandName) (yd_Commands (val_Doc v)) \<or>
      list_ex (\<lambda>(_, j). checkIfStepsContainStep (job_steps j) commandName) (yd_Jobs (val_Doc v)) \<or>
      list_ex (\<lambda>(_, w). list_ex (\<lambda>ji. checkIfStepsContainStep (ji_PostSteps ji @ ji_PreSteps ji) commandName)
                          (wfl_JobInvocations w)) (yd_Workflows (val_Doc v)))"

definition commandIsUnused :: "command \<Rightarrow> unit action" where
  "commandIsUnused c = addDiagnostic (CreateWarningDiagnosticFromRange (cmd_NameRange c) ''Command is unused'')"

definition validateSingleCommand :: "val \<Rightarrow> command \<Rightarrow> unit action" where
  "validateSingleCommand v c =
     vseq
       [validateSteps v (cmd_Steps c) (cmd_Name c) (cmd_Parameters c),
        vwhen (\<not> val_IsLocalOrb v \<and> \<not> checkIfCommandIsUsed v (cmd_Name c)) (commandIsUnused c)]"

definition ValidateCommands :: "val \<Rightarrow> unit action" where
  "ValidateCommands v =
     (if yd_Commands (val_Doc v) = [] \<and> \<not> IsDefaultRange (yd_CommandsRange (val_Doc v))
      then addDiagnostic (CreateEmptyAssignationWarning (yd_CommandsRange (val_Doc v)))
      else viter (\<lambda>(_, c). validateSingleCommand v c) (yd_Commands (val_Doc v)))"

subsection \<open>names.go\<close>

record named_entity =
  ne_name :: string
  ne_nameRange :: range
  ne_kind :: string

definition named_entities :: "yaml_document \<Rightarrow> named_entity list" where
  "named_entities doc =
     map (\<lambda>(_, w). \<lparr>ne_name = wfl_Name w, ne_nameRange = wfl_NameRange w, ne_kind = ''workflow''\<rparr>) (yd_Workflows doc) @
     map (\<lambda>(_, j). \<lparr>ne_name = job_Name j, ne_nameRange = job_NameRange j, ne_kind = ''job''\<rparr>) (yd_Jobs doc) @
     map (\<lambda>(_, c). \<lparr>ne_name = cmd_Name c, ne_nameRange = cmd_NameRange c, ne_kind = ''command''\<rparr>) (yd_Commands doc) @
     map (\<lambda>(_, g). \<lparr>ne_name = jg_Name g, ne_nameRange = jg_NameRange g, ne_kind = ''job-group''\<rparr>) (yd_JobGroups doc)"

definition name_warning :: "named_entity \<Rightarrow> string \<Rightarrow> diagnostic" where
  "name_warning a kind =
     CreateWarningDiagnosticFromRange (ne_nameRange a)
       (''The name '' @ quoted (ne_name a) @ '' is already used to define a '' @ kind @
        ''. You might want to use a different name to avoid confusion.'')"

fun name_conflicts :: "named_entity list \<Rightarrow> diagnostic list" where
  "name_conflicts [] = []"
| "name_conflicts (a # entities) =
     concat (map (\<lambda>b. if ne_name a = ne_name b \<and> ne_kind a \<noteq> ne_kind b
                      then [name_warning a (ne_kind b), name_warning b (ne_kind a)] else []) entities) @
     name_conflicts entities"

definition CheckNames :: "val \<Rightarrow> unit action" where
  "CheckNames v = vemit (name_conflicts (named_entities (val_Doc v)))"

subsection \<open>anchors.go\<close>

definition ValidateAnchors :: "val \<Rightarrow> unit action" where
  "ValidateAnchors v =
     viter (\<lambda>(_, anchor).
       vwhen (an_References anchor = [])
         (addDiagnostic (mk_diag (an_DefinitionRange anchor) ''Anchor never used''
            SeverityInformation ''cci-language-server''))) (yd_YamlAnchors (val_Doc v))"

subsection \<open>The actions only append\<close>

lemma framed_checkAndReportUnusedJob [framed_intros]: "framed (checkAndReportUnusedJob v j)"
  unfolding checkAndReportUnusedJob_def by (intro framed_intros)

lemma framed_check_executor_param [framed_intros]: "framed (check_executor_param v n p d r)"
  unfolding check_executor_param_def by (intro framed_intros)

lemma framed_validate_job_executor [framed_intros]: "framed (validate_job_executor v j)"
  unfolding validate_job_executor_def Let_def by (intro framed_intros)

lemma framed_validateSingleJob [framed_intros]: "framed (validateSingleJob v j)"
  unfolding validateSingleJob_def validateJobType_def validateRetention_def by (intro framed_intros)

lemma framed_ValidateJobs [framed_intros]: "framed (ValidateJobs v)"
  unfolding ValidateJobs_def by (intro framed_intros)

lemma framed_validateSingleCommand [framed_intros]: "framed (validateSingleCommand v c)"
  unfolding validateSingleCommand_def commandIsUnused_def by (intro framed_intros)

lemma framed_ValidateCommands [framed_intros]: "framed (ValidateCommands v)"
  unfolding ValidateCommands_def by (intro framed_intros)

lemma framed_CheckNames [framed_intros]: "framed (CheckNames v)"
  unfolding CheckNames_def by (intro framed_intros)

lemma framed_ValidateAnchors [framed_intros]: "framed (ValidateAnchors v)"
  unfolding ValidateAnchors_def by (intro framed_intros)

interpretation jobs: validator "ValidateJobs v" for v
  by unfold_locales (rule framed_ValidateJobs)

interpretation commands: validator "ValidateCommands v" for v
  by unfold_locales (rule framed_ValidateCommands)

subsection \<open>The jobs never abort on values with right tags\<close>

definition job_tagged :: "job \<Rightarrow> bool" where
  "job_tagged j \<longleftrightarrow> list_all step_tagged (job_steps j) \<and>
     (\<forall>p\<in>set (map snd (job_ExecutorParameters j)). well_tagged 1 p)"

lemma total_doesOrbExecutorExist [total_intros]: "total (doesOrbExecutorExist v n r)"
  using doesOrbExecutorExist_run unfolding total_def by (metis option.distinct(1))

lemma total_validate_job_executor:
  assumes "job_tagged j"
  shows "total (validate_job_executor v j)"
proof -
  have "total (validateParametersValue v (job_ExecutorParameters j) e r ps up)" for e r ps up
    by (rule total_validateParametersValue [of _ 0]) (use assms in \<open>auto simp: job_tagged_def\<close>)
  then show ?thesis
    unfolding validate_job_executor_def Let_def check_executor_param_def
    by (intro total_intros)
qed

lemma total_validateSingleJob:
  assumes "job_tagged j"
  shows "total (validateSingleJob v j)"
  unfolding validateSingleJob_def validateJobType_def validateRetention_def checkAndReportUnusedJob_def
  by (intro total_intros total_validate_job_executor total_validateSteps)
    (use assms in \<open>simp_all add: job_tagged_def\<close>)

lemma total_validateSingleCommand:
  assumes "list_all step_tagged (cmd_Steps c)"
  shows "total (validateSingleCommand v c)"
  unfolding validateSingleCommand_def commandIsUnused_def
  by (intro total_intros total_validateSteps assms)

subsection \<open>What the checks decide\<close>

lemma collect_groups_result:
  "collect_groups v n gs acc =
    (if \<exists>(k, g)\<in>set gs. isJobGroupUsedInWorkflows v k \<and> (\<exists>ji\<in>set (jg_JobInvocations g). ji_JobName ji = n)
     then None
     else Some (acc @ concat (map (\<lambda>(k, g). map (\<lambda>_. k) (filter (\<lambda>ji. ji_JobName ji = n) (jg_JobInvocations g))) gs)))"
  by (induction v n gs acc rule: collect_groups.induct) (auto simp: Let_def filter_empty_conv)

text \<open>The three ways in which a job is used.\<close>

definition job_used :: "val \<Rightarrow> string \<Rightarrow> bool" where
  "job_used v n \<longleftrightarrow>
     (\<exists>(k, j)\<in>set (yd_Jobs (val_Doc v)). \<exists>s\<in>set (job_steps j). step_GetName s = n) \<or>
     (\<exists>(k, w)\<in>set (yd_Workflows (val_Doc v)). \<exists>ji\<in>set (wfl_JobInvocations w). ji_JobName ji = n) \<or>
     (\<exists>(k, g)\<in>set (yd_JobGroups (val_Doc v)). isJobGroupUsedInWorkflows v k \<and>
        (\<exists>ji\<in>set (jg_JobInvocations g). ji_JobName ji = n))"

lemma unused_job_diagnostics_none: "unused_job_diagnostics v n r = [] \<longleftrightarrow> job_used v n"
proof -
  have "(case sort gs of g # _ \<Rightarrow> [f g] | [] \<Rightarrow> [d]) \<noteq> []" for gs :: "string list" and f and d :: diagnostic
    by (cases "sort gs") simp_all
  then show ?thesis
    by (simp add: unused_job_diagnostics_def job_used_def collect_groups_result checkIfStepsContainStep_def
        list_ex_iff case_prod_unfold)
qed

lemma name_conflicts_none:
  "name_conflicts es = [] \<longleftrightarrow>
    (\<forall>a\<in>set es. \<forall>b\<in>set es. ne_name a = ne_name b \<longrightarrow> ne_kind a = ne_kind b)"
proof (induction es)
  case (Cons a es)
  have "name_conflicts (a # es) = [] \<longleftrightarrow>
      (\<forall>b\<in>set es. ne_name a = ne_name b \<longrightarrow> ne_kind a = ne_kind b) \<and> name_conflicts es = []"
    by auto
  with Cons.IH show ?case by (metis set_ConsD list.set_intros)
qed simp

subsection \<open>Properties\<close>


text \<open>
  Names are reported exactly when two entities of different kinds share one.
\<close>

lemma name_conflicts_iff:
  "name_conflicts (named_entities doc) \<noteq> [] \<longleftrightarrow>
    (\<exists>a b. {a, b} \<subseteq> set (named_entities doc) \<and> ne_name a = ne_name b \<and> ne_kind a \<noteq> ne_kind b)"
  by (auto simp: name_conflicts_none)

end
