(* ===== verification/ValOrb.thy ===== *)
theory ValOrb
  imports ValJobs
begin

text \<open>
  The orb validators and the whole validation: \<open>pkg/parser/validate/orb.go\<close>, \<open>version.go\<close> and
  \<open>validate.go\<close>.
\<close>

subsection \<open>version.go\<close>

record info_versions =
  iv_LatestVersion :: string
  iv_LatestMinorVersion :: string
  iv_LatestPatchVersion :: string

definition DiagnosticVersion :: "env \<Rightarrow> string \<Rightarrow> info_versions \<Rightarrow> string \<times> severity" where
  "DiagnosticVersion env version iv =
     (let latest = iv_LatestVersion iv; minor = iv_LatestMinorVersion iv;
          patch = iv_LatestPatchVersion iv; nl = newline_str
      in if en_SemverMajor env (''v'' @ version) = ''v0'' \<and> en_SemverMajor env (''v'' @ latest) \<noteq> ''v0''
         then (''A production version has been released. Latest: '' @ latest, SeverityWarning)
         else if patch \<noteq> version
         then (''A newer patched version exists.'' @ nl @ ''- Current: '' @ version @ nl @
               (if latest \<noteq> minor
                then (if minor \<noteq> patch then ''- Patch:   '' @ patch @ nl else []) @
                     ''- Minor:   '' @ minor @ nl
                else []) @
               ''- Latest:  '' @ latest, SeverityWarning)
         else if minor \<noteq> version
         then (''A newer minor version exists.'' @ nl @ ''- Current: '' @ version @ nl @
               (if latest \<noteq> minor then ''- Minor:   '' @ minor @ nl else []) @
               ''- Latest:  '' @ latest, SeverityInformation)
         else if latest \<noteq> version
         then (''A newer major version exists.'' @ nl @ ''- Current: '' @ version @ nl @
               ''- Latest:  '' @ latest, SeverityInformation)
         else ([], SeverityInformation))"

subsection \<open>orb.go\<close>

definition createCodeActions :: "val \<Rightarrow> orb \<Rightarrow> orb_info \<Rightarrow> code_action list" where
  "createCodeActions v orb cachedOrb =
     (let ri = oi_RemoteInfo cachedOrb;
          versions = [(ri_LatestPatchVersion ri, ''Update to last patch''),
                      (ri_LatestMinorVersion ri, ''Update to last minor''),
                      (ri_LatestVersion ri, ''Update to last version'')]
      in map (\<lambda>(version, txt). CreateCodeActionTextEdit txt (yd_URI (val_Doc v))
                 [mk_edit version (orb_VersionRange orb)] False)
           (filter (\<lambda>(version, txt).
              en_SemverCompare (val_Env v) (''v'' @ ou_Version (orb_Url orb)) (''v'' @ version) = - 1) versions))"

definition checkIfOrbIsUsed :: "val \<Rightarrow> orb \<Rightarrow> bool" where
  "checkIfOrbIsUsed v orb =
     (let nm = orb_Name orb
      in list_ex (\<lambda>(_, c). checkIfStepsContainOrb v (cmd_Steps c) nm) (yd_Commands (val_Doc v)) \<or>
         list_ex (\<lambda>(_, j). checkIfJobUseOrb v j nm) (yd_Jobs (val_Doc v)) \<or>
         list_ex (\<lambda>(_, w). list_ex (\<lambda>ji.
             IsGivenOrb (val_Doc v) (ji_JobName ji) nm \<or>
             checkIfStepsContainOrb v (ji_PostSteps ji @ ji_PreSteps ji) nm \<or>
             checkIfJobParamContainOrb (ji_Parameters ji) nm) (wfl_JobInvocations w))
           (yd_Workflows (val_Doc v)))"

definition orbIsUnused :: "orb \<Rightarrow> unit action" where
  "orbIsUnused orb = addDiagnostic (CreateWarningDiagnosticFromRange (orb_Range orb) ''Orb is unused'')"

definition report_orb_version :: "val \<Rightarrow> orb \<Rightarrow> orb_info \<Rightarrow> unit action" where
  "report_orb_version v orb orbVersion =
     (let ri = oi_RemoteInfo orbVersion;
          (message, severity) = DiagnosticVersion (val_Env v) (ri_Version ri)
            \<lparr>iv_LatestVersion = ri_LatestVersion ri, iv_LatestMinorVersion = ri_LatestMinorVersion ri,
             iv_LatestPatchVersion = ri_LatestPatchVersion ri\<rparr>
      in vwhen (en_SemverIsValid (val_Env v) (''v'' @ ou_Version (orb_Url orb)) \<and> message \<noteq> [])
           (addDiagnostic (CreateDiagnosticFromRange (orb_Range orb) severity message
              (createCodeActions v orb orbVersion))))"

definition fetch_and_report_orb :: "val \<Rightarrow> orb \<Rightarrow> unit action" where
  "fetch_and_report_orb v orb =
     vbind (GetOrFetchOrbInfo (val_Env v) (val_Doc v) orb) (\<lambda>(orbVersion, err).
       vseq
         [case err of
            None \<Rightarrow> vskip
          | Some e \<Rightarrow>
              addDiagnostic (CreateErrorDiagnosticFromRange (orb_Range orb)
                (if has_prefix ''could not find orb'' e
                 then ''Unknown version '' @ ou_Version (orb_Url orb) @ '' for orb '' @ ou_Name (orb_Url orb)
                 else ''error while retrieving orb '' @ GetOrbID (orb_Url orb))),
          case orbVersion of
            None \<Rightarrow> addDiagnostic (CreateErrorDiagnosticFromRange (orb_Range orb) ''Orb or version not found'')
          | Some info \<Rightarrow> report_orb_version v orb info])"

definition validateSingleOrb :: "val \<Rightarrow> orb \<Rightarrow> unit action" where
  "validateSingleOrb v orb =
     vseq
       [vwhen (\<not> checkIfOrbIsUsed v orb) (orbIsUnused orb),
        if fst (CheckIfParamIsPartiallyReferenced (ou_Version (orb_Url orb))) then vskip
        else vbind (if ou_IsLocal (orb_Url orb) then vret True
                    else DoesOrbExist (val_Env v) (val_Doc v) orb) (\<lambda>exists.
          if \<not> exists
          then addDiagnostic (CreateErrorDiagnosticFromRange (orb_Range orb)
                 (''Orb '' @ ou_Name (orb_Url orb) @ '' does not exist or is private.'' @
                  (if ls_IsCciExtension (val_Context v) \<and> api_Token (ls_Api (val_Context v)) = []
                   then '' Authenticate via the VS Code extension to access your private orbs.'' else [])))
          else fetch_and_report_orb v orb)]"

definition ValidateOrbs :: "val \<Rightarrow> unit action" where
  "ValidateOrbs v =
     (let doc = val_Doc v
      in if yd_Orbs doc = [] \<and> yd_LocalOrbs doc = [] \<and> \<not> IsDefaultRange (yd_OrbsRange doc)
         then addDiagnostic (CreateEmptyAssignationWarning (yd_OrbsRange doc))
         else viter (\<lambda>(_, orb). validateSingleOrb v orb) (yd_Orbs doc))"

subsection \<open>validate.go and the local orbs\<close>

text \<open>The part of \<open>Validate\<close> that a local orb goes through; it never looks at local orbs again.\<close>

definition validate_entities :: "val \<Rightarrow> unit action" where
  "validate_entities v = vseq [ValidateJobs v, ValidateCommands v, ValidateExecutors v]"

definition validate_local_orb :: "val \<Rightarrow> orb \<Rightarrow> orb_info \<Rightarrow> unit action" where
  "validate_local_orb v orb orbInfo =
     (let a = oi_Attributes orbInfo
      in vseq
        [validate_entities (v\<lparr>val_Doc := FromOrbParsedAttributesToYamlDocument (val_Doc v) a,
                              val_IsLocalOrb := True\<rparr>),
         viter (\<lambda>(_, j). checkAndReportUnusedJob v
                  (j\<lparr>job_Name := orb_Name orb @ ''/'' @ job_Name j\<rparr>)) (oa_Jobs a),
         viter (\<lambda>(_, c).
            let c = c\<lparr>cmd_Name := orb_Name orb @ ''/'' @ cmd_Name c\<rparr>
            in vwhen (\<not> checkIfCommandIsUsed v (cmd_Name c)) (commandIsUnused c)) (oa_Commands a)])"

definition ValidateLocalOrbs :: "val \<Rightarrow> unit action" where
  "ValidateLocalOrbs v =
     viter (\<lambda>(_, orb).
       if \<not> ou_IsLocal (orb_Url orb) then vskip
       else vbind (GetOrFetchOrbInfo (val_Env v) (val_Doc v) orb) (\<lambda>(orbInfo, err).
         if err \<noteq> None then vskip
         else vbind (vlift orbInfo) (validate_local_orb v orb))) (yd_Orbs (val_Doc v))"

definition Validate :: "val \<Rightarrow> unit action" where
  "Validate v =
     vseq
       [if \<not> val_IsLocalOrb v
        then vseq
          [CheckIfParamsExist v, ValidateAnchors v, ValidateJobGroups v, ValidateWorkflows v,
           ValidateOrbs v, CheckNames v, ValidatePipelineParameters v, ValidateLocalOrbs v]
        else vskip,
        validate_entities v]"

subsection \<open>The validation only appends\<close>

lemma framed_ValidateOrbs [framed_intros]: "framed (ValidateOrbs v)"
  unfolding ValidateOrbs_def validateSingleOrb_def orbIsUnused_def fetch_and_report_orb_def
    report_orb_version_def Let_def
  by (intro framed_intros)

lemma framed_validate_entities [framed_intros]: "framed (validate_entities v)"
  unfolding validate_entities_def by (intro framed_intros)

lemma framed_ValidateLocalOrbs [framed_intros]: "framed (ValidateLocalOrbs v)"
  unfolding ValidateLocalOrbs_def validate_local_orb_def commandIsUnused_def Let_def
  by (intro framed_intros)

lemma framed_Validate [framed_intros]: "framed (Validate v)"
  unfolding Validate_def by (intro framed_intros)

interpretation orbs_check: validator "ValidateOrbs v" for v
  by unfold_locales (rule framed_ValidateOrbs)

interpretation validation: validator "Validate v" for v
  by unfold_locales (rule framed_Validate)
subsection \<open>The validation never aborts on a document as the parser builds it\<close>

lemma total_check_params_of_node:
  assumes "GetParamsWithPosition (val_Doc v) (Start (NodeToRange (val_Doc v) (Some n))) \<noteq> None"
  shows "total (check_params_of_node v n)"
  unfolding check_params_of_node_def check_param_ref_def
  by (intro total_intros GetParamsInString_defined assms)

definition local_orbs_known :: "yaml_document \<Rightarrow> bool" where
  "local_orbs_known doc \<longleftrightarrow>
     (\<forall>(_, orb)\<in>set (yd_Orbs doc). ou_IsLocal (orb_Url orb) \<longrightarrow> gm_has (yd_LocalOrbInfo doc) (orb_Name orb))"

lemma GetParamsWithPosition_defined:
  assumes "local_orbs_known doc"
  shows "GetParamsWithPosition doc pos \<noteq> None"
proof -
  have "gm_get (yd_LocalOrbInfo doc) (orb_Name orb) \<noteq> None"
    if "find (\<lambda>(_, orb). ou_IsLocal (orb_Url orb) \<and> PosInRange (orb_Range orb) pos) (yd_Orbs doc) = Some (k, orb)"
    for k orb
    using that assms by (fastforce simp: local_orbs_known_def find_Some_iff gm_has_def set_conv_nth)
  then show ?thesis
    unfolding GetParamsWithPosition_def by (auto split: option.split if_splits)
qed

definition entities_tagged :: "yaml_document \<Rightarrow> bool" where
  "entities_tagged doc \<longleftrightarrow>
     (\<forall>(_, j)\<in>set (yd_Jobs doc). job_tagged j) \<and>
     (\<forall>(_, c)\<in>set (yd_Commands doc). list_all step_tagged (cmd_Steps c))"

definition document_tagged :: "yaml_document \<Rightarrow> bool" where
  "document_tagged doc \<longleftrightarrow> entities_tagged doc \<and> local_orbs_known doc \<and>
     (\<forall>(_, w)\<in>set (yd_Workflows doc). list_all invocation_tagged (wfl_JobInvocations w)) \<and>
     (\<forall>(_, g)\<in>set (yd_JobGroups doc). list_all invocation_tagged (jg_JobInvocations g)) \<and>
     (\<forall>(_, info)\<in>set (yd_LocalOrbInfo doc).
        entities_tagged (FromOrbParsedAttributesToYamlDocument doc (oi_Attributes info)))"

lemma total_validate_entities:
  assumes "entities_tagged (val_Doc v)"
  shows "total (validate_entities v)"
  unfolding validate_entities_def ValidateJobs_def ValidateCommands_def Let_def
  by (intro total_intros total_validateSingleJob total_validateSingleCommand)
    (use assms in \<open>auto simp: entities_tagged_def\<close>)

lemma total_ValidateOrbs [total_intros]: "total (ValidateOrbs v)"
  unfolding ValidateOrbs_def validateSingleOrb_def orbIsUnused_def fetch_and_report_orb_def
    report_orb_version_def DoesOrbExist_def Let_def
  by (intro total_intros)

lemma total_ValidateLocalOrbs:
  assumes "document_tagged (val_Doc v)"
  shows "total (ValidateLocalOrbs v)"
  unfolding ValidateLocalOrbs_def
proof (intro total_viter total_case_prod total_if total_basic)
  fix p k orb
  assume p: "p \<in> set (yd_Orbs (val_Doc v))" "p = (k, orb)" and l: "\<not> \<not> ou_IsLocal (orb_Url orb)"
  then obtain info where info: "gm_get (yd_LocalOrbInfo (val_Doc v)) (orb_Name orb) = Some info"
    using assms by (fastforce simp: document_tagged_def local_orbs_known_def gm_has_def)
  have "entities_tagged (FromOrbParsedAttributesToYamlDocument (val_Doc v) (oi_Attributes info))"
    using assms map_of_SomeD [OF info] by (fastforce simp: document_tagged_def)
  then have "total (validate_local_orb v orb info)"
    unfolding validate_local_orb_def checkAndReportUnusedJob_def commandIsUnused_def Let_def
    by (intro total_intros total_validate_entities) simp
  then show "total (vbind (GetOrFetchOrbInfo (val_Env v) (val_Doc v) orb) (\<lambda>(orbInfo, err).
      if err \<noteq> None then vskip else vbind (vlift orbInfo) (validate_local_orb v orb)))"
    by (simp add: GetOrFetchOrbInfo_def info total_def vbind_def vret_def vlift_def)
qed

lemma total_Validate:
  assumes "document_tagged (val_Doc v)"
  shows "total (Validate v)"
proof -
  have "total (CheckIfParamsExist v)"
    unfolding CheckIfParamsExist_def Let_def
    by (intro total_intros total_check_params_of_node GetParamsWithPosition_defined)
      (use assms in \<open>simp_all add: document_tagged_def\<close>)
  moreover have "total (ValidateJobGroups v)"
    unfolding ValidateJobGroups_def validateSingleJobGroup_def validateDAG_def
    by (intro total_intros total_validateInvocations) (use assms in \<open>auto simp: document_tagged_def\<close>)
  moreover have "total (ValidateWorkflows v)"
    unfolding ValidateWorkflows_def validateSingleWorkflow_def validateDAG_def
    by (intro total_intros total_validateInvocations) (use assms in \<open>auto simp: document_tagged_def\<close>)
  ultimately show ?thesis
    unfolding Validate_def ValidateAnchors_def CheckNames_def ValidatePipelineParameters_def
    by (intro total_intros total_ValidateLocalOrbs total_validate_entities assms)
      (use assms in \<open>simp_all add: document_tagged_def\<close>)
qed

subsection \<open>What a returning validation has reported\<close>

lemma reports_vemit: "d \<in> set ds \<Longrightarrow> reports d (vemit ds)"
  by (auto simp: reports_def vemit_def)

lemma reports_vseq_member:
  "m \<in> set ms \<Longrightarrow> reports d m \<Longrightarrow> (\<And>m'. m' \<in> set ms \<Longrightarrow> framed m') \<Longrightarrow> reports d (vseq ms)"
proof (induction ms)
  case (Cons m' ms)
  have "framed (vseq ms)"
    using Cons.prems(3) by (induction ms) (auto intro!: framed_intros)
  with Cons show ?case by (auto intro: reports_vbind_first reports_vbind_second)
qed simp

lemma reports_unused_job:
  assumes "d \<in> set (unused_job_diagnostics v (job_Name j) (job_NameRange j))" and "\<not> val_IsLocalOrb v"
  shows "reports d (validateSingleJob v j)"
  unfolding validateSingleJob_def
  by (rule reports_vseq_member [of "vwhen (\<not> val_IsLocalOrb v) (checkAndReportUnusedJob v j)"])
    (auto simp: checkAndReportUnusedJob_def validateJobType_def validateRetention_def assms
      intro!: reports_vwhen reports_vemit framed_intros)

lemma reports_Validate_job:
  assumes "(k, j) \<in> set (yd_Jobs (val_Doc v))" and "reports d (validateSingleJob v j)"
  shows "reports d (Validate v)"
proof -
  have "reports d (ValidateJobs v)"
    unfolding ValidateJobs_def
    by (rule reports_viter [OF assms(1)]) (auto simp: assms(2) split: prod.split intro!: framed_intros)
  then show ?thesis
    unfolding Validate_def validate_entities_def
    by (intro reports_vseq_rest reports_vseq_first framed_intros)
qed

lemma framed_validateSingleWorkflow: "framed (validateSingleWorkflow v w)"
  unfolding validateSingleWorkflow_def validateDAG_def by (intro framed_intros)

lemma reports_Validate_workflow:
  assumes "\<not> val_IsLocalOrb v" and "(k, w) \<in> set (yd_Workflows (val_Doc v))"
    and "reports d (validateSingleWorkflow v w)"
  shows "reports d (Validate v)"
proof -
  have "reports d (ValidateWorkflows v)"
    unfolding ValidateWorkflows_def
    by (rule reports_viter [OF assms(2)]) (auto simp: assms(3) split: prod.split
        intro!: framed_intros framed_validateSingleWorkflow)
  then have "reports d (vseq [CheckIfParamsExist v, ValidateAnchors v, ValidateJobGroups v, ValidateWorkflows v,
           ValidateOrbs v, CheckNames v, ValidatePipelineParameters v, ValidateLocalOrbs v])"
    by (rule reports_vseq_member [rotated]) (auto intro!: framed_intros)
  then show ?thesis
    unfolding Validate_def if_P [OF assms(1)] by (rule reports_vseq_first) (intro framed_intros)
qed

text \<open>A production release has followed the \<open>v0\<close> version in use.\<close>

definition v0_behind :: "env \<Rightarrow> string \<Rightarrow> info_versions \<Rightarrow> bool" where
  "v0_behind env version iv \<longleftrightarrow>
     en_SemverMajor env (''v'' @ version) = ''v0'' \<and> en_SemverMajor env (''v'' @ iv_LatestVersion iv) \<noteq> ''v0''"

text \<open>A document with an unused job and a workflow whose two jobs require each other.\<close>

definition sample_job :: job where
  "sample_job =
     \<lparr>job_Range = zero_range, job_Name = ''lint'', job_NameRange = zero_range, job_Shell = [],
      job_WorkingDirectory = [], job_Parallelism = - 1, job_ParallelismRange = zero_range,
      job_ResourceClass = [], job_ResourceClassRange = zero_range, job_Steps = None,
      job_StepsRange = zero_range, job_Description = [], job_Executor = [], job_ExecutorParameters = [],
      job_ExecutorRange = zero_range, job_Parameters = [], job_ParametersRange = zero_range,
      job_Docker = \<lparr>de_Base = executor_base zero_executor, de_Image = [], de_ServiceImages = []\<rparr>,
      job_DockerRange = zero_range, job_Environment = [], job_EnvironmentRange = zero_range,
      job_Contexts = [], job_Machine = sample_machine, job_MachineRange = zero_range,
      job_MacOS = \<lparr>mac_Base = executor_base zero_executor, mac_Xcode = [], mac_XcodeRange = zero_range\<rparr>,
      job_MacOSRange = zero_range,
      job_Retention = \<lparr>rs_Caches = \<lparr>tr_Text = [], tr_Range = zero_range\<rparr>, rs_Range = zero_range\<rparr>,
      job_RetentionRange = zero_range, job_CompletionItem = [], job_Type = [], job_TypeRange = zero_range,
      job_PlanName = [], job_PlanNameRange = zero_range, job_Key = [], job_KeyRange = zero_range\<rparr>"

definition sample_requiring :: "string \<Rightarrow> string \<Rightarrow> job_invocation" where
  "sample_requiring n r = sample_invocation
     \<lparr>ji_JobName := n, ji_StepName := n, ji_Parameters := [],
      ji_Requires := [\<lparr>rq_Name = r, rq_Status = [], rq_Range = zero_range, rq_StatusRange = zero_range\<rparr>]\<rparr>"

definition sample_requirements :: "job_invocation list" where
  "sample_requirements = [sample_requiring ''a'' ''b'', sample_requiring ''b'' ''a'']"

definition sample_workflow :: workflow where
  "sample_workflow =
     \<lparr>wfl_Range = zero_range, wfl_Name = ''main'', wfl_NameRange = zero_range, wfl_JobsRange = zero_range,
      wfl_JobInvocations = sample_requirements, wfl_JobsDAG = buildJobsDAG sample_requirements,
      wfl_HasTrigger = False, wfl_Triggers = [], wfl_TriggersRange = zero_range, wfl_MaxAutoReruns = 0,
      wfl_MaxAutoRerunsRange = zero_range, wfl_HasMaxAutoReruns = False\<rparr>"

definition sample_project :: val where
  "sample_project = sample_val
     \<lparr>val_Doc := sample_doc\<lparr>yd_Jobs := [(''lint'', sample_job)],
                          yd_Workflows := [(''main'', sample_workflow)]\<rparr>\<rparr>"

lemma sample_project_tagged: "document_tagged (val_Doc sample_project)"
  by (simp add: document_tagged_def entities_tagged_def local_orbs_known_def sample_project_def sample_doc_def
      sample_job_def job_tagged_def job_steps_def sample_workflow_def sample_requirements_def sample_requiring_def
      invocation_tagged_def sample_invocation_def)

lemma sample_project_run: "\<exists>s'. Validate sample_project sample_state = Some ((), s')"
  by (rule total_unit [OF total_Validate [OF sample_project_tagged]])

subsection \<open>Properties\<close>



text \<open>
  The validation only appends to the diagnostics it is given, and what it appends does not
  depend on them.
\<close>

lemma Validate_appends:
  "(case Validate v s of
      None \<Rightarrow> Validate v (s\<lparr>vs_Diagnostics := []\<rparr>) = None
    | Some (_, s') \<Rightarrow> \<exists>es s''. Validate v (s\<lparr>vs_Diagnostics := []\<rparr>) = Some ((), s'') \<and>
        vs_Diagnostics s'' = es \<and> s' = s''\<lparr>vs_Diagnostics := vs_Diagnostics s @ es\<rparr>)"
proof -
  have s: "before (vs_Diagnostics s) (s\<lparr>vs_Diagnostics := []\<rparr>) = s" by (simp add: before_def)
  show ?thesis
  proof (cases "Validate v (s\<lparr>vs_Diagnostics := []\<rparr>)")
    case None
    with validation.panics_alike [of v "vs_Diagnostics s" "s\<lparr>vs_Diagnostics := []\<rparr>"]
    show ?thesis by (simp add: s)
  next
    case (Some r)
    with validation.independent [of v "s\<lparr>vs_Diagnostics := []\<rparr>" "()" "snd r" "vs_Diagnostics s"]
    show ?thesis by (cases r) (simp add: s before_def)
  qed
qed

text \<open>
  The version message is empty exactly for the orb version that is the latest patch, minor and
  overall version at once, unless a production release has followed a \<open>v0\<close> version; a message about
  patches or about the production release is a warning, one about minor or major versions is an
  information.
\<close>

lemma DiagnosticVersion_cases:
  "(fst (DiagnosticVersion env version iv) = [] \<longleftrightarrow>
      \<not> v0_behind env version iv \<and> iv_LatestPatchVersion iv = version \<and>
      iv_LatestMinorVersion iv = version \<and> iv_LatestVersion iv = version) \<and>
   (snd (DiagnosticVersion env version iv) = SeverityWarning \<longleftrightarrow>
      \<not> (\<not> v0_behind env version iv \<and> iv_LatestPatchVersion iv = version))"
  by (auto simp: DiagnosticVersion_def v0_behind_def Let_def)

text \<open>
  C5: whatever else the validation does, when it returns it has reported every job that no step,
  workflow or used job group refers to, at the job's name.
\<close>

theorem Validate_reports_unused_job:
  assumes "Validate v s = Some ((), s')" and "\<not> val_IsLocalOrb v"
    and "(k, j) \<in> set (yd_Jobs (val_Doc v))" and "\<not> job_used v (job_Name j)"
  shows "\<exists>d\<in>set (vs_Diagnostics s'). diag_Range d = job_NameRange j \<and> diag_Severity d = SeverityWarning"
proof -
  obtain d where d: "d \<in> set (unused_job_diagnostics v (job_Name j) (job_NameRange j))"
    using assms(4) unused_job_diagnostics_none [of v "job_Name j" "job_NameRange j"] by (metis list.set_intros(1) neq_Nil_conv)
  then have "diag_Range d = job_NameRange j \<and> diag_Severity d = SeverityWarning"
    by (auto simp: unused_job_diagnostics_def CreateWarningDiagnosticFromRange_def CreateDiagnosticFromRange_def mk_diag_def split: option.splits list.splits if_splits)
  moreover have "reports d (Validate v)"
    by (rule reports_Validate_job [OF assms(3) reports_unused_job [OF d assms(2)]])
  ultimately show ?thesis using assms(1) by (blast dest: reportsD)
qed

text \<open>
  C4: when the validation returns, every invocation of a workflow whose job lies on a cycle of the
  workflow's requirements has been reported.
\<close>

theorem Validate_reports_cycle:
  assumes "Validate v s = Some ((), s')" and "\<not> val_IsLocalOrb v"
    and "(k, w) \<in> set (yd_Workflows (val_Doc v))"
    and "wfl_JobsDAG w = buildJobsDAG (wfl_JobInvocations w)"
    and "ji \<in> set (wfl_JobInvocations w)"
    and "ji_JobName ji \<in> cyclic_part (requirement_edges (wfl_JobInvocations w))"
  shows "CreateErrorDiagnosticFromRange (ji_JobNameRange ji)
    (''The job `'' @ ji_JobName ji @ ''` is part of a cycle'') \<in> set (vs_Diagnostics s')"
proof (rule reportsD [OF reports_Validate_workflow [OF assms(2,3)] assms(1)])
  show "reports (CreateErrorDiagnosticFromRange (ji_JobNameRange ji)
      (''The job `'' @ ji_JobName ji @ ''` is part of a cycle'')) (validateSingleWorkflow v w)"
    unfolding validateSingleWorkflow_def validateDAG_def
    by (rule reports_vseq_member [of "vemit (dag_diagnostics (wfl_JobInvocations w) (wfl_JobsDAG w))"])
      (use assms(4-6) in \<open>auto simp: dag_diagnostics_set intro!: framed_intros reports_vemit\<close>)
qed


theorem Validate_reports_unused_job_witness:
  "\<exists>s'. Validate sample_project sample_state = Some ((), s') \<and>
     (\<exists>d\<in>set (vs_Diagnostics s'). diag_Range d = job_NameRange sample_job \<and> diag_Severity d = SeverityWarning)"
proof -
  obtain s' where run: "Validate sample_project sample_state = Some ((), s')"
    using sample_project_run by blast
  have "\<exists>d\<in>set (vs_Diagnostics s'). diag_Range d = job_NameRange sample_job \<and> diag_Severity d = SeverityWarning"
    by (rule Validate_reports_unused_job [OF run])
      (simp_all add: sample_project_def sample_val_def sample_doc_def job_used_def sample_job_def job_steps_def
        sample_workflow_def sample_requirements_def sample_requiring_def)
  with run show ?thesis by blast
qed

lemma sample_cycle: "''a'' \<in> cyclic_part (requirement_edges sample_requirements)"
proof -
  have "(''a'', ''b'') \<in> requirement_edges sample_requirements"
    unfolding requirement_edges_def
    by (rule CollectI, rule exI [of _ "hd (ji_Requires (sample_requiring ''b'' ''a''))"],
        rule exI [of _ "sample_requiring ''b'' ''a''"])
      (simp add: sample_requirements_def sample_requiring_def)
  moreover have "(''b'', ''a'') \<in> requirement_edges sample_requirements"
    unfolding requirement_edges_def
    by (rule CollectI, rule exI [of _ "hd (ji_Requires (sample_requiring ''a'' ''b''))"],
        rule exI [of _ "sample_requiring ''a'' ''b''"])
      (simp add: sample_requirements_def sample_requiring_def)
  ultimately have "(''a'', ''a'') \<in> (requirement_edges sample_requirements)\<^sup>+" by (meson trancl.intros)
  then show ?thesis by (auto simp: cyclic_part_def)
qed

theorem Validate_reports_cycle_witness:
  "\<exists>s'. Validate sample_project sample_state = Some ((), s') \<and>
     CreateErrorDiagnosticFromRange zero_range (''The job `'' @ ''a'' @ ''` is part of a cycle'')
       \<in> set (vs_Diagnostics s')"
proof -
  obtain s' where run: "Validate sample_project sample_state = Some ((), s')"
    using sample_project_run by blast
  have "CreateErrorDiagnosticFromRange (ji_JobNameRange (sample_requiring ''a'' ''b''))
      (''The job `'' @ ji_JobName (sample_requiring ''a'' ''b'') @ ''` is part of a cycle'')
      \<in> set (vs_Diagnostics s')"
    by (rule Validate_reports_cycle [OF run, of "''main''" sample_workflow])
      (use sample_cycle in \<open>simp_all add: sample_project_def sample_val_def sample_doc_def sample_workflow_def
         sample_requirements_def sample_requiring_def\<close>)
  with run show ?thesis by (auto simp: sample_requiring_def sample_invocation_def)
qed

end
