(* ===== verification/ParseValid.thy ===== *)
theory ParseValid
  imports ParseDoc ValOrb
begin

text \<open>
  What the validators rely on in a document that the parsers have built: the tag of a parameter's
  value tells the shape of the value, and every local orb has its definition. With it the
  validation of a parsed document never aborts.
\<close>

text \<open>What holds of every value of a map.\<close>

definition map_all :: "('v \<Rightarrow> bool) \<Rightarrow> ('k, 'v) gomap \<Rightarrow> bool" where
  "map_all P m \<longleftrightarrow> list_all (P \<circ> snd) m"

lemma map_all_Nil [simp]: "map_all P []"
  by (simp add: map_all_def)

lemma map_all_put [intro]: "map_all P m \<Longrightarrow> P v \<Longrightarrow> map_all P (gm_put k v m)"
  by (induction m) (auto simp: map_all_def)

lemma map_all_iff: "map_all P m \<longleftrightarrow> (\<forall>(k, v)\<in>set m. P v)"
  by (auto simp: map_all_def list_all_iff)

lemma map_all_get: "map_all P m \<Longrightarrow> gm_get m k = Some v \<Longrightarrow> P v"
  using map_of_SomeD [of m k v] by (fastforce simp: map_all_iff)

subsection \<open>Values and steps\<close>

definition sound_value :: "param_value \<Rightarrow> bool" where
  "sound_value p \<longleftrightarrow> (\<forall>n. well_tagged n p)"

definition sound_result :: "value_result \<Rightarrow> bool" where
  "sound_result r = (case r of Inl _ \<Rightarrow> True | Inr p \<Rightarrow> sound_value p)"

lemma sound_result_simps [simp]: "sound_result (Inl e)" "sound_result (Inr p) = sound_value p"
  by (simp_all add: sound_result_def)

lemma sound_value_iff: "sound_value p \<longleftrightarrow> tag_agrees p \<and> list_all sound_value (value_parts p)"
proof -
  have "well_tagged n p" if "\<And>n. well_tagged (Suc n) p" for n
    using that [of 0] that [of "n - 1"] by (cases n) simp_all
  then show ?thesis
    unfolding sound_value_def list_all_iff by (auto simp: ball_conj_distrib simp del: well_tagged.simps)
     (metis well_tagged.simps well_tagged_agrees not0_implies_Suc)+
qed

lemma sound_step [simp]: "map_all sound_value ps \<Longrightarrow> step_tagged (NamedStep n ps pr r)"
  by (auto simp: step_tagged_named sound_value_def map_all_iff simp del: well_tagged.simps One_nat_def)

lemma sound_scalar:
  "sound_value (ParameterValue n (PVString s) vr r typ)" if "typ \<noteq> ''map''" "typ \<noteq> ''enum''"
  using that by (simp add: sound_value_iff tag_agrees_def value_parts_def value_string_def)

lemma sound_untagged:
  "sound_value (ParameterValue n v vr r typ)"
  if "typ \<notin> {''string'', ''map'', ''enum''}" "value_parts (ParameterValue n v vr r typ) = []"
  using that by (simp add: sound_value_iff tag_agrees_def)

lemma sound_array: "list_all sound_value vs \<Longrightarrow> sound_value (ParameterValue n (PVArray vs) vr r ''enum'')"
  by (simp add: sound_value_iff [of "ParameterValue _ _ _ _ _"] tag_agrees_def value_parts_def value_array_def)

lemma sound_map: "map_all sound_value m \<Longrightarrow> sound_value (ParameterValue n (PVMap m) vr r ''map'')"
  by (simp add: sound_value_iff [of "ParameterValue _ _ _ _ _"] tag_agrees_def value_parts_def value_map_def
      map_all_def list_all_iff)

lemma map_all_put_value [intro]:
  "sound_result r \<Longrightarrow> map_all sound_value m \<Longrightarrow> map_all sound_value (put_value key r m)"
  by (auto simp: put_value_def split: sum.split)

lemma yields_parseSimpleParameterValue:
  "yields sound_result (parseSimpleParameterValue k doc name n r)"
proof (induction k arbitrary: n)
  case (Suc k)
  show ?case
    unfolding parseSimpleParameterValue.simps(2) Let_def scalar_value_def
    by (intro yields_intros Suc.IH) (simp_all add: sound_scalar sound_untagged value_parts_def)
qed (simp add: yields_ppanic)

lemma yields_parseEnumParamValue: "yields sound_result (parseEnumParamValue k doc c name r)"
  unfolding parseEnumParamValue_def Let_def
proof (intro yields_intros)
  fix c'
  show "yields (\<lambda>x. sound_result (map_sum id (\<lambda>p. ParameterValue (pv_Name p) (pv_Value p) (pv_ValueRange p)
          (NodeToRange doc (Some c')) (pv_Type p)) x)) (parseSimpleParameterValue k doc name c' r)"
    by (rule yields_mono [OF yields_parseSimpleParameterValue])
      (auto simp: sound_result_def sound_value_iff [of "ParameterValue _ _ _ _ _"] tag_agrees_def value_parts_def
        value_string_def value_map_def value_array_def sound_value_iff split: sum.splits)
qed simp_all

lemma yields_steps_with:
  assumes "\<And>n. yields (list_all step_tagged) (single n)"
  shows "yields (list_all step_tagged) (steps_with single doc n)"
  unfolding steps_with_def Let_def
  by (intro yields_pfold) (auto intro!: yields_intros yields_mono [OF assms])

lemma yields_builtin_step: "builtin_step k doc key v = Some m \<Longrightarrow> yields step_tagged m"
  unfolding builtin_step_def Let_def
  by (auto split: if_splits intro!: yields_pmap yields_pret simp: step_tagged_def)

lemma yields_flow_step_with:
  assumes "\<And>n. yields (list_all step_tagged) (step n)"
  shows "yields (list_all step_tagged) (flow_step_with step doc c)"
  unfolding flow_step_with_def Let_def named_step_of_def by (intro yields_intros assms) simp_all

lemma yields_single_step_with:
  assumes "\<And>n. yields (list_all step_tagged) (step n)"
  shows "yields (list_all step_tagged) (single_step_with step doc n)"
  unfolding single_step_with_def Let_def empty_step_def
  by (intro yields_intros assms yields_flow_step_with) (simp_all add: step_tagged_def)

lemma yields_named_step_with:
  assumes "\<And>n. yields sound_result (value n)"
  shows "yields step_tagged (named_step_with value k doc name n)"
proof -
  have "yields (map_all sound_value) (iterateOnBlockMapping k doc m (\<lambda>child ps.
      if pair_key doc child = [] then pret ps
      else pmap (\<lambda>r. put_value (pair_key doc child) r ps) (value child)) [])" for m
    by (intro yields_iterateOnBlockMapping yields_if yields_pmap yields_pret yields_mono [OF assms])
      (auto simp del: map_all_def)
  then have "yields (\<lambda>ps. step_tagged (NamedStep name ps pr r)) (iterateOnBlockMapping k doc m (\<lambda>child ps.
      if pair_key doc child = [] then pret ps
      else pmap (\<lambda>r. put_value (pair_key doc child) r ps) (value child)) [])" for m pr r
    by (rule yields_mono) simp
  then show ?thesis
    unfolding named_step_with_def Let_def by (intro yields_intros) simp_all
qed

lemma yields_step_with:
  assumes "\<And>n. yields (list_all step_tagged) (single n)" "\<And>n. yields (list_all step_tagged) (step n)"
    "\<And>n. yields sound_result (value n)"
  shows "yields (list_all step_tagged) (step_with single step value k doc n)"
proof -
  have when_step: "yields (list_all step_tagged) (when_unless_with single k doc v)" for v
    unfolding when_unless_with_def
    by (intro yields_iterateOnBlockMapping yields_on_pair)
      (auto intro!: yields_intros yields_mono [OF yields_steps_with [OF assms(1)]])
  have anchor: "yields (list_all step_tagged) (anchor_step_with single step doc v)" for v
    unfolding anchor_step_with_def Let_def by (intro yields_intros assms) simp
  show ?thesis
    unfolding step_with_def Let_def
    by (intro yields_intros when_step anchor)
      (auto intro: yields_mono [OF yields_builtin_step] yields_mono [OF yields_named_step_with [OF assms(3)]])
qed

lemma yields_array_value_with:
  assumes "\<And>n. yields (list_all step_tagged) (single n)"
  shows "yields sound_value (array_value_with single k doc name n r f)"
proof -
  have simple: "yields (\<lambda>x. list_all sound_value (case x of Inl _ \<Rightarrow> vs | Inr p \<Rightarrow> vs @ [p]))
      (parseEnumParamValue k doc c name r)" if "list_all sound_value vs" for vs c
    by (rule yields_mono [OF yields_parseEnumParamValue]) (use that in \<open>auto split: sum.split\<close>)
  have "yields (list_all sound_value) (pfold (\<lambda>child values.
              if st_Type (yd_Tree doc) child = ''block_sequence_item'' \<or> st_Type (yd_Tree doc) child = ''flow_node''
              then if isStep doc child \<or> f
                   then pmap (\<lambda>steps. values @ [ParameterValue name (PVSteps steps)
                                (NodeToRange doc (Some child)) zero_range ''steps''])
                          (single (Some child))
                   else pmap (\<lambda>r. case r of Inl _ \<Rightarrow> values | Inr p \<Rightarrow> values @ [p])
                          (parseEnumParamValue k doc child name r)
              else pret values)
            (sequence_children (yd_Tree doc) (Some n)) [])"
    by (intro yields_pfold yields_if yields_pmap yields_pret simple)
      (simp_all add: sound_untagged value_parts_def)
  then show ?thesis
    unfolding array_value_with_def Let_def
    by (intro yields_pmap) (auto intro: yields_mono sound_array)
qed

lemma yields_value_with:
  assumes "\<And>n. yields (list_all step_tagged) (single n)" "\<And>n. yields sound_result (value n)"
  shows "yields sound_result (value_with single value k doc c)"
proof -
  have mapping: "yields (\<lambda>m. sound_value (ParameterValue name (PVMap m) vr r ''map''))
      (iterateOnBlockMapping k doc (Some n)
         (\<lambda>child. on_pair doc (\<lambda>child key v m. pmap (\<lambda>r. put_value key r m) (value child)) child) [])" for name n vr r
    by (rule yields_mono [of "map_all sound_value"],
        intro yields_iterateOnBlockMapping yields_on_pair yields_pmap yields_mono [OF assms(2)])
      (auto simp: sound_map)
  have array: "yields sound_result (pmap Inr (array_value_with single k doc name n r False))" for name n r
    by (intro yields_pmap yields_mono [OF yields_array_value_with [OF assms(1)]]) simp
  have node: "yields sound_result (value_node_with single value k doc name r v n)" for name r v n
    unfolding value_node_with_def Let_def scalar_value_def
    by (intro yields_if yields_parseSimpleParameterValue array yields_pret yields_pmap)
      (simp_all add: mapping sound_scalar sound_untagged value_parts_def)
  show ?thesis
    unfolding value_with_def Let_def by (intro yields_intros node) simp_all
qed

lemma yields_parsers:
  "yields (list_all step_tagged) (parseSingleStep k doc m) \<and>
    yields (list_all step_tagged) (parseStep k doc n) \<and>
    yields sound_result (parseParameterValue k doc n)"
proof (induction k arbitrary: m n)
  case (Suc k)
  then show ?case by (simp add: yields_single_step_with yields_step_with yields_value_with)
qed (simp add: yields_ppanic)

lemma yields_parseParameterValue: "yields sound_result (parseParameterValue k doc n)"
  using yields_parsers by blast

lemma yields_parseSteps: "yields (list_all step_tagged) (parseSteps k doc n)"
  unfolding parseSteps_def by (rule yields_steps_with) (use yields_parsers in blast)


subsection \<open>Jobs, commands, invocations\<close>

definition sound_job :: "job \<Rightarrow> bool" where
  "sound_job j \<longleftrightarrow> list_all step_tagged (job_steps j) \<and> map_all sound_value (job_ExecutorParameters j)"

definition sound_command :: "command \<Rightarrow> bool" where
  "sound_command c \<longleftrightarrow> list_all step_tagged (cmd_Steps c)"

definition sound_invocation :: "job_invocation \<Rightarrow> bool" where
  "sound_invocation ji \<longleftrightarrow>
     map_all sound_value (ji_Parameters ji) \<and> map_all (list_all sound_value) (ji_MatrixParams ji)"

lemma sound_job_tagged: "sound_job j \<Longrightarrow> job_tagged j"
  by (auto simp: sound_job_def job_tagged_def map_all_iff sound_value_def simp del: well_tagged.simps One_nat_def)

lemma sound_invocation_tagged: "sound_invocation ji \<Longrightarrow> invocation_tagged ji"
  by (auto simp: sound_invocation_def invocation_tagged_def map_all_iff sound_value_def list_all_iff
      simp del: well_tagged.simps One_nat_def)

lemma yields_parseExecutorRef: "yields (\<lambda>(e, er, ps). map_all sound_value ps) (parseExecutorRef k doc v c)"
proof -
  have field: "yields (\<lambda>(name, ps). map_all sound_value ps) (executor_ref_field k doc c' s)"
    if "case s of (name, ps) \<Rightarrow> map_all sound_value ps" for c' s
    unfolding executor_ref_field_def Let_def
    by (intro yields_intros yields_mono [OF yields_parseParameterValue]) (use that in auto)
  have mapping: "yields (\<lambda>(e, er, ps). map_all sound_value ps) (executor_ref_mapping k doc v' r)" for v' r
    unfolding executor_ref_mapping_def
    by (intro yields_case_option yields_pmap yields_pret yields_mono
          [OF yields_iterateOnBlockMapping [of "\<lambda>(name, ps). map_all sound_value ps", OF _ field]]) auto
  show ?thesis
    unfolding parseExecutorRef_def Let_def by (intro yields_intros mapping) simp_all
qed

lemma sound_zero_job [simp]: "sound_job zero_job"
  by (simp add: sound_job_def zero_job_def job_steps_def)

lemma sound_job_text_field [simp]: "sound_job (job_text_field doc c key v j) = sound_job j"
  by (simp add: sound_job_def job_text_field_def job_steps_def Let_def split: option.split)

lemma yields_any: "(\<And>x. P x) \<Longrightarrow> yields P m"
  by (simp add: yields_def)

lemma yields_job_field:
  assumes "sound_job (fst s)"
  shows "yields (\<lambda>s. sound_job (fst s)) (job_field k doc m c key v s)"
proof -
  obtain j pn n where s: "s = (j, pn, n)" by (cases s)
  have steps: "yields (\<lambda>ss. sound_job (fst (j\<lparr>job_StepsRange := r, job_Steps := Some ss\<rparr>, pn, n)))
      (parseSteps k doc v)" for r
    by (rule yields_mono [OF yields_parseSteps]) (use assms s in \<open>simp add: sound_job_def job_steps_def\<close>)
  have ref: "yields (\<lambda>x. sound_job (fst (case x of (e, er, ps) \<Rightarrow>
      (j\<lparr>job_Executor := e, job_ExecutorRange := er, job_ExecutorParameters := ps\<rparr>, pn, n))))
      (parseExecutorRef k doc v' c)" for v'
    by (rule yields_mono [OF yields_parseExecutorRef])
      (use assms s in \<open>auto simp: sound_job_def job_steps_def\<close>)
  have j: "sound_job j" using assms s by simp
  have upd: "sound_job (fst (j', pn', n'))"
    if "job_Steps j' = job_Steps j" "job_ExecutorParameters j' = job_ExecutorParameters j" for j' pn' n'
    using j that by (simp add: sound_job_def job_steps_def)
  have texts: "sound_job (fst (job_text_field doc c key v j, pn, n))"
    using j by simp
  show ?thesis
    unfolding s job_field_def Let_def prod.case
    by (intro yields_if yields_pmap yields_pret texts steps ref) (rule yields_any, rule upd, simp, simp)+
qed

lemma sound_Let_job: "sound_job a \<Longrightarrow> (\<And>j. sound_job j \<Longrightarrow> sound_job (f j)) \<Longrightarrow> sound_job (Let a f)"
  by (simp add: Let_def)

lemma sound_Let: "sound_job (f a) \<Longrightarrow> sound_job (Let a f)"
  by (simp add: Let_def)

lemma sound_AddCompletionItem: "sound_job j \<Longrightarrow> sound_job (if b then AddCompletionItem l cs j else j)"
  by (simp add: sound_job_def AddCompletionItem_def job_steps_def)

lemma sound_jobCompletionItem: "sound_job j \<Longrightarrow> sound_job (jobCompletionItem b j)"
  unfolding jobCompletionItem_def
  by (rule sound_Let, rule sound_Let, rule sound_Let, rule sound_Let, rule sound_Let)
    (assumption | rule sound_Let_job sound_AddCompletionItem | rule sound_Let)+

lemma sound_new_job: "sound_job (zero_job\<lparr>job_Name := n, job_Range := r, job_NameRange := nr\<rparr>)"
  by (simp add: sound_job_def zero_job_def job_steps_def)

lemma yields_parseSingleJob: "yields sound_job (parseSingleJob k doc n)"
proof -
  have walk: "yields (\<lambda>s. sound_job (fst s)) (iterateOnBlockMapping k doc m'
      (\<lambda>child s. if is_pair doc child then on_pair doc (job_field k doc m) child s else pret s) s)"
    if "sound_job (fst s)" for m m' s
    by (intro yields_iterateOnBlockMapping yields_if yields_on_pair yields_job_field yields_pret that)
  show ?thesis
    unfolding parseSingleJob_def Let_def
    by (intro yields_case_option yields_pret sound_zero_job yields_pbind [OF walk] yields_case_prod yields_pbind_any)
      (auto intro!: sound_jobCompletionItem sound_new_job)
qed

lemma yields_parseJobs: "map_all sound_job js \<Longrightarrow> yields (map_all sound_job) (parseJobs k doc n js)"
  unfolding parseJobs_def add_job_def
  by (intro yields_case_option yields_pret yields_iterateOnBlockMapping yields_pbind [OF yields_parseSingleJob]
      yields_pbind_any map_all_put)

lemma yields_parseSingleCommand: "yields sound_command (parseSingleCommand k doc n)"
proof -
  have field: "yields sound_command (command_field k doc c s)" if "sound_command s" for c s
    unfolding command_field_def Let_def
    by (intro yields_case_option yields_if yields_pret yields_pmap yields_mono [OF yields_parseSteps]
        yields_mono [OF yields_True]) (use that in \<open>simp_all add: sound_command_def\<close>)
  show ?thesis
    unfolding parseSingleCommand_def Let_def
    by (intro yields_case_option yields_case_prod yields_pret yields_iterateOnBlockMapping field)
      (simp_all add: sound_command_def)
qed

lemma yields_parseCommands:
  "map_all sound_command cs \<Longrightarrow> yields (map_all sound_command) (parseCommands k doc n cs)"
  unfolding parseCommands_def add_command_def
  by (intro yields_case_option yields_pret yields_iterateOnBlockMapping yields_pbind [OF yields_parseSingleCommand]
      yields_pbind_any) auto


lemma sound_zero_invocation:
  "sound_invocation (zero_invocation\<lparr>ji_JobInvocationRange := r\<rparr>)"
  by (simp add: sound_invocation_def zero_invocation_def)

lemma sound_invocation_update:
  "ji_Parameters j' = ji_Parameters j \<Longrightarrow> ji_MatrixParams j' = ji_MatrixParams j \<Longrightarrow>
    sound_invocation j \<Longrightarrow> sound_invocation j'"
  by (simp add: sound_invocation_def)

lemma yields_parseMatrixParam: "yields (map_all (list_all sound_value)) (parseMatrixParam k doc n)"
proof -
  have put: "map_all (list_all sound_value)
      (case r of Inl _ \<Rightarrow> m | Inr v \<Rightarrow> gm_put key (gm_get_or [] m key @ [v]) m)"
    if "map_all (list_all sound_value) m" "sound_result r" for r key and m :: matrix_params
  proof -
    have "list_all sound_value (gm_get_or [] m key)"
      using map_all_get [OF that(1), of key] by (cases "gm_get m key") (simp_all add: gm_get_or_def)
    with that show ?thesis by (auto split: sum.split)
  qed
  show ?thesis
    unfolding parseMatrixParam_def Let_def
    by (intro yields_iterateOnBlockMapping yields_case_option yields_pret yields_pmap)
      (auto intro: yields_mono [OF yields_parseParameterValue] put)
qed

lemma yields_parseMatrixAttributes:
  "yields (\<lambda>(res, alias). map_all (list_all sound_value) res) (parseMatrixAttributes k doc n)"
proof -
  have params: "yields (\<lambda>x. case (x, al) of (res, al) \<Rightarrow> map_all (list_all sound_value) res)
      (parseMatrixParam k doc v)" for v and al :: string
    by (rule yields_mono [OF yields_parseMatrixParam]) simp
  show ?thesis
    unfolding parseMatrixAttributes_def
    by (intro yields_iterateOnBlockMapping yields_on_pair yields_case_prod yields_if yields_pmap yields_pret params)
      simp_all
qed

lemma yields_invocation_field:
  assumes "sound_invocation j"
  shows "yields sound_invocation (invocation_field k doc c j)"
proof -
  have matrix: "yields (\<lambda>x. sound_invocation (case x of (params, alias) \<Rightarrow>
        if alias \<noteq> []
        then j\<lparr>ji_HasMatrix := True, ji_MatrixRange := r, ji_MatrixParams := params, ji_StepName := alias\<rparr>
        else j\<lparr>ji_HasMatrix := True, ji_MatrixRange := r, ji_MatrixParams := params\<rparr>))
      (parseMatrixAttributes k doc v)" for r v
    by (rule yields_mono [OF yields_parseMatrixAttributes])
      (use assms in \<open>auto simp: sound_invocation_def\<close>)
  have param: "yields (\<lambda>p. sound_invocation (j\<lparr>ji_Parameters := put_value key p (ji_Parameters j)\<rparr>))
      (parseParameterValue k doc c)" for key
    by (rule yields_mono [OF yields_parseParameterValue]) (use assms in \<open>auto simp: sound_invocation_def\<close>)
  show ?thesis
    unfolding invocation_field_def Let_def
    by (intro yields_case_option yields_if yields_pmap yields_pret matrix param assms)
      (rule sound_invocation_update [OF _ _ assms], simp, simp |
       rule yields_any, rule sound_invocation_update [OF _ _ assms], simp, simp)+
qed

lemma yields_invocation_element:
  "sound_invocation j \<Longrightarrow> yields sound_invocation (invocation_element k doc e j)"
  unfolding invocation_element_def Let_def
  by (intro yields_if yields_case_prod yields_case_option yields_pret yields_iterateOnBlockMapping
      yields_invocation_field)
    (simp_all add: sound_invocation_def)

lemma yields_parseJobInvocations: "yields (list_all sound_invocation) (parseJobInvocations k doc n)"
proof -
  have single: "yields sound_invocation (parseSingleJobInvocation k doc c)" for c
    unfolding parseSingleJobInvocation_def Let_def
    by (intro yields_if yields_case_option yields_pret yields_invocation_element sound_zero_invocation)
      (simp add: sound_invocation_def zero_invocation_def)
  show ?thesis
    unfolding parseJobInvocations_def Let_def
    by (intro yields_pfold yields_pmap yields_mono [OF single]) simp_all
qed

lemma yields_parseJobGroups:
  "map_all (list_all sound_invocation \<circ> jg_JobInvocations) gs \<Longrightarrow>
    yields (map_all (list_all sound_invocation \<circ> jg_JobInvocations)) (parseJobGroups k doc n gs)"
proof -
  have jobs: "yields (\<lambda>js. list_all sound_invocation (jg_JobInvocations
      (g\<lparr>jg_JobsRange := r, jg_JobInvocations := js, jg_JobsDAG := buildJobsDAG js\<rparr>)))
      (parseJobInvocations k doc v)" for g r v
    by (rule yields_mono [OF yields_parseJobInvocations]) simp
  have single: "yields (\<lambda>g. list_all sound_invocation (jg_JobInvocations g)) (parseSingleJobGroup k doc c)" for c
    unfolding parseSingleJobGroup_def Let_def
    by (intro yields_if yields_case_prod yields_case_option yields_pret yields_iterateOnBlockMapping
        yields_on_pair yields_pmap jobs)
      (simp_all add: zero_job_group_def)
  assume "map_all (list_all sound_invocation \<circ> jg_JobInvocations) gs"
  then show ?thesis
    unfolding parseJobGroups_def
    by (intro yields_case_option yields_pret yields_iterateOnBlockMapping yields_pmap yields_mono [OF single])
      auto
qed

lemma yields_parseWorkflows:
  "map_all (list_all sound_invocation \<circ> wfl_JobInvocations) ws \<Longrightarrow>
    yields (map_all (list_all sound_invocation \<circ> wfl_JobInvocations)) (parseWorkflows k doc n ws)"
proof -
  have jobs: "yields (\<lambda>js. list_all sound_invocation (wfl_JobInvocations
      (w\<lparr>wfl_JobsRange := r, wfl_JobInvocations := js, wfl_JobsDAG := buildJobsDAG js\<rparr>)))
      (parseJobInvocations k doc v)" for w r v
    by (rule yields_mono [OF yields_parseJobInvocations]) simp
  have field: "yields (\<lambda>w. list_all sound_invocation (wfl_JobInvocations w)) (workflow_field k doc c key v w)"
    if "list_all sound_invocation (wfl_JobInvocations w)" for c key v w
    unfolding workflow_field_def Let_def
    by (intro yields_if yields_pret yields_pmap jobs) (rule yields_any | use that in simp)+
  have single: "yields (\<lambda>w. list_all sound_invocation (wfl_JobInvocations w)) (parseSingleWorkflow k doc c)" for c
    unfolding parseSingleWorkflow_def Let_def
    by (intro yields_case_prod yields_case_option yields_pret yields_iterateOnBlockMapping yields_on_pair field)
      (simp_all add: zero_workflow_def)
  assume "map_all (list_all sound_invocation \<circ> wfl_JobInvocations) ws"
  then show ?thesis
    unfolding parseWorkflows_def add_workflow_def
    by (intro yields_iterateOnBlockMapping yields_if yields_pbind_any yields_pret yields_pbind [OF single]
        yields_case_option) auto
qed

subsection \<open>Documents\<close>

definition sound_info :: "orb_info \<Rightarrow> bool" where
  "sound_info info \<longleftrightarrow>
     map_all sound_job (oa_Jobs (oi_Attributes info)) \<and> map_all sound_command (oa_Commands (oi_Attributes info))"

definition sound_document :: "yaml_document \<Rightarrow> bool" where
  "sound_document doc \<longleftrightarrow>
     map_all sound_job (yd_Jobs doc) \<and> map_all sound_command (yd_Commands doc) \<and>
     map_all (list_all sound_invocation \<circ> wfl_JobInvocations) (yd_Workflows doc) \<and>
     map_all (list_all sound_invocation \<circ> jg_JobInvocations) (yd_JobGroups doc) \<and>
     map_all sound_info (yd_LocalOrbInfo doc) \<and> local_orbs_known doc"

lemma sound_invocations_tagged: "list_all sound_invocation js \<Longrightarrow> list_all invocation_tagged js"
  by (auto simp: list_all_iff intro: sound_invocation_tagged)

lemma sound_document_tagged: "sound_document doc \<Longrightarrow> document_tagged doc"
  unfolding sound_document_def document_tagged_def entities_tagged_def map_all_iff sound_info_def
    sound_command_def FromOrbParsedAttributesToYamlDocument_def comp_def
  by (simp add: split_beta) (metis sound_job_tagged sound_invocations_tagged)

lemma sound_fold:
  "sound_document d \<Longrightarrow> (\<And>x d. sound_document d \<Longrightarrow> sound_document (f x d)) \<Longrightarrow> sound_document (fold f xs d)"
  by (induction xs arbitrary: d) simp_all

lemma sound_assign_contexts: "sound_document doc \<Longrightarrow> sound_document (assignContexts doc)"
proof -
  have job: "sound_document (addContextToJob n ctx d)" if "sound_document d" for n ctx d
    using that map_all_get [of sound_job "yd_Jobs d" n]
    by (auto simp: addContextToJob_def sound_document_def local_orbs_known_def sound_job_def job_steps_def
        split: option.split)
  have command: "sound_document (addContextToCommand n ctx d)" if "sound_document d" for n ctx d
    using that map_all_get [of sound_command "yd_Commands d" n]
    by (auto simp: addContextToCommand_def sound_document_def local_orbs_known_def sound_command_def
        split: option.split)
  have step: "sound_document (assign_step ctx s d)" if "sound_document d" for ctx s d
    using that by (simp add: assign_step_def Let_def job command)
  have one: "sound_document (assign_context n ctx d)" if "sound_document d" for n ctx d
    using that unfolding assign_context_def by (auto intro!: sound_fold step job split: option.split)
  assume "sound_document doc"
  then show ?thesis
    unfolding assignContexts_def by (auto intro!: sound_fold one split: prod.split)
qed


lemma getOrbURL_remote [simp]: "\<not> ou_IsLocal (getOrbURL s)"
  by (simp add: getOrbURL_def split: list.split)

lemma local_orbs_known_info:
  "local_orbs_known doc \<Longrightarrow> local_orbs_known (doc\<lparr>yd_LocalOrbInfo := gm_put n i (yd_LocalOrbInfo doc)\<rparr>)"
  by (auto simp: local_orbs_known_def)

lemma local_orbs_known_orb:
  "local_orbs_known doc \<Longrightarrow> (ou_IsLocal (orb_Url orb) \<Longrightarrow> gm_has (yd_LocalOrbInfo doc) (orb_Name orb)) \<Longrightarrow>
    local_orbs_known (doc\<lparr>yd_Orbs := gm_put n orb (yd_Orbs doc)\<rparr>)"
proof -
  assume known: "local_orbs_known doc" and new: "ou_IsLocal (orb_Url orb) \<Longrightarrow> gm_has (yd_LocalOrbInfo doc) (orb_Name orb)"
  have "map_all (\<lambda>x. ou_IsLocal (orb_Url x) \<longrightarrow> gm_has (yd_LocalOrbInfo doc) (orb_Name x))
      (gm_put n orb (yd_Orbs doc))"
    using known new by (intro map_all_put) (simp_all add: local_orbs_known_def map_all_iff)
  then show ?thesis by (simp add: local_orbs_known_def map_all_iff)
qed

lemma sound_document_same:
  assumes "sound_document doc"
  shows "yd_Jobs d = yd_Jobs doc \<Longrightarrow> yd_Commands d = yd_Commands doc \<Longrightarrow> yd_Workflows d = yd_Workflows doc \<Longrightarrow>
    yd_JobGroups d = yd_JobGroups doc \<Longrightarrow> yd_LocalOrbInfo d = yd_LocalOrbInfo doc \<Longrightarrow> yd_Orbs d = yd_Orbs doc \<Longrightarrow>
    sound_document d"
  using assms by (simp add: sound_document_def local_orbs_known_def)

lemma yields_parseLocalOrb:
  assumes "sound_document doc" "\<And>content pos d. sub content pos = Some d \<Longrightarrow> sound_document d"
  shows "yields (\<lambda>(n, d). sound_document d \<and> (n \<noteq> None \<longrightarrow> gm_has (yd_LocalOrbInfo d) name))
    (parseLocalOrb sub name orbNode doc)"
proof -
  have "sound_info (local_orb_info doc name content d)" if "sound_document d" for content d
    using that by (simp add: sound_info_def local_orb_info_def ToOrbParsedAttributes_def sound_document_def)
  then have "sound_document (doc\<lparr>yd_LocalOrbInfo :=
      gm_put name (local_orb_info doc name content d) (yd_LocalOrbInfo doc)\<rparr>)" if "sound_document d" for content d
    using assms(1) that local_orbs_known_info [of doc] by (auto simp: sound_document_def)
  then show ?thesis
    unfolding parseLocalOrb_def Let_def
    by (intro yields_if yields_pret yields_pbind [OF yields_plift [where P = sound_document]] yields_pbind_any)
      (use assms in auto)
qed

lemma yields_parseSingleOrb:
  assumes "sound_document doc" "\<And>content pos d. sub content pos = Some d \<Longrightarrow> sound_document d"
  shows "yields (\<lambda>((orb, l), d). sound_document d \<and>
      (case orb of None \<Rightarrow> True | Some orb \<Rightarrow> ou_IsLocal (orb_Url orb) \<longrightarrow> gm_has (yd_LocalOrbInfo d) (orb_Name orb)))
    (parseSingleOrb sub orbNode doc)"
  unfolding parseSingleOrb_def Let_def
  by (intro yields_case_option yields_if yields_pret yields_pmap yields_mono [OF yields_parseLocalOrb [OF assms]])
    (use assms(1) in \<open>auto split: option.splits\<close>)

lemma yields_parseOrbs:
  assumes "sound_document doc" "\<And>content pos d. sub content pos = Some d \<Longrightarrow> sound_document d"
  shows "yields sound_document (parseOrbs sub k orbsNode doc)"
proof -
  have add: "sound_document (let d = (case orb of None \<Rightarrow> d
                           | Some orb \<Rightarrow> d\<lparr>yd_Orbs := gm_put (orb_Name orb) orb (yd_Orbs d)\<rparr>)
                in case localOrb of None \<Rightarrow> d | Some name \<Rightarrow> d\<lparr>yd_LocalOrbs := yd_LocalOrbs d @ [name]\<rparr>)"
    if "sound_document d" "case orb of None \<Rightarrow> True
      | Some orb \<Rightarrow> ou_IsLocal (orb_Url orb) \<longrightarrow> gm_has (yd_LocalOrbInfo d) (orb_Name orb)"
    for orb d and localOrb :: "string option"
  proof (cases orb)
    case None
    then show ?thesis
      by (auto simp: Let_def that(1) split: option.split intro: sound_document_same [OF that(1)])
  next
    case (Some orb')
    let ?d = "d\<lparr>yd_Orbs := gm_put (orb_Name orb') orb' (yd_Orbs d)\<rparr>"
    have d: "sound_document ?d"
      using that Some local_orbs_known_orb [of d orb'] by (auto simp: sound_document_def)
    then have "sound_document (?d\<lparr>yd_LocalOrbs := ls\<rparr>)" for ls
      by (rule sound_document_same) simp_all
    with d Some show ?thesis by (auto simp: Let_def split: option.split)
  qed
  show ?thesis
    unfolding parseOrbs_def
  proof (intro yields_case_option yields_pret yields_iterateOnBlockMapping yields_pmap assms(1))
    fix c d
    assume d: "sound_document d"
    show "yields (\<lambda>x. sound_document (case x of (x, d) \<Rightarrow> (case x of (orb, localOrb) \<Rightarrow> \<lambda>doc.
        let doc = (case orb of None \<Rightarrow> doc
                   | Some orb \<Rightarrow> doc\<lparr>yd_Orbs := gm_put (orb_Name orb) orb (yd_Orbs doc)\<rparr>)
        in case localOrb of None \<Rightarrow> doc | Some name \<Rightarrow> doc\<lparr>yd_LocalOrbs := yd_LocalOrbs doc @ [name]\<rparr>) d))
      (parseSingleOrb sub c d)"
      by (rule yields_mono [OF yields_parseSingleOrb [OF d assms(2)]]) (auto intro!: add)
  qed
qed


lemma yields_root_field:
  assumes doc: "sound_document doc" and sub: "\<And>content pos d. sub content pos = Some d \<Longrightarrow> sound_document d"
  shows "yields sound_document (root_field sub k child doc)"
proof -
  have same: "sound_document d" if "yd_Jobs d = yd_Jobs doc" "yd_Commands d = yd_Commands doc"
      "yd_Workflows d = yd_Workflows doc" "yd_JobGroups d = yd_JobGroups doc"
      "yd_LocalOrbInfo d = yd_LocalOrbInfo doc" "yd_Orbs d = yd_Orbs doc" for d
    by (rule sound_document_same [OF doc that])
  have jobs: "yields (\<lambda>js. sound_document (doc\<lparr>yd_JobsRange := r, yd_Jobs := js\<rparr>)) (parseJobs k doc v (yd_Jobs doc))"
    for r v
    by (rule yields_mono [OF yields_parseJobs]) (use doc in \<open>auto simp: sound_document_def local_orbs_known_def\<close>)
  have commands: "yields (\<lambda>cs. sound_document (doc\<lparr>yd_CommandsRange := r, yd_Commands := cs\<rparr>))
      (parseCommands k doc v (yd_Commands doc))" for r v
    by (rule yields_mono [OF yields_parseCommands]) (use doc in \<open>auto simp: sound_document_def local_orbs_known_def\<close>)
  have groups: "yields (\<lambda>gs. sound_document (doc\<lparr>yd_JobGroupsRange := r, yd_JobGroups := gs\<rparr>))
      (parseJobGroups k doc v (yd_JobGroups doc))" for r v
    by (rule yields_mono [OF yields_parseJobGroups]) (use doc in \<open>auto simp: sound_document_def local_orbs_known_def\<close>)
  have workflows: "yields (\<lambda>ws. sound_document (doc\<lparr>yd_WorkflowRange := r, yd_Workflows := ws\<rparr>))
      (parseWorkflows k doc v (yd_Workflows doc))" for r v
    by (rule yields_mono [OF yields_parseWorkflows]) (use doc in \<open>auto simp: sound_document_def local_orbs_known_def\<close>)
  have orbs: "yields sound_document (parseOrbs sub k v (doc\<lparr>yd_OrbsRange := r\<rparr>))" for r v
    by (rule yields_parseOrbs [OF same sub]) simp_all
  have version: "sound_document (parseVersion v doc)" for v
    by (auto simp: parseVersion_def doc intro: same split: option.split)
  have others: "yields (\<lambda>es. sound_document (doc\<lparr>yd_ExecutorsRange := r, yd_Executors := es\<rparr>)) m"
    "yields (\<lambda>ps. sound_document (doc\<lparr>yd_PipelineParametersRange := r, yd_PipelineParameters := params_of ps\<rparr>)) m'"
    for r m m'
    by (rule yields_any, rule same, simp_all)+
  show ?thesis
    unfolding root_field_def Let_def
    by (intro yields_if yields_case_option yields_pret yields_pmap jobs commands groups workflows orbs others doc)
      (auto intro: same sound_document_same [OF version] doc split: option.split)
qed

lemma sound_ParseFile: "sound_document ((ParseFile g content ctx)\<lparr>yd_URI := uri\<rparr>)"
  by (simp add: ParseFile_def sound_document_def local_orbs_known_def)

lemma sound_prepare: "sound_document doc \<Longrightarrow> sound_document (prepare_document doc offset)"
  by (erule sound_document_same) (simp_all add: prepare_document_def parse_suppression_def Let_def split: prod.split)

lemma sound_ParseYAML: "sound_document doc \<Longrightarrow> ParseYAML k g doc offset = Some doc' \<Longrightarrow> sound_document doc'"
proof (induction k arbitrary: doc offset doc')
  case (Suc k)
  let ?sub = "\<lambda>content pos. ParseYAML k g ((ParseFile g content (yd_Context doc))\<lparr>yd_URI := yd_URI doc\<rparr>) pos"
  let ?doc = "prepare_document doc offset"
  have sub: "sound_document d" if "?sub content pos = Some d" for content pos d
    by (rule Suc.IH [OF sound_ParseFile that])
  have "yields sound_document (walk_document ?sub k ?doc)"
    unfolding walk_document_def
    by (rule yields_iterateOnBlockMapping, rule sound_prepare [OF Suc.prems(1)], rule yields_root_field,
        assumption, erule sub)
  then have walk: "sound_document d" if "walk_document ?sub k ?doc = Some (d, ds)" for d ds
    using that by (rule yieldsD)
  show ?case
  proof (cases "yd_Diagnostics doc = []")
    case True
    with Suc.prems(2) obtain d ds where d: "walk_document ?sub k ?doc = Some (d, ds)"
      and doc': "doc' = assignContexts (add_diagnostics (d, ds))"
      by auto
    have "sound_document (add_diagnostics (d, ds))"
      by (rule sound_document_same [OF walk [OF d]]) (simp_all add: add_diagnostics_def)
    with doc' show ?thesis by (simp add: sound_assign_contexts)
  qed (use Suc.prems in simp)
qed simp

lemma ParseFromContent_tagged:
  "ParseFromContent k g content ctx uri offset = Some doc \<Longrightarrow> document_tagged doc"
  unfolding ParseFromContent_def by (rule sound_document_tagged, rule sound_ParseYAML [OF sound_ParseFile])


end
