(* ===== verification/Schema.thy ===== *)
theory Schema
  imports ParseDoc
begin

text \<open>
  The validation against the JSON schema: \<open>pkg/parser/jsonschema.go\<close>, \<open>FindDeepestNode\<close> of
  \<open>pkg/parser/utils.go\<close> and \<open>NodeAtPos\<close> of \<open>pkg/utils/nodeAtPos.go\<close>. The YAML reader, the schema
  validator and the compiler of regular expressions given at run time are third-party or library
  code on data the program does not choose: they are functions of the record \<open>schema_services\<close>.
  \<open>None\<close> is a run-time panic.
\<close>

text \<open>
  In order: the nodes that the iterator of the syntax tree visits from a node, in depth-first
  order; whether a schema can be loaded from a location (the empty one is the embedded schema);
  the error of \<open>yaml.Unmarshal\<close> on a content, if any; the result of the schema on the content: an
  error, or the field and the description of every violation; all the matches of an expression
  in a text, \<open>None\<close> when the expression does not compile.
\<close>

record schema_services =
  sv_DFS :: "sitter \<Rightarrow> node \<Rightarrow> node list"
  sv_Load :: "string \<Rightarrow> bool"
  sv_Unmarshal :: "string \<Rightarrow> string option"
  sv_Validate :: "string \<Rightarrow> string + (string \<times> string) list"
  sv_FindAll :: "string \<Rightarrow> string \<Rightarrow> (nat \<times> nat) list option"

subsection \<open>nodeAtPos.go, utils.go: searching the tree\<close>

definition NodeAtPos :: "schema_services \<Rightarrow> sitter \<Rightarrow> node \<Rightarrow> position \<Rightarrow> node option \<times> node list" where
  "NodeAtPos sv t rootNode pos =
     (let listOfCandidates = filter (\<lambda>n. PosInRange (raw_range t n) pos) (sv_DFS sv t rootNode)
      in (if listOfCandidates = [] then None else Some (last listOfCandidates), listOfCandidates))"

text \<open>
  What one visited node does to the search for the first name of a path: nothing, an error, an
  abort, or the node (perhaps nil) from which to search for the other names.
\<close>

datatype search = NoHit | OutOfRange | Abort | Descend "node option"

definition search_node :: "sitter \<Rightarrow> string \<Rightarrow> string \<Rightarrow> node \<Rightarrow> search" where
  "search_node t content name n =
     (let index = go_Atoi name;
          pair = (if st_Type t n = ''block_mapping_pair''
                  then (case st_ChildByFieldName t n ''key'' of
                          None \<Rightarrow> Abort
                        | Some key \<Rightarrow> if node_raw_text t content (Some key) = name then Descend (Some n) else NoHit)
                  else NoHit)
      in case index of
           None \<Rightarrow> pair
         | Some i \<Rightarrow>
             if st_Type t n = ''block_sequence''
             then if st_ChildCount t n < unat (of_int (i + 1) :: u32) then OutOfRange
                  else Descend (st_Child t n (unat (of_int i :: u32)))
             else pair)"

definition first_hit :: "search list \<Rightarrow> search" where
  "first_hit hits = (case filter (\<lambda>h. h \<noteq> NoHit) hits of [] \<Rightarrow> NoHit | h # _ \<Rightarrow> h)"

text \<open>The outer \<open>None\<close> is an abort, as on a nil node; the error is \<open>Inl\<close>.\<close>

fun FindDeepestNode ::
    "schema_services \<Rightarrow> sitter \<Rightarrow> string \<Rightarrow> node option \<Rightarrow> string list \<Rightarrow> (string + node option) option" where
  "FindDeepestNode sv t content rootNode [] = Some (Inr rootNode)"
| "FindDeepestNode sv t content rootNode (name # names) =
     (case rootNode of
        None \<Rightarrow> None
      | Some r \<Rightarrow>
          (case first_hit (map (search_node t content name) (sv_DFS sv t r)) of
             NoHit \<Rightarrow> Some (Inl ''not found'')
           | OutOfRange \<Rightarrow> Some (Inl ''index out of range'')
           | Abort \<Rightarrow> None
           | Descend n \<Rightarrow> FindDeepestNode sv t content n names))"

subsection \<open>jsonschema.go: errors of the YAML reader\<close>

definition re_digits :: cclass where
  "re_digits = In (chars_between (CHR ''0'') (CHR ''9''))"

definition re_any :: cclass where
  "re_any = NotIn []"

definition reError :: regex where
  "reError = rx_seq [RBegin, rx_lit ''yaml: line '', RGroup 1 (rx_plus re_digits), rx_lit '':'',
     RClass re_space, RGroup 2 (rx_plus re_any)]"

text \<open>
  The last group of the expression is repeated, but its wildcard runs to the end of the text, so
  that the first repetition leaves nothing for a second one.
\<close>

definition reMultilineError :: regex where
  "reMultilineError = rx_seq [RBegin, rx_lit ''yaml:'', RClass re_space,
     RGroup 1 (rx_plus (In (chars_between (CHR ''0'') (CHR ''9'') @ chars_between (CHR ''A'') (CHR ''Z'') @
       chars_between (CHR ''a'') (CHR ''z'') @ [CHR ''_'', CHR 0x09, CHR 0x0A, CHR 0x0C, CHR 0x0D, CHR '' '']))),
     rx_lit '':'', rx_lit newline_str,
     RGroup 2 (rx_seq [rx_plus re_space, rx_lit ''line '', rx_plus re_digits, rx_lit '':'', rx_plus re_any,
       ROpt (rx_lit newline_str)])]"

definition reLineError :: regex where
  "reLineError = rx_seq [RBegin, rx_plus re_space, rx_lit ''line'', rx_plus re_space,
     RGroup 1 (rx_plus re_digits), rx_lit '':'', RClass re_space, RGroup 2 (rx_plus re_dot), REnd]"

definition duplicateMergeKeyErrorRegex :: regex where
  "duplicateMergeKeyErrorRegex =
     rx_seq [rx_lit ''mapping key '', rx_lit [CHR 0x22], rx_lit ''<<'', rx_lit [CHR 0x22],
       rx_lit '' already defined at line '', rx_plus re_digits, ROpt (rx_lit newline_str)]"

text \<open>The unknown anchor's name is used as an expression; only its aliases are reported.\<close>

definition unknown_anchor_match ::
    "schema_services \<Rightarrow> sitter \<Rightarrow> string \<Rightarrow> node \<Rightarrow> string \<Rightarrow> nat \<times> nat \<Rightarrow> diagnostic list option" where
  "unknown_anchor_match sv t content rootNode err m =
     (case (IndexToPos (int (fst m)) content, IndexToPos (int (snd m)) content) of
        (Some s, Some e) \<Rightarrow>
          (case fst (NodeAtPos sv t rootNode s) of
             None \<Rightarrow> None
           | Some n \<Rightarrow> Some (if st_Type t n = ''alias_name''
                             then [CreateErrorDiagnosticFromRange (mk_range s e) err] else []))
      | _ \<Rightarrow> None)"

definition unknown_anchor_errors ::
    "schema_services \<Rightarrow> sitter \<Rightarrow> string \<Rightarrow> node \<Rightarrow> string \<Rightarrow> diagnostic list option" where
  "unknown_anchor_errors sv t content rootNode err =
     (case split_on (CHR 0x27) err of
        _ # anchorName # _ \<Rightarrow>
          (case sv_FindAll sv anchorName content of
             None \<Rightarrow> None
           | Some res \<Rightarrow> map_option concat (those (map (unknown_anchor_match sv t content rootNode err) res)))
      | _ \<Rightarrow> None)"

text \<open>
  The lines of an error with several lines: their numbers from zero and their messages. The inner
  \<open>None\<close> is a number that does not fit.
\<close>

fun line_errors :: "string list \<Rightarrow> (int \<times> string) list option option" where
  "line_errors [] = Some (Some [])"
| "line_errors (line # ls) =
     (case rx_submatch reLineError line of
        None \<Rightarrow> None
      | Some caps \<Rightarrow>
          (case go_Atoi (submatch caps 1) of
             None \<Rightarrow> Some None
           | Some n \<Rightarrow> map_option (map_option (\<lambda>es. (n - 1, submatch caps 2) # es)) (line_errors ls)))"

definition multiline_errors ::
    "sitter \<Rightarrow> string \<Rightarrow> node \<Rightarrow> string \<Rightarrow> string list \<Rightarrow> diagnostic list option" where
  "multiline_errors t content rootNode err ls =
     (case line_errors ls of
        None \<Rightarrow> None
      | Some None \<Rightarrow> Some [CreateErrorDiagnosticFromNode t rootNode err]
      | Some (Some es) \<Rightarrow>
          map_option (\<lambda>ranges.
              map (\<lambda>(r, e). CreateErrorDiagnosticFromRange r e)
                (filter (\<lambda>(r, e). \<not> rx_match duplicateMergeKeyErrorRegex e) (zip ranges (map snd es))))
            (AllLineContentRange (map fst es) content))"

definition handleYAMLErrors ::
    "schema_services \<Rightarrow> sitter \<Rightarrow> string \<Rightarrow> string \<Rightarrow> node \<Rightarrow> diagnostic list option" where
  "handleYAMLErrors sv t err content rootNode =
     (let whole = [CreateErrorDiagnosticFromNode t rootNode err] in
      if str_contains err ''yaml: unknown anchor'' then unknown_anchor_errors sv t content rootNode err
      else if str_contains err ''yaml: map merge requires map or sequence of maps as the value'' then Some []
      else (case rx_submatch reError err of
              Some info \<Rightarrow>
                (case go_Atoi (submatch info 1) of
                   None \<Rightarrow> Some whole
                 | Some lineNumber \<Rightarrow>
                     map_option (\<lambda>lineRange. [CreateErrorDiagnosticFromRange lineRange
                                                (ToDiagnosticMessage (submatch info 2))])
                       (LineContentRange lineNumber content))
            | None \<Rightarrow>
                (case rx_submatch reMultilineError err of
                   None \<Rightarrow> Some whole
                 | Some mes \<Rightarrow> multiline_errors t content rootNode err (split_on (CHR 0x0A) (submatch mes 2)))))"

subsection \<open>jsonschema.go: the violations of the schema\<close>

definition hasAnotherDiagInsideRange :: "diagnostic list \<Rightarrow> range \<Rightarrow> bool" where
  "hasAnotherDiagInsideRange diags rangeToCheck =
     list_ex (\<lambda>d. PosInRange rangeToCheck (Start (diag_Range d))) diags"

definition one_of_message :: string where
  "one_of_message = ''Must validate one and only one schema (oneOf)''"

definition removeUselessMustValidateError :: "diagnostic list \<Rightarrow> diagnostic list" where
  "removeUselessMustValidateError diags =
     concat (map (\<lambda>d.
       if diag_Message d = one_of_message
       then if hasAnotherDiagInsideRange diags (diag_Range d) then []
            else [CreateDiagnosticFromRange (diag_Range d) (diag_Severity d) ''Invalid structure'' []]
       else [d]) diags)"

definition doesNodeUseParameter :: "yaml_document \<Rightarrow> node \<Rightarrow> bool" where
  "doesNodeUseParameter doc n =
     (if st_Type (yd_Tree doc) n = ''block_mapping_pair''
      then (case GetKeyValueNodes doc (Some n) of
              (Some keyNode, Some valueNode) \<Rightarrow>
                GetNodeText doc (Some keyNode) = ''when'' \<and> CheckIfOnlyParamUsed (GetNodeText doc (Some valueNode))
            | _ \<Rightarrow> False)
      else False)"

definition schema_diagnostic ::
    "schema_services \<Rightarrow> yaml_document \<Rightarrow> string \<times> string \<Rightarrow> diagnostic list option" where
  "schema_diagnostic sv doc resErr =
     (let t = yd_Tree doc; rootNode = yd_RootNode doc; fields = split_on (CHR ''.'') (fst resErr)
      in if fields = [''(root)''] then Some [CreateErrorDiagnosticFromNode t rootNode (snd resErr)]
         else (case FindDeepestNode sv t (yd_Content doc) (Some rootNode) fields of
                 None \<Rightarrow> None
               | Some (Inl err) \<Rightarrow> Some []
               | Some (Inr None) \<Rightarrow> None
               | Some (Inr (Some n)) \<Rightarrow>
                   Some (if doesNodeUseParameter doc n then []
                         else [CreateErrorDiagnosticFromNode t n (snd resErr)])))"

definition ValidateWithJSONSchema :: "schema_services \<Rightarrow> yaml_document \<Rightarrow> diagnostic list option" where
  "ValidateWithJSONSchema sv doc =
     (let t = yd_Tree doc; rootNode = yd_RootNode doc; content = yd_Content doc in
      case (case sv_Unmarshal sv content of
              None \<Rightarrow> Some [] | Some err \<Rightarrow> handleYAMLErrors sv t err content rootNode) of
        None \<Rightarrow> None
      | Some yamlErrors \<Rightarrow>
          (case sv_Validate sv content of
             Inl err \<Rightarrow> Some [CreateErrorDiagnosticFromNode t rootNode err]
           | Inr errors \<Rightarrow>
               map_option (\<lambda>ds. yamlErrors @ removeUselessMustValidateError (concat ds))
                 (those (map (schema_diagnostic sv doc) errors))))"

subsection \<open>What is left of the violations\<close>

definition range_forward :: "range \<Rightarrow> bool" where
  "range_forward r \<longleftrightarrow>
     Line (Start r) < Line (End r) \<or> Line (Start r) = Line (End r) \<and> Character (Start r) \<le> Character (End r)"

lemma PosInRange_Start: "range_forward r \<Longrightarrow> PosInRange r (Start r)"
  by (auto simp: range_forward_def PosInRange_def)

lemma removeUseless_filter:
  assumes "list_all (\<lambda>d. range_forward (diag_Range d)) ds"
  shows "removeUselessMustValidateError ds = filter (\<lambda>d. diag_Message d \<noteq> one_of_message) ds"
proof -
  have "hasAnotherDiagInsideRange ds (diag_Range d)" if "d \<in> set ds" for d
    using that assms PosInRange_Start by (auto simp: hasAnotherDiagInsideRange_def list_ex_iff list_all_iff)
  then have "removeUselessMustValidateError ds =
      concat (map (\<lambda>d. if diag_Message d = one_of_message then [] else [d]) ds)"
    unfolding removeUselessMustValidateError_def by (intro arg_cong [where f = concat] map_cong) auto
  also have "\<dots> = filter (\<lambda>d. diag_Message d \<noteq> one_of_message) ds"
    by (induction ds) simp_all
  finally show ?thesis .
qed

subsection \<open>Errors of one line\<close>

lemma re_digits_iff: "in_class re_digits x \<longleftrightarrow> is_digit x"
  by (simp add: re_digits_def set_chars_between is_digit_def)

lemma rxm_reError:
  assumes "rxm reError n (s, []) st"
  shows "\<exists>p x q r. s = ''yaml: line '' @ p @ CHR '':'' # x # q @ r \<and> list_all is_digit p \<and> p \<noteq> [] \<and>
    snd st = [(2, q), (1, p)]"
  using assms
  by (auto simp: reError_def rxm_lit rxm_plus re_digits_iff list_all_iff)

lemma reError_matches:
  assumes "list_all is_digit p" "p \<noteq> []" "in_class re_space x" "q \<noteq> []"
  shows "\<exists>st. rxm reError (length (''yaml: line '' @ p @ CHR '':'' # x # q)) (''yaml: line '' @ p @ CHR '':'' # x # q, []) st"
proof -
  let ?s = "''yaml: line '' @ p @ CHR '':'' # x # q"
  have "rxm reError (length ?s) (?s, []) ([], [(2, q), (1, p)])"
    using assms apply (simp add: reError_def rxm_lit rxm_plus re_digits_iff list_all_iff re_any_def)
    apply (rule exI [of _ "CHR '':'' # x # q"], rule exI [of _ "[(Suc 0, p)]"], simp)
    done
  then show ?thesis by blast
qed

lemma reError_submatch:
  assumes "msg \<noteq> []"
  shows "\<exists>q. rx_submatch reError (''yaml: line '' @ dec_string n @ '': '' @ msg) = Some [(2, q), (1, dec_string n)]"
proof -
  let ?s = "''yaml: line '' @ dec_string n @ '': '' @ msg"
  have digits: "list_all is_digit (dec_string n)" "dec_string n \<noteq> []"
    using dec_string_digits [of n] by (auto simp: list_all_iff)
  have "\<exists>st. rxm reError (length ?s) (?s, []) st"
    using reError_matches [OF digits, of "CHR '' ''" msg] assms by (simp add: re_space_def)
  then obtain st where "st \<in> set (rx reError (length ?s) (?s, []))" by (auto simp: set_rx)
  then obtain st sts where hd: "rx reError (length ?s) (?s, []) = st # sts"
    by (cases "rx reError (length ?s) (?s, [])") auto
  then have "rxm reError (length ?s) (?s, []) st" by (metis list.set_intros(1) set_rx)
  then obtain p x q r where p: "dec_string n @ '': '' @ msg = p @ CHR '':'' # x # q @ r"
      "list_all is_digit p" "snd st = [(2, q), (1, p)]"
    using rxm_reError [of "length ?s" ?s st] by (auto simp del: dec_string.simps)
  have colon: "CHR '':'' \<notin> set w" if "list_all is_digit w" for w
    using that by (auto simp: list_all_iff is_digit_def)
  have "p = dec_string n"
    using p(1) append_sep_inj [OF colon [OF digits(1)] colon [OF p(2)], of "'' '' @ msg" "x # q @ r"] by simp
  with p(3) hd show ?thesis by (auto simp: rx_submatch_def)
qed

lemma LineContentRange_None: "LineContentRange i content = None \<longleftrightarrow> i < 0 \<or> int (length (split_on (CHR 0x0A) content)) \<le> i"
  by (auto simp: LineContentRange_def AllLineContentRange_def line_content_range_def Let_def split: option.splits)

subsection \<open>Properties\<close>

text \<open>
  C39: the search for another diagnostic inside the range of a \<open>oneOf\<close> violation finds the violation
  itself, so that every such violation is dropped and none becomes \<open>Invalid structure\<close>.
\<close>

theorem removeUselessMustValidateError_drops:
  assumes "list_all (\<lambda>d. range_forward (diag_Range d)) ds"
  shows "removeUselessMustValidateError ds = filter (\<lambda>d. diag_Message d \<noteq> one_of_message) ds"
  by (rule removeUseless_filter [OF assms])

theorem removeUselessMustValidateError_drops_witness:
  "removeUselessMustValidateError [CreateErrorDiagnosticFromRange (mk_range (mk_pos 1 2) (mk_pos 1 9)) one_of_message] = []"
proof -
  let ?d = "CreateErrorDiagnosticFromRange (mk_range (mk_pos 1 2) (mk_pos 1 9)) one_of_message"
  have "removeUselessMustValidateError [?d] = filter (\<lambda>d. diag_Message d \<noteq> one_of_message) [?d]"
    by (rule removeUselessMustValidateError_drops) (simp add: range_forward_def mk_range_def mk_pos_def)
  then show ?thesis by simp
qed


text \<open>
  C40: an error of the YAML reader about line number \<open>n\<close> makes the validation abort exactly when the
  content has no line of index \<open>n\<close>: the number counts from one, the lines are indexed from zero.
\<close>

theorem handleYAMLErrors_line_aborts:
  assumes "msg \<noteq> []" and "int n \<le> 2 ^ 63 - 1" and "err = ''yaml: line '' @ dec_string n @ '': '' @ msg"
    and "\<not> str_contains err ''yaml: unknown anchor''"
    and "\<not> str_contains err ''yaml: map merge requires map or sequence of maps as the value''"
  shows "handleYAMLErrors sv t err content rootNode = None \<longleftrightarrow> length (split_on (CHR 0x0A) content) \<le> n"
proof -
  obtain q where "rx_submatch reError err = Some [(2, q), (1, dec_string n)]"
    unfolding assms(3) using reError_submatch [OF assms(1)] by blast
  moreover have "go_Atoi (dec_string n) = Some (int n)" by (rule go_Atoi_dec_string [OF assms(2)])
  ultimately show ?thesis
    using assms(4,5) by (simp add: handleYAMLErrors_def submatch_def gm_get_or_def LineContentRange_None)
qed

theorem handleYAMLErrors_line_aborts_witness:
  "\<forall>sv t r. handleYAMLErrors sv t (''yaml: line '' @ dec_string 1 @ '': '' @ ''x'') ''a'' r = None \<longleftrightarrow>
    length (split_on (CHR 0x0A) ''a'') \<le> 1"
  by (intro allI, rule handleYAMLErrors_line_aborts) (simp_all add: str_contains_def dec_string.simps digit_char_def)


end
