(* ===== verification/Pipeline.thy ===== *)
theory Pipeline
  imports ParseValid Schema
begin

text \<open>
  The diagnostics of a file: \<open>pkg/services/diagnostics.go\<close>. A document is parsed, checked by the
  grammar, by the schema and by the validators; the diagnostics of all of them are deduplicated,
  filtered by the suppression comments and given the actions that suppress them.
\<close>

text \<open>The comparisons of a version with zero and with \<open>2.1\<close>; not a number is neither.\<close>

fun float_lt :: "float32 \<Rightarrow> int \<times> nat \<Rightarrow> bool" where
  "float_lt (Finite p q) (p', q') \<longleftrightarrow> p * int q' < p' * int q"
| "float_lt (Inf neg) y \<longleftrightarrow> neg"
| "float_lt NaN y \<longleftrightarrow> False"

fun float_zero :: "float32 \<Rightarrow> bool" where
  "float_zero (Finite p q) \<longleftrightarrow> p = 0"
| "float_zero (Inf neg) \<longleftrightarrow> False"
| "float_zero NaN \<longleftrightarrow> False"

text \<open>
  The validators parse the sources of remote orbs with the parser of this development; the fuel is
  that of the file. A source that the parser does not return on counts as one without content.
\<close>

definition parser_env :: "nat \<Rightarrow> grammar \<Rightarrow> env \<Rightarrow> env" where
  "parser_env k g env =
     env\<lparr>en_ParseFromContent := (\<lambda>source ctx uri.
       case ParseFromContent k g source ctx uri zero_pos of
         Some doc \<Rightarrow> doc | None \<Rightarrow> (ParseFile g [] ctx)\<lparr>yd_URI := uri\<rparr>)\<rparr>"

text \<open>
  \<open>reload\<close> is the JSON round trip of the attached code actions (a third-party package). A result
  \<open>Inl ()\<close> is an error value with no diagnostics; the diagnostics the state holds before are those
  of nobody: the validators start with an empty list.
\<close>

record pipeline =
  pl_Fuel :: nat
  pl_Grammar :: grammar
  pl_Schema :: schema_services
  pl_Reload :: "code_action list \<Rightarrow> code_action list option"
  pl_Env :: env

definition pipeline_env :: "pipeline \<Rightarrow> env" where
  "pipeline_env pl = parser_env (pl_Fuel pl) (pl_Grammar pl) (pl_Env pl)"

definition present_diagnostics ::
    "pipeline \<Rightarrow> yaml_document \<Rightarrow> diagnostic list \<Rightarrow> diagnostic list option" where
  "present_diagnostics pl doc ds =
     AppendSuppressionCodeActions (pl_Reload pl) (yd_URI doc)
       (FilterSuppressedDiagnostics (deduplicateDiagnosticsByRange ds) (yd_SuppressionInfo doc))
       (yd_Content doc)"

definition DiagnosticYAML ::
    "pipeline \<Rightarrow> yaml_document \<Rightarrow> ls_context \<Rightarrow> (unit + diagnostic list) action" where
  "DiagnosticYAML pl doc ctx =
     (if \<not> float_zero (yd_Version doc) \<and> float_lt (yd_Version doc) version_2_1 then vret (Inr [])
      else
        let doc = ValidateYAML doc
        in if \<not> sv_Load (pl_Schema pl) (yd_SchemaLocation doc) then vret (Inl ())
           else vbind (vlift (ValidateWithJSONSchema (pl_Schema pl) doc)) (\<lambda>schemaDiags.
             (\<lambda>s. case Validate \<lparr>val_Doc = doc, val_Context = ctx, val_IsLocalOrb = False,
                               val_Env = pipeline_env pl\<rparr> (s\<lparr>vs_Diagnostics := []\<rparr>) of
                    None \<Rightarrow> None
                  | Some (_, s') \<Rightarrow>
                      Some (case present_diagnostics pl doc
                                   (yd_Diagnostics doc @ schemaDiags @ vs_Diagnostics s') of
                              None \<Rightarrow> Inl () | Some ds \<Rightarrow> Inr ds, s'))))"

definition DiagnosticFile ::
    "pipeline \<Rightarrow> string \<Rightarrow> ls_context \<Rightarrow> string \<Rightarrow> (unit + diagnostic list) action" where
  "DiagnosticFile pl uri ctx schemaLocation =
     vbind (vget (\<lambda>c. ParseFromUriWithCache (pl_Fuel pl) (pl_Grammar pl) uri (ca_FileCache c) ctx)) (\<lambda>parsed.
       vbind (vlift parsed) (\<lambda>r.
         case r of
           Inl err \<Rightarrow> vret (Inl ())
         | Inr doc \<Rightarrow> DiagnosticYAML pl (doc\<lparr>yd_SchemaLocation := schemaLocation\<rparr>) ctx))"

definition DiagnosticString ::
    "pipeline \<Rightarrow> string \<Rightarrow> ls_context \<Rightarrow> string \<Rightarrow> (unit + diagnostic list) action" where
  "DiagnosticString pl content ctx schemaLocation =
     vbind (vlift (ParseFromContent (pl_Fuel pl) (pl_Grammar pl) content ctx (en_EmptyFileURI (pl_Env pl)) zero_pos)) (\<lambda>doc.
       DiagnosticYAML pl (doc\<lparr>yd_SchemaLocation := schemaLocation\<rparr>) ctx)"

text \<open>What is published: an error is dropped and publishes no diagnostic.\<close>

definition Diagnostic ::
    "pipeline \<Rightarrow> string \<Rightarrow> ls_context \<Rightarrow> string \<Rightarrow> diagnostic list action" where
  "Diagnostic pl uri ctx schemaLocation =
     vbind (DiagnosticFile pl uri ctx schemaLocation) (\<lambda>r.
       vret (case r of Inl _ \<Rightarrow> [] | Inr ds \<Rightarrow> ds))"

subsection \<open>What is presented\<close>

lemma suppressed_range: "diag_Range d = diag_Range d' \<Longrightarrow> isDiagnosticSuppressed si d = isDiagnosticSuppressed si d'"
  by (simp add: isDiagnosticSuppressed_def diagnosticOverlapsRange_def split: option.split)

lemma suppressed_parts: "diagnostic_parts d = diagnostic_parts d' \<Longrightarrow> isDiagnosticSuppressed si d = isDiagnosticSuppressed si d'"
  by (rule suppressed_range) (simp add: diagnostic_parts_def)

lemma append_actions_parts:
  "AppendSuppressionCodeActions reload uri ds content = Some ds' \<Longrightarrow> map diagnostic_parts ds' = map diagnostic_parts ds"
  by (drule AppendSuppressionCodeActions_shape)
    (auto simp: list_all2_conv_all_nth diagnostic_parts_def intro: nth_equalityI)

lemma parts_filter_subset:
  assumes "diagnostic_parts ` A \<subseteq> diagnostic_parts ` B"
  shows "diagnostic_parts ` {d \<in> A. \<not> isDiagnosticSuppressed si d} \<subseteq>
    diagnostic_parts ` {d \<in> B. \<not> isDiagnosticSuppressed si d}"
proof (rule image_subsetI)
  fix d assume d: "d \<in> {d \<in> A. \<not> isDiagnosticSuppressed si d}"
  then have "diagnostic_parts d \<in> diagnostic_parts ` B" using assms by blast
  then obtain d' where d': "d' \<in> B" "diagnostic_parts d = diagnostic_parts d'" by blast
  then have "\<not> isDiagnosticSuppressed si d'" using d suppressed_parts [of d d' si] by simp
  with d' show "diagnostic_parts d \<in> diagnostic_parts ` {d \<in> B. \<not> isDiagnosticSuppressed si d}" by blast
qed

lemma parts_filter:
  "diagnostic_parts ` A = diagnostic_parts ` B \<Longrightarrow>
    diagnostic_parts ` {d \<in> A. \<not> isDiagnosticSuppressed si d} =
    diagnostic_parts ` {d \<in> B. \<not> isDiagnosticSuppressed si d}"
  by (intro subset_antisym parts_filter_subset) simp_all

lemma present_diagnostics_parts:
  assumes "present_diagnostics pl doc ds = Some ds'"
  shows "diagnostic_parts ` set ds' =
      diagnostic_parts ` {d \<in> set ds. \<not> isDiagnosticSuppressed (yd_SuppressionInfo doc) d}"
    and "distinct (map diagnostic_parts ds')"
proof -
  let ?dd = "deduplicateDiagnosticsByRange ds"
  let ?kept = "FilterSuppressedDiagnostics ?dd (yd_SuppressionInfo doc)"
  have parts: "map diagnostic_parts ds' = map diagnostic_parts ?kept"
    using assms unfolding present_diagnostics_def by (rule append_actions_parts)
  have "diagnostic_parts ` set ds' = diagnostic_parts ` {d \<in> set ?dd. \<not> isDiagnosticSuppressed (yd_SuppressionInfo doc) d}"
    using arg_cong [OF parts, of set] by (simp add: FilterSuppressedDiagnostics_def)
  then show "diagnostic_parts ` set ds' =
      diagnostic_parts ` {d \<in> set ds. \<not> isDiagnosticSuppressed (yd_SuppressionInfo doc) d}"
    using parts_filter [of "set ?dd" "set ds"] deduplicate_props [of ds] by simp
  show "distinct (map diagnostic_parts ds')"
    unfolding parts FilterSuppressedDiagnostics_def using deduplicate_props [of ds]
    by (simp add: distinct_map_filter)
qed

text \<open>Where the presentation is reached, what the documents' checks have found.\<close>

definition supported_version :: "yaml_document \<Rightarrow> bool" where
  "supported_version doc \<longleftrightarrow> float_zero (yd_Version doc) \<or> \<not> float_lt (yd_Version doc) version_2_1"

definition validator_of :: "pipeline \<Rightarrow> yaml_document \<Rightarrow> ls_context \<Rightarrow> val" where
  "validator_of pl doc ctx =
     \<lparr>val_Doc = ValidateYAML doc, val_Context = ctx, val_IsLocalOrb = False, val_Env = pipeline_env pl\<rparr>"

lemma ValidateYAML_info [simp]: "yd_SuppressionInfo (ValidateYAML doc) = yd_SuppressionInfo doc"
  by (simp add: ValidateYAML_def Let_def)

lemma DiagnosticYAML_found:
  assumes "DiagnosticYAML pl doc ctx s = Some (Inr ds, s')" and "supported_version doc"
  obtains schemaDiags s1
  where "ValidateWithJSONSchema (pl_Schema pl) (ValidateYAML doc) = Some schemaDiags"
    and "Validate (validator_of pl doc ctx) (s\<lparr>vs_Diagnostics := []\<rparr>) = Some ((), s1)"
    and "present_diagnostics pl (ValidateYAML doc)
           (yd_Diagnostics (ValidateYAML doc) @ schemaDiags @ vs_Diagnostics s1) = Some ds"
  using assms unfolding DiagnosticYAML_def supported_version_def validator_of_def Let_def
  by (auto simp: vret_def vbind_def vlift_def vpanic_def split: if_splits option.splits)

lemma document_tagged_same:
  "document_tagged doc \<Longrightarrow> document_tagged (ValidateYAML doc)"
  "document_tagged doc \<Longrightarrow> document_tagged (doc\<lparr>yd_SchemaLocation := l\<rparr>)"
  by (simp_all add: document_tagged_def entities_tagged_def local_orbs_known_def ValidateYAML_def Let_def
      FromOrbParsedAttributesToYamlDocument_def)

lemma DiagnosticYAML_returns:
  assumes "document_tagged doc" and "ValidateWithJSONSchema (pl_Schema pl) (ValidateYAML doc) \<noteq> None"
  shows "\<exists>r s'. DiagnosticYAML pl doc ctx s = Some (r, s')"
proof -
  obtain s1 where "Validate (validator_of pl doc ctx) (s\<lparr>vs_Diagnostics := []\<rparr>) = Some ((), s1)"
    using total_unit [OF total_Validate, of "validator_of pl doc ctx"] document_tagged_same(1) [OF assms(1)]
    by (fastforce simp: validator_of_def)
  with assms(2) show ?thesis
    by (auto simp: DiagnosticYAML_def validator_of_def Let_def vret_def vbind_def vlift_def split: option.split)
qed


subsection \<open>Samples\<close>

definition sample_schema :: schema_services where
  "sample_schema =
     \<lparr>sv_DFS = (\<lambda>t n. [n]), sv_Load = (\<lambda>_. True), sv_Unmarshal = (\<lambda>_. None), sv_Validate = (\<lambda>_. Inr []),
      sv_FindAll = (\<lambda>_ _. Some [])\<rparr>"

definition sample_pipeline :: pipeline where
  "sample_pipeline =
     \<lparr>pl_Fuel = 3, pl_Grammar = (\<lambda>_. (sample_tree, 0)), pl_Schema = sample_schema, pl_Reload = Some,
      pl_Env = sample_env\<rparr>"

lemma sample_schema_result [simp]: "ValidateWithJSONSchema sample_schema doc = Some []"
  by (simp add: ValidateWithJSONSchema_def sample_schema_def removeUselessMustValidateError_def Let_def)

lemma sample_present: "\<exists>ds'. present_diagnostics sample_pipeline doc ds = Some ds'"
  using append_suppression_loop_total [of Some]
  by (fastforce simp: present_diagnostics_def AppendSuppressionCodeActions_def sample_pipeline_def)

lemma sample_diagnosed:
  assumes "document_tagged doc" "supported_version doc"
  shows "\<exists>ds s'. DiagnosticYAML sample_pipeline doc ctx s = Some (Inr ds, s')"
proof -
  have schema: "pl_Schema sample_pipeline = sample_schema" by (simp add: sample_pipeline_def)
  obtain s1 where "Validate (validator_of sample_pipeline doc ctx) (s\<lparr>vs_Diagnostics := []\<rparr>) = Some ((), s1)"
    using total_unit [OF total_Validate, of "validator_of sample_pipeline doc ctx"] document_tagged_same(1) [OF assms(1)]
    by (fastforce simp: validator_of_def)
  moreover obtain ds where "present_diagnostics sample_pipeline (ValidateYAML doc)
      (yd_Diagnostics (ValidateYAML doc) @ vs_Diagnostics s1) = Some ds"
    using sample_present by blast
  moreover have "sv_Load sample_schema l" for l by (simp add: sample_schema_def)
  ultimately show ?thesis
    using assms(2) by (auto simp: DiagnosticYAML_def validator_of_def supported_version_def Let_def vret_def
        vbind_def vlift_def schema)
qed

lemma sample_parse:
  "ParseFromContent 3 (\<lambda>_. (sample_tree, 0)) [] zero_ls_context [] zero_pos =
     Some (assignContexts (add_diagnostics (prepare_document
       ((ParseFile (\<lambda>_. (sample_tree, 0)) [] zero_ls_context)\<lparr>yd_URI := []\<rparr>) zero_pos, [])))"
  by (simp add: ParseFromContent_def eval_nat_numeral ParseFile_def walk_document_def iterateOnBlockMapping_def
      prepare_document_def parse_suppression_def GetBlockMappingNode_def GetChildOfType_def st_Children_def
      sample_tree_def Let_def pbind_def plift_def pret_def split: prod.split)

subsection \<open>Properties\<close>

text \<open>
  C10: what is published for a file of a supported version is what the grammar, the parsers, the
  schema and the validators have found and no comment suppresses: every combination of range,
  message and severity, each once.
\<close>

theorem DiagnosticYAML_publishes:
  assumes "DiagnosticYAML pl doc ctx s = Some (Inr ds, s')" and "supported_version doc"
  shows "\<exists>schemaDiags s1.
    ValidateWithJSONSchema (pl_Schema pl) (ValidateYAML doc) = Some schemaDiags \<and>
    Validate (validator_of pl doc ctx) (s\<lparr>vs_Diagnostics := []\<rparr>) = Some ((), s1) \<and>
    diagnostic_parts ` set ds = diagnostic_parts `
      {d \<in> set (yd_Diagnostics (ValidateYAML doc)) \<union> set schemaDiags \<union> set (vs_Diagnostics s1).
        \<not> isDiagnosticSuppressed (yd_SuppressionInfo doc) d} \<and>
    distinct (map diagnostic_parts ds)"
  using assms
proof (rule DiagnosticYAML_found)
  fix schemaDiags s1
  assume a: "ValidateWithJSONSchema (pl_Schema pl) (ValidateYAML doc) = Some schemaDiags"
    "Validate (validator_of pl doc ctx) (s\<lparr>vs_Diagnostics := []\<rparr>) = Some ((), s1)"
    "present_diagnostics pl (ValidateYAML doc)
       (yd_Diagnostics (ValidateYAML doc) @ schemaDiags @ vs_Diagnostics s1) = Some ds"
  with present_diagnostics_parts [OF a(3)] show ?thesis by (simp add: Un_assoc)
qed

theorem DiagnosticYAML_publishes_witness:
  "\<exists>ds s' schemaDiags s1. DiagnosticYAML sample_pipeline (val_Doc sample_project) zero_ls_context sample_state = Some (Inr ds, s') \<and>
    ValidateWithJSONSchema (pl_Schema sample_pipeline) (ValidateYAML (val_Doc sample_project)) = Some schemaDiags \<and>
    Validate (validator_of sample_pipeline (val_Doc sample_project) zero_ls_context) (sample_state\<lparr>vs_Diagnostics := []\<rparr>) = Some ((), s1) \<and>
    diagnostic_parts ` set ds = diagnostic_parts `
      {d \<in> set (yd_Diagnostics (ValidateYAML (val_Doc sample_project))) \<union> set schemaDiags \<union> set (vs_Diagnostics s1).
        \<not> isDiagnosticSuppressed (yd_SuppressionInfo (val_Doc sample_project)) d} \<and>
    distinct (map diagnostic_parts ds)"
proof -
  have ok: "supported_version (val_Doc sample_project)"
    by (simp add: supported_version_def sample_project_def sample_doc_def)
  with sample_diagnosed [OF sample_project_tagged ok] DiagnosticYAML_publishes [OF _ ok] show ?thesis by blast
qed

text \<open>
  For a document that the parsers have returned, computing its diagnostics never aborts, unless
  the reading of the schema's violations does.
\<close>

lemma DiagnosticYAML_parsed_total:
  assumes "ParseFromContent k g content ctx uri offset = Some doc"
    and "ValidateWithJSONSchema (pl_Schema pl) (ValidateYAML doc) \<noteq> None"
  shows "\<exists>r s'. DiagnosticYAML pl doc ctx s = Some (r, s')"
  by (rule DiagnosticYAML_returns [OF ParseFromContent_tagged [OF assms(1)] assms(2)])

theorem DiagnosticYAML_parsed_total_witness:
  "\<exists>doc. ParseFromContent 3 (\<lambda>_. (sample_tree, 0)) [] zero_ls_context [] zero_pos = Some doc \<and>
    (\<exists>r s'. DiagnosticYAML sample_pipeline doc zero_ls_context sample_state = Some (r, s'))"
  using DiagnosticYAML_parsed_total [OF sample_parse, of sample_pipeline] sample_parse
  by (simp add: sample_pipeline_def)


end
