(* ===== verification/ParseFuel.thy ===== *)
theory ParseFuel
  imports ParseDoc
begin

text \<open>
  The fuel of the parsers only says how long one is willing to wait: a parser that returns with
  some fuel returns the same with any larger one. Every definition of \<open>ParseExec\<close>, \<open>ParseJobs\<close>,
  \<open>ParseFlow\<close> and \<open>ParseDoc\<close> that takes fuel is monotone in it.
\<close>

subsection \<open>Parameters and executors\<close>

lemma refines_parameter_fields [refines_intros]:
  "k \<le> k' \<Longrightarrow> (\<And>key c v s. refines (f key c v s) (f' key c v s)) \<Longrightarrow>
    refines (parameter_fields k doc p n d f) (parameter_fields k' doc p n d f')"
  unfolding parameter_fields_def Let_def by (intro refines_intros)

lemma refines_parameters [refines_intros]:
  assumes "k \<le> k'"
  shows "refines (parseStringParameter k doc p n) (parseStringParameter k' doc p n)"
    and "refines (parseExecutorParameter k doc p n) (parseExecutorParameter k' doc p n)"
    and "refines (parseEnvVariableParameter k doc p n) (parseEnvVariableParameter k' doc p n)"
    and "refines (parseBooleanParameter k doc p n) (parseBooleanParameter k' doc p n)"
    and "refines (parseIntegerParameter k doc p n) (parseIntegerParameter k' doc p n)"
    and "refines (parseEnumParameter k doc p n) (parseEnumParameter k' doc p n)"
  unfolding parseStringParameter_def parseExecutorParameter_def parseEnvVariableParameter_def
    text_parameter_def parseBooleanParameter_def parseIntegerParameter_def parseEnumParameter_def
  by (intro refines_intros assms)+

lemma refines_parseStepsParameter [refines_intros]:
  "k \<le> k' \<Longrightarrow> refines (parseStepsParameter k doc p n) (parseStepsParameter k' doc p n)"
  unfolding parseStepsParameter_def by (intro refines_intros)

lemma refines_GetParameterType [refines_intros]:
  "k \<le> k' \<Longrightarrow> refines (GetParameterType k doc n) (GetParameterType k' doc n)"
  unfolding GetParameterType_def Let_def by (intro refines_intros)

lemma refines_parseSingleParameter [refines_intros]:
  "k \<le> k' \<Longrightarrow> refines (parseSingleParameter k doc n ps) (parseSingleParameter k' doc n ps)"
  unfolding parseSingleParameter_def Let_def by (intro refines_intros)

lemma refines_parseParameters [refines_intros]:
  "k \<le> k' \<Longrightarrow> refines (parseParameters k doc n) (parseParameters k' doc n)"
  unfolding parseParameters_def by (intro refines_intros)

lemma refines_parseEnvs [refines_intros]:
  "k \<le> k' \<Longrightarrow> refines (parseEnvs k doc n) (parseEnvs k' doc n)"
  unfolding parseEnvs_def Let_def by (intro refines_intros)

lemma refines_base_field [refines_intros]:
  "k \<le> k' \<Longrightarrow> (\<And>n s. refines (fn n s) (fn' n s)) \<Longrightarrow>
    refines (base_field k doc name fn c s) (base_field k' doc name fn' c s)"
  unfolding base_field_def Let_def by (intro refines_intros)

lemma refines_parseBaseExecutor [refines_intros]:
  "k \<le> k' \<Longrightarrow> (\<And>n s. refines (fn n s) (fn' n s)) \<Longrightarrow>
    refines (parseBaseExecutor k doc n m name fn s) (parseBaseExecutor k' doc n m name fn' s)"
  unfolding parseBaseExecutor_def by (intro refines_intros)

lemma refines_parse_machine [refines_intros]:
  "k \<le> k' \<Longrightarrow> refines (parse_machine k doc n s) (parse_machine k' doc n s)"
  unfolding parse_machine_def Let_def by (intro refines_intros)

lemma refines_executors [refines_intros]:
  assumes "k \<le> k'"
  shows "refines (parseSingleExecutorMachine k doc n m) (parseSingleExecutorMachine k' doc n m)"
    and "refines (parseSingleExecutorMacOS k doc n m) (parseSingleExecutorMacOS k' doc n m)"
  unfolding parseSingleExecutorMachine_def parseSingleExecutorMacOS_def Let_def
  by (intro refines_intros assms)+

lemma refines_parseDockerImage [refines_intros]:
  "k \<le> k' \<Longrightarrow> refines (parseDockerImage k doc n) (parseDockerImage k' doc n)"
  unfolding parseDockerImage_def image_field_def Let_def by (intro refines_intros)

lemma refines_parseSingleExecutorDocker [refines_intros]:
  "k \<le> k' \<Longrightarrow> refines (parseSingleExecutorDocker k doc n m) (parseSingleExecutorDocker k' doc n m)"
  unfolding parseSingleExecutorDocker_def Let_def by (intro refines_intros)

lemma refines_parseSingleExecutor [refines_intros]:
  "k \<le> k' \<Longrightarrow> refines (parseSingleExecutor k doc n es) (parseSingleExecutor k' doc n es)"
  unfolding parseSingleExecutor_def executor_field_def Let_def by (intro refines_intros)

lemma refines_parseExecutors [refines_intros]:
  "k \<le> k' \<Longrightarrow> refines (parseExecutors k doc n es) (parseExecutors k' doc n es)"
  unfolding parseExecutors_def by (intro refines_intros)

lemma refines_parseExecutorRef [refines_intros]:
  "k \<le> k' \<Longrightarrow> refines (parseExecutorRef k doc v c) (parseExecutorRef k' doc v c)"
  unfolding parseExecutorRef_def executor_ref_mapping_def executor_ref_field_def Let_def
  by (intro refines_intros)

subsection \<open>Jobs and commands\<close>

lemma refines_parseRetention [refines_intros]:
  "k \<le> k' \<Longrightarrow> refines (parseRetention k doc n) (parseRetention k' doc n)"
  unfolding parseRetention_def by (intro refines_intros)

lemma refines_job_field [refines_intros]:
  "k \<le> k' \<Longrightarrow> refines (job_field k doc m c key v s) (job_field k' doc m c key v s)"
  unfolding job_field_def Let_def by (intro refines_intros)

lemma refines_parseSingleJob [refines_intros]:
  "k \<le> k' \<Longrightarrow> refines (parseSingleJob k doc n) (parseSingleJob k' doc n)"
  unfolding parseSingleJob_def Let_def by (intro refines_intros)

lemma refines_parseJobs [refines_intros]:
  "k \<le> k' \<Longrightarrow> refines (parseJobs k doc n js) (parseJobs k' doc n js)"
  unfolding parseJobs_def by (intro refines_intros)

lemma refines_parseSingleCommand [refines_intros]:
  "k \<le> k' \<Longrightarrow> refines (parseSingleCommand k doc n) (parseSingleCommand k' doc n)"
  unfolding parseSingleCommand_def command_field_def Let_def by (intro refines_intros)

lemma refines_parseCommands [refines_intros]:
  "k \<le> k' \<Longrightarrow> refines (parseCommands k doc n cs) (parseCommands k' doc n cs)"
  unfolding parseCommands_def by (intro refines_intros)

subsection \<open>Invocations and workflows\<close>

lemma refines_parseMatrixAttributes [refines_intros]:
  "k \<le> k' \<Longrightarrow> refines (parseMatrixAttributes k doc n) (parseMatrixAttributes k' doc n)"
  unfolding parseMatrixAttributes_def parseMatrixParam_def Let_def by (intro refines_intros)

lemma refines_invocation_field [refines_intros]:
  "k \<le> k' \<Longrightarrow> refines (invocation_field k doc c j) (invocation_field k' doc c j)"
  unfolding invocation_field_def Let_def by (intro refines_intros)

lemma refines_parseSingleJobInvocation [refines_intros]:
  "k \<le> k' \<Longrightarrow> refines (parseSingleJobInvocation k doc n) (parseSingleJobInvocation k' doc n)"
  unfolding parseSingleJobInvocation_def invocation_element_def Let_def by (intro refines_intros)

lemma refines_parseJobInvocations [refines_intros]:
  "k \<le> k' \<Longrightarrow> refines (parseJobInvocations k doc n) (parseJobInvocations k' doc n)"
  unfolding parseJobInvocations_def Let_def by (intro refines_intros)

lemma refines_parseJobGroups [refines_intros]:
  "k \<le> k' \<Longrightarrow> refines (parseJobGroups k doc n gs) (parseJobGroups k' doc n gs)"
  unfolding parseJobGroups_def parseSingleJobGroup_def Let_def by (intro refines_intros)

lemma refines_parseFilters [refines_intros]:
  "k \<le> k' \<Longrightarrow> refines (parseFilters k doc n) (parseFilters k' doc n)"
  unfolding parseFilters_def parseBranchFilter_def Let_def by (intro refines_intros)

lemma refines_parseSingleScheduleTrigger [refines_intros]:
  "k \<le> k' \<Longrightarrow> refines (parseSingleScheduleTrigger k doc n) (parseSingleScheduleTrigger k' doc n)"
  unfolding parseSingleScheduleTrigger_def Let_def by (intro refines_intros)

lemma refines_parseWorkflowTriggers [refines_intros]:
  "k \<le> k' \<Longrightarrow> refines (parseWorkflowTriggers k doc n) (parseWorkflowTriggers k' doc n)"
  unfolding parseWorkflowTriggers_def parseSingleWorkflowTrigger_def Let_def by (intro refines_intros)

lemma refines_parseWorkflows [refines_intros]:
  "k \<le> k' \<Longrightarrow> refines (parseWorkflows k doc n ws) (parseWorkflows k' doc n ws)"
  unfolding parseWorkflows_def parseSingleWorkflow_def workflow_field_def Let_def
  by (intro refines_intros)

subsection \<open>Documents\<close>

lemma refines_parseLocalOrb [refines_intros]:
  "(\<And>c p. refines (sub c p) (sub' c p)) \<Longrightarrow>
    refines (parseLocalOrb sub name n doc) (parseLocalOrb sub' name n doc)"
  unfolding parseLocalOrb_def Let_def by (intro refines_intros)

lemma refines_parseOrbs [refines_intros]:
  "k \<le> k' \<Longrightarrow> (\<And>c p. refines (sub c p) (sub' c p)) \<Longrightarrow>
    refines (parseOrbs sub k n doc) (parseOrbs sub' k' n doc)"
  unfolding parseOrbs_def parseSingleOrb_def Let_def by (intro refines_intros)

lemma refines_walk_document [refines_intros]:
  "k \<le> k' \<Longrightarrow> (\<And>c p. refines (sub c p) (sub' c p)) \<Longrightarrow>
    refines (walk_document sub k doc) (walk_document sub' k' doc)"
  unfolding walk_document_def root_field_def Let_def by (intro refines_intros)

lemma refines_ParseYAML: "k \<le> k' \<Longrightarrow> refines (ParseYAML k g doc offset) (ParseYAML k' g doc offset)"
proof (induction k arbitrary: doc offset k')
  case (Suc k)
  then obtain j where j: "k' = Suc j" "k \<le> j" by (cases k') auto
  show ?case
    unfolding j(1) ParseYAML.simps(2) by (intro refines_intros Suc.IH j(2))
qed (simp add: refines_def)

text \<open>
  A content that is parsed with some fuel is parsed to the same document with any larger one, so
  a document does not depend on the fuel with which it was found.
\<close>

lemma ParseFromContent_fuel:
  assumes "ParseFromContent k g content ctx uri offset = Some doc"
    and "ParseFromContent k' g content ctx uri offset = Some doc'"
  shows "doc = doc'"
proof -
  let ?m = "\<lambda>k. ParseFromContent k g content ctx uri offset"
  have "refines (?m k) (?m (max k k'))" "refines (?m k') (?m (max k k'))"
    unfolding ParseFromContent_def by (intro refines_ParseYAML; simp)+
  with assms show ?thesis by (simp add: refines_def)
qed

end
