(* ===== verification/ParseTerm.thy ===== *)
theory ParseTerm
  imports ParseFuel
begin

text \<open>
  The parsers return. They follow the children of a node and, through aliases and merge keys, the
  nodes of anchors; a file whose anchors do not contain themselves has a rank on its nodes that
  every such step decreases, and fuel beyond the ranks is enough.
\<close>

subsection \<open>Regular documents\<close>

text \<open>The nodes directly below a node.\<close>

definition below :: "sitter \<Rightarrow> node \<Rightarrow> node \<Rightarrow> bool" where
  "below t n c \<longleftrightarrow> c \<in> set (st_Children t n) \<or> (\<exists>i. st_Child t n i = Some c) \<or>
     (\<exists>f. st_ChildByFieldName t n f = Some c)"

text \<open>The names of anchors that the parsers read off a node.\<close>

definition alias_names :: "yaml_document \<Rightarrow> node \<Rightarrow> string list" where
  "alias_names doc n =
     (let t = yd_Tree doc
      in (if st_Type t n = ''alias'' \<or> map_option (st_Type t) (GetFirstChild t (Some n)) = Some ''alias''
          then [tl (GetNodeText doc (Some n)), GetNodeText doc (GetChildOfType t (Some n) ''alias_name'')]
          else []))"

text \<open>A value: it has a parent, and a child that is no comment or anchor.\<close>

definition proper :: "sitter \<Rightarrow> node \<Rightarrow> bool" where
  "proper t n \<longleftrightarrow> st_Parent t n \<noteq> None \<and> GetFirstChild t (Some n) \<noteq> None"

text \<open>Every node has a rank below \<open>K\<close>, larger than those of the nodes below it and behind its aliases.\<close>

definition ranked :: "(node \<Rightarrow> nat) \<Rightarrow> nat \<Rightarrow> yaml_document \<Rightarrow> bool" where
  "ranked rank K doc \<longleftrightarrow>
     (\<forall>n. rank n < K) \<and> (\<forall>n c. below (yd_Tree doc) n c \<longrightarrow> rank c < rank n) \<and>
     (\<forall>n name anchor v. name \<in> set (alias_names doc n) \<longrightarrow>
        gm_get (yd_YamlAnchors doc) name = Some anchor \<longrightarrow> an_ValueNode anchor = Some v \<longrightarrow> rank v < rank n)"

text \<open>
  What the grammar of YAML gives: the values of pairs and anchors are proper, so are flow nodes; block
  nodes and items have a child; the text of an alias is not empty; only a block scalar begins with
  an indicator. A value that is nothing but an anchor is not proper, and aborts the parsers.
\<close>

definition well_formed :: "yaml_document \<Rightarrow> bool" where
  "well_formed doc \<longleftrightarrow> (let t = yd_Tree doc in
     (\<forall>n v. st_ChildByFieldName t n ''value'' = Some v \<longrightarrow> proper t v) \<and>
     (\<forall>name anchor v. gm_get (yd_YamlAnchors doc) name = Some anchor \<longrightarrow> an_ValueNode anchor = Some v \<longrightarrow> proper t v) \<and>
     (\<forall>n. st_Type t n = ''flow_node'' \<longrightarrow> GetFirstChild t (Some n) \<noteq> None) \<and>
     (\<forall>n. st_Type t n \<in> {''block_node'', ''block_sequence_item''} \<longrightarrow> st_Child t n 0 \<noteq> None) \<and>
     (\<forall>n. alias_names doc n \<noteq> [] \<longrightarrow> GetNodeText doc (Some n) \<noteq> []) \<and>
     (\<forall>n c. GetFirstChild t (Some n) = Some c \<longrightarrow> st_Type t c \<in> {''>'', ''|''} \<longrightarrow> st_Type t n \<noteq> ''plain_scalar''))"

definition regular :: "(node \<Rightarrow> nat) \<Rightarrow> nat \<Rightarrow> yaml_document \<Rightarrow> bool" where
  "regular rank K doc \<longleftrightarrow> ranked rank K doc \<and> well_formed doc"

lemma regular_bound: "regular rank K doc \<Longrightarrow> rank n < K"
  by (simp add: regular_def ranked_def)

lemma regular_below: "regular rank K doc \<Longrightarrow> below (yd_Tree doc) n c \<Longrightarrow> rank c < rank n"
  by (simp add: regular_def ranked_def)

lemma regular_alias:
  "regular rank K doc \<Longrightarrow> name \<in> set (alias_names doc n) \<Longrightarrow>
    gm_get (yd_YamlAnchors doc) name = Some anchor \<Longrightarrow> an_ValueNode anchor = Some v \<Longrightarrow> rank v < rank n"
  by (simp add: regular_def ranked_def)

lemma regular_text: "regular rank K doc \<Longrightarrow> alias_names doc n \<noteq> [] \<Longrightarrow> GetNodeText doc (Some n) \<noteq> []"
  by (simp add: regular_def well_formed_def Let_def)

lemma regular_proper:
  assumes "regular rank K doc"
  shows "st_ChildByFieldName (yd_Tree doc) n ''value'' = Some v \<Longrightarrow> proper (yd_Tree doc) v"
    and "gm_get (yd_YamlAnchors doc) name = Some anchor \<Longrightarrow> an_ValueNode anchor = Some v \<Longrightarrow> proper (yd_Tree doc) v"
  using assms by (auto simp: regular_def well_formed_def Let_def)

lemma regular_children:
  assumes "regular rank K doc"
  shows "st_Type (yd_Tree doc) n = ''flow_node'' \<Longrightarrow> GetFirstChild (yd_Tree doc) (Some n) \<noteq> None"
    and "st_Type (yd_Tree doc) n = ''block_node'' \<Longrightarrow> st_Child (yd_Tree doc) n 0 \<noteq> None"
    and "st_Type (yd_Tree doc) n = ''block_sequence_item'' \<Longrightarrow> st_Child (yd_Tree doc) n 0 \<noteq> None"
    and "GetFirstChild (yd_Tree doc) (Some n) = Some c \<Longrightarrow> st_Type (yd_Tree doc) c = ''>'' \<or> st_Type (yd_Tree doc) c = ''|'' \<Longrightarrow>
      st_Type (yd_Tree doc) n \<noteq> ''plain_scalar''"
  using assms by (auto simp: regular_def well_formed_def Let_def)

subsection \<open>Steps to smaller ranks\<close>

lemma rank_Children: "regular rank K doc \<Longrightarrow> c \<in> set (st_Children (yd_Tree doc) n) \<Longrightarrow> rank c < rank n"
  by (erule regular_below) (simp add: below_def)

lemma rank_Child: "regular rank K doc \<Longrightarrow> st_Child (yd_Tree doc) n i = Some c \<Longrightarrow> rank c < rank n"
  by (erule regular_below) (auto simp: below_def)

lemma rank_field: "regular rank K doc \<Longrightarrow> st_ChildByFieldName (yd_Tree doc) n f = Some c \<Longrightarrow> rank c < rank n"
  by (erule regular_below) (auto simp: below_def)

lemma rank_GetChildOfType:
  "regular rank K doc \<Longrightarrow> GetChildOfType (yd_Tree doc) (Some n) ty = Some c \<Longrightarrow> rank c < rank n"
  by (erule rank_Children) (rule GetChildOfType_child)

lemma rank_GetFirstChild:
  "regular rank K doc \<Longrightarrow> GetFirstChild (yd_Tree doc) (Some n) = Some c \<Longrightarrow> rank c < rank n"
  by (auto simp: GetFirstChild_def dest: rank_Child split: option.splits if_splits)

lemma rank_GetChildMapping:
  "regular rank K doc \<Longrightarrow> GetChildMapping (yd_Tree doc) (Some n) = Some c \<Longrightarrow> rank c < rank n"
  by (auto simp: GetChildMapping_def dest: rank_GetChildOfType split: option.splits)

lemma rank_GetChildSequence:
  "regular rank K doc \<Longrightarrow> GetChildSequence (yd_Tree doc) (Some n) = Some c \<Longrightarrow> rank c < rank n"
  by (auto simp: GetChildSequence_def dest: rank_GetChildOfType split: option.splits)

lemma rank_sequence_children:
  "regular rank K doc \<Longrightarrow> c \<in> set (sequence_children (yd_Tree doc) (Some n)) \<Longrightarrow> rank c < rank n"
  by (auto simp: sequence_children_def dest: rank_Children split: if_splits)

lemmas rank_steps = rank_Child rank_field rank_GetChildOfType rank_GetFirstChild rank_GetChildMapping
  rank_GetChildSequence rank_sequence_children

lemma alias_names_alias:
  "st_Type (yd_Tree doc) n = ''alias'' \<Longrightarrow> alias_names doc n =
    [tl (GetNodeText doc (Some n)), GetNodeText doc (GetChildOfType (yd_Tree doc) (Some n) ''alias_name'')]"
  by (simp add: alias_names_def Let_def)

lemma GetKeyValueNodes_value:
  assumes R: "regular rank K doc" and v: "snd (GetKeyValueNodes doc (Some c)) = Some v"
  shows "rank v < rank c" and "proper (yd_Tree doc) v"
proof -
  let ?t = "yd_Tree doc"
  obtain w where w: "st_ChildByFieldName ?t c ''value'' = Some w"
    and cases: "v = w \<or> (\<exists>a anchor. GetChildOfType ?t (Some w) ''alias'' = Some a \<and>
      gm_get (yd_YamlAnchors doc) (GetNodeText doc (GetChildOfType ?t (Some a) ''alias_name'')) = Some anchor \<and>
      an_ValueNode anchor = Some v)"
    using v by (cases "st_ChildByFieldName ?t c ''value''")
      (auto simp: GetKeyValueNodes_def Let_def GetChildOfType_def split: if_splits option.splits)
  have rw: "rank w < rank c" by (rule rank_field [OF R w])
  from cases have "rank v < rank c \<and> proper ?t v"
  proof (elim disjE exE conjE)
    fix a anchor
    assume a: "GetChildOfType ?t (Some w) ''alias'' = Some a" and an:
      "gm_get (yd_YamlAnchors doc) (GetNodeText doc (GetChildOfType ?t (Some a) ''alias_name'')) = Some anchor"
      "an_ValueNode anchor = Some v"
    have "rank v < rank a"
      by (rule regular_alias [OF R _ an]) (simp add: alias_names_alias GetChildOfType_type [OF a])
    with rank_GetChildOfType [OF R a] rw regular_proper(2) [OF R an] show ?thesis by simp
  qed (use rw regular_proper(1) [OF R w] in simp)
  then show "rank v < rank c" "proper ?t v" by auto
qed

subsection \<open>Mappings\<close>

text \<open>A name of an anchor that lies below a node of a rank.\<close>

definition name_below :: "(node \<Rightarrow> nat) \<Rightarrow> yaml_document \<Rightarrow> nat \<Rightarrow> string \<Rightarrow> bool" where
  "name_below rank doc r name \<longleftrightarrow> (\<exists>a. rank a < r \<and> name \<in> set (alias_names doc a))"

lemma name_below_mono: "name_below rank doc r name \<Longrightarrow> r \<le> r' \<Longrightarrow> name_below rank doc r' name"
  by (force simp: name_below_def)

lemma name_below_value:
  "regular rank K doc \<Longrightarrow> name_below rank doc r name \<Longrightarrow> gm_get (yd_YamlAnchors doc) name = Some anchor \<Longrightarrow>
    an_ValueNode anchor = Some v \<Longrightarrow> rank v < r"
  by (auto simp: name_below_def dest: regular_alias)

lemma those_all:
  "(\<And>x. x \<in> set xs \<Longrightarrow> \<exists>y. f x = Some y \<and> P y) \<Longrightarrow> \<exists>ys. those (map f xs) = Some ys \<and> list_all P ys"
proof (induction xs)
  case (Cons x xs)
  then obtain y ys where "f x = Some y" "P y" "those (map f xs) = Some ys" "list_all P ys" by fastforce
  then show ?case by simp
qed simp

lemma extractMergeAnchorNames_returns:
  assumes R: "regular rank K doc"
  shows "rank n < k \<Longrightarrow> \<exists>names. extractMergeAnchorNames k doc (Some n) = Some names \<and>
    list_all (name_below rank doc (rank n)) names"
proof (induction k arbitrary: n)
  case (Suc k)
  let ?t = "yd_Tree doc"
  show ?case
  proof (cases "st_Child ?t n 0")
    case (Some child)
    have r: "rank child < rank n" by (rule rank_Child [OF R Some])
    consider "st_Type ?t child = ''alias''" | "st_Type ?t child = ''flow_sequence''"
      | "st_Type ?t child \<noteq> ''alias''" "st_Type ?t child \<noteq> ''flow_sequence''" by blast
    then show ?thesis
    proof cases
      case 1
      then have "GetNodeText doc (Some child) \<noteq> []"
        by (intro regular_text [OF R]) (simp add: alias_names_alias)
      then obtain x name where "GetNodeText doc (Some child) = x # name" by (cases "GetNodeText doc (Some child)") auto
      with 1 Some r show ?thesis by (auto simp: name_below_def alias_names_alias intro!: exI [of _ child])
    next
      case 2
      have "\<exists>ys. those (map (\<lambda>c. extractMergeAnchorNames k doc (Some c)) (st_Children ?t child)) = Some ys \<and>
        list_all (list_all (name_below rank doc (rank n))) ys"
      proof (rule those_all)
        fix c assume "c \<in> set (st_Children ?t child)"
        then have c: "rank c < rank child" by (rule rank_Children [OF R])
        with r Suc.prems have "rank c < k" and rc: "rank c \<le> rank n" by simp_all
        from Suc.IH [OF this(1)] show "\<exists>y. extractMergeAnchorNames k doc (Some c) = Some y \<and>
            list_all (name_below rank doc (rank n)) y"
          by (auto simp: list_all_iff intro: name_below_mono [OF _ rc])
      qed
      with 2 Some show ?thesis by (auto simp: Let_def list_all_iff)
    qed (use Some in \<open>auto simp: Let_def\<close>)
  qed simp
qed simp

lemma unmapped_subset: "unmapped doc cs mapped = (visited, mapped') \<Longrightarrow> set visited \<subseteq> set cs"
  using unmapped_props by blast

lemma merge_loop_returns:
  assumes R: "regular rank K doc"
    and sub: "\<And>m. rank m < r \<Longrightarrow> \<exists>cs. sub (Some m) = Some cs \<and> (\<forall>c\<in>set cs. rank c < r)"
    and none: "sub None = Some []"
  shows "list_all (name_below rank doc r) names \<Longrightarrow>
    \<exists>cs. merge_loop sub doc names mapped = Some cs \<and> (\<forall>c\<in>set cs. rank c < r)"
proof (induction names arbitrary: mapped)
  case (Cons a names)
  show ?case
  proof (cases "gm_get (yd_YamlAnchors doc) a")
    case (Some anchor)
    show ?thesis
    proof (cases "an_ValueNode anchor")
      case v: (Some v)
      from Cons.prems have "name_below rank doc r a" by simp
      then have rv: "rank v < r" by (rule name_below_value [OF R _ Some v])
      have "\<exists>cs. sub (GetFirstChild (yd_Tree doc) (Some v)) = Some cs \<and> (\<forall>c\<in>set cs. rank c < r)"
      proof (cases "GetFirstChild (yd_Tree doc) (Some v)")
        case m: (Some m)
        from rank_GetFirstChild [OF R m] rv show ?thesis unfolding m by (intro sub) simp
      qed (simp add: none)
      then obtain bs where bs: "sub (GetFirstChild (yd_Tree doc) (Some v)) = Some bs" "\<forall>c\<in>set bs. rank c < r" by blast
      obtain w m where w: "unmapped doc bs mapped = (w, m)" by fastforce
      from Cons.prems Cons.IH [of m] obtain rest where
        "merge_loop sub doc names m = Some rest" "\<forall>c\<in>set rest. rank c < r" by auto
      with unmapped_subset [OF w] bs(2) show ?thesis by (auto simp: Some v bs(1) w)
    qed (simp add: Some)
  qed simp
qed simp

lemma mapping_children_None [simp]: "mapping_children (Suc k) doc None = Some []"
  by simp

lemma set_keys_fold: "set (gm_keys (fold (\<lambda>a m. gm_put a True m) xs m)) = set (gm_keys m) \<union> set xs"
  by (induction xs arbitrary: m) auto

lemma merge_names_returns:
  assumes R: "regular rank K doc" and k: "rank n \<le> k" and k0: "0 < k"
  shows "\<exists>names. merge_names k doc n = Some names \<and> list_all (name_below rank doc (rank n)) names"
proof -
  let ?t = "yd_Tree doc"
  let ?f = "\<lambda>child. extractMergeAnchorNames k doc (st_ChildByFieldName ?t child ''value'')"
  have "\<exists>ys. those (map ?f (merge_children doc n)) = Some ys \<and> list_all (list_all (name_below rank doc (rank n))) ys"
  proof (rule those_all)
    fix c assume "c \<in> set (merge_children doc n)"
    then have c: "rank c < rank n" by (intro rank_Children [OF R]) (simp add: merge_children_def)
    show "\<exists>y. ?f c = Some y \<and> list_all (name_below rank doc (rank n)) y"
    proof (cases "st_ChildByFieldName ?t c ''value''")
      case (Some v)
      from rank_field [OF R Some] c k have v: "rank v < k" and vn: "rank v \<le> rank n" by simp_all
      from extractMergeAnchorNames_returns [OF R v] show ?thesis
        by (auto simp: Some list_all_iff intro: name_below_mono [OF _ vn])
    qed (use k0 in \<open>cases k; simp\<close>)
  qed
  then show ?thesis by (auto simp: merge_names_def list_all_iff set_keys_fold)
qed

lemma mapping_children_returns:
  assumes R: "regular rank K doc"
  shows "rank n < k \<Longrightarrow> \<exists>cs. mapping_children k doc (Some n) = Some cs \<and> (\<forall>c\<in>set cs. rank c < rank n)"
proof (induction k arbitrary: n)
  case (Suc k)
  let ?t = "yd_Tree doc"
  show ?case
  proof (cases "st_Type ?t n \<noteq> ''block_mapping'' \<and> st_Type ?t n \<noteq> ''flow_mapping''")
    case False
    have own: "\<forall>c\<in>set (own_children doc n). rank c < rank n"
      by (auto simp: own_children_def intro: rank_Children [OF R])
    show ?thesis
    proof (cases k)
      case 0
      with Suc.prems have "c \<notin> set (st_Children ?t n)" for c using rank_Children [OF R, of c n] by auto
      then have "st_Children ?t n = []" by (metis list.set_intros(1) neq_Nil_conv)
      then show ?thesis by (simp add: mapping_children.simps(2) merge_names_def merge_children_def own_children_def)
    next
      case (Suc j)
      from Suc.prems Suc obtain names where names: "merge_names k doc n = Some names"
          "list_all (name_below rank doc (rank n)) names"
        using merge_names_returns [OF R, of n k] by auto
      have "\<exists>cs. merge_loop (mapping_children k doc) doc names (map (key_text doc) (own_children doc n)) = Some cs \<and>
          (\<forall>c\<in>set cs. rank c < rank n)"
      proof (rule merge_loop_returns [OF R _ _ names(2)])
        fix m assume "rank m < rank n"
        with Suc.prems have "rank m < k" by simp
        from Suc.IH [OF this] \<open>rank m < rank n\<close>
        show "\<exists>cs. mapping_children k doc (Some m) = Some cs \<and> (\<forall>c\<in>set cs. rank c < rank n)"
          by (auto dest: less_trans)
      qed (simp add: \<open>k = Suc j\<close>)
      with False own names(1) show ?thesis by (auto simp: mapping_children.simps(2))
    qed
  qed simp
qed simp

lemma returns_iterateOnBlockMapping:
  assumes R: "regular rank K doc" and n: "\<And>m. n = Some m \<Longrightarrow> rank m < k" and k: "0 < k"
    and fn: "\<And>m c s. n = Some m \<Longrightarrow> rank c < rank m \<Longrightarrow> returns (fn c s)"
  shows "returns (iterateOnBlockMapping k doc n fn s)"
proof (cases n)
  case None
  then show ?thesis using k by (cases k) (simp_all add: iterateOnBlockMapping_def returns_def parse_defs)
next
  case (Some m)
  from mapping_children_returns [OF R n [OF Some]] obtain cs
    where "mapping_children k doc (Some m) = Some cs" "\<forall>c\<in>set cs. rank c < rank m" by blast
  with fn [OF Some] show ?thesis
    unfolding Some iterateOnBlockMapping_def
    by (intro returns_pbind returns_plift returns_pfold) (auto simp: plift_def)
qed

lemma returns_on_pair:
  assumes R: "regular rank K doc"
    and f: "\<And>key v s. rank v < rank c \<Longrightarrow> proper (yd_Tree doc) v \<Longrightarrow> returns (f c key v s)"
  shows "returns (on_pair doc f c s)"
  unfolding on_pair_def
  by (auto split: prod.split option.split intro!: returns_pret f
      intro: GetKeyValueNodes_value [OF R, of c])

lemma returns_pmap [returns_intros]: "returns m \<Longrightarrow> returns (pmap f m)"
  unfolding pmap_def by (intro returns_intros)

lemma returns_parseDictionary:
  assumes R: "regular rank K doc" and n: "\<And>m. n = Some m \<Longrightarrow> rank m < k" and k: "0 < k"
  shows "returns (parseDictionary k doc n)"
  unfolding parseDictionary_def
  by (intro returns_iterateOnBlockMapping [OF R n k] returns_if returns_on_pair [OF R] returns_pret)

subsection \<open>Steps and values\<close>

lemma returns_parent_key_range: "proper (yd_Tree doc) n \<Longrightarrow> returns (parent_key_range doc n)"
  unfolding parent_key_range_def by (intro returns_plift) (simp add: proper_def)

lemma returns_mapping_of:
  assumes R: "regular rank K doc" and n: "rank n < k"
    and fn: "\<And>c s. rank c < rank n \<Longrightarrow> returns (fn c s)"
  shows "returns (iterateOnBlockMapping k doc (GetChildMapping (yd_Tree doc) (Some n)) fn s)"
proof (rule returns_iterateOnBlockMapping [OF R])
  fix m assume "GetChildMapping (yd_Tree doc) (Some n) = Some m"
  then have m: "rank m < rank n" by (rule rank_GetChildMapping [OF R])
  with n show "rank m < k" by simp
  fix c s assume "rank c < rank m"
  with m show "returns (fn c s)" by (intro fn) simp
qed (use n in simp)

lemma returns_run_field:
  "regular rank K doc \<Longrightarrow> rank v < k \<Longrightarrow> returns (run_field k doc c key v r)"
  unfolding run_field_def Let_def
  by (intro returns_if returns_pret returns_pmap returns_parseDictionary) auto

lemma returns_parseRunStep:
  assumes R: "regular rank K doc" and n: "rank n < k" and p: "proper (yd_Tree doc) n"
  shows "returns (parseRunStep k doc n)"
  unfolding parseRunStep_def Let_def
  by (intro returns_pbind returns_parent_key_range [OF p] returns_if returns_case_option returns_pret
      returns_mapping_of [OF R n] returns_on_pair [OF R] returns_run_field [OF R])
    (use n in simp)

lemma returns_step_fields:
  assumes R: "regular rank K doc" and n: "rank n < k" and p: "proper (yd_Tree doc) n"
  shows "returns (step_fields k doc n init field)"
  unfolding step_fields_def
  by (intro returns_pbind returns_parent_key_range [OF p] returns_mapping_of [OF R n] returns_on_pair [OF R] returns_pret)

lemma returns_builtin_step:
  assumes R: "regular rank K doc" and n: "rank n < k" and p: "proper (yd_Tree doc) n"
    and m: "builtin_step k doc key n = Some m"
  shows "returns m"
proof -
  note fields = returns_pmap returns_step_fields [OF R n p]
  have run: "returns (parseRunStep k doc n)" by (rule returns_parseRunStep [OF R n p])
  have checkout: "returns (parseCheckoutStep k doc n)" "returns (parseSetupRemoteDockerStep k doc n)"
    unfolding parseCheckoutStep_def parseSetupRemoteDockerStep_def Let_def
    by (intro returns_pbind returns_parent_key_range [OF p] returns_if returns_pret
        returns_mapping_of [OF R n] returns_on_pair [OF R])+
  show ?thesis
    using m unfolding builtin_step_def
    by (auto simp: parseDeployStep_def parseSaveCacheStep_def parseRestoreCacheStep_def
        parseStoreArtifactsStep_def parseStoreTestResultsStep_def parsePersistToWorkspaceStep_def
        parseAttachWorkspaceStep_def parseAddSSHKeyStep_def run checkout fields returns_pret split: if_splits)
qed

lemma returns_parseSimpleParameterValue:
  assumes R: "regular rank K doc"
  shows "rank n < k \<Longrightarrow> returns (parseSimpleParameterValue k doc p n rng)"
proof (induction k arbitrary: n)
  case (Suc k)
  let ?t = "yd_Tree doc"
  have "returns (parseSimpleParameterValue k doc p c rng)"
    if c: "GetFirstChild ?t (Some n) = Some c" for c
    using rank_GetFirstChild [OF R c] Suc.prems by (intro Suc.IH) simp
  with regular_children(4) [OF R, of n] show ?case
    unfolding parseSimpleParameterValue.simps(2) Let_def
    by (auto intro!: returns_case_option returns_if returns_pret)
qed simp

lemma returns_parseEnumParamValue:
  assumes R: "regular rank K doc" and n: "rank n < k"
  shows "returns (parseEnumParamValue k doc n p rng)"
proof -
  have "rank c < k" if "GetChildOfType (yd_Tree doc) (Some n) ''flow_node'' = Some c" for c
    using rank_GetChildOfType [OF R that] n by simp
  with n show ?thesis
    unfolding parseEnumParamValue_def Let_def
    by (auto intro!: returns_case_option returns_if returns_pret returns_pmap
        returns_parseSimpleParameterValue [OF R] split: if_splits)
qed

lemma pbind_plift: "pbind (plift (Some x)) f = f x"
  by (simp add: parse_defs split: option.split)

text \<open>
  The parsers of steps and values that return on every node of a rank below \<open>r\<close>.
\<close>

definition parsers_below ::
    "(node \<Rightarrow> nat) \<Rightarrow> nat \<Rightarrow> single_parser \<Rightarrow> step_parser \<Rightarrow> value_parser \<Rightarrow> bool" where
  "parsers_below rank r single step value \<longleftrightarrow>
     returns (single None) \<and>
     (\<forall>n. rank n < r \<longrightarrow> returns (single (Some n)) \<and> returns (step n) \<and> returns (value n))"

lemma parsers_belowD:
  assumes "parsers_below rank r single step value"
  shows "(\<And>n. m = Some n \<Longrightarrow> rank n < r) \<Longrightarrow> returns (single m)"
    and "rank n < r \<Longrightarrow> returns (step n)" and "rank n < r \<Longrightarrow> returns (value n)"
  using assms by (cases m; auto simp: parsers_below_def)+

lemma returns_steps_with:
  assumes R: "regular rank K doc" and P: "parsers_below rank r single step value" and n: "rank n \<le> r"
  shows "returns (steps_with single doc n)"
proof -
  have "rank c < r" if "c \<in> set (sequence_children (yd_Tree doc) (GetChildSequence (yd_Tree doc) (Some n)))" for c
  proof (cases "GetChildSequence (yd_Tree doc) (Some n)")
    case (Some m)
    with that rank_sequence_children [OF R, of c m] rank_GetChildSequence [OF R Some] n show ?thesis by simp
  qed (use that in \<open>simp add: sequence_children_def\<close>)
  then show ?thesis
    unfolding steps_with_def Let_def
    by (intro returns_pfold returns_if returns_pmap returns_pret parsers_belowD(1) [OF P]) simp
qed

lemma returns_when_unless_with:
  assumes R: "regular rank K doc" and P: "parsers_below rank r single step value"
    and n: "rank n \<le> r" "rank n < k"
  shows "returns (when_unless_with single k doc n)"
  unfolding when_unless_with_def
  by (intro returns_mapping_of [OF R n(2)] returns_on_pair [OF R] returns_if returns_pmap returns_pret
      returns_steps_with [OF R P]) (use n in simp)

lemma returns_anchor_step_with:
  assumes R: "regular rank K doc" and P: "parsers_below rank r single step value" and n: "rank n \<le> r"
  shows "returns (anchor_step_with single step doc n)"
proof -
  let ?t = "yd_Tree doc"
  have "rank c < r" if "GetChildSequence ?t (Some n) = Some m" "GetChildOfType ?t (Some m) ''block_sequence_item'' = Some c" for m c
    using rank_GetChildSequence [OF R that(1)] rank_GetChildOfType [OF R that(2)] n by simp
  moreover have "rank c < r" if "GetChildOfType ?t (Some n) ''block_mapping'' = Some c" for c
    using rank_GetChildOfType [OF R that] n by simp
  ultimately show ?thesis
    unfolding anchor_step_with_def Let_def
    by (auto intro!: returns_case_option returns_pret parsers_belowD [OF P])
qed

lemma returns_named_step_with:
  assumes R: "regular rank K doc" and P: "parsers_below rank r single step value"
    and n: "rank n \<le> r" "rank n < k" and p: "proper (yd_Tree doc) n"
  shows "returns (named_step_with value k doc name n)"
  unfolding named_step_with_def Let_def
  by (intro returns_if returns_pbind returns_pret returns_pmap returns_parent_key_range [OF p]
      returns_mapping_of [OF R n(2)] parsers_belowD(3) [OF P]) (use n in simp)

lemma returns_step_with:
  assumes R: "regular rank K doc" and P: "parsers_below rank r single step value"
    and n: "rank n \<le> r" "rank n < k"
  shows "returns (step_with single step value k doc n)"
proof -
  let ?t = "yd_Tree doc" and ?pair = "GetChildOfType (yd_Tree doc) (Some n) ''block_mapping_pair''"
  have v: "rank v < rank n \<and> proper ?t v" if "snd (GetKeyValueNodes doc ?pair) = Some v" for v
  proof (cases ?pair)
    case (Some c)
    from GetKeyValueNodes_value [OF R that [unfolded Some]] rank_GetChildOfType [OF R Some]
    show ?thesis by simp
  qed (use that in \<open>simp add: GetKeyValueNodes_def Let_def\<close>)
  have builtin: "returns m"
    if "snd (GetKeyValueNodes doc ?pair) = Some v" "builtin_step k doc key v = Some m" for key v m
    using v [OF that(1)] n by (intro returns_builtin_step [OF R _ _ that(2)]) auto
  show ?thesis
    unfolding step_with_def Let_def
    by (intro returns_case_option returns_pret returns_pmap returns_if)
      (use v n in \<open>auto intro!: returns_when_unless_with [OF R P] returns_anchor_step_with [OF R P]
        returns_named_step_with [OF R P] intro: builtin\<close>)
qed

lemma returns_array_value_with:
  assumes R: "regular rank K doc" and P: "parsers_below rank r single step value"
    and n: "rank n \<le> r" "rank n < k"
  shows "returns (array_value_with single k doc p n rng f)"
proof -
  have "rank c < r \<and> rank c < k" if "c \<in> set (sequence_children (yd_Tree doc) (Some n))" for c
    using rank_sequence_children [OF R that] n by simp
  then show ?thesis
    unfolding array_value_with_def Let_def
    by (intro returns_pmap returns_pfold returns_if returns_pret parsers_belowD(1) [OF P]
        returns_parseEnumParamValue [OF R]) auto
qed

lemma returns_value_with:
  assumes R: "regular rank K doc" and P: "parsers_below rank r single step value"
    and n: "rank n \<le> r" "rank n < k"
  shows "returns (value_with single value k doc n)"
proof -
  let ?t = "yd_Tree doc"
  have node: "returns (value_node_with single value k doc p rng v c)"
    if v: "snd (GetKeyValueNodes doc (Some n)) = Some v" and c: "GetFirstChild ?t (Some v) = Some c" for p rng v c
  proof -
    from GetKeyValueNodes_value(1) [OF R v] rank_GetFirstChild [OF R c] n
    have c: "rank c < r" "rank c < k" by simp_all
    then have map: "returns (iterateOnBlockMapping k doc (Some c)
        (\<lambda>child. on_pair doc (\<lambda>child key v m. pmap (\<lambda>r. put_value key r m) (value child)) child) [])"
      by (intro returns_iterateOnBlockMapping [OF R] returns_on_pair [OF R] returns_pmap parsers_belowD(3) [OF P]) auto
    from c show ?thesis
      unfolding value_node_with_def Let_def
      by (intro returns_if returns_pmap returns_pret map returns_parseSimpleParameterValue [OF R]
          returns_array_value_with [OF R P]) auto
  qed
  show ?thesis
    unfolding value_with_def Let_def
    by (intro returns_case_option returns_pret returns_pbind returns_pemit node)
qed

lemma returns_single_step_with:
  assumes R: "regular rank K doc" and P: "parsers_below rank r single step value" and n: "rank n \<le> r"
  shows "returns (single_step_with step doc (Some n))"
proof -
  let ?t = "yd_Tree doc"
  have on_step: "returns (step m)"
    if "GetChildOfType ?t (Some c) ''block_mapping'' = Some m" "rank c < r" for c m
    using rank_GetChildOfType [OF R that(1)] that(2) by (intro parsers_belowD(2) [OF P]) simp
  have on_flow: "returns (flow_step_with step doc c)" if c: "rank c < r" "st_Type ?t c = ''flow_node''" for c
  proof -
    obtain first where first: "GetFirstChild ?t (Some c) = Some first"
      using regular_children(1) [OF R c(2)] by blast
    show ?thesis
    proof (cases "st_Type ?t first = ''alias''")
      case True
      then have nm: "alias_names doc c = [tl (GetNodeText doc (Some c)),
          GetNodeText doc (GetChildOfType ?t (Some c) ''alias_name'')]"
        by (simp add: alias_names_def Let_def first)
      then obtain x name where t1: "GetNodeText doc (Some c) = x # name"
        using regular_text [OF R, of c] by (cases "GetNodeText doc (Some c)") auto
      have "rank v < r" if "gm_get (yd_YamlAnchors doc) name = Some a" "an_ValueNode a = Some v" for a v
        using regular_alias [OF R _ that, of c] nm t1 c(1) by simp
      with True show ?thesis
        unfolding flow_step_with_def Let_def first alias_target_def t1
        by (auto simp: pbind_plift split: option.split intro!: returns_pret on_step)
    qed (simp add: flow_step_with_def first returns_pret)
  qed
  have "rank c < r" if "st_Child ?t n 1 = Some c" for c
    using rank_Child [OF R that] n by simp
  then show ?thesis
    unfolding single_step_with_def Let_def option.case
    by (intro returns_if returns_case_option returns_pret on_flow on_step) auto
qed

text \<open>With fuel beyond the rank by two, one for the node and one for those below it.\<close>

lemma parsers_return:
  assumes R: "regular rank K doc"
  shows "parsers_below rank k (parseSingleStep (Suc k) doc) (parseStep (Suc k) doc) (parseParameterValue (Suc k) doc)"
proof (induction k)
  case 0
  show ?case by (simp add: parsers_below_def single_step_with_def returns_pret)
next
  case (Suc k)
  have "returns (parseSingleStep (Suc (Suc k)) doc None)"
    by (simp only: parseSingleStep.simps(2) single_step_with_def Let_def option.case returns_pret)
  moreover have "returns (parseSingleStep (Suc (Suc k)) doc (Some n))" if "rank n < Suc k" for n
    unfolding parseSingleStep.simps(2) [of "Suc k"] using that by (intro returns_single_step_with [OF R Suc.IH]) simp
  moreover have "returns (parseStep (Suc (Suc k)) doc n)" if "rank n < Suc k" for n
    unfolding parseStep.simps(2) [of "Suc k"] using that by (intro returns_step_with [OF R Suc.IH]) simp_all
  moreover have "returns (parseParameterValue (Suc (Suc k)) doc n)" if "rank n < Suc k" for n
    unfolding parseParameterValue.simps(2) [of "Suc k"] using that by (intro returns_value_with [OF R Suc.IH]) simp_all
  ultimately show ?case unfolding parsers_below_def by blast
qed

end
