(* ===== verification/ParseTotal.thy ===== *)
theory ParseTotal
  imports ParseTerm
begin

text \<open>
  With fuel beyond the ranks of all nodes every parser of a regular document returns, and so does
  the walk over a document whose local orbs do.
\<close>

subsection \<open>Shared walks\<close>

lemma returns_mapping [returns_intros]:
  assumes R: "regular rank K doc" and k: "K < k" and fn: "\<And>c s. returns (fn c s)"
  shows "returns (iterateOnBlockMapping k doc n fn s)"
proof (rule returns_iterateOnBlockMapping [OF R _ _ fn])
  show "rank m < k" for m using regular_bound [OF R, of m] k by simp
qed (use k in simp)

lemma returns_pair [returns_intros]: "(\<And>key v s. returns (f c key v s)) \<Longrightarrow> returns (on_pair doc f c s)"
  unfolding on_pair_def by (auto split: prod.split option.split intro: returns_pret)

lemma returns_dictionary [returns_intros]:
  "regular rank K doc \<Longrightarrow> K < k \<Longrightarrow> returns (parseDictionary k doc n)"
  unfolding parseDictionary_def by (intro returns_intros)

lemma returns_step_parsers [returns_intros]:
  assumes R: "regular rank K doc" and k: "K < k"
  shows "returns (parseSingleStep k doc m)" and "returns (parseStep k doc n)" and "returns (parseParameterValue k doc n)"
proof -
  obtain j where j: "k = Suc j" "K \<le> j" using k by (cases k) auto
  have "rank n < j" for n using regular_bound [OF R, of n] j(2) by simp
  then show "returns (parseSingleStep k doc m)" "returns (parseStep k doc n)" "returns (parseParameterValue k doc n)"
    unfolding j(1) by (intro parsers_belowD [OF parsers_return [OF R, of j]]; simp)+
qed

lemma returns_parseSteps [returns_intros]:
  "regular rank K doc \<Longrightarrow> K < k \<Longrightarrow> returns (parseSteps k doc n)"
  unfolding parseSteps_def steps_with_def Let_def by (intro returns_intros)

lemma returns_parseArrayParameterValue [returns_intros]:
  assumes R: "regular rank K doc" and k: "K < k"
  shows "returns (parseArrayParameterValue k doc p n rng f)"
proof -
  have r: "rank c < k" for c using regular_bound [OF R, of c] k by simp
  note single = returns_step_parsers(1) [OF R k] and enum = returns_parseEnumParamValue [OF R r]
  show ?thesis
    unfolding parseArrayParameterValue_def array_value_with_def Let_def
    by (intro returns_pmap returns_pfold returns_if returns_pret single enum)
qed

lemma yields_array_value: "yields (\<lambda>p. \<exists>vs. pv_Value p = PVArray vs) (array_value_with single k doc p n rng f)"
  unfolding array_value_with_def Let_def pmap_def by (intro yields_intros) simp

subsection \<open>Parameters and executors\<close>

lemma returns_parameter_fields [returns_intros]:
  "regular rank K doc \<Longrightarrow> K < k \<Longrightarrow> (\<And>key c v s. returns (f key c v s)) \<Longrightarrow>
    returns (parameter_fields k doc p n d f)"
  unfolding parameter_fields_def Let_def by (intro returns_intros)

lemma returns_parameters [returns_intros]:
  assumes "regular rank K doc" "K < k"
  shows "returns (parseStringParameter k doc p n)" and "returns (parseExecutorParameter k doc p n)"
    and "returns (parseEnvVariableParameter k doc p n)" and "returns (parseBooleanParameter k doc p n)"
    and "returns (parseIntegerParameter k doc p n)" and "returns (parseEnumParameter k doc p n)"
  using assms unfolding parseStringParameter_def parseExecutorParameter_def parseEnvVariableParameter_def
    text_parameter_def parseBooleanParameter_def parseIntegerParameter_def parseEnumParameter_def
  by - (intro returns_intros; assumption)+

lemma returns_parseStepsParameter [returns_intros]:
  assumes R: "regular rank K doc" and k: "K < k"
  shows "returns (parseStepsParameter k doc p n)"
proof -
  have "returns (case pv_Value v of PVArray vs \<Rightarrow> pemit (not_steps_diagnostics vs) | _ \<Rightarrow> ppanic)"
    if "parseArrayParameterValue k doc p m rng True = Some (v, ds)" for m rng v ds
    using yieldsD [OF yields_array_value that [unfolded parseArrayParameterValue_def]]
    by (auto intro: returns_pemit)
  note steps = this and array = returns_parseArrayParameterValue [OF R k]
  show ?thesis
    unfolding parseStepsParameter_def
    by (intro returns_parameter_fields [OF R k] returns_if returns_pret returns_pbind returns_case_prod
        returns_case_option array steps)
qed

lemma returns_GetParameterType [returns_intros]:
  "regular rank K doc \<Longrightarrow> K < k \<Longrightarrow> returns (GetParameterType k doc n)"
  unfolding GetParameterType_def Let_def by (intro returns_intros)

lemma returns_parseParameters [returns_intros]:
  "regular rank K doc \<Longrightarrow> K < k \<Longrightarrow> returns (parseParameters k doc n)"
  unfolding parseParameters_def parseSingleParameter_def Let_def by (intro returns_intros)

lemma returns_parseEnvs [returns_intros]:
  "regular rank K doc \<Longrightarrow> K < k \<Longrightarrow> returns (parseEnvs k doc n)"
  unfolding parseEnvs_def Let_def by (intro returns_intros)

lemma returns_parseBaseExecutor [returns_intros]:
  "regular rank K doc \<Longrightarrow> K < k \<Longrightarrow> (\<And>n s. returns (fn n s)) \<Longrightarrow>
    returns (parseBaseExecutor k doc n m name fn s)"
  unfolding parseBaseExecutor_def base_field_def Let_def by (intro returns_intros)

lemma returns_addedMachineTrue [returns_intros]: "returns (addedMachineTrueDeprecatedDiag doc c r)"
  unfolding addedMachineTrueDeprecatedDiag_def Let_def by (intro returns_intros)

lemma returns_machine_field [returns_intros]: "returns (machine_field doc c s)"
  unfolding machine_field_def Let_def by (intro returns_intros)

lemma returns_executors [returns_intros]:
  assumes "regular rank K doc" "K < k"
  shows "returns (parseSingleExecutorMachine k doc n m)" and "returns (parseSingleExecutorMacOS k doc n m)"
  using assms unfolding parseSingleExecutorMachine_def parse_machine_def parseSingleExecutorMacOS_def Let_def
  by - (intro returns_intros; assumption)+

lemma returns_parseSingleExecutorDocker [returns_intros]:
  "regular rank K doc \<Longrightarrow> K < k \<Longrightarrow> returns (parseSingleExecutorDocker k doc n m)"
  unfolding parseSingleExecutorDocker_def parseDockerImage_def image_field_def Let_def
  by (intro returns_intros)

lemma returns_parseExecutors [returns_intros]:
  "regular rank K doc \<Longrightarrow> K < k \<Longrightarrow> returns (parseExecutors k doc n es)"
  unfolding parseExecutors_def parseSingleExecutor_def executor_field_def Let_def
  by (intro returns_intros)

lemma returns_parseExecutorRef [returns_intros]:
  "regular rank K doc \<Longrightarrow> K < k \<Longrightarrow> returns (parseExecutorRef k doc v c)"
  unfolding parseExecutorRef_def executor_ref_mapping_def executor_ref_field_def Let_def
  by (intro returns_intros)

subsection \<open>Jobs, commands, workflows\<close>

lemma returns_parseJobs [returns_intros]:
  "regular rank K doc \<Longrightarrow> K < k \<Longrightarrow> returns (parseJobs k doc n js)"
  unfolding parseJobs_def parseSingleJob_def job_field_def parseRetention_def add_job_def Let_def
  by (intro returns_intros)

lemma returns_parseCommands [returns_intros]:
  "regular rank K doc \<Longrightarrow> K < k \<Longrightarrow> returns (parseCommands k doc n cs)"
  unfolding parseCommands_def parseSingleCommand_def command_field_def add_command_def Let_def
  by (intro returns_intros)

subsection \<open>Invocations and workflows\<close>

lemma require_item_returns: "regular rank K doc \<Longrightarrow> require_item doc item \<noteq> None"
proof -
  assume R: "regular rank K doc"
  have status: "require_with_status doc key val \<noteq> None" if "snd (GetKeyValueNodes doc (Some c)) = Some val" for key val c
    using GetKeyValueNodes_value(2) [OF R that]
    by (auto simp: require_with_status_def Let_def proper_def split: option.split prod.split)
  have "require_with_status doc key val \<noteq> None" if "GetKeyValueNodes doc p = (Some key, Some val)" for key val p
  proof (cases p)
    case (Some c)
    with that have "snd (GetKeyValueNodes doc (Some c)) = Some val" by simp
    then show ?thesis by (rule status)
  qed (use that in \<open>simp add: GetKeyValueNodes_def Let_def\<close>)
  then show ?thesis
    unfolding require_item_def Let_def by (auto split: option.split prod.split)
qed

lemma those_None: "(\<And>x. x \<in> set xs \<Longrightarrow> f x \<noteq> None) \<Longrightarrow> those (map f xs) \<noteq> None"
  by (induction xs) (auto split: option.splits)

lemma returns_requires [returns_intros]:
  "regular rank K doc \<Longrightarrow> returns (plift (parseSingleJobRequires doc n))"
  unfolding parseSingleJobRequires_def Let_def
  by (intro returns_plift) (use those_None [OF require_item_returns] in auto)

lemma returns_parseMatrixAttributes [returns_intros]:
  "regular rank K doc \<Longrightarrow> K < k \<Longrightarrow> returns (parseMatrixAttributes k doc n)"
  unfolding parseMatrixAttributes_def parseMatrixParam_def Let_def by (intro returns_intros)

lemma returns_invocation_element [returns_intros]:
  "regular rank K doc \<Longrightarrow> K < k \<Longrightarrow> returns (invocation_element k doc e j)"
  unfolding invocation_element_def invocation_field_def Let_def by (intro returns_intros)

lemma returns_parseJobInvocations [returns_intros]:
  "regular rank K doc \<Longrightarrow> K < k \<Longrightarrow> returns (parseJobInvocations k doc n)"
  unfolding parseJobInvocations_def parseSingleJobInvocation_def Let_def by (intro returns_intros)

lemma returns_parseJobGroups [returns_intros]:
  "regular rank K doc \<Longrightarrow> K < k \<Longrightarrow> returns (parseJobGroups k doc n gs)"
  unfolding parseJobGroups_def parseSingleJobGroup_def Let_def by (intro returns_intros)

lemma returns_block_mapping_below [returns_intros]:
  assumes "regular rank K doc"
  shows "returns (plift (block_mapping_below doc n))"
  using regular_children(2) [OF assms]
  by (intro returns_plift) (auto simp: block_mapping_below_def Let_def split: option.split)

lemma returns_branch_names [returns_intros]:
  assumes "regular rank K doc"
  shows "returns (plift (branch_names doc n old))"
proof -
  have "sequence_string doc c \<noteq> None" for c
    using regular_children(3) [OF assms, of c] by (simp add: sequence_string_def Let_def)
  then have "sequenceToStrings doc c \<noteq> None" for c
    using those_None [of "st_Children (yd_Tree doc) c" "sequence_string doc"]
    by (auto simp: sequenceToStrings_def Let_def)
  then show ?thesis by (intro returns_plift) (simp add: branch_names_def split: option.split)
qed

lemma returns_parseSingleScheduleTrigger [returns_intros]:
  "regular rank K doc \<Longrightarrow> K < k \<Longrightarrow> returns (parseSingleScheduleTrigger k doc n)"
  unfolding parseSingleScheduleTrigger_def parseFilters_def parseBranchFilter_def Let_def
  by (intro returns_intros)

lemma returns_parseWorkflowTriggers [returns_intros]:
  "regular rank K doc \<Longrightarrow> K < k \<Longrightarrow> returns (parseWorkflowTriggers k doc n)"
  unfolding parseWorkflowTriggers_def parseSingleWorkflowTrigger_def Let_def by (intro returns_intros)

lemma returns_parseWorkflows [returns_intros]:
  "regular rank K doc \<Longrightarrow> K < k \<Longrightarrow> returns (parseWorkflows k doc n ws)"
  unfolding parseWorkflows_def parseSingleWorkflow_def workflow_field_def add_workflow_def Let_def
  by (intro returns_intros)

subsection \<open>The walk over a document\<close>

text \<open>The walk fills the document but does not touch what it reads.\<close>

definition same_source :: "yaml_document \<Rightarrow> yaml_document \<Rightarrow> bool" where
  "same_source doc doc' \<longleftrightarrow>
     yd_Tree doc' = yd_Tree doc \<and> yd_Content doc' = yd_Content doc \<and>
     yd_YamlAnchors doc' = yd_YamlAnchors doc \<and> yd_Offset doc' = yd_Offset doc"

text \<open>A block node that is the value of a pair below the key \<open>orbs\<close>, and the content that it has.\<close>

definition local_orb_node :: "yaml_document \<Rightarrow> node \<Rightarrow> bool" where
  "local_orb_node doc v \<longleftrightarrow>
     st_Type (yd_Tree doc) v = ''block_node'' \<and>
     (\<exists>p m k cs c. pair_key doc p = ''orbs'' \<and>
        GetChildMapping (yd_Tree doc) (snd (GetKeyValueNodes doc (Some p))) = Some m \<and>
        mapping_children k doc (Some m) = Some cs \<and> c \<in> set cs \<and>
        snd (GetKeyValueNodes doc (Some c)) = Some v)"

definition local_orb_content :: "yaml_document \<Rightarrow> node \<Rightarrow> string" where
  "local_orb_content doc v =
     replicate (unat (Character (Start (NodeToRange doc (Some v))))) (CHR 0x20) @ GetNodeText doc (Some v)"

definition local_orb_start :: "yaml_document \<Rightarrow> node \<Rightarrow> position" where
  "local_orb_start doc v = mk_pos (Line (Start (NodeToRange doc (Some v)))) 0"

definition orbs_return :: "sub_parser \<Rightarrow> yaml_document \<Rightarrow> bool" where
  "orbs_return sub doc \<longleftrightarrow>
     (\<forall>v. local_orb_node doc v \<longrightarrow> sub (local_orb_content doc v) (local_orb_start doc v) \<noteq> None)"

lemma same_source_refl [simp]: "same_source doc doc"
  by (simp add: same_source_def)

lemma same_source_GetNodeText: "same_source doc doc' \<Longrightarrow> GetNodeText doc' = GetNodeText doc"
  by (intro ext) (simp add: same_source_def GetNodeText_def)

lemma same_source_GetKeyValueNodes:
  assumes "same_source doc doc'"
  shows "GetKeyValueNodes doc' = GetKeyValueNodes doc"
proof
  fix n
  from assms have "yd_Tree doc' = yd_Tree doc" "yd_YamlAnchors doc' = yd_YamlAnchors doc"
    by (simp_all add: same_source_def)
  then show "GetKeyValueNodes doc' n = GetKeyValueNodes doc n"
    by (simp only: GetKeyValueNodes_def same_source_GetNodeText [OF assms])
qed

lemma same_source_regular:
  assumes S: "same_source doc doc'" and R: "regular rank K doc"
  shows "regular rank K doc'"
proof -
  from S have t: "yd_Tree doc' = yd_Tree doc" "yd_YamlAnchors doc' = yd_YamlAnchors doc"
    by (simp_all add: same_source_def)
  have a: "alias_names doc' = alias_names doc"
    by (intro ext) (simp only: alias_names_def t same_source_GetNodeText [OF S])
  have "regular rank K doc' = regular rank K doc"
    by (simp only: regular_def ranked_def well_formed_def t a same_source_GetNodeText [OF S])
  with R show ?thesis by simp
qed

lemma same_source_extractMergeAnchorNames:
  assumes S: "same_source doc doc'"
  shows "extractMergeAnchorNames k doc' n = extractMergeAnchorNames k doc n"
proof (induction k arbitrary: n)
  case (Suc k)
  have "yd_Tree doc' = yd_Tree doc" using S by (simp add: same_source_def)
  then show ?case
    by (simp only: extractMergeAnchorNames.simps Suc.IH same_source_GetNodeText [OF S])
qed simp

lemma same_source_unmapped:
  assumes S: "same_source doc doc'"
  shows "unmapped doc' cs mapped = unmapped doc cs mapped"
  by (induction cs arbitrary: mapped)
    (simp_all only: unmapped.simps same_source_GetNodeText [OF S] same_source_GetKeyValueNodes [OF S])

lemma same_source_merge_loop:
  assumes S: "same_source doc doc'"
  shows "merge_loop sub doc' ns mapped = merge_loop sub doc ns mapped"
proof (induction ns arbitrary: mapped)
  case (Cons a ns)
  have "yd_Tree doc' = yd_Tree doc" "yd_YamlAnchors doc' = yd_YamlAnchors doc"
    using S by (simp_all add: same_source_def)
  then show ?case by (simp only: merge_loop.simps same_source_unmapped [OF S] Cons.IH)
qed simp

lemma same_source_mapping_children:
  assumes S: "same_source doc doc'"
  shows "mapping_children k doc' n = mapping_children k doc n"
proof (induction k arbitrary: n)
  case (Suc k)
  have t: "yd_Tree doc' = yd_Tree doc" using S by (simp add: same_source_def)
  have key: "key_text doc' = key_text doc"
    by (intro ext) (simp only: key_text_def t same_source_GetNodeText [OF S])
  have "own_children doc' = own_children doc" "merge_children doc' = merge_children doc"
    by (intro ext; simp only: own_children_def merge_children_def t key)+
  moreover from this have "merge_names k doc' m = merge_names k doc m" for m
    by (simp only: merge_names_def t same_source_extractMergeAnchorNames [OF S])
  moreover have "mapping_children k doc' = mapping_children k doc" by (intro ext Suc.IH)
  ultimately show ?case
    by (simp only: mapping_children.simps t key same_source_merge_loop [OF S])
qed simp

lemma same_source_orbs_return:
  assumes S: "same_source doc doc'" and orbs: "orbs_return sub doc"
  shows "orbs_return sub doc'"
proof -
  have t: "yd_Tree doc' = yd_Tree doc" "yd_Offset doc' = yd_Offset doc" using S by (simp_all add: same_source_def)
  note eqs = t same_source_GetNodeText [OF S] same_source_GetKeyValueNodes [OF S] same_source_mapping_children [OF S]
  have "orbs_return sub doc' = orbs_return sub doc"
    by (simp only: orbs_return_def local_orb_node_def local_orb_content_def local_orb_start_def NodeToRange_def
        pair_key_def eqs)
  with orbs show ?thesis by simp
qed

lemma returns_pfold_invariant:
  "P s \<Longrightarrow> (\<And>x s. x \<in> set xs \<Longrightarrow> P s \<Longrightarrow> returns (f x s)) \<Longrightarrow> (\<And>x s. P s \<Longrightarrow> yields P (f x s)) \<Longrightarrow>
    returns (pfold f xs s)"
proof (induction xs arbitrary: s)
  case (Cons x xs)
  show ?case
    unfolding pfold.simps
  proof (intro returns_pbind)
    show "returns (f x s)" using Cons.prems by simp
    fix y ds assume "f x s = Some (y, ds)"
    then have "P y" using yieldsD [OF Cons.prems(3) [OF Cons.prems(1)]] by blast
    then show "returns (pfold f xs y)" by (rule Cons.IH) (use Cons.prems in auto)
  qed
qed (simp add: returns_pret)

lemma returns_walk:
  assumes R: "regular rank K doc" and k: "K < k" and s: "P s"
    and fn: "\<And>cs c s. mapping_children k doc n = Some cs \<Longrightarrow> c \<in> set cs \<Longrightarrow> P s \<Longrightarrow> returns (fn c s)"
    and inv: "\<And>c s. P s \<Longrightarrow> yields P (fn c s)"
  shows "returns (iterateOnBlockMapping k doc n fn s)"
proof -
  have "mapping_children k doc n \<noteq> None"
    using returns_mapping [OF R k, of "\<lambda>_. pret" n "()"]
    by (auto simp: returns_pret iterateOnBlockMapping_def returns_def parse_defs split: option.splits)
  then obtain cs where cs: "mapping_children k doc n = Some cs" by blast
  show ?thesis
    unfolding iterateOnBlockMapping_def cs
    by (simp add: pbind_plift) (intro returns_pfold_invariant [of P] s fn [OF cs] inv)
qed

lemma returns_parseLocalOrb:
  assumes "st_Type (yd_Tree doc) n = ''block_node'' \<Longrightarrow> sub (local_orb_content doc n) (local_orb_start doc n) \<noteq> None"
  shows "returns (parseLocalOrb sub name n doc)"
proof (cases "st_Type (yd_Tree doc) n = ''block_node''")
  case True
  with assms have "sub (local_orb_content doc n) (local_orb_start doc n) \<noteq> None" by blast
  then show ?thesis
    unfolding parseLocalOrb_def Let_def local_orb_content_def [symmetric] local_orb_start_def [symmetric]
    by (intro returns_if returns_pret returns_pbind returns_plift returns_pemit)
qed (simp add: parseLocalOrb_def returns_pret)

lemma returns_parseSingleOrb:
  "(\<And>n. snd (GetKeyValueNodes doc (Some c)) = Some n \<Longrightarrow> st_Type (yd_Tree doc) n = ''block_node'' \<Longrightarrow>
      sub (local_orb_content doc n) (local_orb_start doc n) \<noteq> None) \<Longrightarrow>
    returns (parseSingleOrb sub c doc)"
  unfolding parseSingleOrb_def Let_def
  by (intro returns_case_option returns_pret returns_if returns_pmap returns_parseLocalOrb)

lemma source_parseSingleOrb: "yields (same_source doc \<circ> snd) (parseSingleOrb sub c doc)"
  unfolding parseSingleOrb_def parseLocalOrb_def Let_def comp_def
  by (intro yields_intros yields_pmap) (auto simp: same_source_def split: option.split)

lemma same_source_trans: "same_source a b \<Longrightarrow> same_source b c \<Longrightarrow> same_source a c"
  by (simp add: same_source_def)

lemma source_parseOrbs: "yields (same_source doc) (parseOrbs sub k n doc)"
proof -
  have "yields (same_source doc)
      (pmap (\<lambda>((orb, localOrb), doc).
         let doc = (case orb of None \<Rightarrow> doc
                    | Some orb \<Rightarrow> doc\<lparr>yd_Orbs := gm_put (orb_Name orb) orb (yd_Orbs doc)\<rparr>)
         in case localOrb of None \<Rightarrow> doc | Some name \<Rightarrow> doc\<lparr>yd_LocalOrbs := yd_LocalOrbs doc @ [name]\<rparr>)
       (parseSingleOrb sub c d))" if "same_source doc d" for c d
    by (intro yields_pmap yields_mono [OF source_parseSingleOrb])
      (use that in \<open>auto simp: same_source_def split: prod.split option.split\<close>)
  then show ?thesis
    unfolding parseOrbs_def by (intro yields_case_option yields_pret yields_iterateOnBlockMapping) simp_all
qed

lemma returns_parseOrbs:
  assumes R: "regular rank K doc" and k: "K < k" and orbs: "orbs_return sub doc"
    and p: "pair_key doc p = ''orbs''" "snd (GetKeyValueNodes doc (Some p)) = Some n"
  shows "returns (parseOrbs sub k n doc)"
proof -
  have one: "returns (parseSingleOrb sub c d)"
    if m: "GetChildMapping (yd_Tree doc) (Some n) = Some m" and cs: "mapping_children k doc (Some m) = Some cs"
      and c: "c \<in> set cs" and S: "same_source doc d" for m cs c d
  proof (rule returns_parseSingleOrb)
    fix v assume v: "snd (GetKeyValueNodes d (Some c)) = Some v" and ty: "st_Type (yd_Tree d) v = ''block_node''"
    from S have t: "yd_Tree d = yd_Tree doc" by (simp add: same_source_def)
    from v have v: "snd (GetKeyValueNodes doc (Some c)) = Some v"
      by (simp only: same_source_GetKeyValueNodes [OF S])
    from m p(2) have "GetChildMapping (yd_Tree doc) (snd (GetKeyValueNodes doc (Some p))) = Some m" by simp
    with ty [unfolded t] cs c v p(1) have "local_orb_node doc v"
      unfolding local_orb_node_def by blast
    then have "local_orb_node d v"
      by (simp only: local_orb_node_def pair_key_def t same_source_GetNodeText [OF S]
          same_source_GetKeyValueNodes [OF S] same_source_mapping_children [OF S])
    with same_source_orbs_return [OF S orbs] show "sub (local_orb_content d v) (local_orb_start d v) \<noteq> None"
      by (simp add: orbs_return_def)
  qed
  have step: "yields (same_source doc) (pmap f (parseSingleOrb sub c d))"
    if "same_source doc d" "\<And>o' d'. same_source d d' \<Longrightarrow> same_source d (f (o', d'))" for c d f
    by (intro yields_pmap yields_mono [OF source_parseSingleOrb])
      (use that in \<open>auto intro: same_source_trans\<close>)
  show ?thesis
    unfolding parseOrbs_def
    by (intro returns_case_option returns_pret returns_walk [OF R k, of "same_source doc"] returns_pmap
        one step) (auto simp: same_source_def Let_def split: option.split)
qed

lemma source_root_field: "yields (same_source doc) (root_field sub k c doc)"
proof -
  have orbs: "yields (same_source doc) (parseOrbs sub k v (doc\<lparr>yd_OrbsRange := r\<rparr>))" for v r
    by (rule yields_mono [OF source_parseOrbs]) (simp add: same_source_def)
  show ?thesis
    unfolding root_field_def Let_def
    by (intro yields_intros yields_pmap orbs) (simp_all add: same_source_def parseVersion_def split: option.split)
qed

lemma returns_root_field:
  assumes R: "regular rank K doc" and k: "K < k" and orbs: "orbs_return sub doc"
  shows "returns (root_field sub k c doc)"
proof -
  have S: "same_source doc (doc\<lparr>yd_OrbsRange := r\<rparr>)" for r by (simp add: same_source_def)
  have "returns (parseOrbs sub k v (doc\<lparr>yd_OrbsRange := r\<rparr>))"
    if "pair_key doc c = ''orbs''" "snd (GetKeyValueNodes doc (Some c)) = Some v" for v r
    by (rule returns_parseOrbs [OF same_source_regular [OF S R] k same_source_orbs_return [OF S orbs], where p = c])
      (use that in \<open>simp_all only: pair_key_def same_source_GetNodeText [OF S] same_source_GetKeyValueNodes [OF S]\<close>)
  then show ?thesis
    using R k unfolding root_field_def Let_def by (auto intro!: returns_intros)
qed

lemma returns_walk_document:
  assumes R: "regular rank K doc" and k: "K < k" and orbs: "orbs_return sub doc"
  shows "returns (walk_document sub k doc)"
  unfolding walk_document_def
proof (rule returns_walk [OF R k, of "same_source doc"])
  fix c s assume S: "same_source doc s"
  show "returns (root_field sub k c s)"
    by (rule returns_root_field [OF same_source_regular [OF S R] k same_source_orbs_return [OF S orbs]])
  show "yields (same_source doc) (root_field sub k c s)"
    by (rule yields_mono [OF source_root_field]) (rule same_source_trans [OF S])
qed simp

end
