(* ===== verification/Sample.thy ===== *)
theory Sample
  imports ParseDoc
begin

text \<open>
  Small files with their syntax trees, on which the properties of the parsers are applied. The trees
  are those of the grammar without the colons and without the nodes below a plain scalar.
\<close>

subsection \<open>Trees from tables\<close>

text \<open>
  A row: the type of a node, its children, its fields, its byte positions, its line and columns.
  The nodes of a table are numbered from zero, the root. A query \<open>(type) @name\<close> matches the nodes of
  the type one by one.
\<close>

type_synonym row = "string \<times> node list \<times> (string \<times> node) list \<times> (nat \<times> nat) \<times> u32 \<times> u32 \<times> u32"

fun nth_option :: "'a list \<Rightarrow> nat \<Rightarrow> 'a option" where
  "nth_option [] i = None"
| "nth_option (x # xs) i = (if i = 0 then Some x else nth_option xs (i - 1))"

definition row_of :: "row list \<Rightarrow> node \<Rightarrow> row" where
  "row_of rows n = (case nth_option rows n of Some r \<Rightarrow> r | None \<Rightarrow> ([], [], [], (0, 0), 0, 0, 0))"

definition row_children :: "row \<Rightarrow> node list" where
  "row_children r = fst (snd r)"

text \<open>The row, counted from \<open>i\<close>, that has a node among its children.\<close>

fun parent_row :: "row list \<Rightarrow> nat \<Rightarrow> node \<Rightarrow> nat option" where
  "parent_row [] i n = None"
| "parent_row (r # rows) i n = (if List.member (row_children r) n then Some i else parent_row rows (Suc i) n)"

definition table_tree :: "row list \<Rightarrow> sitter" where
  "table_tree rows =
     (let parent = parent_row rows 0
      in \<lparr>st_Type = (\<lambda>n. fst (row_of rows n)),
          st_ChildCount = (\<lambda>n. length (row_children (row_of rows n))),
          st_Child = (\<lambda>n. nth_option (row_children (row_of rows n))),
          st_ChildByFieldName = (\<lambda>n f. gm_get (fst (snd (snd (row_of rows n)))) f),
          st_Parent = parent,
          st_NextSibling = (\<lambda>n. case parent n of None \<Rightarrow> None
            | Some p \<Rightarrow> (case dropWhile (\<lambda>c. c \<noteq> n) (row_children (rows ! p)) of
                          _ # s # _ \<Rightarrow> Some s | _ \<Rightarrow> None)),
          st_StartByte = (\<lambda>n. fst (fst (snd (snd (snd (row_of rows n)))))),
          st_EndByte = (\<lambda>n. snd (fst (snd (snd (snd (row_of rows n)))))),
          st_StartPoint = (\<lambda>n. case snd (snd (snd (snd (row_of rows n)))) of
                              (l, s, e) \<Rightarrow> \<lparr>pt_Row = l, pt_Column = s\<rparr>),
          st_EndPoint = (\<lambda>n. case snd (snd (snd (snd (row_of rows n)))) of
                            (l, s, e) \<Rightarrow> \<lparr>pt_Row = l, pt_Column = e\<rparr>),
          st_Query = (\<lambda>n q. map (\<lambda>n. [n])
            (filter (\<lambda>n. fst (row_of rows n) = takeWhile (\<lambda>c. c \<noteq> CHR '')'') (tl q)) [0..<length rows]))\<rparr>)"

subsection \<open>A file with a merged anchor\<close>

definition merge_content :: string where
  "merge_content =
     ''a: &x'' @ newline_str @ ''  k: v'' @ newline_str @ ''jobs:'' @ newline_str @ ''  <<: *x'' @ newline_str"

definition merge_rows :: "row list" where
  "merge_rows =
     [(''stream'', [1], [], (0, 28), 0, 0, 0),
      (''document'', [2], [], (0, 27), 0, 0, 0),
      (''block_node'', [3], [], (0, 27), 0, 0, 0),
      (''block_mapping'', [13, 4], [], (0, 27), 0, 0, 0),
      (''block_mapping_pair'', [5, 6], [(''key'', 5), (''value'', 6)], (13, 27), 2, 0, 8),
      (''flow_node'', [16], [], (13, 17), 2, 0, 4),
      (''block_node'', [7], [], (21, 27), 3, 2, 8),
      (''block_mapping'', [8], [], (21, 27), 3, 2, 8),
      (''block_mapping_pair'', [9, 10], [(''key'', 9), (''value'', 10)], (21, 27), 3, 2, 8),
      (''flow_node'', [17], [], (21, 23), 3, 2, 4),
      (''flow_node'', [11], [], (25, 27), 3, 6, 8),
      (''alias'', [12], [], (25, 27), 3, 6, 8),
      (''alias_name'', [], [], (26, 27), 3, 7, 8),
      (''block_mapping_pair'', [14, 15], [(''key'', 14), (''value'', 15)], (0, 12), 0, 0, 6),
      (''flow_node'', [18], [], (0, 1), 0, 0, 1),
      (''block_node'', [19, 20], [], (3, 12), 0, 3, 6),
      (''plain_scalar'', [], [], (13, 17), 2, 0, 4),
      (''plain_scalar'', [], [], (21, 23), 3, 2, 4),
      (''plain_scalar'', [], [], (0, 1), 0, 0, 1),
      (''anchor'', [21], [], (3, 5), 0, 3, 5),
      (''block_mapping'', [22], [], (8, 12), 1, 2, 6),
      (''anchor_name'', [], [], (4, 5), 0, 4, 5),
      (''block_mapping_pair'', [23, 24], [(''key'', 23), (''value'', 24)], (8, 12), 1, 2, 6),
      (''flow_node'', [25], [], (8, 9), 1, 2, 3),
      (''flow_node'', [26], [], (11, 12), 1, 5, 6),
      (''plain_scalar'', [], [], (8, 9), 1, 2, 3),
      (''plain_scalar'', [], [], (11, 12), 1, 5, 6)]"

definition merge_grammar :: grammar where
  "merge_grammar content = (table_tree merge_rows, 0)"

subsection \<open>A mapping that merges itself\<close>

definition cycle_content :: string where
  "cycle_content = ''jobs: &x'' @ newline_str @ ''  <<: *x'' @ newline_str"

definition cycle_rows :: "row list" where
  "cycle_rows =
     [(''stream'', [1], [], (0, 18), 0, 0, 0),
      (''document'', [2], [], (0, 17), 0, 0, 0),
      (''block_node'', [3], [], (0, 17), 0, 0, 0),
      (''block_mapping'', [4], [], (0, 17), 0, 0, 0),
      (''block_mapping_pair'', [5, 6], [(''key'', 5), (''value'', 6)], (0, 17), 0, 0, 8),
      (''flow_node'', [14], [], (0, 4), 0, 0, 4),
      (''block_node'', [7, 8], [], (6, 17), 0, 6, 8),
      (''anchor'', [9], [], (6, 8), 0, 6, 8),
      (''block_mapping'', [10], [], (11, 17), 1, 2, 8),
      (''anchor_name'', [], [], (7, 8), 0, 7, 8),
      (''block_mapping_pair'', [11, 12], [(''key'', 11), (''value'', 12)], (11, 17), 1, 2, 8),
      (''flow_node'', [15], [], (11, 13), 1, 2, 4),
      (''flow_node'', [13], [], (15, 17), 1, 6, 8),
      (''alias'', [16], [], (15, 17), 1, 6, 8),
      (''plain_scalar'', [], [], (0, 4), 0, 0, 4),
      (''plain_scalar'', [], [], (11, 13), 1, 2, 4),
      (''alias_name'', [], [], (16, 17), 1, 7, 8)]"

definition cycle_grammar :: grammar where
  "cycle_grammar content = (table_tree cycle_rows, 0)"

subsection \<open>A file with one job\<close>

definition job_content :: string where
  "job_content =
     ''jobs:'' @ newline_str @ ''  build:'' @ newline_str @ ''    steps:'' @ newline_str @
     ''      - checkout'' @ newline_str"

definition job_rows :: "row list" where
  "job_rows =
     [(''stream'', [1], [], (0, 43), 0, 0, 0),
      (''document'', [2], [], (0, 42), 0, 0, 0),
      (''block_node'', [3], [], (0, 42), 0, 0, 0),
      (''block_mapping'', [4], [], (0, 42), 0, 0, 0),
      (''block_mapping_pair'', [5, 6], [(''key'', 5), (''value'', 6)], (0, 42), 0, 0, 16),
      (''flow_node'', [20], [], (0, 4), 0, 0, 4),
      (''block_node'', [7], [], (8, 42), 1, 2, 16),
      (''block_mapping'', [8], [], (8, 42), 1, 2, 16),
      (''block_mapping_pair'', [9, 10], [(''key'', 9), (''value'', 10)], (8, 42), 1, 2, 16),
      (''flow_node'', [21], [], (8, 13), 1, 2, 7),
      (''block_node'', [11], [], (19, 42), 2, 4, 16),
      (''block_mapping'', [12], [], (19, 42), 2, 4, 16),
      (''block_mapping_pair'', [13, 14], [(''key'', 13), (''value'', 14)], (19, 42), 2, 4, 16),
      (''flow_node'', [22], [], (19, 24), 2, 4, 9),
      (''block_node'', [15], [], (32, 42), 3, 6, 16),
      (''block_sequence'', [16], [], (32, 42), 3, 6, 16),
      (''block_sequence_item'', [17, 18], [], (32, 42), 3, 6, 16),
      (''-'', [], [], (32, 33), 3, 6, 7),
      (''flow_node'', [19], [], (34, 42), 3, 8, 16),
      (''plain_scalar'', [], [], (34, 42), 3, 8, 16),
      (''plain_scalar'', [], [], (0, 4), 0, 0, 4),
      (''plain_scalar'', [], [], (8, 13), 1, 2, 7),
      (''plain_scalar'', [], [], (19, 24), 2, 4, 9)]"

definition job_grammar :: grammar where
  "job_grammar content = (table_tree job_rows, 0)"

end
