(* ===== verification/ParseReturn.thy ===== *)
theory ParseReturn
  imports ParseTotal Sample
begin

text \<open>
  When parsing a file returns: if no anchor contains itself. The theory states this over the links
  of a document, with a bound on the fuel, and shows that a mapping that merges itself is never
  walked, whatever the fuel.
\<close>

subsection \<open>The links of a document\<close>

text \<open>From a node to the nodes below it, and to the nodes of the anchors that its aliases name.\<close>

definition refers :: "yaml_document \<Rightarrow> (node \<times> node) set" where
  "refers doc =
     {(n, c). below (yd_Tree doc) n c \<or>
        (\<exists>name anchor. name \<in> set (alias_names doc n) \<and> gm_get (yd_YamlAnchors doc) name = Some anchor \<and>
           an_ValueNode anchor = Some c)}"

lemma card_Image_trancl:
  assumes "finite r" and "acyclic r" and "(n, c) \<in> r"
  shows "card (r\<^sup>+ `` {c}) < card (r\<^sup>+ `` {n})"
proof (rule psubset_card_mono)
  show "finite (r\<^sup>+ `` {n})" using assms(1) by (simp add: finite_Image)
  have "c \<in> r\<^sup>+ `` {n}" and "c \<notin> r\<^sup>+ `` {c}" using assms by (auto simp: acyclic_def)
  then show "r\<^sup>+ `` {c} \<subset> r\<^sup>+ `` {n}" using assms(3) by (auto intro: trancl_into_trancl2)
qed

lemma card_Image_trancl_le: "finite r \<Longrightarrow> card (r\<^sup>+ `` {n}) \<le> card r"
proof -
  assume r: "finite r"
  have "r\<^sup>+ `` {n} \<subseteq> Range (r\<^sup>+)" by blast
  also have "Range (r\<^sup>+) = snd ` r" by (subst trancl_range) (rule Range_snd)
  finally have "r\<^sup>+ `` {n} \<subseteq> snd ` r" .
  then have "card (r\<^sup>+ `` {n}) \<le> card (snd ` r)" using r by (simp add: card_mono)
  also have "\<dots> \<le> card r" using r by (rule card_image_le)
  finally show ?thesis .
qed

text \<open>Finitely many links without a cycle have ranks: the number of nodes that a node reaches.\<close>

lemma ranked_acyclic:
  assumes "finite (refers doc)" and "acyclic (refers doc)" and "card (refers doc) < K"
  shows "ranked (\<lambda>n. card ((refers doc)\<^sup>+ `` {n})) K doc"
  unfolding ranked_def
proof (intro conjI allI impI)
  show "card ((refers doc)\<^sup>+ `` {n}) < K" for n
    using card_Image_trancl_le [OF assms(1), of n] assms(3) by simp
  show "card ((refers doc)\<^sup>+ `` {c}) < card ((refers doc)\<^sup>+ `` {n})" if "below (yd_Tree doc) n c" for n c
    by (rule card_Image_trancl [OF assms(1,2)]) (simp add: refers_def that)
  show "card ((refers doc)\<^sup>+ `` {v}) < card ((refers doc)\<^sup>+ `` {n})"
    if "name \<in> set (alias_names doc n)" "gm_get (yd_YamlAnchors doc) name = Some anchor" "an_ValueNode anchor = Some v"
    for n name anchor v
    by (rule card_Image_trancl [OF assms(1,2)]) (use that in \<open>auto simp: refers_def\<close>)
qed

subsection \<open>Parsing returns\<close>

text \<open>
  A content whose document has fewer than \<open>K\<close> links, none in a cycle, and whose orbs nest to a depth
  below \<open>d\<close>, with the same of each orb.
\<close>

fun nested_regular ::
    "nat \<Rightarrow> nat \<Rightarrow> grammar \<Rightarrow> ls_context \<Rightarrow> string \<Rightarrow> string \<Rightarrow> position \<Rightarrow> bool" where
  "nested_regular 0 K g ctx uri content pos = False"
| "nested_regular (Suc d) K g ctx uri content pos =
     (let doc = prepare_document ((ParseFile g content ctx)\<lparr>yd_URI := uri\<rparr>) pos
      in finite (refers doc) \<and> acyclic (refers doc) \<and> card (refers doc) < K \<and> well_formed doc \<and>
         (\<forall>v. local_orb_node doc v \<longrightarrow>
            nested_regular d K g ctx uri (local_orb_content doc v) (local_orb_start doc v)))"

lemma prepare_document_kept [simp]:
  "yd_Context (prepare_document doc pos) = yd_Context doc" "yd_URI (prepare_document doc pos) = yd_URI doc"
  by (simp_all add: prepare_document_def parse_suppression_def Let_def split: prod.split)

lemma ParseFromContent_Suc:
  "ParseFromContent (Suc k) g content ctx uri pos =
     map_option (assignContexts \<circ> add_diagnostics)
       (walk_document (\<lambda>content pos. ParseFromContent k g content ctx uri pos) k
          (prepare_document ((ParseFile g content ctx)\<lparr>yd_URI := uri\<rparr>) pos))"
  by (simp add: ParseFromContent_def ParseFile_def)

lemma ParseFromContent_nested:
  "nested_regular d K g ctx uri content pos \<Longrightarrow> K + d < k \<Longrightarrow> ParseFromContent k g content ctx uri pos \<noteq> None"
proof (induction d arbitrary: content pos k)
  case (Suc d)
  let ?doc = "prepare_document ((ParseFile g content ctx)\<lparr>yd_URI := uri\<rparr>) pos"
  obtain j where j: "k = Suc j" "K + d < j" using Suc.prems(2) by (cases k) auto
  from Suc.prems(1) have doc: "finite (refers ?doc)" "acyclic (refers ?doc)" "card (refers ?doc) < K" "well_formed ?doc"
    and orbs: "local_orb_node ?doc v \<Longrightarrow>
      nested_regular d K g ctx uri (local_orb_content ?doc v) (local_orb_start ?doc v)" for v
    by (simp_all only: nested_regular.simps Let_def)
  have R: "regular (\<lambda>n. card ((refers ?doc)\<^sup>+ `` {n})) K ?doc"
    unfolding regular_def using ranked_acyclic [OF doc(1-3)] doc(4) by blast
  have "orbs_return (\<lambda>content pos. ParseFromContent j g content ctx uri pos) ?doc"
    unfolding orbs_return_def using Suc.IH [OF orbs j(2)] by blast
  then have "returns (walk_document (\<lambda>content pos. ParseFromContent j g content ctx uri pos) j ?doc)"
    using j(2) by (intro returns_walk_document [OF R]) simp_all
  then show ?case by (simp add: j(1) ParseFromContent_Suc returns_def)
qed simp

subsection \<open>A file that is parsed\<close>

text \<open>The links of a tree from a table, and a check of its properties over the rows.\<close>

definition table_links :: "row list \<Rightarrow> yaml_document \<Rightarrow> node \<Rightarrow> node list" where
  "table_links rows doc n =
     row_children (row_of rows n) @ map snd (fst (snd (snd (row_of rows n)))) @
     concat (map (\<lambda>name. case gm_get (yd_YamlAnchors doc) name of
                            None \<Rightarrow> [] | Some a \<Rightarrow> (case an_ValueNode a of None \<Rightarrow> [] | Some v \<Rightarrow> [v]))
               (alias_names doc n))"

definition row_ok :: "row list \<Rightarrow> nat \<Rightarrow> yaml_document \<Rightarrow> node \<Rightarrow> bool" where
  "row_ok rows N doc n \<longleftrightarrow> (let t = yd_Tree doc; r = row_of rows n; typ = fst r; names = alias_names doc n in
     list_all (\<lambda>c. n < c \<and> c < N) (table_links rows doc n) \<and>
     list_all (\<lambda>(f, v). List.member (row_children r) v \<and> GetFirstChild t (Some v) \<noteq> None) (fst (snd (snd r))) \<and>
     (if typ = ''flow_node'' then GetFirstChild t (Some n) \<noteq> None else True) \<and>
     (if typ = ''block_node'' \<or> typ = ''block_sequence_item'' then row_children r \<noteq> [] else True) \<and>
     (if names = [] then True else GetNodeText doc (Some n) \<noteq> []) \<and>
     (if typ = ''plain_scalar'' then row_children r = [] else True))"

lemma nth_option_beyond: "length xs \<le> i \<Longrightarrow> nth_option xs i = None"
  by (induction xs i rule: nth_option.induct) auto

lemma row_of_beyond: "length rows \<le> n \<Longrightarrow> row_of rows n = ([], [], [], (0, 0), 0, 0, 0)"
  by (simp add: row_of_def nth_option_beyond)

lemma table_tree_simps [simp]:
  "st_Type (table_tree rows) n = fst (row_of rows n)"
  "st_ChildCount (table_tree rows) n = length (row_children (row_of rows n))"
  "st_Child (table_tree rows) n i = nth_option (row_children (row_of rows n)) i"
  "st_ChildByFieldName (table_tree rows) n f = gm_get (fst (snd (snd (row_of rows n)))) f"
  "st_Parent (table_tree rows) n = parent_row rows 0 n"
  by (simp_all add: table_tree_def Let_def)

lemma nth_option_mem: "nth_option xs i = Some x \<Longrightarrow> x \<in> set xs"
  by (induction xs i rule: nth_option.induct) (auto split: if_splits)

lemma alias_names_beyond:
  assumes "yd_Tree doc = table_tree rows" and "length rows \<le> n"
  shows "alias_names doc n = []"
  using assms by (simp add: alias_names_def Let_def row_of_beyond row_children_def GetFirstChild_def)

lemma below_table: "below (table_tree rows) n c \<Longrightarrow>
    c \<in> set (row_children (row_of rows n)) \<union> snd ` set (fst (snd (snd (row_of rows n))))"
  by (auto simp: below_def st_Children_def List.map_filter_def dest: nth_option_mem map_of_SomeD
      intro: rev_image_eqI)

lemma refers_table:
  assumes "yd_Tree doc = table_tree rows" and "(n, c) \<in> refers doc"
  shows "c \<in> set (table_links rows doc n)"
  using assms below_table [of rows n c] by (force simp: refers_def table_links_def)

lemma table_links_beyond:
  assumes "yd_Tree doc = table_tree rows" and "length rows \<le> n"
  shows "table_links rows doc n = []"
  using assms by (simp add: table_links_def row_of_beyond row_children_def alias_names_beyond)

lemma parent_row_child:
  "c \<in> set (row_children (row_of rows n)) \<Longrightarrow> parent_row rows i c \<noteq> None"
proof (induction rows arbitrary: n i)
  case (Cons r rows)
  then show ?case by (cases n) (auto simp: row_of_def split: option.splits)
qed (simp add: row_of_def row_children_def)

lemma table_acyclic:
  assumes t: "yd_Tree doc = table_tree rows" and N: "length rows = N" and ok: "list_all (row_ok rows N doc) [0..<N]"
  shows "finite (refers doc) \<and> acyclic (refers doc) \<and> card (refers doc) \<le> N * N"
proof -
  have le: "n < c \<and> c < N" if "(n, c) \<in> refers doc" for n c
  proof -
    from refers_table [OF t that] have c: "c \<in> set (table_links rows doc n)" .
    then have "n < N" using table_links_beyond [OF t, of n] N by (cases "n < N") auto
    with ok have "row_ok rows N doc n" by (simp add: list_all_iff)
    then have "list_all (\<lambda>c. n < c \<and> c < N) (table_links rows doc n)" unfolding row_ok_def Let_def by blast
    with c show ?thesis by (simp add: list_all_iff)
  qed
  have sub: "refers doc \<subseteq> {..<N} \<times> {..<N}"
  proof (rule subrelI)
    fix n c assume "(n, c) \<in> refers doc"
    from le [OF this] show "(n, c) \<in> {..<N} \<times> {..<N}" by simp
  qed
  then have fin: "finite (refers doc)" by (rule finite_subset) simp
  have "card (refers doc) \<le> card ({..<N} \<times> {..<N})" using sub by (intro card_mono) simp_all
  moreover have "N - c < N - n" if "(n, c) \<in> refers doc" for n c
    using le [OF that] by (intro diff_less_mono2) simp_all
  then have "(refers doc)\<inverse> \<subseteq> measure (\<lambda>n. N - n)" by (auto simp: in_measure)
  then have "acyclic ((refers doc)\<inverse>)" by (intro wf_acyclic) (rule wf_subset [OF wf_measure])
  ultimately show ?thesis using fin by (simp add: acyclic_converse)
qed

lemma table_well_formed:
  assumes t: "yd_Tree doc = table_tree rows" and N: "length rows = N" and ok: "list_all (row_ok rows N doc) [0..<N]"
    and anchors: "list_all (\<lambda>(_, a). case an_ValueNode a of None \<Rightarrow> True | Some v \<Rightarrow> proper (yd_Tree doc) v)
      (yd_YamlAnchors doc)"
  shows "well_formed doc"
proof -
  let ?t = "yd_Tree doc"
  have row: "row_ok rows N doc n" if "n < N" for n using ok that by (simp add: list_all_iff)
  have beyond: "st_Type ?t n = [] \<and> GetFirstChild ?t (Some n) = None" if "\<not> n < N" for n
    using that N by (simp add: t row_of_beyond row_children_def GetFirstChild_def)
  have "proper ?t v" if "st_ChildByFieldName ?t n ''value'' = Some v" for n v
  proof (cases "n < N")
    case True
    from that have "(''value'', v) \<in> set (fst (snd (snd (row_of rows n))))" by (auto simp: t dest: map_of_SomeD)
    with row [OF True] have "v \<in> set (row_children (row_of rows n))" "GetFirstChild ?t (Some v) \<noteq> None"
      by (auto simp: row_ok_def Let_def list_all_iff)
    with parent_row_child [of v rows n 0] show ?thesis by (auto simp: proper_def t)
  qed (use that N in \<open>simp add: t row_of_beyond\<close>)
  moreover have "proper ?t v" if "gm_get (yd_YamlAnchors doc) name = Some a" "an_ValueNode a = Some v" for name a v
    using anchors map_of_SomeD [OF that(1)] that(2) by (force simp: list_all_iff)
  moreover have "GetFirstChild ?t (Some n) \<noteq> None" if "st_Type ?t n = ''flow_node''" for n
    using that row [of n] beyond [of n] by (cases "n < N") (auto simp: row_ok_def Let_def t)
  moreover have "st_Child ?t n 0 \<noteq> None" if "st_Type ?t n \<in> {''block_node'', ''block_sequence_item''}" for n
  proof (cases "n < N")
    case True
    with row [OF True] that have "row_children (row_of rows n) \<noteq> []" by (auto simp: row_ok_def Let_def t)
    then show ?thesis by (cases "row_children (row_of rows n)") (auto simp: t)
  qed (use that beyond [of n] in simp)
  moreover have "GetNodeText doc (Some n) \<noteq> []" if "alias_names doc n \<noteq> []" for n
    using that row [of n] alias_names_beyond [OF t, of n] N
    by (cases "n < N") (auto simp: row_ok_def Let_def)
  moreover have "st_Type ?t n \<noteq> ''plain_scalar''" if "GetFirstChild ?t (Some n) = Some c" for n c
  proof (cases "n < N")
    case True
    from that have "row_children (row_of rows n) \<noteq> []" by (auto simp: GetFirstChild_def t)
    with row [OF True] show ?thesis by (auto simp: row_ok_def Let_def t)
  qed (use that beyond [of n] in simp)
  ultimately show ?thesis unfolding well_formed_def Let_def by blast
qed

definition merge_doc :: yaml_document where
  "merge_doc = prepare_document ((ParseFile merge_grammar merge_content zero_ls_context)\<lparr>yd_URI := []\<rparr>) zero_pos"

text \<open>The same document as the checks see it, with the anchors in place.\<close>

definition merge_view :: yaml_document where
  "merge_view = (ParseFile merge_grammar merge_content zero_ls_context)
     \<lparr>yd_YamlAnchors := [(''x'', \<lparr>an_Name = [], an_DefinitionRange = mk_range (mk_pos 0 3) (mk_pos 0 5),
        an_References = [mk_range (mk_pos 3 6) (mk_pos 3 8)], an_ValueNode = Some 15\<rparr>)]\<rparr>"

lemma merge_doc_anchors: "yd_YamlAnchors merge_doc = yd_YamlAnchors merge_view"
  by code_simp

lemma same_source_links:
  assumes S: "same_source doc doc'"
  shows "refers doc' = refers doc" and "well_formed doc' = well_formed doc"
proof -
  from S have t: "yd_Tree doc' = yd_Tree doc" "yd_YamlAnchors doc' = yd_YamlAnchors doc"
    by (simp_all add: same_source_def)
  have a: "alias_names doc' = alias_names doc"
    by (intro ext) (simp only: alias_names_def t same_source_GetNodeText [OF S])
  show "refers doc' = refers doc" "well_formed doc' = well_formed doc"
    by (simp_all only: refers_def well_formed_def t a same_source_GetNodeText [OF S])
qed

lemma prepare_document_source:
  "yd_Tree (prepare_document doc pos) = yd_Tree doc" "yd_Content (prepare_document doc pos) = yd_Content doc"
  "yd_Offset (prepare_document doc pos) = pos"
  by (simp_all add: prepare_document_def parse_suppression_def Let_def split: prod.split)

lemma merge_view_source: "same_source merge_view merge_doc"
  unfolding same_source_def
  by (simp add: merge_doc_anchors) (simp add: merge_doc_def merge_view_def prepare_document_source ParseFile_def merge_grammar_def)

lemma merge_view_tree: "yd_Tree merge_view = table_tree merge_rows"
  by (simp add: merge_view_def ParseFile_def merge_grammar_def)

lemma merge_rows_length: "length merge_rows = 27"
  by (simp add: merge_rows_def)

lemma merge_view_rows_parts:
  "list_all (row_ok merge_rows 27 merge_view) [0..<9]"
  "list_all (row_ok merge_rows 27 merge_view) [9..<18]"
  "list_all (row_ok merge_rows 27 merge_view) [18..<27]"
    subgoal by code_simp
   subgoal by code_simp
  subgoal by code_simp
  done

lemma merge_view_rows: "list_all (row_ok merge_rows 27 merge_view) [0..<27]"
proof -
  have "[0..<27] = [0..<9] @ [9..<18] @ [18..<27]" by (simp add: upt_conv_Cons)
  then show ?thesis using merge_view_rows_parts by (simp only: list_all_append)
qed

lemma merge_view_anchors:
  "list_all (\<lambda>(_, a). case an_ValueNode a of None \<Rightarrow> True | Some v \<Rightarrow> proper (yd_Tree merge_view) v) (yd_YamlAnchors merge_view)"
  by code_simp

lemma merge_view_no_orbs: "list_all (\<lambda>p. pair_key merge_view p \<noteq> ''orbs'') [0..<27]"
  by code_simp

lemma pair_key_beyond:
  assumes "yd_Tree doc = table_tree rows" and "length rows \<le> n"
  shows "pair_key doc n = []"
  using assms by (simp add: pair_key_def GetKeyValueNodes_def Let_def row_of_beyond GetNodeText_def node_text_def)

lemma merge_no_orbs: "\<not> local_orb_node merge_doc v"
proof -
  have "pair_key merge_view p \<noteq> ''orbs''" for p
    using merge_view_no_orbs pair_key_beyond [OF merge_view_tree, of p]
    by (cases "p < 27") (simp_all add: list_all_iff merge_rows_length)
  moreover have "pair_key merge_doc p = pair_key merge_view p" for p
    by (simp only: pair_key_def same_source_GetNodeText [OF merge_view_source]
        same_source_GetKeyValueNodes [OF merge_view_source])
  ultimately show ?thesis by (simp add: local_orb_node_def)
qed

lemma merge_nested: "nested_regular 1 730 merge_grammar zero_ls_context [] merge_content zero_pos"
proof -
  have "finite (refers merge_doc) \<and> acyclic (refers merge_doc) \<and> card (refers merge_doc) < 730"
    using table_acyclic [OF merge_view_tree merge_rows_length merge_view_rows]
    by (simp only: same_source_links [OF merge_view_source]) simp
  moreover have "well_formed merge_doc"
    using table_well_formed [OF merge_view_tree merge_rows_length merge_view_rows merge_view_anchors]
    by (simp only: same_source_links [OF merge_view_source])
  ultimately show ?thesis
    unfolding One_nat_def nested_regular.simps Let_def merge_doc_def [symmetric] using merge_no_orbs by blast
qed



subsection \<open>Mappings that merge themselves\<close>

text \<open>
  The mapping \<open>n\<close> has one merge key, which names an anchor; \<open>m\<close> is the mapping that the anchor stands for.
\<close>

definition merges :: "yaml_document \<Rightarrow> node \<Rightarrow> node \<Rightarrow> bool" where
  "merges doc n m \<longleftrightarrow> (let t = yd_Tree doc in
     (st_Type t n = ''block_mapping'' \<or> st_Type t n = ''flow_mapping'') \<and>
     (\<exists>c v a x name anchor. merge_children doc n = [c] \<and> st_ChildByFieldName t c ''value'' = Some v \<and>
        st_Child t v 0 = Some a \<and> st_Type t a = ''alias'' \<and> GetNodeText doc (Some a) = x # name \<and>
        gm_get (yd_YamlAnchors doc) name = Some anchor \<and> an_ValueNode anchor \<noteq> None \<and>
        GetFirstChild t (an_ValueNode anchor) = Some m))"

lemma merges_children: "merges doc n m \<Longrightarrow> mapping_children k doc (Some m) = None \<Longrightarrow> mapping_children (Suc k) doc (Some n) = None"
  by (cases k) (auto simp: merges_def Let_def merge_names_def)


definition cycle_view :: yaml_document where
  "cycle_view = (ParseFile cycle_grammar cycle_content zero_ls_context)
     \<lparr>yd_YamlAnchors := [(''x'', \<lparr>an_Name = [], an_DefinitionRange = mk_range (mk_pos 0 6) (mk_pos 0 8),
        an_References = [mk_range (mk_pos 1 6) (mk_pos 1 8)], an_ValueNode = Some 6\<rparr>)]\<rparr>"

lemma cycle_view_facts:
  "st_Type (yd_Tree cycle_view) 8 = ''block_mapping''" "merge_children cycle_view 8 = [10]"
  "st_ChildByFieldName (yd_Tree cycle_view) 10 ''value'' = Some 12" "st_Child (yd_Tree cycle_view) 12 0 = Some 13"
  "st_Type (yd_Tree cycle_view) 13 = ''alias''" "GetNodeText cycle_view (Some 13) = ''*x''"
  "map_option an_ValueNode (gm_get (yd_YamlAnchors cycle_view) ''x'') = Some (Some 6)"
  "GetFirstChild (yd_Tree cycle_view) (Some 6) = Some 8"
  by code_simp+


end
