(* ===== verification/ParseProps.thy ===== *)
theory ParseProps
  imports Pipeline ParseReturn
begin

text \<open>
  What the parsers compute: the pairs a walk visits, which definition of a job counts, what becomes of
  the environment of a step, and the types of a document's values.
\<close>

subsection \<open>Merged mappings\<close>

lemma unmapped_keys:
  "unmapped doc cs mapped = (visited, mapped') \<Longrightarrow> pair_key doc ` set cs \<subseteq> set mapped' \<and> set mapped \<subseteq> set mapped' \<and>
    set mapped' \<subseteq> set mapped \<union> pair_key doc ` set visited"
  using unmapped_props [of doc cs mapped visited mapped'] by auto

text \<open>With known anchors the loop leaves out no key of theirs.\<close>

lemma merge_loop_complete:
  "merge_loop sub doc ns mapped = Some cs \<Longrightarrow>
    (\<And>a. a \<in> set ns \<Longrightarrow> \<exists>anchor. gm_get (yd_YamlAnchors doc) a = Some anchor \<and> an_ValueNode anchor \<noteq> None) \<Longrightarrow>
    a \<in> set ns \<Longrightarrow> gm_get (yd_YamlAnchors doc) a = Some anchor \<Longrightarrow>
    sub (GetFirstChild (yd_Tree doc) (an_ValueNode anchor)) = Some bs \<Longrightarrow>
    pair_key doc ` set bs \<subseteq> set mapped \<union> pair_key doc ` set cs"
proof (induction ns arbitrary: mapped cs)
  case (Cons b ns)
  obtain banchor where b: "gm_get (yd_YamlAnchors doc) b = Some banchor" "an_ValueNode banchor \<noteq> None"
    using Cons.prems(2) [of b] by auto
  with Cons.prems(1) obtain ds visited m rest where
    ds: "sub (GetFirstChild (yd_Tree doc) (an_ValueNode banchor)) = Some ds" and
    u: "unmapped doc ds mapped = (visited, m)" and
    rest: "merge_loop sub doc ns m = Some rest" and cs: "cs = visited @ rest"
    by (auto split: option.splits prod.splits)
  note keys = unmapped_keys [OF u]
  show ?case
  proof (cases "a = b")
    case True
    with b Cons.prems(4,5) ds have "bs = ds" by simp
    with keys have "pair_key doc ` set bs \<subseteq> set mapped \<union> pair_key doc ` set visited" by blast
    then show ?thesis unfolding cs set_append image_Un by blast
  next
    case False
    with Cons.prems(3) have "a \<in> set ns" by simp
    from Cons.IH [OF rest Cons.prems(2) this Cons.prems(4,5)] keys
    show ?thesis unfolding cs set_append image_Un by (simp del: set_map) blast
  qed
qed simp

text \<open>
  C11: a walk over a mapping visits its own pairs in order, then pairs of merged mappings: no key twice, and
  none that the mapping has itself. When all the anchors that it merges are known, every key of each of
  them is among the own or the merged ones.
\<close>

theorem mapping_children_merges:
  assumes "mapping_children (Suc k) doc (Some n) = Some cs"
    and "st_Type (yd_Tree doc) n = ''block_mapping'' \<or> st_Type (yd_Tree doc) n = ''flow_mapping''"
  shows "\<exists>merged. cs = own_children doc n @ merged \<and> distinct (map (pair_key doc) merged) \<and>
    pair_key doc ` set merged \<inter> key_text doc ` set (own_children doc n) = {} \<and>
    (\<forall>ns. merge_names k doc n = Some ns \<longrightarrow>
       (\<forall>a\<in>set ns. \<exists>anchor. gm_get (yd_YamlAnchors doc) a = Some anchor \<and> an_ValueNode anchor \<noteq> None) \<longrightarrow>
       (\<forall>a\<in>set ns. \<forall>anchor bs. gm_get (yd_YamlAnchors doc) a = Some anchor \<longrightarrow>
          mapping_children k doc (GetFirstChild (yd_Tree doc) (an_ValueNode anchor)) = Some bs \<longrightarrow>
          pair_key doc ` set bs \<subseteq> key_text doc ` set (own_children doc n) \<union> pair_key doc ` set merged))"
proof -
  obtain ns merged where ns: "merge_names k doc n = Some ns" and cs: "cs = own_children doc n @ merged" and
    loop: "merge_loop (mapping_children k doc) doc ns (map (key_text doc) (own_children doc n)) = Some merged"
    using assms by (auto simp: mapping_children.simps(2) split: option.splits if_splits)
  have complete: "pair_key doc ` set bs \<subseteq> key_text doc ` set (own_children doc n) \<union> pair_key doc ` set merged"
    if "\<forall>a\<in>set ns. \<exists>anchor. gm_get (yd_YamlAnchors doc) a = Some anchor \<and> an_ValueNode anchor \<noteq> None"
      "a \<in> set ns" "gm_get (yd_YamlAnchors doc) a = Some anchor"
      "mapping_children k doc (GetFirstChild (yd_Tree doc) (an_ValueNode anchor)) = Some bs" for a anchor bs
    using merge_loop_complete [OF loop _ that(2-4)] that(1) by auto
  with ns cs merge_loop_props [OF loop] show ?thesis by (intro exI [of _ merged]) auto
qed

lemma merge_view_facts:
  "st_Type (yd_Tree merge_view) 7 = ''block_mapping''" "st_Type (yd_Tree merge_view) 20 = ''block_mapping''"
  "own_children merge_view 7 = []" "merge_children merge_view 7 = [8]" "own_children merge_view 20 = [22]"
  "merge_children merge_view 20 = []" "st_ChildByFieldName (yd_Tree merge_view) 8 ''value'' = Some 10"
  "st_Child (yd_Tree merge_view) 10 0 = Some 11" "st_Type (yd_Tree merge_view) 11 = ''alias''"
  "GetNodeText merge_view (Some 11) = ''*x''" "GetFirstChild (yd_Tree merge_view) (Some 15) = Some 20"
  "map_option an_ValueNode (gm_get (yd_YamlAnchors merge_view) ''x'') = Some (Some 15)"
  "pair_key merge_view 22 = ''k''"
  by code_simp+

lemma merge_view_walk: "mapping_children (Suc 4) merge_view (Some 7) = Some [22]"
proof -
  have inner: "mapping_children 4 merge_view (Some 20) = Some [22]"
    by (simp add: mapping_children.simps(2) [of 3, simplified] merge_names_def merge_view_facts)
  obtain anchor where a: "gm_get (yd_YamlAnchors merge_view) ''x'' = Some anchor" "an_ValueNode anchor = Some 15"
    using merge_view_facts(12) by auto
  have loop: "merge_loop (mapping_children 4 merge_view) merge_view [''x''] [] = Some [22]"
    by (simp add: a merge_view_facts(11) inner pair_key_def [symmetric])
  have merged: "merge_names 4 merge_view 7 = Some [''x'']"
    by (simp add: merge_names_def merge_view_facts extractMergeAnchorNames.simps(2) [of 3, simplified])
  show ?thesis
    unfolding mapping_children.simps(2) option.case merged by (simp add: merge_view_facts loop del: merge_loop.simps)
qed

theorem mapping_children_merges_witness:
  "\<exists>merged. [22] = own_children merge_view 7 @ merged \<and> distinct (map (pair_key merge_view) merged)"
  by (rule exE [OF mapping_children_merges [OF merge_view_walk disjI1 [OF merge_view_facts(1)]]])
    (elim conjE, intro exI conjI, assumption+)

subsection \<open>Definitions of jobs\<close>

text \<open>
  Adding jobs one by one: the first of a name counts, also against those already there; every later one
  is reported at its own name and at the name of the one that counts.
\<close>

definition job_conflict :: "job \<Rightarrow> job \<Rightarrow> diagnostic list" where
  "job_conflict j defined =
     [already_defined (job_NameRange j) ''Job already defined'',
      already_defined (job_NameRange defined) ''Job already defined'']"

fun added_jobs :: "job list \<Rightarrow> jobs \<Rightarrow> jobs \<times> diagnostic list" where
  "added_jobs [] js = (js, [])"
| "added_jobs (j # parsed) js =
     (case gm_get js (job_Name j) of
        Some defined \<Rightarrow> map_prod id (append (job_conflict j defined)) (added_jobs parsed js)
      | None \<Rightarrow> added_jobs parsed (gm_put (job_Name j) j js))"

lemma pfold_jobs:
  "pfold (\<lambda>child js. pbind (parse child) (\<lambda>j. add_job j js)) cs js = Some (js', ds) \<Longrightarrow>
    \<exists>parsed. length parsed = length cs \<and>
      list_all2 (\<lambda>c j. \<exists>es. parse c = Some (j, es)) cs parsed \<and>
      fst (added_jobs parsed js) = js' \<and> set (snd (added_jobs parsed js)) \<subseteq> set ds"
proof (induction cs arbitrary: js ds)
  case (Cons c cs)
  from Cons.prems obtain j es where j: "parse c = Some (j, es)"
    by (auto simp: pbind_def split: option.splits)
  show ?case
  proof (cases "gm_get js (job_Name j)")
    case (Some defined)
    with Cons.prems j obtain fs where "pfold (\<lambda>child js. pbind (parse child) (\<lambda>j. add_job j js)) cs js = Some (js', fs)"
      "ds = es @ job_conflict j defined @ fs"
      by (auto simp: pbind_def add_job_def pemit_def pret_def job_conflict_def split: option.splits)
    moreover from Cons.IH [OF this(1)] obtain parsed where "length parsed = length cs"
      "list_all2 (\<lambda>c j. \<exists>es. parse c = Some (j, es)) cs parsed" "fst (added_jobs parsed js) = js'"
      "set (snd (added_jobs parsed js)) \<subseteq> set fs" by blast
    ultimately show ?thesis using j Some by (intro exI [of _ "j # parsed"]) auto
  next
    case None
    with Cons.prems j obtain fs where "pfold (\<lambda>child js. pbind (parse child) (\<lambda>j. add_job j js)) cs (gm_put (job_Name j) j js) = Some (js', fs)"
      "ds = es @ fs"
      by (auto simp: pbind_def add_job_def pret_def split: option.splits)
    moreover from Cons.IH [OF this(1)] obtain parsed where "length parsed = length cs"
      "list_all2 (\<lambda>c j. \<exists>es. parse c = Some (j, es)) cs parsed"
      "fst (added_jobs parsed (gm_put (job_Name j) j js)) = js'"
      "set (snd (added_jobs parsed (gm_put (job_Name j) j js))) \<subseteq> set fs" by blast
    ultimately show ?thesis using j None by (intro exI [of _ "j # parsed"]) auto
  qed
qed (simp add: pret_def)

lemma added_jobs_get:
  "gm_get (fst (added_jobs parsed js)) name =
    (case gm_get js name of Some j \<Rightarrow> Some j | None \<Rightarrow> find (\<lambda>j. job_Name j = name) parsed)"
  by (induction parsed arbitrary: js) (auto split: option.splits)

lemma added_jobs_conflicts:
  "i < length parsed \<Longrightarrow>
    gm_has js (job_Name (parsed ! i)) \<or> (\<exists>m<i. job_Name (parsed ! m) = job_Name (parsed ! i)) \<Longrightarrow>
    \<exists>defined. gm_get (fst (added_jobs parsed js)) (job_Name (parsed ! i)) = Some defined \<and>
      set (job_conflict (parsed ! i) defined) \<subseteq> set (snd (added_jobs parsed js))"
proof (induction parsed arbitrary: i js)
  case (Cons j parsed)
  show ?case
  proof (cases i)
    case 0
    with Cons.prems(2) obtain d where "gm_get js (job_Name j) = Some d" by (auto simp: gm_has_def)
    with 0 show ?thesis by (auto simp: added_jobs_get)
  next
    case (Suc i')
    with Cons.prems(1) have i': "i' < length parsed" by simp
    have earlier: "gm_has js (job_Name (parsed ! i')) \<or> job_Name j = job_Name (parsed ! i') \<or>
        (\<exists>m<i'. job_Name (parsed ! m) = job_Name (parsed ! i'))"
    proof (rule ccontr)
      assume no: "\<not> ?thesis"
      with Cons.prems(2) Suc obtain m where m: "m < Suc i'" "job_Name ((j # parsed) ! m) = job_Name (parsed ! i')" by auto
      with no show False by (cases m) auto
    qed
    show ?thesis
    proof (cases "gm_get js (job_Name j)")
      case (Some d)
      with earlier have "gm_has js (job_Name (parsed ! i')) \<or> (\<exists>m<i'. job_Name (parsed ! m) = job_Name (parsed ! i'))"
        by (auto simp: gm_has_def)
      from Cons.IH [OF i' this] Suc Some show ?thesis by auto
    next
      case None
      have "gm_has (gm_put (job_Name j) j js) (job_Name (parsed ! i')) \<or>
          (\<exists>m<i'. job_Name (parsed ! m) = job_Name (parsed ! i'))"
        using earlier by (auto simp: gm_has_def)
      from Cons.IH [OF i' this] Suc None show ?thesis by auto
    qed
  qed
qed simp

text \<open>
  C12: of the jobs under the key \<open>jobs\<close>, in the order of the walk, the first of each name is the one the document
  has, unless it had one before; each later one of the same name is reported, at its own name and at the
  name of the one that counts.
\<close>

theorem parseJobs_first:
  assumes "parseJobs k doc n js = Some (js', ds)" and "GetChildMapping (yd_Tree doc) (Some n) = Some m"
    and "mapping_children k doc (Some m) = Some cs"
  shows "\<exists>parsed. list_all2 (\<lambda>c j. \<exists>es. parseSingleJob k doc c = Some (j, es)) cs parsed \<and>
    (\<forall>name. gm_get js' name =
      (case gm_get js name of Some j \<Rightarrow> Some j | None \<Rightarrow> find (\<lambda>j. job_Name j = name) parsed)) \<and>
    (\<forall>i < length parsed.
      gm_has js (job_Name (parsed ! i)) \<or> (\<exists>i' < i. job_Name (parsed ! i') = job_Name (parsed ! i)) \<longrightarrow>
      (\<exists>defined. gm_get js' (job_Name (parsed ! i)) = Some defined \<and>
        {already_defined (job_NameRange (parsed ! i)) ''Job already defined'',
         already_defined (job_NameRange defined) ''Job already defined''} \<subseteq> set ds))"
proof -
  have fold: "pfold (\<lambda>child js. pbind (parseSingleJob k doc child) (\<lambda>j. add_job j js)) cs js = Some (js', ds)"
    using assms by (simp add: parseJobs_def iterateOnBlockMapping_def pbind_plift)
  from pfold_jobs [OF fold] obtain parsed where
    parsed: "list_all2 (\<lambda>c j. \<exists>es. parseSingleJob k doc c = Some (j, es)) cs parsed"
      "fst (added_jobs parsed js) = js'" "set (snd (added_jobs parsed js)) \<subseteq> set ds" by blast
  show ?thesis
  proof (intro exI [of _ parsed] conjI allI impI parsed(1))
    show "gm_get js' name = (case gm_get js name of Some j \<Rightarrow> Some j | None \<Rightarrow> find (\<lambda>j. job_Name j = name) parsed)" for name
      unfolding parsed(2) [symmetric] by (rule added_jobs_get)
    fix i assume "i < length parsed"
      "gm_has js (job_Name (parsed ! i)) \<or> (\<exists>i' < i. job_Name (parsed ! i') = job_Name (parsed ! i))"
    from added_jobs_conflicts [OF this] parsed(2,3)
    show "\<exists>defined. gm_get js' (job_Name (parsed ! i)) = Some defined \<and>
        {already_defined (job_NameRange (parsed ! i)) ''Job already defined'',
         already_defined (job_NameRange defined) ''Job already defined''} \<subseteq> set ds"
      by (auto simp: job_conflict_def)
  qed
qed

lemma merge_view_job: "parseSingleJob (Suc 4) merge_view 22 = Some (zero_job, [])"
  by code_simp

lemma merge_view_jobs: "parseJobs (Suc 4) merge_view 6 [] = Some ([([], zero_job)], [])"
proof -
  have "GetChildMapping (yd_Tree merge_view) (Some 6) = Some 7" by code_simp
  then show ?thesis
    by (simp add: parseJobs_def iterateOnBlockMapping_def merge_view_walk [simplified] pbind_plift
        merge_view_job [simplified] add_job_def parse_defs) (simp add: zero_job_def)
qed

theorem parseJobs_first_witness:
  "\<exists>parsed. list_all2 (\<lambda>c j. \<exists>es. parseSingleJob (Suc 4) merge_view c = Some (j, es)) [22] parsed \<and>
    find (\<lambda>j. job_Name j = []) parsed = Some zero_job"
proof -
  have "GetChildMapping (yd_Tree merge_view) (Some 6) = Some 7" by code_simp
  from parseJobs_first [OF merge_view_jobs this merge_view_walk] show ?thesis
    by (elim exE conjE) (rule exI, rule conjI, assumption, drule spec [of _ "[]"], simp)
qed

subsection \<open>The environment of a run step\<close>

text \<open>A value of a pair is a block node or a flow node, never a mapping.\<close>

definition values_wrapped :: "yaml_document \<Rightarrow> bool" where
  "values_wrapped doc \<longleftrightarrow>
     (\<forall>c v. snd (GetKeyValueNodes doc (Some c)) = Some v \<longrightarrow>
        st_Type (yd_Tree doc) v \<noteq> ''block_mapping'' \<and> st_Type (yd_Tree doc) v \<noteq> ''flow_mapping'')"

lemma parseDictionary_not_mapping:
  assumes "st_Type (yd_Tree doc) n \<noteq> ''block_mapping''" and "st_Type (yd_Tree doc) n \<noteq> ''flow_mapping''"
    and "parseDictionary k doc (Some n) = Some (d, ds)"
  shows "d = []"
  using assms by (cases k) (auto simp: parseDictionary_def iterateOnBlockMapping_def mapping_children.simps(2) parse_defs)

lemma yields_run_field:
  assumes "st_Type (yd_Tree doc) v \<noteq> ''block_mapping''" and "st_Type (yd_Tree doc) v \<noteq> ''flow_mapping''"
    and "run_Environment r = []"
  shows "yields (\<lambda>r. run_Environment r = []) (run_field k doc c key v r)"
proof -
  have "yields (\<lambda>d. run_Environment (r\<lparr>run_Environment := d\<rparr>) = []) (parseDictionary k doc (Some v))"
    unfolding yields_def using parseDictionary_not_mapping [OF assms(1,2)] by simp
  then show ?thesis
    unfolding run_field_def Let_def
    by (intro yields_if yields_pret yields_pmap) (simp_all add: assms(3))
qed

text \<open>
  C15: a run step never has an environment: the field \<open>environment\<close> is read as a dictionary from the node
  around the mapping, which is no mapping and so has no entries.
\<close>

theorem parseRunStep_environment:
  assumes "values_wrapped doc" and "parseRunStep k doc n = Some (r, ds)"
  shows "run_Environment r = []"
proof -
  have field: "yields (\<lambda>r. run_Environment r = []) (on_pair doc (run_field k doc) c r)"
    if "run_Environment r = []" for c r
  proof (cases "snd (GetKeyValueNodes doc (Some c))")
    case (Some v)
    with assms(1) have "st_Type (yd_Tree doc) v \<noteq> ''block_mapping''" "st_Type (yd_Tree doc) v \<noteq> ''flow_mapping''"
      by (auto simp: values_wrapped_def)
    from yields_run_field [OF this that] Some show ?thesis
      unfolding on_pair_def by (auto split: prod.split option.split intro: yields_pret that)
  qed (auto simp: on_pair_def split: prod.split option.split intro: yields_pret that)
  have "yields (\<lambda>r. run_Environment r = []) (parseRunStep k doc n)"
    unfolding parseRunStep_def Let_def
    by (intro yields_pbind_any yields_if yields_case_option yields_pret yields_iterateOnBlockMapping field)
      (simp_all add: run_of_text_def zero_run_def)
  with assms(2) show ?thesis by (auto dest: yieldsD)
qed

text \<open>The pair of a step \<open>run\<close> with an environment.\<close>

definition run_rows :: "row list" where
  "run_rows =
     [(''block_mapping_pair'', [1, 2], [(''key'', 1), (''value'', 2)], (0, 28), 0, 0, 8),
      (''flow_node'', [], [], (0, 3), 0, 0, 3),
      (''block_node'', [3], [], (7, 28), 1, 2, 8),
      (''block_mapping'', [4], [], (7, 28), 1, 2, 8),
      (''block_mapping_pair'', [5, 6], [(''key'', 5), (''value'', 6)], (7, 28), 1, 2, 8),
      (''flow_node'', [], [], (7, 18), 1, 2, 13),
      (''block_node'', [7], [], (24, 28), 2, 4, 8),
      (''block_mapping'', [8], [], (24, 28), 2, 4, 8),
      (''block_mapping_pair'', [9, 10], [(''key'', 9), (''value'', 10)], (24, 28), 2, 4, 8),
      (''flow_node'', [], [], (24, 25), 2, 4, 5),
      (''flow_node'', [], [], (27, 28), 2, 7, 8)]"

definition run_view :: yaml_document where
  "run_view = ParseFile (\<lambda>_. (table_tree run_rows, 0))
     (''run:'' @ newline_str @ ''  environment:'' @ newline_str @ ''    A: b'' @ newline_str) zero_ls_context"

definition value_types_ok :: "yaml_document \<Rightarrow> node \<Rightarrow> bool" where
  "value_types_ok doc c \<longleftrightarrow>
     (case snd (GetKeyValueNodes doc (Some c)) of
        None \<Rightarrow> True
      | Some v \<Rightarrow> st_Type (yd_Tree doc) v \<noteq> ''block_mapping'' \<and> st_Type (yd_Tree doc) v \<noteq> ''flow_mapping'')"

lemma run_view_values: "list_all (value_types_ok run_view) [0..<11]"
  by code_simp

lemma run_view_wrapped: "values_wrapped run_view"
proof -
  have t: "yd_Tree run_view = table_tree run_rows" by (simp add: run_view_def ParseFile_def)
  have "value_types_ok run_view c" for c
  proof (cases "c < 11")
    case False
    then have "length run_rows \<le> c" by (simp add: run_rows_def)
    then have "row_of run_rows c = ([], [], [], (0, 0), 0, 0, 0)" by (rule row_of_beyond)
    then show ?thesis by (simp add: value_types_ok_def GetKeyValueNodes_def Let_def t)
  qed (use run_view_values in \<open>simp add: list_all_iff\<close>)
  then have ok: "value_types_ok run_view c" for c .
  show ?thesis
    unfolding values_wrapped_def
  proof (intro allI impI)
    fix c v assume "snd (GetKeyValueNodes run_view (Some c)) = Some v"
    with ok [of c] show "st_Type (yd_Tree run_view) v \<noteq> ''block_mapping'' \<and> st_Type (yd_Tree run_view) v \<noteq> ''flow_mapping''"
      by (simp add: value_types_ok_def)
  qed
qed

lemma run_view_step: "map_option (\<lambda>(r, ds). run_Name r) (parseRunStep (Suc (Suc 0)) run_view 2) = Some ''run''"
  by code_simp

theorem parseRunStep_environment_witness:
  "\<exists>r ds. parseRunStep (Suc (Suc 0)) run_view 2 = Some (r, ds) \<and> run_Environment r = []"
  using run_view_step parseRunStep_environment [OF run_view_wrapped, of "Suc (Suc 0)" 2] by fastforce

subsection \<open>Types and totality\<close>



lemma Diagnostic_returns:
  assumes "FileCache_GetFile (ca_FileCache (vs_Cache s)) uri = Some f"
    and "nested_regular d K (pl_Grammar pl) ctx uri (td_Text (cf_TextDocument f)) zero_pos"
    and "K + d < pl_Fuel pl"
    and "\<forall>doc. ValidateWithJSONSchema (pl_Schema pl) doc \<noteq> None"
  shows "\<exists>ds s'. Diagnostic pl uri ctx schemaLocation s = Some (ds, s')"
proof -
  obtain doc where doc: "ParseFromContent (pl_Fuel pl) (pl_Grammar pl) (td_Text (cf_TextDocument f)) ctx uri zero_pos = Some doc"
    using ParseFromContent_nested [OF assms(2,3)] by auto
  let ?doc = "doc\<lparr>yd_SchemaLocation := schemaLocation\<rparr>"
  have "document_tagged ?doc" by (rule document_tagged_same(2) [OF ParseFromContent_tagged [OF doc]])
  then obtain r s' where "DiagnosticYAML pl ?doc ctx s = Some (r, s')"
    using DiagnosticYAML_returns assms(4) by blast
  then show ?thesis
    by (simp add: Diagnostic_def DiagnosticFile_def ParseFromUriWithCache_def assms(1) doc vbind_def vget_def
        vcache_def vlift_def vret_def)
qed


definition merge_pipeline :: pipeline where
  "merge_pipeline = sample_pipeline\<lparr>pl_Fuel := 1000, pl_Grammar := merge_grammar\<rparr>"

definition merge_file :: cached_file where
  "merge_file =
     \<lparr>cf_TextDocument = \<lparr>td_URI = [], td_LanguageID = ''yaml'', td_Version = 1, td_Text = merge_content\<rparr>,
      cf_Project = \<lparr>prj_Slug = [], prj_Name = [], prj_Id = [], prj_OrganizationName = [],
        prj_OrganizationSlug = [], prj_OrganizationId = [],
        prj_VcsInfo = \<lparr>vcs_VcsUrl = [], vcs_Provider = [], vcs_Default_branch = []\<rparr>\<rparr>, cf_EnvVariables = []\<rparr>"

definition merge_state :: vstate where
  "merge_state = sample_state\<lparr>vs_Cache := CreateCache\<lparr>ca_FileCache := FileCache_SetFile merge_file []\<rparr>\<rparr>"


end
