(* ===== verification/GotoDef.thy ===== *)
theory GotoDef
  imports Session Schema
begin

text \<open>
  Going to a definition: \<open>pkg/services/definition\<close>. A search is an action, because an orb may have to
  be fetched; the third-party function that makes a URI of a path is \<open>nv_URI\<close>. An error value is
  \<open>Inl ()\<close>: no caller looks at the locations beside it.
\<close>

record location =
  loc_URI :: string
  loc_Range :: range

record navigation =
  nv_Doc :: yaml_document
  nv_Uri :: string
  nv_Position :: position
  nv_Env :: env
  nv_Services :: schema_services
  nv_NewURI :: "string \<Rightarrow> string"

type_synonym locations = "location list"

definition loc :: "string \<Rightarrow> range \<Rightarrow> location" where
  "loc uri r = \<lparr>loc_URI = uri, loc_Range = r\<rparr>"

definition here :: "navigation \<Rightarrow> range \<Rightarrow> bool" where
  "here d r = PosInRange r (nv_Position d)"

text \<open>The loops that return from their body: the first element with a result.\<close>

fun vfirst :: "('x \<Rightarrow> 'a option action) \<Rightarrow> 'x list \<Rightarrow> 'a option action" where
  "vfirst f [] = vret None"
| "vfirst f (x # xs) = vbind (f x) (\<lambda>r. case r of None \<Rightarrow> vfirst f xs | Some y \<Rightarrow> vret (Some y))"

fun pick :: "('x \<Rightarrow> 'a option) \<Rightarrow> 'x list \<Rightarrow> 'a option" where
  "pick f [] = None"
| "pick f (x # xs) = (case f x of None \<Rightarrow> pick f xs | Some y \<Rightarrow> Some y)"

definition found :: "locations option \<Rightarrow> locations" where
  "found r = (case r of None \<Rightarrow> [] | Some ls \<Rightarrow> ls)"

definition nonempty :: "locations \<Rightarrow> locations option" where
  "nonempty ls = (if ls = [] then None else Some ls)"

subsection \<open>anchors.go, executor.go, job\_invocation.go\<close>

definition searchAliasDefinition :: "navigation \<Rightarrow> locations" where
  "searchAliasDefinition d =
     (let anchors = yd_YamlAnchors (nv_Doc d) in
      case GetYamlAnchorAtPosition (nv_Doc d) (nv_Position d) of
        Some anchor \<Rightarrow> [loc (nv_Uri d) (an_DefinitionRange anchor)]
      | None \<Rightarrow>
          (case find (\<lambda>(_, anchor). list_ex (here d) (an_References anchor)) anchors of
             Some (_, anchor) \<Rightarrow> [loc (nv_Uri d) (an_DefinitionRange anchor)]
           | None \<Rightarrow> []))"

definition getExecutorDefinition :: "navigation \<Rightarrow> locations" where
  "getExecutorDefinition d =
     (case find (\<lambda>(_, e). here d (executor_GetNameRange e)) (yd_Executors (nv_Doc d)) of
        Some (_, e) \<Rightarrow> [loc (nv_Uri d) (executor_GetRange e)]
      | None \<Rightarrow> [])"

definition searchForJobInvocationFromRequires ::
    "navigation \<Rightarrow> require list \<Rightarrow> job_invocation list \<Rightarrow> locations" where
  "searchForJobInvocationFromRequires d requires jobInvocations =
     found (pick (\<lambda>r.
       if here d (rq_Range r)
       then map_option (\<lambda>ji. [loc (nv_Uri d) (ji_JobInvocationRange ji)])
              (find (\<lambda>ji. ji_JobName ji = rq_Name r \<or> ji_StepName ji = rq_Name r) jobInvocations)
       else None) requires)"

subsection \<open>orb.go\<close>

text \<open>The file of an orb: a local one is the document itself.\<close>

definition orb_file :: "navigation \<Rightarrow> orb_info \<Rightarrow> string" where
  "orb_file d info =
     (if oi_IsLocal info then yd_URI (nv_Doc d) else nv_NewURI d (ri_FilePath (oi_RemoteInfo info)))"

definition getOrbCommandOrJobLocation :: "navigation \<Rightarrow> orb_info \<Rightarrow> string \<Rightarrow> unit + locations" where
  "getOrbCommandOrJobLocation d info name =
     (let a = oi_Attributes info in
      case gm_get (oa_Commands a) name of
        Some c \<Rightarrow> Inr [loc (orb_file d info) (cmd_Range c)]
      | None \<Rightarrow>
          (case gm_get (oa_Jobs a) name of
             Some j \<Rightarrow> Inr [loc (orb_file d info) (job_Range j)]
           | None \<Rightarrow> Inl ()))"

definition getOrbCommandOrJobParamLocation ::
    "navigation \<Rightarrow> orb_info \<Rightarrow> string \<Rightarrow> string \<Rightarrow> unit + locations" where
  "getOrbCommandOrJobParamLocation d info name paramName =
     (let a = oi_Attributes info;
          at = (\<lambda>ps. map_option (\<lambda>p. [loc (orb_file d info) (param_GetRange p)]) (gm_get ps paramName));
          ofJob = (case gm_get (oa_Jobs a) name of None \<Rightarrow> None | Some j \<Rightarrow> at (job_Parameters j))
      in case (case gm_get (oa_Commands a) name of None \<Rightarrow> None | Some c \<Rightarrow> at (cmd_Parameters c)) of
           Some ls \<Rightarrow> Inr ls
         | None \<Rightarrow> (case ofJob of Some ls \<Rightarrow> Inr ls | None \<Rightarrow> Inl ()))"

text \<open>
  The definition of a name with a slash. The information about an orb may be nil beside a nil error,
  and is dereferenced.
\<close>

definition getOrbLocation :: "navigation \<Rightarrow> string \<Rightarrow> bool \<Rightarrow> (unit + locations) action" where
  "getOrbLocation d name redirectToOrbFile =
     (case split_on (CHR ''/'') name of
        orbName # rest # _ \<Rightarrow>
          (case gm_get (yd_Orbs (nv_Doc d)) orbName of
             None \<Rightarrow> vret (Inl ())
           | Some orb \<Rightarrow>
               if redirectToOrbFile
               then vbind (GetOrbInfoFromName (nv_Env d) (nv_Doc d) (orb_Name orb)) (\<lambda>(info, err).
                      if err \<noteq> None then vret (Inl ())
                      else vbind (vlift info) (\<lambda>info. vret (getOrbCommandOrJobLocation d info rest)))
               else vret (Inr [loc (yd_URI (nv_Doc d)) (orb_Range orb)]))
      | _ \<Rightarrow> vret (Inl ()))"

definition getOrbParamLocation :: "navigation \<Rightarrow> string \<Rightarrow> string \<Rightarrow> (unit + locations) action" where
  "getOrbParamLocation d name paramName =
     (case split_on (CHR ''/'') name of
        orbName # rest # _ \<Rightarrow>
          vbind (GetOrbInfoFromName (nv_Env d) (nv_Doc d) orbName) (\<lambda>(info, err).
            vret (if err \<noteq> None then Inl ()
                  else case info of
                         None \<Rightarrow> Inl ()
                       | Some info \<Rightarrow> getOrbCommandOrJobParamLocation d info rest paramName))
      | _ \<Rightarrow> vret (Inl ()))"

definition getExecutorRange :: "navigation \<Rightarrow> string \<Rightarrow> range action" where
  "getExecutorRange d name =
     (case gm_get (yd_Executors (nv_Doc d)) name of
        Some e \<Rightarrow> vret (executor_GetRange e)
      | None \<Rightarrow>
          vbind (getOrbLocation d name False) (\<lambda>r.
            vret (case r of Inr (l # _) \<Rightarrow> loc_Range l | _ \<Rightarrow> zero_range)))"

subsection \<open>utils.go: what a name stands for\<close>

definition getCommandOrJobLocation :: "navigation \<Rightarrow> string \<Rightarrow> bool \<Rightarrow> (unit + locations) action" where
  "getCommandOrJobLocation d name includeCommands =
     (let doc = nv_Doc d; at = (\<lambda>r. vret (Inr [loc (yd_URI doc) r])) in
      case gm_get (yd_Jobs doc) name of
        Some j \<Rightarrow> at (job_Range j)
      | None \<Rightarrow>
          (case gm_get (yd_JobGroups doc) name of
             Some g \<Rightarrow> at (jg_Range g)
           | None \<Rightarrow>
               (case (if includeCommands then gm_get (yd_Commands doc) name else None) of
                  Some c \<Rightarrow> at (cmd_Range c)
                | None \<Rightarrow> getOrbLocation d name True)))"

definition getCommandOrJobParamLocation ::
    "navigation \<Rightarrow> string \<Rightarrow> string \<Rightarrow> bool \<Rightarrow> (unit + locations) action" where
  "getCommandOrJobParamLocation d name paramName includeCommands =
     (let doc = nv_Doc d;
          param = (\<lambda>ps. gm_get ps paramName);
          ofJob = (case gm_get (yd_Jobs doc) name of None \<Rightarrow> None | Some j \<Rightarrow> param (job_Parameters j));
          ofCommand = (if includeCommands
                       then (case gm_get (yd_Commands doc) name of None \<Rightarrow> None | Some c \<Rightarrow> param (cmd_Parameters c))
                       else None)
      in case (case ofJob of Some p \<Rightarrow> Some p | None \<Rightarrow> ofCommand) of
           Some p \<Rightarrow> vret (Inr [loc (yd_URI doc) (param_GetRange p)])
         | None \<Rightarrow> getOrbParamLocation d name paramName)"

text \<open>
  The keys of the pairs and the texts of the items around a position, from the outside; the outermost
  node is left out. A pair without a key is dereferenced.
\<close>

definition path_name :: "yaml_document \<Rightarrow> node \<Rightarrow> string list option" where
  "path_name doc n =
     (let t = yd_Tree doc in
      if st_Type t n = ''block_mapping_pair''
      then map_option (\<lambda>key. [GetRawNodeText doc (Some key)]) (st_ChildByFieldName t n ''key'')
      else if st_Type t n = ''block_sequence_item''
      then Some (case GetChildOfType t (Some n) ''flow_node'' of
                   None \<Rightarrow> [] | Some flow \<Rightarrow> [GetRawNodeText doc (Some flow)])
      else Some [])"

definition GetPathFromVisitedNodes :: "node list \<Rightarrow> yaml_document \<Rightarrow> string list option" where
  "GetPathFromVisitedNodes visitedNodes doc =
     map_option concat (those (map (path_name doc) (tl visitedNodes)))"

subsection \<open>parameters.go\<close>

definition named_param_definition :: "navigation \<Rightarrow> string \<Rightarrow> string \<Rightarrow> locations option" where
  "named_param_definition d paramName name =
     (let doc = nv_Doc d;
          at = (\<lambda>ps. map_option (\<lambda>p. [loc (nv_Uri d) (param_GetRange p)]) (gm_get ps paramName))
      in if \<not> DoesCommandOrJobOrExecutorExist doc name True then None
         else (case gm_get (yd_Commands doc) name of
                 Some c \<Rightarrow> at (cmd_Parameters c)
               | None \<Rightarrow>
                   (case gm_get (yd_Jobs doc) name of
                      Some j \<Rightarrow> at (job_Parameters j)
                    | None \<Rightarrow>
                        (case gm_get (yd_Executors doc) name of
                           Some e \<Rightarrow> at (executor_GetParameters e)
                         | None \<Rightarrow> None))))"

definition searchParamDefinition :: "navigation \<Rightarrow> locations action" where
  "searchParamDefinition d =
     (let doc = nv_Doc d;
          (paramName, isPipelineParam) = GetParamNameUsedAtPos (yd_Content doc) (nv_Position d);
          visitedNodes = snd (NodeAtPos (nv_Services d) (yd_Tree doc) (yd_RootNode doc) (nv_Position d))
      in if paramName = [] then vret []
         else vbind (vlift (GetPathFromVisitedNodes visitedNodes doc)) (\<lambda>path.
           vret (case (if isPipelineParam then gm_get (yd_PipelineParameters doc) paramName else None) of
                   Some p \<Rightarrow> [loc (nv_Uri d) (param_GetRange p)]
                 | None \<Rightarrow> found (pick (named_param_definition d paramName) (rev path)))))"

definition searchForParamDefinition :: "navigation \<Rightarrow> params \<Rightarrow> locations" where
  "searchForParamDefinition d definedParams =
     (case find (\<lambda>(_, p). here d (param_GetRange p)) definedParams of
        Some (_, p) \<Rightarrow> [loc (nv_Uri d) (param_GetNameRange p)]
      | None \<Rightarrow> [])"

definition searchForParamValueDefinition ::
    "navigation \<Rightarrow> string \<Rightarrow> (string, param_value) gomap \<Rightarrow> locations action" where
  "searchForParamValueDefinition d callName ps =
     (case find (\<lambda>(_, p). here d (pv_Range p)) ps of
        None \<Rightarrow> vret []
      | Some (_, p) \<Rightarrow>
          vbind (getCommandOrJobParamLocation d callName (pv_Name p) True) (\<lambda>r.
            vret (case r of Inr ls \<Rightarrow> ls | Inl _ \<Rightarrow> [])))"

subsection \<open>jobs.go, commands.go\<close>

definition step_definition :: "navigation \<Rightarrow> step \<Rightarrow> locations option action" where
  "step_definition d st =
     (case st of
        NamedStep name ps pr r \<Rightarrow>
          if here d r
          then vbind (getCommandOrJobLocation d name True) (\<lambda>x.
                 vret (Some (case x of Inr ls \<Rightarrow> ls | Inl _ \<Rightarrow> [])))
          else vbind (searchForParamValueDefinition d name ps) (\<lambda>ls. vret (nonempty ls))
      | _ \<Rightarrow> vret None)"

definition getStepDefinition :: "navigation \<Rightarrow> step list \<Rightarrow> locations action" where
  "getStepDefinition d steps = vbind (vfirst (step_definition d) steps) (\<lambda>r. vret (found r))"

definition job_definition :: "navigation \<Rightarrow> job \<Rightarrow> locations option action" where
  "job_definition d j =
     vbind (getStepDefinition d (case job_Steps j of None \<Rightarrow> [] | Some ss \<Rightarrow> ss)) (\<lambda>res.
       if res \<noteq> [] then vret (Some res)
       else if here d (job_NameRange j) then vret (Some [loc (nv_Uri d) (job_Range j)])
       else if here d (job_ExecutorRange j)
       then vbind (getExecutorRange d (job_Executor j)) (\<lambda>r. vret (Some [loc (nv_Uri d) r]))
       else vret (nonempty (searchForParamDefinition d (job_Parameters j))))"

definition searchForJobs :: "navigation \<Rightarrow> locations action" where
  "searchForJobs d = vbind (vfirst (\<lambda>(_, j). job_definition d j) (yd_Jobs (nv_Doc d))) (\<lambda>r. vret (found r))"

definition command_definition :: "navigation \<Rightarrow> command \<Rightarrow> locations option action" where
  "command_definition d c =
     vbind (getStepDefinition d (cmd_Steps c)) (\<lambda>res.
       if res \<noteq> [] then vret (Some res)
       else if here d (cmd_NameRange c) then vret (Some [loc (nv_Uri d) (cmd_Range c)])
       else vret (nonempty (searchForParamDefinition d (cmd_Parameters c))))"

definition searchForCommands :: "navigation \<Rightarrow> locations action" where
  "searchForCommands d =
     vbind (vfirst (\<lambda>(_, c). command_definition d c) (yd_Commands (nv_Doc d))) (\<lambda>r. vret (found r))"

subsection \<open>workflows.go, job\_groups.go\<close>

text \<open>An invocation whose name stands for nothing is passed over.\<close>

definition invocation_definition ::
    "navigation \<Rightarrow> job_invocation list \<Rightarrow> job_invocation \<Rightarrow> locations option action" where
  "invocation_definition d jobInvocations ji =
     (if here d (ji_JobNameRange ji)
      then vbind (getCommandOrJobLocation d (ji_JobName ji) False) (\<lambda>r.
             vret (case r of Inr ls \<Rightarrow> Some ls | Inl _ \<Rightarrow> None))
      else let res = searchForJobInvocationFromRequires d (ji_Requires ji) jobInvocations
           in if res \<noteq> [] then vret (Some res)
              else vbind (searchForParamValueDefinition d (ji_JobName ji) (ji_Parameters ji)) (\<lambda>ls.
                     vret (nonempty ls)))"

definition searchForWorkflows :: "navigation \<Rightarrow> locations action" where
  "searchForWorkflows d =
     vbind (vfirst (\<lambda>(_, w). vfirst (invocation_definition d (wfl_JobInvocations w)) (wfl_JobInvocations w))
              (yd_Workflows (nv_Doc d))) (\<lambda>r. vret (found r))"

definition searchForJobGroups :: "navigation \<Rightarrow> locations action" where
  "searchForJobGroups d =
     vbind (vfirst (\<lambda>(_, g). vfirst (invocation_definition d (jg_JobInvocations g)) (jg_JobInvocations g))
              (yd_JobGroups (nv_Doc d))) (\<lambda>r. vret (found r))"

subsection \<open>definition.go\<close>

text \<open>
  The search over a document; \<open>inOrb\<close> is the search over the document of a local orb. The last orb
  around the position counts.
\<close>

definition getOrbDefinition :: "(yaml_document \<Rightarrow> locations action) \<Rightarrow> navigation \<Rightarrow> locations action" where
  "getOrbDefinition inOrb d =
     (let doc = nv_Doc d;
          orb = fold (\<lambda>(_, o') orb. if here d (orb_NameRange o') \<or> here d (orb_Range o') then o' else orb)
                  (yd_Orbs doc) zero_orb
      in vbind (GetOrbInfoFromName (nv_Env d) doc (orb_Name orb)) (\<lambda>(orbInfo, err).
           if ou_IsLocal (orb_Url orb)
           then vbind (vlift orbInfo) (\<lambda>info. inOrb (FromOrbParsedAttributesToYamlDocument doc (oi_Attributes info)))
           else vret (if err \<noteq> None then []
                      else case orbInfo of
                             None \<Rightarrow> []
                           | Some info \<Rightarrow> [loc (nv_NewURI d (ri_FilePath (oi_RemoteInfo info))) zero_range])))"

definition definition_with :: "(yaml_document \<Rightarrow> locations action) \<Rightarrow> navigation \<Rightarrow> locations action" where
  "definition_with inOrb d =
     (let doc = nv_Doc d in
      vbind (searchParamDefinition d) (\<lambda>paramDefinition.
        if paramDefinition \<noteq> [] then vret paramDefinition
        else if searchAliasDefinition d \<noteq> [] then vret (searchAliasDefinition d)
        else if here d (yd_JobGroupsRange doc) then searchForJobGroups d
        else if here d (yd_WorkflowRange doc) then searchForWorkflows d
        else if here d (yd_JobsRange doc) then searchForJobs d
        else if here d (yd_CommandsRange doc) then searchForCommands d
        else if here d (yd_OrbsRange doc) then getOrbDefinition inOrb d
        else if here d (yd_PipelineParametersRange doc)
        then vret (searchForParamDefinition d (yd_PipelineParameters doc))
        else if here d (yd_ExecutorsRange doc) then vret (getExecutorDefinition d)
        else vret []))"

text \<open>
  The document of a local orb has no orbs itself, so that the search never goes deeper than one orb:
  the second level is given one that is not reached.
\<close>

fun definition_depth :: "nat \<Rightarrow> navigation \<Rightarrow> locations action" where
  "definition_depth 0 d = vpanic"
| "definition_depth (Suc k) d = definition_with (\<lambda>doc. definition_depth k (d\<lparr>nv_Doc := doc\<rparr>)) d"

definition Definition :: "navigation \<Rightarrow> locations action" where
  "Definition d = definition_depth 2 d"

end
