(* ===== verification/FindRefs.thy ===== *)
theory FindRefs
  imports GotoDef
begin

text \<open>
  Finding the references: \<open>pkg/services/references.go\<close>, and \<open>GetReferencesOfParamInRange\<close> of
  \<open>pkg/utils/parameters.go\<close>, whose expression contains a name of the document and is compiled by the
  service \<open>sv_FindAll\<close>. An error value is \<open>Inl ()\<close>.
\<close>

record step_range_and_name =
  sr_Range :: range
  sr_Name :: string

subsection \<open>The steps of a document\<close>

definition getStepsOfCommandOrJob :: "step list \<Rightarrow> step_range_and_name list" where
  "getStepsOfCommandOrJob steps =
     concat (map (\<lambda>st. case st of NamedStep name ps pr r \<Rightarrow> [\<lparr>sr_Range = r, sr_Name = name\<rparr>] | _ \<Rightarrow> []) steps)"

definition getStepsOfWorkflows :: "yaml_document \<Rightarrow> step_range_and_name list" where
  "getStepsOfWorkflows doc =
     concat (map (\<lambda>(_, w). map (\<lambda>ji. \<lparr>sr_Range = ji_JobNameRange ji, sr_Name = ji_JobName ji\<rparr>)
                             (wfl_JobInvocations w)) (yd_Workflows doc))"

definition getStepsOfJobs :: "yaml_document \<Rightarrow> step_range_and_name list" where
  "getStepsOfJobs doc =
     concat (map (\<lambda>(_, j). getStepsOfCommandOrJob (case job_Steps j of None \<Rightarrow> [] | Some ss \<Rightarrow> ss)) (yd_Jobs doc))"

definition getStepsOfCommands :: "yaml_document \<Rightarrow> step_range_and_name list" where
  "getStepsOfCommands doc = concat (map (\<lambda>(_, c). getStepsOfCommandOrJob (cmd_Steps c)) (yd_Commands doc))"

subsection \<open>What the position is on\<close>

definition searchInOrbs :: "navigation \<Rightarrow> string" where
  "searchInOrbs d =
     (case find (\<lambda>(_, o'). here d (orb_NameRange o')) (yd_Orbs (nv_Doc d)) of
        Some (_, o') \<Rightarrow> orb_Name o' | None \<Rightarrow> [])"

definition searchInWorkflows :: "navigation \<Rightarrow> string" where
  "searchInWorkflows d =
     (case find (\<lambda>ji. here d (ji_JobNameRange ji) \<and>
                      DoesCommandOrJobOrExecutorExist (nv_Doc d) (ji_JobName ji) False)
             (concat (map (wfl_JobInvocations \<circ> snd) (yd_Workflows (nv_Doc d)))) of
        Some ji \<Rightarrow> ji_JobName ji | None \<Rightarrow> [])"

definition searchInJobs :: "navigation \<Rightarrow> string" where
  "searchInJobs d =
     (case find (\<lambda>(_, j). here d (job_NameRange j) \<or> here d (job_ParametersRange j)) (yd_Jobs (nv_Doc d)) of
        Some (_, j) \<Rightarrow> job_Name j | None \<Rightarrow> [])"

definition searchInCommands :: "navigation \<Rightarrow> string" where
  "searchInCommands d =
     (case find (\<lambda>(_, c). here d (cmd_NameRange c) \<or> here d (cmd_ParametersRange c)) (yd_Commands (nv_Doc d)) of
        Some (_, c) \<Rightarrow> cmd_Name c | None \<Rightarrow> [])"

definition getReferenceFromSteps ::
    "navigation \<Rightarrow> step_range_and_name list \<Rightarrow> string \<Rightarrow> bool \<Rightarrow> locations" where
  "getReferenceFromSteps d foundSteps nameOfStep isOrb =
     map (\<lambda>st. loc (nv_Uri d) (sr_Range st))
       (filter (\<lambda>st. sr_Name st = nameOfStep \<or> isOrb \<and> has_prefix (nameOfStep @ ''/'') (sr_Name st)) foundSteps)"

definition getExecutorReferences :: "navigation \<Rightarrow> locations \<times> string" where
  "getExecutorReferences d =
     (let executor = GetExecutorDefinedAtPosition (nv_Doc d) (nv_Position d);
          executorName = executor_GetName executor
      in if here d (executor_GetParametersRange executor) then ([], executorName)
         else (map (\<lambda>(_, j). loc (nv_Uri d) (job_ExecutorRange j))
                 (filter (\<lambda>(_, j). job_Executor j = executorName) (yd_Jobs (nv_Doc d))), executorName))"

subsection \<open>The references of a parameter\<close>

text \<open>The outer \<open>None\<close> is the panic of the slice whose end lies before its start.\<close>

definition GetReferencesOfParamInRange ::
    "schema_services \<Rightarrow> string \<Rightarrow> string \<Rightarrow> range \<Rightarrow> (unit + (nat \<times> nat) list) option" where
  "GetReferencesOfParamInRange sv content paramName rng =
     (let startIndex = PosToIndex (Start rng) content;
          endIndex = PosToIndex (End rng) content;
          pattern = ''<<'' @ [CHR 0x5C] @ ''s*(parameters|pipeline.parameters).'' @ paramName @ [CHR 0x5C] @ ''s*>>''
      in case sv_FindAll sv pattern [] of
           None \<Rightarrow> Some (Inl ())
         | Some _ \<Rightarrow>
             if endIndex < startIndex then None
             else map_option (\<lambda>allRef. Inr (map (\<lambda>(a, b). (a + startIndex, b + startIndex)) allRef))
                    (sv_FindAll sv pattern (drop startIndex (take endIndex content))))"

definition match_location :: "navigation \<Rightarrow> string \<Rightarrow> nat \<times> nat \<Rightarrow> location option" where
  "match_location d content m =
     (case (IndexToPos (int (fst m)) content, IndexToPos (int (snd m)) content) of
        (Some p, Some q) \<Rightarrow> Some (loc (nv_Uri d) (mk_range p q))
      | _ \<Rightarrow> None)"

definition getReferencesOfParamInRange ::
    "navigation \<Rightarrow> string \<Rightarrow> range \<Rightarrow> (unit + locations) option" where
  "getReferencesOfParamInRange d paramName rng =
     (let content = yd_Content (nv_Doc d) in
      case GetReferencesOfParamInRange (nv_Services d) content paramName rng of
        None \<Rightarrow> None
      | Some (Inl e) \<Rightarrow> Some (Inl e)
      | Some (Inr refs) \<Rightarrow> map_option Inr (those (map (match_location d content) refs)))"

text \<open>
  The parameters and the extent of the entity of a name around the position: an executor counts
  before a job, a job before a command.
\<close>

definition params_of_entity :: "navigation \<Rightarrow> string \<Rightarrow> params \<times> range" where
  "params_of_entity d cmdName =
     (let doc = nv_Doc d;
          ofCommand = (case gm_get (yd_Commands doc) cmdName of
            Some c \<Rightarrow> if here d (cmd_ParametersRange c) then (cmd_Parameters c, cmd_Range c) else ([], zero_range)
          | None \<Rightarrow> ([], zero_range));
          ofJob = (case gm_get (yd_Jobs doc) cmdName of
            Some j \<Rightarrow> if here d (job_ParametersRange j) then (job_Parameters j, job_Range j) else ofCommand
          | None \<Rightarrow> ofCommand)
      in case gm_get (yd_Executors doc) cmdName of
           Some e \<Rightarrow> if here d (executor_GetParametersRange e)
                     then (executor_GetParameters e, executor_GetRange e) else ofJob
         | None \<Rightarrow> ofJob)"

definition getParamReferences :: "navigation \<Rightarrow> string \<Rightarrow> (unit + locations) option" where
  "getParamReferences d cmdName =
     (let (ps, rng) = params_of_entity d cmdName;
          paramName = GetParamNameDefinedAtPos ps (nv_Position d)
      in if paramName \<noteq> [] then getReferencesOfParamInRange d paramName rng else Some (Inl ()))"

subsection \<open>The handler\<close>

text \<open>The references from the name the position is on; an error about parameters is dropped.\<close>

definition references_of :: "navigation \<Rightarrow> string \<Rightarrow> bool \<Rightarrow> (unit + locations) action" where
  "references_of d cmdName isOrb =
     vbind (vlift (getParamReferences d cmdName)) (\<lambda>r.
       vret (case r of
               Inr paramRefs \<Rightarrow> Inr paramRefs
             | Inl _ \<Rightarrow>
                 Inr (getReferenceFromSteps d
                        (getStepsOfWorkflows (nv_Doc d) @ getStepsOfJobs (nv_Doc d) @ getStepsOfCommands (nv_Doc d))
                        cmdName isOrb)))"

definition references_in :: "navigation \<Rightarrow> (unit + locations) action" where
  "references_in d =
     (let doc = nv_Doc d in
      case GetYamlAnchorAtPosition doc (nv_Position d) of
        Some anchor \<Rightarrow> vret (Inr (map (loc (nv_Uri d)) (an_References anchor)))
      | None \<Rightarrow>
          if here d (yd_WorkflowRange doc) then references_of d (searchInWorkflows d) False
          else if here d (yd_JobsRange doc) then references_of d (searchInJobs d) False
          else if here d (yd_CommandsRange doc) then references_of d (searchInCommands d) False
          else if here d (yd_OrbsRange doc) then references_of d (searchInOrbs d) True
          else if here d (yd_ExecutorsRange doc)
          then (if fst (getExecutorReferences d) \<noteq> [] then vret (Inr (fst (getExecutorReferences d)))
                else references_of d (snd (getExecutorReferences d)) False)
          else if here d (yd_PipelineParametersRange doc)
          then vlift (getReferencesOfParamInRange d
                 (GetParamNameDefinedAtPos (yd_PipelineParameters doc) (nv_Position d))
                 (NodeToRange doc (Some (yd_RootNode doc))))
          else references_of d [] False)"

text \<open>The last orb around the position counts; \<open>inOrb\<close> is the search in the document of a local orb.\<close>

definition references_with ::
    "(yaml_document \<Rightarrow> (unit + locations) action) \<Rightarrow> navigation \<Rightarrow> (unit + locations) action" where
  "references_with inOrb d =
     (let doc = nv_Doc d;
          orb = fold (\<lambda>(_, o') orb. if here d (orb_NameRange o') \<or> here d (orb_Range o') then o' else orb)
                  (yd_Orbs doc) zero_orb
      in if \<not> here d (yd_OrbsRange doc) then references_in d
         else vbind (GetOrbInfoFromName (nv_Env d) doc (orb_Name orb)) (\<lambda>(orbInfo, err).
           if err = None \<and> ou_IsLocal (orb_Url orb)
           then vbind (vlift orbInfo) (\<lambda>info. inOrb (FromOrbParsedAttributesToYamlDocument doc (oi_Attributes info)))
           else references_in d))"

fun references_depth :: "nat \<Rightarrow> navigation \<Rightarrow> (unit + locations) action" where
  "references_depth 0 d = vpanic"
| "references_depth (Suc k) d = references_with (\<lambda>doc. references_depth k (d\<lparr>nv_Doc := doc\<rparr>)) d"

text \<open>As for a definition, the document of a local orb has no orbs of its own.\<close>

definition GetReferences :: "navigation \<Rightarrow> (unit + locations) action" where
  "GetReferences d = references_depth 2 d"

end
