(* ===== verification/NavProps.thy ===== *)
theory NavProps
  imports FindRefs ValOrb
begin

text \<open>
  Properties of going to a definition and of finding references: the depth of the local orbs, the
  two as inverses on jobs, and what an executor's references are.
\<close>

subsection \<open>One orb deep\<close>

lemma local_orb_has_no_orbs [simp]:
  "yd_Orbs (FromOrbParsedAttributesToYamlDocument doc attributes) = []"
  by (simp add: FromOrbParsedAttributesToYamlDocument_def)

lemma zero_orb_is_remote [simp]: "ou_IsLocal (orb_Url zero_orb) = False"
  by (simp add: zero_orb_def)

lemma getOrbDefinition_flat: "yd_Orbs (nv_Doc d) = [] \<Longrightarrow> getOrbDefinition f d = getOrbDefinition g d"
  by (simp add: getOrbDefinition_def Let_def cong: if_cong)

lemma definition_with_flat: "yd_Orbs (nv_Doc d) = [] \<Longrightarrow> definition_with f d = definition_with g d"
  by (simp add: definition_with_def Let_def getOrbDefinition_flat [of d f g] cong: if_cong)

lemma getOrbDefinition_cong:
  "(\<And>a. f (FromOrbParsedAttributesToYamlDocument (nv_Doc d) a) =
         g (FromOrbParsedAttributesToYamlDocument (nv_Doc d) a)) \<Longrightarrow>
   getOrbDefinition f d = getOrbDefinition g d"
  by (simp add: getOrbDefinition_def Let_def cong: if_cong)

lemma definition_with_cong:
  "(\<And>a. f (FromOrbParsedAttributesToYamlDocument (nv_Doc d) a) =
         g (FromOrbParsedAttributesToYamlDocument (nv_Doc d) a)) \<Longrightarrow>
   definition_with f d = definition_with g d"
  by (simp add: definition_with_def Let_def getOrbDefinition_cong [of f d g] cong: if_cong)

lemma references_with_flat: "yd_Orbs (nv_Doc d) = [] \<Longrightarrow> references_with f d = references_with g d"
  by (simp add: references_with_def Let_def)

lemma references_with_cong:
  "(\<And>a. f (FromOrbParsedAttributesToYamlDocument (nv_Doc d) a) =
         g (FromOrbParsedAttributesToYamlDocument (nv_Doc d) a)) \<Longrightarrow>
   references_with f d = references_with g d"
  by (simp add: references_with_def Let_def cong: if_cong)

text \<open>
  C22: Going to a definition and finding references end after at most one local orb: a search that may
  go any number of orbs deeper has the same result, because a local orb's document has no orbs.
\<close>

theorem navigation_depth:
  "definition_depth (Suc (Suc k)) d = Definition d \<and> references_depth (Suc (Suc k)) d = GetReferences d"
proof
  show "definition_depth (Suc (Suc k)) d = Definition d"
    unfolding Definition_def numeral_2_eq_2 definition_depth.simps
    by (intro definition_with_cong definition_with_flat) simp
next
  show "references_depth (Suc (Suc k)) d = GetReferences d"
    unfolding GetReferences_def numeral_2_eq_2 references_depth.simps
    by (intro references_with_cong references_with_flat) simp
qed

subsection \<open>The first result of a search\<close>

lemma vbind_vret [simp]: "vbind (vret x) f = f x"
  by (simp add: vbind_def vret_def)

lemma vfirst_all_none: "(\<And>x. x \<in> set xs \<Longrightarrow> f x = vret None) \<Longrightarrow> vfirst f xs = vret None"
  by (induction xs) simp_all

lemma vfirst_find:
  assumes "find P xs = Some x" and "\<And>y. y \<in> set xs \<Longrightarrow> \<not> P y \<Longrightarrow> f y = vret None" and "f x = vret (Some r)"
  shows "vfirst f xs = vret (Some r)"
  using assms by (induction xs) (auto split: if_splits)

lemma pick_none: "(\<And>x. x \<in> set xs \<Longrightarrow> f x = None) \<Longrightarrow> pick f xs = None"
  by (induction xs) simp_all

lemma found_simps [simp]: "found None = []" "found (Some ls) = ls"
  by (simp_all add: found_def)

lemma nonempty_simps [simp]: "nonempty [] = None" "ls \<noteq> [] \<Longrightarrow> nonempty ls = Some ls"
  by (simp_all add: nonempty_def)

subsection \<open>A position inside one invocation\<close>

text \<open>What of an invocation the search looks at.\<close>

definition covers :: "navigation \<Rightarrow> job_invocation \<Rightarrow> bool" where
  "covers d ji =
     (here d (ji_JobNameRange ji) \<or> list_ex (\<lambda>r. here d (rq_Range r)) (ji_Requires ji) \<or>
      list_ex (\<lambda>(_, p). here d (pv_Range p)) (ji_Parameters ji))"

lemma invocation_definition_none: "\<not> covers d ji \<Longrightarrow> invocation_definition d jis ji = vret None"
  by (auto simp: covers_def invocation_definition_def searchForJobInvocationFromRequires_def
      searchForParamValueDefinition_def pick_none Let_def list_ex_iff find_Some_iff
      split: option.splits dest!: nth_mem)

text \<open>The position is on the name of an invocation of a workflow, and on no other invocation before it.\<close>

definition at_invocation :: "navigation \<Rightarrow> job_invocation \<Rightarrow> bool" where
  "at_invocation d ji =
     (case find (\<lambda>(_, w). list_ex (covers d) (wfl_JobInvocations w)) (yd_Workflows (nv_Doc d)) of
        None \<Rightarrow> False
      | Some (_, w) \<Rightarrow> find (covers d) (wfl_JobInvocations w) = Some ji \<and> here d (ji_JobNameRange ji))"

lemma find_in_set: "find P xs = Some x \<Longrightarrow> x \<in> set xs"
  by (auto simp: find_Some_iff)

lemma at_invocation_used:
  "at_invocation d ji \<Longrightarrow>
   \<lparr>sr_Range = ji_JobNameRange ji, sr_Name = ji_JobName ji\<rparr> \<in> set (getStepsOfWorkflows (nv_Doc d))"
  by (auto simp: at_invocation_def getStepsOfWorkflows_def split: option.splits
      intro!: bexI [OF _ find_in_set] imageI dest: find_in_set)

lemma searchForWorkflows_at:
  assumes at: "at_invocation d ji" and job: "gm_get (yd_Jobs (nv_Doc d)) (ji_JobName ji) = Some j"
  shows "searchForWorkflows d = vret [loc (yd_URI (nv_Doc d)) (job_Range j)]"
proof -
  from at obtain k w where w: "find (\<lambda>(_, w). list_ex (covers d) (wfl_JobInvocations w)) (yd_Workflows (nv_Doc d)) = Some (k, w)"
    and ji: "find (covers d) (wfl_JobInvocations w) = Some ji" "here d (ji_JobNameRange ji)"
    by (auto simp: at_invocation_def split: option.splits)
  have result: "invocation_definition d jis ji = vret (Some [loc (yd_URI (nv_Doc d)) (job_Range j)])" for jis
    using ji(2) job by (simp add: invocation_definition_def getCommandOrJobLocation_def Let_def)
  have "vfirst (invocation_definition d (wfl_JobInvocations w)) (wfl_JobInvocations w) =
      vret (Some [loc (yd_URI (nv_Doc d)) (job_Range j)])"
    by (rule vfirst_find [OF ji(1)]) (simp_all add: invocation_definition_none result)
  then have "vfirst (\<lambda>(_, w). vfirst (invocation_definition d (wfl_JobInvocations w)) (wfl_JobInvocations w))
      (yd_Workflows (nv_Doc d)) = vret (Some [loc (yd_URI (nv_Doc d)) (job_Range j)])"
    by (intro vfirst_find [OF w]) (auto simp: list_ex_iff intro!: vfirst_all_none invocation_definition_none)
  then show ?thesis
    by (simp add: searchForWorkflows_def)
qed

subsection \<open>The name of a job\<close>

text \<open>Neither a parameter reference nor an anchor nor an alias.\<close>

definition plain_position :: "navigation \<Rightarrow> bool" where
  "plain_position d =
     (fst (GetParamNameUsedAtPos (yd_Content (nv_Doc d)) (nv_Position d)) = [] \<and> searchAliasDefinition d = [])"

lemma searchParamDefinition_plain:
  "fst (GetParamNameUsedAtPos (yd_Content (nv_Doc d)) (nv_Position d)) = [] \<Longrightarrow> searchParamDefinition d = vret []"
  by (auto simp: searchParamDefinition_def Let_def split: prod.splits)

lemma no_anchor_here: "searchAliasDefinition d = [] \<Longrightarrow> GetYamlAnchorAtPosition (nv_Doc d) (nv_Position d) = None"
  by (simp add: searchAliasDefinition_def Let_def split: option.splits)

text \<open>The position is on the declared parameters of something of that name.\<close>

definition in_parameters :: "navigation \<Rightarrow> string \<Rightarrow> bool" where
  "in_parameters d n =
     ((case gm_get (yd_Commands (nv_Doc d)) n of None \<Rightarrow> False | Some c \<Rightarrow> here d (cmd_ParametersRange c)) \<or>
      (case gm_get (yd_Jobs (nv_Doc d)) n of None \<Rightarrow> False | Some j \<Rightarrow> here d (job_ParametersRange j)) \<or>
      (case gm_get (yd_Executors (nv_Doc d)) n of None \<Rightarrow> False | Some e \<Rightarrow> here d (executor_GetParametersRange e)))"

lemma getParamReferences_outside: "\<not> in_parameters d n \<Longrightarrow> getParamReferences d n = Some (Inl ())"
  by (auto simp: in_parameters_def getParamReferences_def params_of_entity_def Let_def split: option.splits)

definition on_job_name :: "navigation \<Rightarrow> string \<Rightarrow> bool" where
  "on_job_name d n =
     (\<not> here d (yd_OrbsRange (nv_Doc d)) \<and> \<not> here d (yd_WorkflowRange (nv_Doc d)) \<and>
      here d (yd_JobsRange (nv_Doc d)) \<and> plain_position d \<and> searchInJobs d = n \<and> \<not> in_parameters d n)"

text \<open>Where a document uses a name: the invocations of the workflows and the steps of jobs and commands.\<close>

definition uses :: "yaml_document \<Rightarrow> string \<Rightarrow> range set" where
  "uses doc n =
     {r. \<exists>k w ji. (k, w) \<in> set (yd_Workflows doc) \<and> ji \<in> set (wfl_JobInvocations w) \<and> ji_JobName ji = n \<and> ji_JobNameRange ji = r} \<union>
     {r. \<exists>k j ss ps pr. (k, j) \<in> set (yd_Jobs doc) \<and> job_Steps j = Some ss \<and> NamedStep n ps pr r \<in> set ss} \<union>
     {r. \<exists>k c ps pr. (k, c) \<in> set (yd_Commands doc) \<and> NamedStep n ps pr r \<in> set (cmd_Steps c)}"

lemma steps_named:
  "\<lparr>sr_Range = r, sr_Name = n\<rparr> \<in> set (getStepsOfCommandOrJob ss) \<longleftrightarrow> (\<exists>ps pr. NamedStep n ps pr r \<in> set ss)"
  by (force simp: getStepsOfCommandOrJob_def split: step.splits)

lemma no_steps: "getStepsOfCommandOrJob [] = []"
  by (simp add: getStepsOfCommandOrJob_def)

lemma job_steps_named:
  "\<lparr>sr_Range = r, sr_Name = n\<rparr> \<in> set (getStepsOfCommandOrJob (case ss of None \<Rightarrow> [] | Some ss \<Rightarrow> ss)) \<longleftrightarrow>
   (\<exists>ss' ps pr. ss = Some ss' \<and> NamedStep n ps pr r \<in> set ss')"
  by (cases ss) (simp_all add: steps_named no_steps)

lemma document_steps_named:
  "\<lparr>sr_Range = r, sr_Name = n\<rparr> \<in> set (getStepsOfWorkflows doc @ getStepsOfJobs doc @ getStepsOfCommands doc) \<longleftrightarrow>
   r \<in> uses doc n"
proof -
  have "\<lparr>sr_Range = r, sr_Name = n\<rparr> \<in> set (getStepsOfWorkflows doc) \<longleftrightarrow>
      (\<exists>k w ji. (k, w) \<in> set (yd_Workflows doc) \<and> ji \<in> set (wfl_JobInvocations w) \<and>
        ji_JobName ji = n \<and> ji_JobNameRange ji = r)"
    by (force simp: getStepsOfWorkflows_def)
  moreover have "\<lparr>sr_Range = r, sr_Name = n\<rparr> \<in> set (getStepsOfJobs doc) \<longleftrightarrow>
      (\<exists>k j ss ps pr. (k, j) \<in> set (yd_Jobs doc) \<and> job_Steps j = Some ss \<and> NamedStep n ps pr r \<in> set ss)"
    unfolding getStepsOfJobs_def by (simp add: job_steps_named Bex_def)
  moreover have "\<lparr>sr_Range = r, sr_Name = n\<rparr> \<in> set (getStepsOfCommands doc) \<longleftrightarrow>
      (\<exists>k c ps pr. (k, c) \<in> set (yd_Commands doc) \<and> NamedStep n ps pr r \<in> set (cmd_Steps c))"
    by (fastforce simp: getStepsOfCommands_def steps_named)
  ultimately show ?thesis
    by (simp only: uses_def set_append Un_iff mem_Collect_eq disj_assoc)
qed

lemma getReferenceFromSteps_named:
  "set (getReferenceFromSteps d (getStepsOfWorkflows doc @ getStepsOfJobs doc @ getStepsOfCommands doc) n False) =
   loc (nv_Uri d) ` uses doc n"
proof -
  let ?steps = "getStepsOfWorkflows doc @ getStepsOfJobs doc @ getStepsOfCommands doc"
  have "set (getReferenceFromSteps d ?steps n False) =
      (\<lambda>st. loc (nv_Uri d) (sr_Range st)) ` {st \<in> set ?steps. sr_Name st = n}"
    by (auto simp: getReferenceFromSteps_def)
  also have "{st \<in> set ?steps. sr_Name st = n} = (\<lambda>r. \<lparr>sr_Range = r, sr_Name = n\<rparr>) ` uses doc n"
    by (rule set_eqI) (metis (mono_tags, lifting) document_steps_named image_iff mem_Collect_eq
        step_range_and_name.select_convs step_range_and_name.surjective unit.exhaust)
  finally show ?thesis
    by (simp add: image_image)
qed

lemma GetReferences_on_job_name:
  assumes "on_job_name d n"
  shows "GetReferences d s = Some (Inr (getReferenceFromSteps d
      (getStepsOfWorkflows (nv_Doc d) @ getStepsOfJobs (nv_Doc d) @ getStepsOfCommands (nv_Doc d)) n False), s)"
proof -
  have "references_in d s = references_of d n False s"
    using assms no_anchor_here [of d]
    by (auto simp: references_in_def on_job_name_def plain_position_def Let_def)
  also have "\<dots> = Some (Inr (getReferenceFromSteps d
      (getStepsOfWorkflows (nv_Doc d) @ getStepsOfJobs (nv_Doc d) @ getStepsOfCommands (nv_Doc d)) n False), s)"
    using assms by (simp add: references_of_def on_job_name_def getParamReferences_outside vlift_def vret_def vbind_def)
  finally show ?thesis
    using assms by (simp add: GetReferences_def numeral_2_eq_2 references_with_def on_job_name_def Let_def)
qed


lemma Definition_at_invocation:
  assumes "at_invocation d ji" and "plain_position d"
    and "\<not> here d (yd_JobGroupsRange (nv_Doc d))" and "here d (yd_WorkflowRange (nv_Doc d))"
    and "gm_get (yd_Jobs (nv_Doc d)) (ji_JobName ji) = Some j"
  shows "Definition d = vret [loc (yd_URI (nv_Doc d)) (job_Range j)]"
  using assms
  by (simp add: Definition_def numeral_2_eq_2 definition_with_def plain_position_def searchParamDefinition_plain
      searchForWorkflows_at Let_def)

text \<open>
  C19: Going to the definition and finding the references are inverse to each other on the jobs of a
  workflow: from an invocation one comes to its job, and from the name of the job the invocation is found.
\<close>

theorem definition_reference_roundtrip:
  assumes "at_invocation d ji" and "plain_position d"
    and "\<not> here d (yd_JobGroupsRange (nv_Doc d))" and "here d (yd_WorkflowRange (nv_Doc d))"
    and "gm_get (yd_Jobs (nv_Doc d)) (ji_JobName ji) = Some j"
    and "nv_Doc d' = nv_Doc d" and "on_job_name d' (ji_JobName ji)"
  shows "Definition d s = Some ([loc (yd_URI (nv_Doc d)) (job_Range j)], s) \<and>
    (\<exists>refs. GetReferences d' s' = Some (Inr refs, s') \<and> loc (nv_Uri d') (ji_JobNameRange ji) \<in> set refs)"
proof
  show "Definition d s = Some ([loc (yd_URI (nv_Doc d)) (job_Range j)], s)"
    using Definition_at_invocation [OF assms(1-5)] by (simp add: vret_def)
  have "ji_JobNameRange ji \<in> uses (nv_Doc d') (ji_JobName ji)"
    using at_invocation_used [OF assms(1)] assms(6)
    by (simp add: document_steps_named [symmetric])
  then show "\<exists>refs. GetReferences d' s' = Some (Inr refs, s') \<and> loc (nv_Uri d') (ji_JobNameRange ji) \<in> set refs"
    using GetReferences_on_job_name [OF assms(7)] getReferenceFromSteps_named [of d' "nv_Doc d'"] by blast
qed

subsection \<open>Outside of every executor\<close>

text \<open>
  Between two executors of their section the empty executor stands for the missing one: every job
  without an executor is one of its references.
\<close>

lemma references_between_executors:
  assumes "\<not> here d (yd_OrbsRange (nv_Doc d))" and "\<not> here d (yd_WorkflowRange (nv_Doc d))"
    and "\<not> here d (yd_JobsRange (nv_Doc d))" and "\<not> here d (yd_CommandsRange (nv_Doc d))"
    and "here d (yd_ExecutorsRange (nv_Doc d))" and "searchAliasDefinition d = []"
    and "GetExecutorDefinedAtPosition (nv_Doc d) (nv_Position d) = zero_executor"
    and "\<not> here d zero_range" and "(k, j) \<in> set (yd_Jobs (nv_Doc d))" and "job_Executor j = []"
  shows "\<exists>refs. GetReferences d s = Some (Inr refs, s) \<and> loc (nv_Uri d) (job_ExecutorRange j) \<in> set refs"
proof -
  have name: "executor_GetName zero_executor = []" "executor_GetParametersRange zero_executor = zero_range"
    by (simp_all add: zero_executor_def executor_GetName_def executor_GetParametersRange_def)
  have "loc (nv_Uri d) (job_ExecutorRange j) \<in> set (fst (getExecutorReferences d))"
    using assms(7-10) name by (force simp: getExecutorReferences_def Let_def)
  moreover have "references_in d = vret (Inr (fst (getExecutorReferences d)))"
    using calculation assms(1-6) no_anchor_here [of d] by (auto simp: references_in_def Let_def)
  ultimately show ?thesis
    using assms(1) by (simp add: GetReferences_def numeral_2_eq_2 references_with_def vret_def Let_def)
qed

subsection \<open>Sample inputs\<close>

definition nav_content :: string where
  "nav_content = join_with [CHR 0x0A]
     [''jobs:'', ''  lint:'', ''    docker: []'', ''workflows:'', ''  main:'', ''    jobs:'', ''      - lint'']"

definition nav_job :: job where
  "nav_job = sample_job\<lparr>job_NameRange := mk_range (mk_pos 1 2) (mk_pos 1 6),
     job_Range := mk_range (mk_pos 1 2) (mk_pos 2 14)\<rparr>"

definition nav_invocation :: job_invocation where
  "nav_invocation = sample_invocation
     \<lparr>ji_JobName := ''lint'', ji_StepName := ''lint'', ji_Parameters := [], ji_Requires := [],
      ji_JobNameRange := mk_range (mk_pos 6 8) (mk_pos 6 12)\<rparr>"

definition nav_doc :: yaml_document where
  "nav_doc = sample_doc
     \<lparr>yd_Content := nav_content, yd_URI := ''config.yml'',
      yd_JobsRange := mk_range (mk_pos 0 0) (mk_pos 2 14),
      yd_WorkflowRange := mk_range (mk_pos 3 0) (mk_pos 6 12),
      yd_Jobs := [(''lint'', nav_job)],
      yd_Workflows := [(''main'', sample_workflow\<lparr>wfl_JobInvocations := [nav_invocation]\<rparr>)]\<rparr>"

definition nav_services :: schema_services where
  "nav_services =
     \<lparr>sv_DFS = (\<lambda>_ n. [n]), sv_Load = (\<lambda>_. True), sv_Unmarshal = (\<lambda>_. None), sv_Validate = (\<lambda>_. Inr []),
      sv_FindAll = (\<lambda>_ _. Some [])\<rparr>"

definition nav_at :: "u32 \<Rightarrow> u32 \<Rightarrow> navigation" where
  "nav_at l c = \<lparr>nv_Doc = nav_doc, nv_Uri = ''config.yml'', nv_Position = mk_pos l c, nv_Env = sample_env,
     nv_Services = nav_services, nv_NewURI = (\<lambda>p. p)\<rparr>"

lemma nav_on_invocation: "at_invocation (nav_at 6 9) nav_invocation"
  by (simp add: at_invocation_def nav_at_def nav_doc_def covers_def here_def nav_invocation_def sample_doc_def
      sample_workflow_def PosInRange_def)

lemmas nav_defs = nav_at_def nav_doc_def nav_job_def nav_invocation_def sample_doc_def sample_job_def here_def
  PosInRange_def zero_range_def zero_pos_def

lemma nav_no_param:
  "fst (GetParamNameUsedAtPos nav_content (mk_pos 6 9)) = []"
  "fst (GetParamNameUsedAtPos nav_content (mk_pos 1 3)) = []"
  by code_simp+

lemma nav_plain: "plain_position (nav_at 6 9)" "plain_position (nav_at 1 3)"
  by (simp_all add: plain_position_def nav_at_def nav_doc_def sample_doc_def nav_no_param
      searchAliasDefinition_def GetYamlAnchorAtPosition_def)

lemma nav_on_job: "on_job_name (nav_at 1 3) ''lint''"
  unfolding on_job_name_def
  by (intro conjI nav_plain) (simp_all add: in_parameters_def searchInJobs_def nav_defs word_le_nat_alt)


theorem definition_reference_roundtrip_witness:
  "Definition (nav_at 6 9) sample_state =
     Some ([loc ''config.yml'' (mk_range (mk_pos 1 2) (mk_pos 2 14))], sample_state) \<and>
   (\<exists>refs. GetReferences (nav_at 1 3) sample_state = Some (Inr refs, sample_state) \<and>
     loc ''config.yml'' (mk_range (mk_pos 6 8) (mk_pos 6 12)) \<in> set refs)"
proof -
  have "\<not> here (nav_at 6 9) (yd_JobGroupsRange (nv_Doc (nav_at 6 9)))"
    "here (nav_at 6 9) (yd_WorkflowRange (nv_Doc (nav_at 6 9)))"
    "gm_get (yd_Jobs (nv_Doc (nav_at 6 9))) (ji_JobName nav_invocation) = Some nav_job"
    "nv_Doc (nav_at 1 3) = nv_Doc (nav_at 6 9)"
    "on_job_name (nav_at 1 3) (ji_JobName nav_invocation)"
    using nav_on_job by (simp_all add: nav_at_def nav_doc_def sample_doc_def here_def PosInRange_def
        zero_range_def zero_pos_def nav_invocation_def)
  from definition_reference_roundtrip [OF nav_on_invocation nav_plain(1) this, of sample_state sample_state]
  show ?thesis
    by (simp add: nav_at_def nav_doc_def nav_job_def nav_invocation_def)
qed

end
