(* ===== verification/RemoteOrbs.thy ===== *)
theory RemoteOrbs
  imports Session
begin

text \<open>
  Loading the remote orbs of a document: \<open>ParseRemoteOrbs\<close> of \<open>pkg/parser/remoteOrb.go\<close>. The file
  system and the query for the versions of an orb are the functions of \<open>orb_files\<close>: the path of an
  orb's source, whether it exists, its content (perhaps with an error), the URI of a path and the path
  of a URI, and the decoded response of the query, of which the code reads the id and the versions.
\<close>

record orb_files =
  ob_Path :: "string \<Rightarrow> string"
  ob_Exists :: "string \<Rightarrow> bool"
  ob_Read :: "string \<Rightarrow> string \<times> string option"
  ob_File :: "string \<Rightarrow> string"
  ob_Filename :: "string \<Rightarrow> string"
  ob_GqlVersions :: "ls_context \<Rightarrow> string \<Rightarrow> orb_query \<times> string option"

definition GetOrbVersions :: "orb_files \<Rightarrow> ls_context \<Rightarrow> string \<Rightarrow> string list \<times> string option" where
  "GetOrbVersions fs ctx orbId =
     (if api_HostUrl (ls_Api ctx) = [] then ([], Some ''host URL not defined'')
      else
        let (q, err) = ob_GqlVersions fs ctx orbId
        in if oq_Id q = [] then ([], Some (''could not find orb '' @ orbId)) else (oq_Versions q, err))"

definition stored_orb ::
    "env \<Rightarrow> orb_files \<Rightarrow> orb \<Rightarrow> string \<Rightarrow> string \<Rightarrow> ls_context \<Rightarrow> string list \<Rightarrow> orb_info" where
  "stored_orb env fs orb uri content ctx versions =
     (let parsed = en_ParseFromContent env content ctx uri;
          (latest, latestMinor, latestPatch) = GetVersionInfo env versions (''v'' @ ou_Version (orb_Url orb))
      in \<lparr>oi_Attributes = ToOrbParsedAttributes parsed, oi_IsLocal = False, oi_CreatedAt = [],
          oi_Description = yd_Description parsed, oi_Source = content,
          oi_RemoteInfo = \<lparr>ri_ID = GetOrbID (orb_Url orb), ri_FilePath = ob_Filename fs uri,
            ri_Version = ou_Version (orb_Url orb), ri_LatestVersion = drop 1 latest,
            ri_LatestMinorVersion = drop 1 latestMinor, ri_LatestPatchVersion = drop 1 latestPatch\<rparr>\<rparr>)"

text \<open>An error of the versions is dropped.\<close>

definition AddOrbToCacheWithContent ::
    "env \<Rightarrow> orb_files \<Rightarrow> orb \<Rightarrow> string \<Rightarrow> string \<Rightarrow> ls_context \<Rightarrow> cache \<Rightarrow> cache" where
  "AddOrbToCacheWithContent env fs orb uri content ctx c =
     (let id = GetOrbID (orb_Url orb); (versions, err) = GetOrbVersions fs ctx id in
      if err \<noteq> None then c
      else c\<lparr>ca_OrbCache := OrbCache_SetOrb id (stored_orb env fs orb uri content ctx versions) (ca_OrbCache c)\<rparr>)"

definition addAlreadyExistingRemoteOrbsToFSCache ::
    "env \<Rightarrow> orb_files \<Rightarrow> orb \<Rightarrow> ls_context \<Rightarrow> cache \<Rightarrow> string option \<times> cache" where
  "addAlreadyExistingRemoteOrbsToFSCache env fs orb ctx c =
     (let filePath = ob_Path fs (GetOrbID (orb_Url orb));
          (content, err) = ob_Read fs filePath
      in (err, AddOrbToCacheWithContent env fs orb (ob_File fs filePath) content ctx c))"

definition parse_remote_orb :: "env \<Rightarrow> orb_files \<Rightarrow> ls_context \<Rightarrow> orb \<Rightarrow> cache \<Rightarrow> cache" where
  "parse_remote_orb env fs ctx orb c =
     (let id = GetOrbID (orb_Url orb) in
      if ou_IsLocal (orb_Url orb) then c
      else if ou_Version (orb_Url orb) \<noteq> ''volatile'' \<and> ob_Exists fs (ob_Path fs id)
      then (let (err, c) = addAlreadyExistingRemoteOrbsToFSCache env fs orb ctx c
            in if err = None then c else snd (fetchOrbInfo env ctx id c))
      else snd (fetchOrbInfo env ctx id c))"

definition ParseRemoteOrbs :: "env \<Rightarrow> orb_files \<Rightarrow> (string, orb) gomap \<Rightarrow> ls_context \<Rightarrow> cache \<Rightarrow> cache" where
  "ParseRemoteOrbs env fs orbs ctx c = fold (\<lambda>(_, orb). parse_remote_orb env fs ctx orb) orbs c"

subsection \<open>Only the orb cache changes\<close>

definition same_but_orbs :: "cache \<Rightarrow> cache \<Rightarrow> bool" where
  "same_but_orbs c c' \<longleftrightarrow> c' = c\<lparr>ca_OrbCache := ca_OrbCache c'\<rparr>"

lemma same_but_orbs_intros [intro]:
  "same_but_orbs c c" "same_but_orbs c (c\<lparr>ca_OrbCache := x\<rparr>)"
  "same_but_orbs a b \<Longrightarrow> same_but_orbs b c \<Longrightarrow> same_but_orbs a c"
  by (simp_all add: same_but_orbs_def) (metis cache.surjective cache.update_convs(2))

lemma fetchOrbInfo_orbs: "same_but_orbs c (snd (fetchOrbInfo env ctx oid c))"
  by (auto simp: fetchOrbInfo_def Let_def split: prod.split option.split)

lemma parse_remote_orb_orbs: "same_but_orbs c (parse_remote_orb env fs ctx orb c)"
proof -
  have "same_but_orbs c (AddOrbToCacheWithContent env fs orb uri content ctx c)" for uri content
    by (auto simp: AddOrbToCacheWithContent_def Let_def split: prod.split)
  then show ?thesis
    by (auto simp: parse_remote_orb_def addAlreadyExistingRemoteOrbsToFSCache_def Let_def
        intro: fetchOrbInfo_orbs same_but_orbs_intros(3) [OF _ fetchOrbInfo_orbs] split: prod.split)
qed

lemma ParseRemoteOrbs_orbs: "same_but_orbs c (ParseRemoteOrbs env fs orbs ctx c)"
  unfolding ParseRemoteOrbs_def
  by (induction orbs arbitrary: c) (auto intro: parse_remote_orb_orbs same_but_orbs_intros(3))

subsection \<open>What is on disk is not loaded\<close>

text \<open>
  The query for the versions asks for the version alone. A GraphQL service answers with the fields that
  were asked for, so that the id is empty: an orb whose source is on disk is not entered.
\<close>

definition answers_what_is_asked :: "orb_files \<Rightarrow> bool" where
  "answers_what_is_asked fs \<longleftrightarrow> (\<forall>ctx id. oq_Id (fst (ob_GqlVersions fs ctx id)) = [])"

lemma stored_orb_not_loaded:
  assumes "answers_what_is_asked fs" and "ou_Version (orb_Url orb) \<noteq> ''volatile''"
    and "ob_Exists fs (ob_Path fs (GetOrbID (orb_Url orb)))"
    and "snd (ob_Read fs (ob_Path fs (GetOrbID (orb_Url orb)))) = None"
  shows "parse_remote_orb env fs ctx orb c = c"
proof -
  have "snd (GetOrbVersions fs ctx oid) \<noteq> None" for oid
    using assms(1) by (auto simp: answers_what_is_asked_def GetOrbVersions_def split: prod.splits) (metis fst_conv)
  then have "AddOrbToCacheWithContent env fs orb uri content ctx c = c" for uri content
    by (auto simp: AddOrbToCacheWithContent_def Let_def split: prod.split) (metis snd_conv option.discI)+
  then show ?thesis
    using assms(2-4)
    by (auto simp: parse_remote_orb_def addAlreadyExistingRemoteOrbsToFSCache_def Let_def split: prod.split)
qed

end
