(* ===== verification/Sync.thy ===== *)
theory Sync
  imports Pipeline RemoteOrbs
begin

text \<open>
  The synchronisation of the open documents: \<open>pkg/server/methods/synchronize.go\<close>. The requests of a
  client are handled one after the other; the diagnostics are computed and published by goroutines and
  by a timer, whose steps interleave with the requests. \<open>None\<close> is a run-time panic.
\<close>

subsection \<open>The package path of the standard library\<close>

text \<open>The elements that are kept, the last one first.\<close>

fun clean_element :: "bool \<Rightarrow> string \<Rightarrow> string list \<Rightarrow> string list" where
  "clean_element rooted e stack =
     (if e = [] \<or> e = ''.'' then stack
      else if e \<noteq> ''..'' then e # stack
      else (case stack of
              [] \<Rightarrow> if rooted then [] else [''..'']
            | x # xs \<Rightarrow> if x = ''..'' then ''..'' # stack else xs))"

definition path_Clean :: "string \<Rightarrow> string" where
  "path_Clean p =
     (let rooted = has_prefix ''/'' p;
          out = join_with ''/'' (rev (fold (clean_element rooted) (split_on (CHR ''/'') p) []))
      in if rooted then ''/'' @ out else if out = [] then ''.'' else out)"

definition path_Base :: "string \<Rightarrow> string" where
  "path_Base p =
     (if p = [] then ''.''
      else
        let p = trim_right_set ''/'' p;
            p = (case last_index_of ''/'' p of None \<Rightarrow> p | Some i \<Rightarrow> drop (i + 1) p)
        in if p = [] then ''/'' else p)"

definition path_Dir :: "string \<Rightarrow> string" where
  "path_Dir p = path_Clean (case last_index_of ''/'' p of None \<Rightarrow> [] | Some i \<Rightarrow> take (i + 1) p)"

text \<open>\<open>Join\<close> of two elements that are not empty.\<close>

definition path_Join :: "string \<Rightarrow> string \<Rightarrow> string" where
  "path_Join a b = path_Clean (a @ ''/'' @ b)"

subsection \<open>Changes of a text\<close>

record content_change =
  ch_Range :: range
  ch_Text :: string

definition apply_change :: "content_change \<Rightarrow> string \<Rightarrow> string" where
  "apply_change change content =
     (let start = PosToIndex (Start (ch_Range change)) content;
          end' = PosToIndex (End (ch_Range change)) content
      in take start content @ ch_Text change @ drop end' content)"

definition applyIncrementalChanges :: "file_cache \<Rightarrow> string \<Rightarrow> content_change list \<Rightarrow> string option" where
  "applyIncrementalChanges files uri changes =
     map_option (\<lambda>file. fold apply_change changes (td_Text (cf_TextDocument file))) (FileCache_GetFile files uri)"

subsection \<open>The caches\<close>

definition zero_project :: project where
  "zero_project =
     \<lparr>prj_Slug = [], prj_Name = [], prj_Id = [], prj_OrganizationName = [], prj_OrganizationSlug = [],
      prj_OrganizationId = [], prj_VcsInfo = \<lparr>vcs_VcsUrl = [], vcs_Provider = [], vcs_Default_branch = []\<rparr>\<rparr>"

definition setChangeInFileCache :: "text_document_item \<Rightarrow> file_cache \<Rightarrow> file_cache option" where
  "setChangeInFileCache textDocument files =
     (case FileCache_GetFile files (td_URI textDocument) of
        Some _ \<Rightarrow> UpdateTextDocument (td_URI textDocument) textDocument files
      | None \<Rightarrow> Some (FileCache_SetFile
                  \<lparr>cf_TextDocument = textDocument, cf_Project = zero_project, cf_EnvVariables = []\<rparr> files))"

text \<open>What the handlers are given besides the state: the parsers and services, the files of the orbs.\<close>

record handlers =
  hd_Pipeline :: pipeline
  hd_Files :: orb_files
  hd_SchemaLocation :: string

definition isOrb :: "handlers \<Rightarrow> orb_cache \<Rightarrow> string \<Rightarrow> bool \<times> string" where
  "isOrb h orbs uri =
     (let file = ob_Filename (hd_Files h) uri;
          namespace = path_Base (path_Dir file);
          orbId = trim_right_set ''.yml'' (path_Join namespace (path_Base file))
      in (OrbCache_HasOrb orbs orbId, orbId))"

definition updateOrbFile :: "handlers \<Rightarrow> string \<Rightarrow> string \<Rightarrow> ls_context \<Rightarrow> cache \<Rightarrow> cache option" where
  "updateOrbFile h content uri ctx c =
     (let (isOrb, orbId) = isOrb h (ca_OrbCache c) uri; pl = hd_Pipeline h in
      if \<not> isOrb then Some c
      else (case ParseFromContent (pl_Fuel pl) (pl_Grammar pl) content ctx uri zero_pos of
              None \<Rightarrow> None
            | Some doc \<Rightarrow> map_option (\<lambda>orbs. c\<lparr>ca_OrbCache := orbs\<rparr>)
                (UpdateOrbParsedAttributes orbId (ToOrbParsedAttributes doc) (ca_OrbCache c))))"

definition parsingMethods :: "handlers \<Rightarrow> text_document_item \<Rightarrow> ls_context \<Rightarrow> cache \<Rightarrow> cache option" where
  "parsingMethods h textDocument ctx c =
     (let pl = hd_Pipeline h in
      case ParseFromUriWithCache (pl_Fuel pl) (pl_Grammar pl) (td_URI textDocument) (ca_FileCache c) ctx of
        None \<Rightarrow> None
      | Some (Inl _) \<Rightarrow> Some c
      | Some (Inr parsedFile) \<Rightarrow>
          Some (ParseRemoteOrbs (pipeline_env pl) (hd_Files h) (yd_Orbs parsedFile) ctx c))"

subsection \<open>The server\<close>

text \<open>
  The state of the program, the document for which the timer runs, the documents whose diagnostics were
  requested, those whose diagnostics were computed, and what was published: a URI, the text that the
  file had at that time (none for a file that is closed), and the diagnostics.
\<close>

record server =
  sr_State :: vstate
  sr_Context :: ls_context
  sr_Timer :: "text_document_item option"
  sr_Requested :: "text_document_item list"
  sr_Computed :: "(text_document_item \<times> diagnostic list) list"
  sr_Published :: "(string \<times> string option \<times> diagnostic list) list"

definition sr_Cache :: "server \<Rightarrow> cache" where
  "sr_Cache s = vs_Cache (sr_State s)"

definition set_cache :: "cache \<Rightarrow> server \<Rightarrow> server" where
  "set_cache c s = s\<lparr>sr_State := (sr_State s)\<lparr>vs_Cache := c\<rparr>\<rparr>"

definition request :: "text_document_item \<Rightarrow> server \<Rightarrow> server" where
  "request textDocument s = s\<lparr>sr_Requested := sr_Requested s @ [textDocument]\<rparr>"

text \<open>The changed files, then the orbs: what both handlers of a new text begin with.\<close>

definition set_text :: "text_document_item \<Rightarrow> server \<Rightarrow> server option" where
  "set_text textDocument s =
     map_option (\<lambda>files. set_cache ((sr_Cache s)\<lparr>ca_FileCache := files\<rparr>) s)
       (setChangeInFileCache textDocument (ca_FileCache (sr_Cache s)))"

definition with_cache :: "(ls_context \<Rightarrow> cache \<Rightarrow> cache option) \<Rightarrow> server \<Rightarrow> server option" where
  "with_cache f s = map_option (\<lambda>c. set_cache c s) (f (sr_Context s) (sr_Cache s))"

definition DidOpen :: "handlers \<Rightarrow> text_document_item \<Rightarrow> server \<Rightarrow> server option" where
  "DidOpen h textDocument s =
     Option.bind (set_text textDocument s) (\<lambda>s.
     Option.bind (with_cache (parsingMethods h textDocument) s) (\<lambda>s.
     map_option (request textDocument)
       (with_cache (updateOrbFile h (td_Text textDocument) (td_URI textDocument)) s)))"

text \<open>The timer is one for all documents: a change replaces what it was set for before.\<close>

definition DidChange :: "handlers \<Rightarrow> string \<Rightarrow> int \<Rightarrow> content_change list \<Rightarrow> server \<Rightarrow> server option" where
  "DidChange h uri version changes s =
     Option.bind (applyIncrementalChanges (ca_FileCache (sr_Cache s)) uri changes) (\<lambda>newText.
       let textDocument = \<lparr>td_URI = uri, td_LanguageID = [], td_Version = version, td_Text = newText\<rparr> in
       Option.bind (set_text textDocument s) (\<lambda>s.
       map_option (\<lambda>s. s\<lparr>sr_Timer := Some textDocument\<rparr>) (with_cache (updateOrbFile h newText uri) s)))"

definition DidClose :: "handlers \<Rightarrow> string \<Rightarrow> server \<Rightarrow> server" where
  "DidClose h uri s =
     (let c = sr_Cache s in
      if fst (isOrb h (ca_OrbCache c) uri)
      then (set_cache (c\<lparr>ca_FileCache := FileCache_RemoveFile uri (ca_FileCache c)\<rparr>) s)
             \<lparr>sr_Published := sr_Published s @ [(uri, None, [])]\<rparr>
      else s)"

text \<open>The timer runs out.\<close>

definition timer_fires :: "handlers \<Rightarrow> text_document_item \<Rightarrow> server \<Rightarrow> server option" where
  "timer_fires h textDocument s =
     map_option (request textDocument) (with_cache (parsingMethods h textDocument) (s\<lparr>sr_Timer := None\<rparr>))"

text \<open>
  The two halves of \<open>notificationMethods\<close>: the diagnostics, computed from what the caches hold then, and
  later the comparison of the versions. \<open>Diagnostics\<close> drops an error.
\<close>

definition compute_diagnostics :: "handlers \<Rightarrow> text_document_item \<Rightarrow> server \<Rightarrow> (diagnostic list \<times> vstate) option" where
  "compute_diagnostics h textDocument s =
     Diagnostic (hd_Pipeline h) (td_URI textDocument) (sr_Context s) (hd_SchemaLocation h) (sr_State s)"

definition publish :: "text_document_item \<Rightarrow> diagnostic list \<Rightarrow> server \<Rightarrow> server" where
  "publish textDocument ds s =
     (case FileCache_GetFile (ca_FileCache (sr_Cache s)) (td_URI textDocument) of
        None \<Rightarrow> s
      | Some original \<Rightarrow>
          if td_Version (cf_TextDocument original) = td_Version textDocument
          then s\<lparr>sr_Published := sr_Published s @
                   [(td_URI textDocument, Some (td_Text (cf_TextDocument original)), ds)]\<rparr>
          else s)"

text \<open>The document of a file as the server holds it.\<close>

definition document_at :: "server \<Rightarrow> string \<Rightarrow> text_document_item option" where
  "document_at s uri = map_option cf_TextDocument (FileCache_GetFile (ca_FileCache (sr_Cache s)) uri)"

text \<open>
  What the server still has to do with documents. A client gives a document a version higher than any
  it had, which the protocol asks for.
\<close>

definition outstanding :: "server \<Rightarrow> text_document_item set" where
  "outstanding s = set_option (sr_Timer s) \<union> set (sr_Requested s) \<union> fst ` set (sr_Computed s)"

definition newer :: "server \<Rightarrow> string \<Rightarrow> int \<Rightarrow> bool" where
  "newer s uri version \<longleftrightarrow>
     (\<forall>td. document_at s uri = Some td \<or> td \<in> outstanding s \<and> td_URI td = uri \<longrightarrow> td_Version td < version)"

text \<open>
  The steps. A command, or the timer that it starts, asks for the diagnostics of an open file again. The
  last step stands for all the other work on the caches: the variables, contexts and resource classes
  that are fetched, and the settings of the client; it leaves the texts alone. (\<open>gm_wf\<close>: the files are a
  map.)
\<close>

inductive server_step :: "handlers \<Rightarrow> server \<Rightarrow> server \<Rightarrow> bool" for h where
  opened: "newer s (td_URI td) (td_Version td) \<Longrightarrow> DidOpen h td s = Some s' \<Longrightarrow> server_step h s s'"
| changed: "newer s uri version \<Longrightarrow> DidChange h uri version changes s = Some s' \<Longrightarrow> server_step h s s'"
| closed: "server_step h s (DidClose h uri s)"
| fired: "sr_Timer s = Some td \<Longrightarrow> timer_fires h td s = Some s' \<Longrightarrow> server_step h s s'"
| asked: "document_at s (td_URI td) = Some td \<Longrightarrow> server_step h s (request td s)"
| computed: "sr_Requested s = xs @ td # ys \<Longrightarrow> compute_diagnostics h td s = Some (ds, st) \<Longrightarrow>
    server_step h s (s\<lparr>sr_State := st, sr_Requested := xs @ ys, sr_Computed := sr_Computed s @ [(td, ds)]\<rparr>)"
| published: "sr_Computed s = xs @ (td, ds) # ys \<Longrightarrow>
    server_step h s (publish td ds (s\<lparr>sr_Computed := xs @ ys\<rparr>))"
| background: "(\<And>uri. document_at (s\<lparr>sr_State := st\<rparr>) uri = document_at s uri) \<Longrightarrow>
    gm_wf (ca_FileCache (vs_Cache st)) \<Longrightarrow> server_step h s (s\<lparr>sr_State := st, sr_Context := ctx\<rparr>)"

inductive server_runs :: "handlers \<Rightarrow> server \<Rightarrow> bool" for h where
  start: "server_runs h \<lparr>sr_State = \<lparr>vs_Diagnostics = [], vs_Cache = CreateCache, vs_OrbExists = []\<rparr>, sr_Context = ctx,
    sr_Timer = None, sr_Requested = [], sr_Computed = [], sr_Published = []\<rparr>"
| step: "server_runs h s \<Longrightarrow> server_step h s s' \<Longrightarrow> server_runs h s'"

end
