(* ===== verification/SyncProps.thy ===== *)
theory SyncProps
  imports Sync ParseProps
begin

text \<open>
  Properties of the synchronisation: the text of the server is the client's, and what is published
  belongs to the text of its time, however the steps of the server interleave.
\<close>

subsection \<open>Incremental changes\<close>

text \<open>An edit as a client makes it: what lies between two indices becomes another text.\<close>

type_synonym edit = "nat \<times> nat \<times> string"

definition splice :: "edit \<Rightarrow> string \<Rightarrow> string" where
  "splice e text = (case e of (i, j, t) \<Rightarrow> take i text @ t @ drop j text)"

text \<open>The same edit as a change of the protocol, with positions in the text it is made to.\<close>

definition change_of :: "string \<Rightarrow> edit \<Rightarrow> content_change" where
  "change_of text e = (case e of (i, j, t) \<Rightarrow>
     \<lparr>ch_Range = mk_range (index_to_pos_loop (take i text) 0 0) (index_to_pos_loop (take j text) 0 0), ch_Text = t\<rparr>)"

fun changes_of :: "string \<Rightarrow> edit list \<Rightarrow> content_change list" where
  "changes_of text [] = []"
| "changes_of text (e # es) = change_of text e # changes_of (splice e text) es"

text \<open>The edits lie within the text, which stays below 4 GiB.\<close>

fun edits_ok :: "string \<Rightarrow> edit list \<Rightarrow> bool" where
  "edits_ok text [] \<longleftrightarrow> True"
| "edits_ok text ((i, j, t) # es) \<longleftrightarrow>
     i \<le> j \<and> j \<le> length text \<and> length text < 2 ^ 32 \<and> edits_ok (splice (i, j, t) text) es"

lemma apply_change_of:
  "i \<le> j \<Longrightarrow> j \<le> length text \<Longrightarrow> length text < 2 ^ 32 \<Longrightarrow>
   apply_change (change_of text (i, j, t)) text = splice (i, j, t) text"
  by (simp add: apply_change_def change_of_def splice_def PosToIndex_IndexToPos_eq Let_def)

lemma fold_changes_of:
  "edits_ok content es \<Longrightarrow> fold apply_change (changes_of content es) content = fold splice es content"
  by (induction es arbitrary: content) (auto simp: apply_change_of)


text \<open>A change without a range, which stands for the whole text, is put before it.\<close>

lemma change_without_range:
  "apply_change \<lparr>ch_Range = zero_range, ch_Text = t\<rparr> content = t @ content"
proof -
  have "PosToIndex zero_pos content = 0"
    by (cases content) (simp_all add: PosToIndex_def zero_pos_def)
  then show ?thesis
    by (simp add: apply_change_def zero_range_def)
qed

subsection \<open>The documents of the server\<close>

lemma document_set_cache [simp]:
  "document_at (set_cache c s) uri = map_option cf_TextDocument (FileCache_GetFile (ca_FileCache c) uri)"
  by (simp add: document_at_def set_cache_def sr_Cache_def)

lemma document_fields [simp]:
  "document_at (s\<lparr>sr_Timer := a\<rparr>) uri = document_at s uri"
  "document_at (s\<lparr>sr_Requested := b\<rparr>) uri = document_at s uri"
  "document_at (s\<lparr>sr_Computed := d\<rparr>) uri = document_at s uri"
  "document_at (s\<lparr>sr_Published := e\<rparr>) uri = document_at s uri"
  "document_at (s\<lparr>sr_Context := x\<rparr>) uri = document_at s uri"
  by (simp_all add: document_at_def sr_Cache_def)

text \<open>Two servers with the same work to do.\<close>

definition same_work :: "server \<Rightarrow> server \<Rightarrow> bool" where
  "same_work s s' \<longleftrightarrow> sr_Timer s' = sr_Timer s \<and> sr_Requested s' = sr_Requested s \<and>
     sr_Computed s' = sr_Computed s \<and> sr_Published s' = sr_Published s"

lemma same_work_set_cache [simp]: "same_work s (set_cache c s)"
  by (simp add: same_work_def set_cache_def)

lemma set_text_document:
  assumes "set_text td s = Some s'"
  shows "same_work s s'" "document_at s' uri = (if uri = td_URI td then Some td else document_at s uri)"
  using assms
  by (auto simp: set_text_def setChangeInFileCache_def UpdateTextDocument_def FileCache_GetFile_def
      FileCache_SetFile_def document_at_def[of s] sr_Cache_def split: option.splits)

lemma parsingMethods_files: "parsingMethods h td ctx c = Some c' \<Longrightarrow> ca_FileCache c' = ca_FileCache c"
proof -
  have "same_but_orbs a b \<Longrightarrow> ca_FileCache b = ca_FileCache a" for a b
    unfolding same_but_orbs_def by (metis cache.select_convs(1) cache.surjective cache.update_convs(2))
  then show "parsingMethods h td ctx c = Some c' \<Longrightarrow> ca_FileCache c' = ca_FileCache c"
    using ParseRemoteOrbs_orbs by (auto simp: parsingMethods_def Let_def split: option.splits sum.splits)
qed

lemma updateOrbFile_files: "updateOrbFile h text uri ctx c = Some c' \<Longrightarrow> ca_FileCache c' = ca_FileCache c"
  by (auto simp: updateOrbFile_def Let_def split: option.splits prod.splits if_splits)

lemma with_cache_document:
  assumes "with_cache f s = Some s'" and "\<And>ctx c c'. f ctx c = Some c' \<Longrightarrow> ca_FileCache c' = ca_FileCache c"
  shows "same_work s s'" "document_at s' uri = document_at s uri"
  using assms by (auto simp: with_cache_def document_at_def[of s] sr_Cache_def)

lemma with_parsing_document:
  assumes "with_cache (parsingMethods h td) s = Some s'"
  shows "same_work s s'" "document_at s' uri = document_at s uri"
  using with_cache_document [OF assms] parsingMethods_files by metis+

lemma with_orb_document:
  assumes "with_cache (updateOrbFile h content u) s = Some s'"
  shows "same_work s s'" "document_at s' uri = document_at s uri"
  using with_cache_document [OF assms] updateOrbFile_files by metis+

subsection \<open>What the server has to do is never ahead of the documents\<close>

text \<open>The diagnostics of a text: what \<open>Diagnostic\<close> returns in a state whose file has that text.\<close>

definition diagnosed :: "handlers \<Rightarrow> string \<Rightarrow> string \<Rightarrow> diagnostic list \<Rightarrow> bool" where
  "diagnosed h uri text ds \<longleftrightarrow>
     (\<exists>ctx st st' f. Diagnostic (hd_Pipeline h) uri ctx (hd_SchemaLocation h) st = Some (ds, st') \<and>
        FileCache_GetFile (ca_FileCache (vs_Cache st)) uri = Some f \<and> td_Text (cf_TextDocument f) = text)"

definition up_to_date :: "handlers \<Rightarrow> server \<Rightarrow> bool" where
  "up_to_date h s \<longleftrightarrow>
     (\<forall>td \<in> outstanding s. \<forall>cur. document_at s (td_URI td) = Some cur \<longrightarrow> td_Version td \<le> td_Version cur) \<and>
     (\<forall>(td, ds) \<in> set (sr_Computed s). \<forall>cur. document_at s (td_URI td) = Some cur \<and> td_Version cur = td_Version td \<longrightarrow>
        diagnosed h (td_URI td) (td_Text cur) ds) \<and>
     (\<forall>(uri, text, ds) \<in> set (sr_Published s). case text of None \<Rightarrow> ds = [] | Some t \<Rightarrow> diagnosed h uri t ds)"

text \<open>A step that makes no document newer and adds no work.\<close>

lemma up_to_date_less:
  assumes "up_to_date h s" and "\<And>uri cur. document_at s' uri = Some cur \<Longrightarrow> document_at s uri = Some cur"
    and "outstanding s' \<subseteq> outstanding s" and "set (sr_Computed s') \<subseteq> set (sr_Computed s)"
    and "set (sr_Published s') \<subseteq> insert (u, None, []) (set (sr_Published s))"
  shows "up_to_date h s'"
  using assms unfolding up_to_date_def by fastforce

text \<open>A step that gives a document a higher version.\<close>

lemma up_to_date_newer:
  assumes inv: "up_to_date h s" and newer: "newer s (td_URI td) (td_Version td)"
    and doc: "\<And>uri. document_at s' uri = (if uri = td_URI td then Some td else document_at s uri)"
    and work: "outstanding s' \<subseteq> insert td (outstanding s)" "sr_Computed s' = sr_Computed s"
      "sr_Published s' = sr_Published s"
  shows "up_to_date h s'"
proof -
  have old: "x \<in> outstanding s \<Longrightarrow> td_URI x = td_URI td \<Longrightarrow> td_Version x < td_Version td" for x
    using newer by (auto simp: newer_def)
  have "td_Version x \<le> td_Version cur"
    if "x \<in> outstanding s'" "document_at s' (td_URI x) = Some cur" for x cur
    using that inv work(1) old [of x] doc [of "td_URI x"]
    by (auto simp: up_to_date_def split: if_splits)
  moreover have "diagnosed h (td_URI x) (td_Text cur) ds"
    if "(x, ds) \<in> set (sr_Computed s')" "document_at s' (td_URI x) = Some cur" "td_Version cur = td_Version x" for x ds cur
  proof -
    have "x \<in> outstanding s"
      using that(1) work(2) by (force simp: outstanding_def)
    then have "td_URI x \<noteq> td_URI td"
      using old [of x] that(2,3) doc [of "td_URI x"] by auto
    then show ?thesis
      using that inv work(2) doc [of "td_URI x"] by (auto simp: up_to_date_def)
  qed
  ultimately show ?thesis
    using inv work(3) by (auto simp: up_to_date_def)
qed

lemma outstanding_same: "same_work s s' \<Longrightarrow> outstanding s' = outstanding s"
  by (simp add: same_work_def outstanding_def)

lemma same_work_trans: "same_work a b \<Longrightarrow> same_work b c \<Longrightarrow> same_work a c"
  by (simp add: same_work_def)

lemma DidOpen_document:
  assumes "DidOpen h td s = Some s'"
  shows "document_at s' uri = (if uri = td_URI td then Some td else document_at s uri)"
    and "outstanding s' = insert td (outstanding s)" and "sr_Computed s' = sr_Computed s"
    and "sr_Published s' = sr_Published s"
proof -
  from assms obtain a b c where steps: "set_text td s = Some a" "with_cache (parsingMethods h td) a = Some b"
    "with_cache (updateOrbFile h (td_Text td) (td_URI td)) b = Some c" and s': "s' = request td c"
    by (auto simp: DidOpen_def bind_eq_Some_conv)
  note a = set_text_document [OF steps(1)]
  note b = with_parsing_document [OF steps(2)]
  note c = with_orb_document [OF steps(3)]
  have work: "same_work s c"
    using a(1) b(1) c(1) same_work_trans by blast
  show "document_at s' uri = (if uri = td_URI td then Some td else document_at s uri)"
    using a(2) b(2) c(2) by (simp add: s' request_def)
  show "outstanding s' = insert td (outstanding s)" "sr_Computed s' = sr_Computed s" "sr_Published s' = sr_Published s"
    using work by (auto simp: s' request_def outstanding_def same_work_def)
qed

lemma DidChange_document:
  assumes "DidChange h uri version changes s = Some s'"
  shows "\<exists>td. td_URI td = uri \<and> td_Version td = version \<and>
    (\<forall>u. document_at s' u = (if u = uri then Some td else document_at s u)) \<and>
    outstanding s' \<subseteq> insert td (outstanding s) \<and> sr_Timer s' = Some td \<and>
    sr_Computed s' = sr_Computed s \<and> sr_Published s' = sr_Published s"
proof -
  from assms obtain content where "applyIncrementalChanges (ca_FileCache (sr_Cache s)) uri changes = Some content"
    by (auto simp: DidChange_def bind_eq_Some_conv)
  define td where "td = \<lparr>td_URI = uri, td_LanguageID = [], td_Version = version, td_Text = content\<rparr>"
  from assms obtain a b where steps: "set_text td s = Some a"
    "with_cache (updateOrbFile h content uri) a = Some b" and s': "s' = b\<lparr>sr_Timer := Some td\<rparr>"
    using \<open>applyIncrementalChanges _ _ _ = _\<close> by (auto simp: DidChange_def td_def bind_eq_Some_conv Let_def)
  note a = set_text_document [OF steps(1)]
  note b = with_orb_document [OF steps(2)]
  have work: "same_work s b"
    using a(1) b(1) same_work_trans by blast
  have "\<forall>u. document_at s' u = (if u = uri then Some td else document_at s u)"
    using a(2) b(2) by (simp add: s' td_def)
  moreover have "outstanding s' \<subseteq> insert td (outstanding s)" "sr_Timer s' = Some td"
    "sr_Computed s' = sr_Computed s" "sr_Published s' = sr_Published s"
    using work by (auto simp: s' outstanding_def same_work_def)
  ultimately show ?thesis
    by (intro exI [of _ td]) (auto simp: td_def)
qed

lemma timer_fires_document:
  assumes "timer_fires h td s = Some s'" and "sr_Timer s = Some td"
  shows "document_at s' uri = document_at s uri" "outstanding s' \<subseteq> outstanding s"
    "sr_Computed s' = sr_Computed s" "sr_Published s' = sr_Published s"
proof -
  from assms(1) obtain a where a: "with_cache (parsingMethods h td) (s\<lparr>sr_Timer := None\<rparr>) = Some a" and s': "s' = request td a"
    by (auto simp: timer_fires_def)
  note a = with_parsing_document [OF a]
  show "document_at s' uri = document_at s uri"
    using a(2) by (simp add: s' request_def)
  show "outstanding s' \<subseteq> outstanding s" "sr_Computed s' = sr_Computed s" "sr_Published s' = sr_Published s"
    using a(1) assms(2) by (auto simp: s' request_def outstanding_def same_work_def)
qed

lemma DidClose_cases:
  obtains "DidClose h u s = s"
  | "DidClose h u s = (set_cache ((sr_Cache s)\<lparr>ca_FileCache := FileCache_RemoveFile u (ca_FileCache (sr_Cache s))\<rparr>) s)
       \<lparr>sr_Published := sr_Published s @ [(u, None, [])]\<rparr>"
  unfolding DidClose_def Let_def by (cases "fst (isOrb h (ca_OrbCache (sr_Cache s)) u)") simp_all

lemma document_removed:
  "map_option cf_TextDocument (FileCache_GetFile (FileCache_RemoveFile u (ca_FileCache (sr_Cache s))) uri) = Some cur \<Longrightarrow>
   document_at s uri = Some cur"
  by (simp add: document_at_def FileCache_GetFile_def FileCache_RemoveFile_def gm_get_del split: if_splits)

lemma DidClose_document:
  shows "document_at (DidClose h u s) uri = Some cur \<Longrightarrow> document_at s uri = Some cur"
    and "outstanding (DidClose h u s) = outstanding s" and "sr_Computed (DidClose h u s) = sr_Computed s"
    and "set (sr_Published (DidClose h u s)) \<subseteq> insert (u, None, []) (set (sr_Published s))"
proof -
  show "document_at (DidClose h u s) uri = Some cur \<Longrightarrow> document_at s uri = Some cur"
    by (cases rule: DidClose_cases [of h u s]) (simp_all add: document_removed)
  show "outstanding (DidClose h u s) = outstanding s" "sr_Computed (DidClose h u s) = sr_Computed s"
    "set (sr_Published (DidClose h u s)) \<subseteq> insert (u, None, []) (set (sr_Published s))"
    by (cases rule: DidClose_cases [of h u s]; simp add: outstanding_def set_cache_def subset_insertI)+
qed

text \<open>Computing the diagnostics leaves the files alone.\<close>

lemma Diagnostic_files:
  "Diagnostic pl uri ctx loc st = Some (ds, st') \<Longrightarrow> ca_FileCache (vs_Cache st') = ca_FileCache (vs_Cache st)"
proof -
  have "ca_FileCache (vs_Cache st') = ca_FileCache (vs_Cache st)"
    if "DiagnosticYAML pl doc ctx st = Some (r, st')" for doc r
    using that framed_files [OF framed_Validate]
    by (fastforce simp: DiagnosticYAML_def Let_def vbind_def vlift_def vret_def vpanic_def
        split: if_splits option.splits)
  then show "Diagnostic pl uri ctx loc st = Some (ds, st') \<Longrightarrow> ca_FileCache (vs_Cache st') = ca_FileCache (vs_Cache st)"
    by (auto simp: Diagnostic_def DiagnosticFile_def vbind_def vget_def vcache_def vlift_def vret_def vpanic_def
        split: option.splits sum.splits)
qed

subsection \<open>The invariant of the steps\<close>

lemma up_to_date_computed:
  assumes inv: "up_to_date h s" and split: "sr_Requested s = xs @ td # ys"
    and run: "compute_diagnostics h td s = Some (ds, st)"
  shows "up_to_date h (s\<lparr>sr_State := st, sr_Requested := xs @ ys, sr_Computed := sr_Computed s @ [(td, ds)]\<rparr>)"
proof -
  let ?s' = "s\<lparr>sr_State := st, sr_Requested := xs @ ys, sr_Computed := sr_Computed s @ [(td, ds)]\<rparr>"
  have run': "Diagnostic (hd_Pipeline h) (td_URI td) (sr_Context s) (hd_SchemaLocation h) (sr_State s) = Some (ds, st)"
    using run by (simp add: compute_diagnostics_def)
  have doc: "document_at ?s' uri = document_at s uri" for uri
    using Diagnostic_files [OF run'] by (simp add: document_at_def sr_Cache_def)
  have out: "outstanding ?s' = outstanding s"
    using split by (auto simp: outstanding_def)
  have new: "diagnosed h (td_URI td) (td_Text cur) ds" if "document_at s (td_URI td) = Some cur" for cur
    using that run' by (auto simp: diagnosed_def document_at_def sr_Cache_def)
  show ?thesis
    using inv new unfolding up_to_date_def doc out by auto
qed

lemma up_to_date_published:
  assumes inv: "up_to_date h s" and split: "sr_Computed s = xs @ (td, ds) # ys"
  shows "up_to_date h (publish td ds (s\<lparr>sr_Computed := xs @ ys\<rparr>))"
proof -
  let ?s = "s\<lparr>sr_Computed := xs @ ys\<rparr>"
  have less: "up_to_date h ?s"
    using inv split by (intro up_to_date_less [OF inv]) (auto simp: outstanding_def)
  show ?thesis
  proof (cases "document_at s (td_URI td)")
    case None
    then show ?thesis
      using less by (simp add: publish_def document_at_def sr_Cache_def)
  next
    case (Some cur)
    then obtain f where f: "FileCache_GetFile (ca_FileCache (sr_Cache ?s)) (td_URI td) = Some f" "cf_TextDocument f = cur"
      by (auto simp: document_at_def sr_Cache_def)
    have "diagnosed h (td_URI td) (td_Text cur) ds" if "td_Version cur = td_Version td"
      using inv split Some that by (auto simp: up_to_date_def)
    then show ?thesis
      using less f by (auto simp: publish_def up_to_date_def outstanding_def)
  qed
qed

lemma up_to_date_step:
  assumes "server_step h s s'" and inv: "up_to_date h s"
  shows "up_to_date h s'"
  using assms(1)
proof cases
  case (opened td)
  then show ?thesis
    using DidOpen_document [OF opened(2)] by (intro up_to_date_newer [OF inv opened(1)]) auto
next
  case (changed uri version changes)
  then obtain td where td: "td_URI td = uri" "td_Version td = version"
    "\<forall>u. document_at s' u = (if u = uri then Some td else document_at s u)"
    "outstanding s' \<subseteq> insert td (outstanding s)" "sr_Computed s' = sr_Computed s" "sr_Published s' = sr_Published s"
    using DidChange_document [OF changed(2)] by blast
  with changed(1) show ?thesis
    by (intro up_to_date_newer [OF inv, of td]) auto
next
  case (closed uri)
  then show ?thesis
    using DidClose_document [of h uri s] by (intro up_to_date_less [OF inv, of _ uri]) auto
next
  case (fired td)
  then show ?thesis
    using timer_fires_document [OF fired(2,1)] by (intro up_to_date_less [OF inv]) auto
next
  case (asked td)
  then show ?thesis
    using inv by (auto simp: up_to_date_def outstanding_def request_def)
next
  case (computed xs td ys ds st)
  then show ?thesis
    using up_to_date_computed [OF inv] by simp
next
  case (published xs td ds ys)
  then show ?thesis
    using up_to_date_published [OF inv] by simp
next
  case (background st ctx)
  then show ?thesis
    by (intro up_to_date_less [OF inv]) (auto simp: outstanding_def document_at_def sr_Cache_def)
qed

lemma up_to_date_runs: "server_runs h s \<Longrightarrow> up_to_date h s"
proof (induction rule: server_runs.induct)
  case (start ctx)
  then show ?case
    by (simp add: up_to_date_def outstanding_def)
qed (rule up_to_date_step)


subsection \<open>One timer for all documents\<close>

text \<open>The change of another document before the timer runs out drops the request of the first one.\<close>

lemma later_change_drops_request:
  assumes "DidChange h a va cas s = Some s1" and "DidChange h b vb cbs s1 = Some s2" and "a \<noteq> b"
  shows "sr_Requested s2 = sr_Requested s \<and> (\<exists>td. sr_Timer s2 = Some td \<and> td_URI td = b)"
proof -
  have keeps: "sr_Requested s' = sr_Requested s" if "DidChange h u v cs s = Some s'" for u v cs s s'
  proof -
    have "sr_Requested (set_cache c s) = sr_Requested s" for c s
      by (simp add: set_cache_def)
    with that show ?thesis
      by (auto simp: DidChange_def set_text_def with_cache_def Let_def bind_eq_Some_conv)
  qed
  show ?thesis
    using keeps [OF assms(1)] keeps [OF assms(2)] DidChange_document [OF assms(2)] by auto
qed

subsection \<open>A run of the server\<close>

definition sample_handlers :: handlers where
  "sample_handlers =
     \<lparr>hd_Pipeline = merge_pipeline,
      hd_Files = \<lparr>ob_Path = (\<lambda>n. n), ob_Exists = (\<lambda>_. False), ob_Read = (\<lambda>_. ([], None)), ob_File = (\<lambda>p. p),
        ob_Filename = (\<lambda>u. u), ob_GqlVersions = (\<lambda>_ _. (\<lparr>oq_Id = [], oq_Version = [], oq_Versions = [], oq_Source = []\<rparr>, None))\<rparr>,
      hd_SchemaLocation = []\<rparr>"

lemma DidOpen_returns:
  assumes "ParseFromContent (pl_Fuel (hd_Pipeline h)) (pl_Grammar (hd_Pipeline h)) (td_Text td) (sr_Context s) (td_URI td) zero_pos \<noteq> None"
  shows "\<exists>s'. DidOpen h td s = Some s' \<and> sr_Context s' = sr_Context s"
proof -
  have keeps_ctx: "sr_Context (set_cache c s) = sr_Context s" for c s
    by (simp add: set_cache_def)
  have "set_text td s \<noteq> None"
    by (simp add: set_text_def setChangeInFileCache_def UpdateTextDocument_def FileCache_GetFile_def split: option.split)
  then obtain a where a: "set_text td s = Some a" by blast
  then have ctx: "sr_Context a = sr_Context s"
    by (auto simp: set_text_def keeps_ctx)
  have opened: "document_at a (td_URI td) = Some td"
    using set_text_document(2) [OF a] by simp
  have "parsingMethods h td (sr_Context s) (sr_Cache a) \<noteq> None"
    using opened assms by (auto simp: parsingMethods_def ParseFromUriWithCache_def document_at_def Let_def split: option.splits)
  then obtain b where b: "with_cache (parsingMethods h td) a = Some b" "sr_Context b = sr_Context s"
    by (auto simp: with_cache_def ctx keeps_ctx)
  have "updateOrbFile h (td_Text td) (td_URI td) (sr_Context s) (sr_Cache b) \<noteq> None"
    using assms
    by (auto simp: updateOrbFile_def isOrb_def OrbCache_HasOrb_def UpdateOrbParsedAttributes_def gm_has_def Let_def
        split: option.splits)
  then obtain c where c: "updateOrbFile h (td_Text td) (td_URI td) (sr_Context s) (sr_Cache b) = Some c" by blast
  then have "with_cache (updateOrbFile h (td_Text td) (td_URI td)) b = Some (set_cache c b)"
      "sr_Context (set_cache c b) = sr_Context s"
    by (simp_all add: with_cache_def b(2) keeps_ctx)
  with a b(1) show ?thesis
    by (simp add: DidOpen_def request_def)
qed

text \<open>A document is opened, its diagnostics are computed and published.\<close>

lemma sample_run:
  "\<exists>s ds. server_runs sample_handlers s \<and> ([], Some merge_content, ds) \<in> set (sr_Published s)"
proof -
  let ?h = sample_handlers
  let ?s = "\<lparr>sr_State = \<lparr>vs_Diagnostics = [], vs_Cache = CreateCache, vs_OrbExists = []\<rparr>, sr_Context = zero_ls_context,
    sr_Timer = None, sr_Requested = [], sr_Computed = [], sr_Published = []\<rparr>"
  define td where "td = \<lparr>td_URI = [], td_LanguageID = ''yaml'', td_Version = 1, td_Text = merge_content\<rparr>"
  have content: "ParseFromContent 1000 merge_grammar merge_content zero_ls_context [] zero_pos \<noteq> None"
    by (rule ParseFromContent_nested [OF merge_nested]) simp
  then obtain s1 where s1: "DidOpen ?h td ?s = Some s1" "sr_Context s1 = zero_ls_context"
    using DidOpen_returns [of ?h td ?s] by (auto simp: sample_handlers_def merge_pipeline_def sample_pipeline_def td_def)
  have "newer ?s (td_URI td) (td_Version td)"
    by (simp add: newer_def document_at_def outstanding_def sr_Cache_def CreateCache_def FileCache_GetFile_def)
  then have run1: "server_runs ?h s1"
    using server_runs.step [OF server_runs.start server_step.opened [OF _ s1(1)]] by blast
  have requested: "sr_Requested s1 = [] @ td # []"
    using s1(1) by (auto simp: DidOpen_def set_text_def with_cache_def set_cache_def request_def bind_eq_Some_conv)
  have doc: "document_at s1 [] = Some td"
    using DidOpen_document(1) [OF s1(1)] by (simp add: td_def)
  then obtain f where f: "FileCache_GetFile (ca_FileCache (vs_Cache (sr_State s1))) [] = Some f" "cf_TextDocument f = td"
    by (auto simp: document_at_def sr_Cache_def)
  have "\<exists>ds st. Diagnostic merge_pipeline [] zero_ls_context [] (sr_State s1) = Some (ds, st)"
    by (rule Diagnostic_returns [where f = f and d = 1 and K = 730])
      (simp_all add: f(1) f(2) td_def merge_nested [simplified] merge_pipeline_def sample_pipeline_def)
  then obtain ds st where compute: "compute_diagnostics ?h td s1 = Some (ds, st)"
    by (auto simp: compute_diagnostics_def sample_handlers_def s1(2) td_def)
  let ?s2 = "s1\<lparr>sr_State := st, sr_Requested := [] @ [], sr_Computed := sr_Computed s1 @ [(td, ds)]\<rparr>"
  have run2: "server_runs ?h ?s2"
    by (rule server_runs.step [OF run1 server_step.computed [OF requested compute]])
  have "server_runs ?h (publish td ds (?s2\<lparr>sr_Computed := sr_Computed s1 @ []\<rparr>))"
    by (rule server_runs.step [OF run2 server_step.published]) simp
  moreover have "ca_FileCache (vs_Cache st) = ca_FileCache (vs_Cache (sr_State s1))"
    using compute by (auto simp: compute_diagnostics_def intro: Diagnostic_files)
  then have "([], Some merge_content, ds) \<in> set (sr_Published (publish td ds (?s2\<lparr>sr_Computed := sr_Computed s1 @ []\<rparr>)))"
    using f by (simp add: publish_def sr_Cache_def td_def)
  ultimately show ?thesis by blast
qed



end
