(* ===== verification/Server.thy ===== *)
theory Server
  imports SyncProps
begin

text \<open>
  The commands of the client and what is fetched for the account: \<open>executeCommand.go\<close>,
  \<open>envVariables.go\<close>, \<open>resourceClass.go\<close> and \<open>initialize.go\<close> of \<open>pkg/server/methods\<close>, \<open>git.go\<close> and
  \<open>project.go\<close> of \<open>pkg/utils\<close>. The repository on disk, the parsers of URLs and the HTTP requests are the
  functions of the record \<open>account\<close>. \<open>None\<close> of an operation is a run-time panic, or a listing whose pages
  do not end.
\<close>

text \<open>
  The remotes of the repository at a path, each with its URLs (an error otherwise); the host and path
  of a URL, and of a URL as scp writes it; the project of a slug; the page of variables at a URL; the
  page of contexts of an organization, without and with their variables; the resource classes of an
  organization, none after an error.
\<close>

record env_page =
  ep_Names :: "string list"
  ep_NextPageToken :: string

record account =
  ac_Remotes :: "string \<Rightarrow> (string \<times> string list) list option"
  ac_ParseUrl :: "string \<Rightarrow> (string \<times> string) option"
  ac_ParseScp :: "string \<Rightarrow> (string \<times> string) option"
  ac_Project :: "ls_context \<Rightarrow> string \<Rightarrow> project option"
  ac_EnvPage :: "ls_context \<Rightarrow> string \<Rightarrow> env_page option"
  ac_Contexts :: "ls_context \<Rightarrow> string \<Rightarrow> string \<Rightarrow> get_all_context_res option"
  ac_ContextsWithEnvVars :: "ls_context \<Rightarrow> string \<Rightarrow> string \<Rightarrow> get_all_context_res option"
  ac_ResourceClasses :: "ls_context \<Rightarrow> string \<Rightarrow> string list"

subsection \<open>git.go\<close>

definition slug_of_host :: "string \<times> string \<Rightarrow> string" where
  "slug_of_host parsed =
     (let (host, path) = parsed in
      if host = ''github.com'' then ''gh'' @ path else if host = ''bitbucket.org'' then ''bb'' @ path else [])"

definition fromUrlToProjectSlug :: "account \<Rightarrow> string \<Rightarrow> string" where
  "fromUrlToProjectSlug a projectUrl =
     (case ac_ParseUrl a projectUrl of
        Some parsed \<Rightarrow> slug_of_host parsed
      | None \<Rightarrow>
          (case ac_ParseScp a projectUrl of
             None \<Rightarrow> []
           | Some (host, path) \<Rightarrow>
               slug_of_host (host, ''/'' @ (if has_suffix ''.git'' path then take (length path - 4) path else path))))"

text \<open>The path before the first \<open>.circleci\<close> is that of the repository.\<close>

definition GetProjectSlug :: "account \<Rightarrow> string \<Rightarrow> string option" where
  "GetProjectSlug a configPath =
     (let repo = (case index_of ''.circleci'' configPath of None \<Rightarrow> configPath | Some i \<Rightarrow> take i configPath);
          first = (\<lambda>(_, urls). case urls of [] \<Rightarrow> None | url # _ \<Rightarrow> Some (fromUrlToProjectSlug a url))
      in case ac_Remotes a repo of
           None \<Rightarrow> Some []
         | Some [] \<Rightarrow> Some []
         | Some [remote] \<Rightarrow> first remote
         | Some remotes \<Rightarrow>
             (case find (\<lambda>(remote, _). remote = ''origin'') remotes of None \<Rightarrow> Some [] | Some remote \<Rightarrow> first remote))"

definition GetProjectOrg :: "string \<Rightarrow> string" where
  "GetProjectOrg projectSlug = (case split_on (CHR ''/'') projectSlug of [_, org, _] \<Rightarrow> org | _ \<Rightarrow> [])"

subsection \<open>project.go\<close>

definition envvar_url :: "ls_context \<Rightarrow> string \<Rightarrow> string \<Rightarrow> string" where
  "envvar_url ctx projectSlug nextPageToken =
     api_HostUrl (ls_Api ctx) @ ''/api/v2/project/'' @ projectSlug @ ''/envvar'' @
     (if nextPageToken = [] then [] else ''&page-token='' @ nextPageToken)"

text \<open>The names that are read before an error count.\<close>

partial_function (option) fetchAllProjectEnvVariables ::
    "account \<Rightarrow> ls_context \<Rightarrow> string \<Rightarrow> string \<Rightarrow> string list \<Rightarrow> string list option" where
  "fetchAllProjectEnvVariables a ctx projectSlug nextPageToken projectEnvVariables =
     (case ac_EnvPage a ctx (envvar_url ctx projectSlug nextPageToken) of
        None \<Rightarrow> Some projectEnvVariables
      | Some projectRes \<Rightarrow>
          if ep_NextPageToken projectRes = [] then Some (projectEnvVariables @ ep_Names projectRes)
          else fetchAllProjectEnvVariables a ctx projectSlug (ep_NextPageToken projectRes)
                 (projectEnvVariables @ ep_Names projectRes))"

definition add_env_variables :: "string \<Rightarrow> string list \<Rightarrow> file_cache \<Rightarrow> file_cache option" where
  "add_env_variables uri names' files =
     fold (\<lambda>n m. Option.bind m (AddEnvVariableToProjectLinkedToFile uri n)) names' (Some files)"

definition GetAllProjectEnvVariables ::
    "account \<Rightarrow> ls_context \<Rightarrow> cached_file \<Rightarrow> file_cache \<Rightarrow> file_cache option" where
  "GetAllProjectEnvVariables a ctx cachedFile files =
     Option.bind (fetchAllProjectEnvVariables a ctx (prj_Slug (cf_Project cachedFile)) [] [])
       (\<lambda>names'. add_env_variables (td_URI (cf_TextDocument cachedFile)) names' files)"

subsection \<open>envVariables.go\<close>

definition updateProjectEnvVariables ::
    "account \<Rightarrow> ls_context \<Rightarrow> string \<Rightarrow> file_cache \<Rightarrow> file_cache option" where
  "updateProjectEnvVariables a ctx uri files =
     Option.bind (FileCache_GetFile files uri) (\<lambda>cachedFile.
       let cachedFile = cachedFile\<lparr>cf_EnvVariables := []\<rparr>;
           files = FileCache_SetFile cachedFile files
       in if api_Token (ls_Api ctx) \<noteq> [] then GetAllProjectEnvVariables a ctx cachedFile files else Some files)"

definition updateProjectsEnvVariables :: "account \<Rightarrow> ls_context \<Rightarrow> file_cache \<Rightarrow> file_cache option" where
  "updateProjectsEnvVariables a ctx files =
     fold (\<lambda>(_, file) m. Option.bind m (updateProjectEnvVariables a ctx (td_URI (cf_TextDocument file))))
       files (Some files)"

text \<open>What \<open>getAllEnvVariables\<close> does once the organization is known.\<close>

definition load_contexts :: "account \<Rightarrow> ls_context \<Rightarrow> string \<Rightarrow> cache \<Rightarrow> cache option" where
  "load_contexts a ctx org c =
     map_option (\<lambda>cc. c\<lparr>ca_ContextCache := cc\<rparr>)
       (Option.bind (GetAllContext (ac_Contexts a ctx org) org (ca_ContextCache c)) (\<lambda>(ok, cc).
          if \<not> ok then Some cc
          else map_option snd
            (GetAllContextWithEnvVars (ac_ContextsWithEnvVars a ctx org) org (MarkOrganizationContextListLoaded org cc))))"

definition getAllEnvVariables ::
    "account \<Rightarrow> handlers \<Rightarrow> text_document_item \<Rightarrow> ls_context \<Rightarrow> cache \<Rightarrow> cache option" where
  "getAllEnvVariables a h textDocument ctx c =
     (let uri = td_URI textDocument; files = ca_FileCache c in
      Option.bind (FileCache_GetFile files uri) (\<lambda>cachedFile.
        if prj_Slug (cf_Project cachedFile) \<noteq> []
        then load_contexts a ctx (prj_OrganizationId (cf_Project cachedFile)) c
        else Option.bind (GetProjectSlug a (ob_Filename (hd_Files h) uri)) (\<lambda>projectSlug.
          case ac_Project a ctx projectSlug of
            None \<Rightarrow> Some c
          | Some project \<Rightarrow>
              Option.bind (AddProjectSlugToFile uri project files) (\<lambda>files.
              Option.bind (updateProjectEnvVariables a ctx (td_URI (cf_TextDocument cachedFile)) files) (\<lambda>files.
                load_contexts a ctx (prj_OrganizationId project) (c\<lparr>ca_FileCache := files\<rparr>))))))"

text \<open>\<open>notificationMethods\<close> begins with it, unless nobody is logged in or the file is an orb.\<close>

definition fetch_for_notification ::
    "account \<Rightarrow> handlers \<Rightarrow> text_document_item \<Rightarrow> ls_context \<Rightarrow> cache \<Rightarrow> cache option" where
  "fetch_for_notification a h textDocument ctx c =
     (if api_Token (ls_Api ctx) \<noteq> [] \<and> \<not> fst (isOrb h (ca_OrbCache c) (td_URI textDocument))
      then getAllEnvVariables a h textDocument ctx c else Some c)"

subsection \<open>resourceClass.go\<close>

definition getResourceClassOfOrg :: "account \<Rightarrow> handlers \<Rightarrow> string \<Rightarrow> ls_context \<Rightarrow> string list option" where
  "getResourceClassOfOrg a h uri ctx =
     map_option (\<lambda>projectSlug.
       let org = GetProjectOrg projectSlug in if org = [] then [] else ac_ResourceClasses a ctx org)
       (GetProjectSlug a (ob_Filename (hd_Files h) uri))"

definition SetResourceClassOfFile :: "account \<Rightarrow> handlers \<Rightarrow> string \<Rightarrow> ls_context \<Rightarrow> cache \<Rightarrow> cache option" where
  "SetResourceClassOfFile a h uri ctx c =
     map_option (\<lambda>resourceClasses.
       c\<lparr>ca_ResourceClassCache := SetResourceClassForFile uri resourceClasses (ca_ResourceClassCache c)\<rparr>)
       (getResourceClassOfOrg a h uri ctx)"

subsection \<open>executeCommand.go\<close>

text \<open>
  The diagnostics of all files are asked for: by the goroutines that a setting starts, and by
  \<open>updateAllCachedFiles\<close>, whose timer runs out later.
\<close>

definition updateAllCachedFiles :: "server \<Rightarrow> server" where
  "updateAllCachedFiles s = fold (\<lambda>(_, file). request (cf_TextDocument file)) (ca_FileCache (sr_Cache s)) s"

definition set_context :: "ls_context \<Rightarrow> server \<Rightarrow> server" where
  "set_context ctx s = s\<lparr>sr_Context := ctx\<rparr>"

definition set_api :: "api_context \<Rightarrow> server \<Rightarrow> server" where
  "set_api api s = set_context ((sr_Context s)\<lparr>ls_Api := api\<rparr>) s"

text \<open>
  The end of both settings. The orb files that \<open>ClearHostData\<close> removes from the disk are no part of the
  state.
\<close>

definition account_changed :: "account \<Rightarrow> bool \<Rightarrow> api_context \<Rightarrow> server \<Rightarrow> server option" where
  "account_changed a changed api s =
     (let s = (if changed then set_cache (fst (ClearHostData (sr_Cache s) [])) s else s);
          s = updateAllCachedFiles (set_api api s)
      in with_cache (\<lambda>ctx c. map_option (\<lambda>files. c\<lparr>ca_FileCache := files\<rparr>)
           (updateProjectsEnvVariables a ctx (ca_FileCache c))) s)"

definition setToken :: "account \<Rightarrow> string \<Rightarrow> server \<Rightarrow> server option" where
  "setToken a token s =
     (let api = ls_Api (sr_Context s) in account_changed a (api_Token api \<noteq> token) (api\<lparr>api_Token := token\<rparr>) s)"

definition setHostUrl :: "account \<Rightarrow> string \<Rightarrow> server \<Rightarrow> server option" where
  "setHostUrl a hostUrl s =
     (let api = ls_Api (sr_Context s) in
      account_changed a (api_HostUrl api \<noteq> hostUrl)
        (api\<lparr>api_HostUrl := if hostUrl \<noteq> [] then hostUrl else CIRCLE_CI_APP_HOST_URL\<rparr>) s)"

definition setUserId :: "string \<Rightarrow> server \<Rightarrow> server" where
  "setUserId userId s = set_context ((sr_Context s)\<lparr>ls_UserIdForTelemetry := userId\<rparr>) s"

text \<open>The decoded arguments of a command, of which only the strings and maps are told apart.\<close>

datatype argument = StringArgument string | MapArgument | OtherArgument

datatype reply = NoReply | WorkflowsReply "text_and_range list" | InvalidParams string

text \<open>The settings that take a string; the first argument is taken without a look at their number.\<close>

definition string_setting ::
    "argument list \<Rightarrow> string \<Rightarrow> (string \<Rightarrow> server \<Rightarrow> server option) \<Rightarrow> server \<Rightarrow> (reply \<times> server) option" where
  "string_setting arguments param f s =
     (case arguments of
        [] \<Rightarrow> None
      | StringArgument x # _ \<Rightarrow> map_option (\<lambda>s. (NoReply, s)) (f x s)
      | _ \<Rightarrow> Some (InvalidParams (''invalid method parameter: '' @ param), s))"

definition getWorkflows_command :: "handlers \<Rightarrow> argument list \<Rightarrow> server \<Rightarrow> (reply \<times> server) option" where
  "getWorkflows_command h arguments s =
     (let pl = hd_Pipeline h in
      case arguments of
        [] \<Rightarrow> None
      | StringArgument content # rest \<Rightarrow>
          (case rest of
             [] \<Rightarrow> None
           | StringArgument fileUri # _ \<Rightarrow>
               map_option (\<lambda>parsedFile. (WorkflowsReply (GetWorkflows parsedFile), s))
                 (ParseFromContent (pl_Fuel pl) (pl_Grammar pl) content (sr_Context s) (ob_File (hd_Files h) fileUri) zero_pos)
           | _ \<Rightarrow> Some (InvalidParams ''invalid method parameter: fileURI'', s))
      | _ \<Rightarrow> Some (InvalidParams ''invalid method parameter: fileContent'', s))"

text \<open>What the last command tells the error reporting is no part of the state.\<close>

definition ExecuteCommand ::
    "account \<Rightarrow> handlers \<Rightarrow> string \<Rightarrow> argument list \<Rightarrow> server \<Rightarrow> (reply \<times> server) option" where
  "ExecuteCommand a h command arguments s =
     (if command = ''setToken'' then string_setting arguments ''token'' (setToken a) s
      else if command = ''setSelfHostedUrl'' then string_setting arguments ''selfHostedURL'' (setHostUrl a) s
      else if command = ''setUserId'' then string_setting arguments ''userId'' (\<lambda>x s. Some (setUserId x s)) s
      else if command = ''getWorkflows'' then getWorkflows_command h arguments s
      else if command = ''setRollbarInformation''
      then (case arguments of
              [] \<Rightarrow> None
            | MapArgument # _ \<Rightarrow> Some (NoReply, s)
            | _ \<Rightarrow> Some (InvalidParams ''invalid method parameter: parameters'', s))
      else Some (NoReply, s))"

subsection \<open>initialize.go\<close>

text \<open>The options of the client: whether it is the extension, and its user agent.\<close>

record initialization_options =
  io_IsCciExtension :: bool
  io_UserAgent :: "string option"

definition Initialize ::
    "initialization_options option \<Rightarrow> ls_context \<Rightarrow> string \<Rightarrow> ls_context \<times> string" where
  "Initialize options ctx UserAgent =
     (case options of
        None \<Rightarrow> (ctx, UserAgent)
      | Some io \<Rightarrow>
          (if io_IsCciExtension io then ctx\<lparr>ls_IsCciExtension := True\<rparr> else ctx,
           case io_UserAgent io of None \<Rightarrow> UserAgent | Some agent \<Rightarrow> UserAgent @ '' '' @ agent))"

end
