(* ===== verification/Complete.thy ===== *)
theory Complete
  imports Pipeline
begin

text \<open>
  Completion: \<open>pkg/services/complete\<close>, \<open>complete.go\<close> of \<open>pkg/services\<close> and
  \<open>ModifyTextForAutocomplete\<close> of \<open>pkg/parser/yamlparser.go\<close>. An operation of the handler returns the
  items that it appends. The searches of Docker Hub (\<open>DockerHub\<close> models them) and the sibling of a node are functions of the
  record \<open>completion\<close>: \<open>None\<close> of the search of tags is an error. The completion of an orb has caches of its
  own. \<open>None\<close> of an action is a run-time panic.
\<close>

record item =
  it_Label :: string
  it_Detail :: string
  it_SortText :: string
  it_InsertText :: string
  it_TextEdit :: "(range \<times> string) option"
  it_Command :: "string option"

definition item :: "string \<Rightarrow> item" where
  "item label =
     \<lparr>it_Label = label, it_Detail = [], it_SortText = [], it_InsertText = [], it_TextEdit = None, it_Command = None\<rparr>"

type_synonym items = "item list"

subsection \<open>The cache of the orbs' names and versions\<close>

record orb_data =
  ogd_Name :: string
  ogd_Versions :: "string list"

text \<open>The maps of the registries and of the orbs.\<close>

record orb_names =
  on_RegistryOrbs :: "(string, orb_data list) gomap"
  on_OrbData :: "(string, orb_data) gomap"

record completion =
  cp_Position :: position
  cp_Fuel :: nat
  cp_Grammar :: grammar
  cp_Services :: schema_services
  cp_Env :: env
  cp_Context :: ls_context
  cp_PrevSibling :: "sitter \<Rightarrow> node \<Rightarrow> node option"
  cp_Search :: "string \<Rightarrow> (string \<times> string) list"
  cp_SearchTags :: "string \<Rightarrow> string \<Rightarrow> string \<Rightarrow> string list option"
  cp_OrbsByRegistry :: "ls_context \<Rightarrow> string \<Rightarrow> orb_data list option"
  cp_OrbVersions :: "ls_context \<Rightarrow> string \<Rightarrow> orb_data option option"

text \<open>The outer \<open>None\<close> of the query of versions is an error, the inner one the lack of the orb.\<close>

definition GetOrbsOfRegistry ::
    "completion \<Rightarrow> ls_context \<Rightarrow> string \<Rightarrow> orb_names \<Rightarrow> orb_data list option \<times> orb_names" where
  "GetOrbsOfRegistry cp ctx registry m =
     (case gm_get (on_RegistryOrbs m) registry of
        Some cached \<Rightarrow> (Some cached, m)
      | None \<Rightarrow>
          (case cp_OrbsByRegistry cp ctx registry of
             None \<Rightarrow> (None, m)
           | Some orbs \<Rightarrow>
               (Some orbs, m\<lparr>on_RegistryOrbs := gm_put registry orbs (on_RegistryOrbs m),
                             on_OrbData := fold (\<lambda>o'. gm_put (ogd_Name o') o') orbs (on_OrbData m)\<rparr>)))"

definition GetVersionsOfOrb ::
    "completion \<Rightarrow> ls_context \<Rightarrow> string \<Rightarrow> orb_names \<Rightarrow> orb_data option \<times> orb_names" where
  "GetVersionsOfOrb cp ctx orbName m =
     (case gm_get (on_OrbData m) orbName of
        Some cached \<Rightarrow> (Some cached, m)
      | None \<Rightarrow>
          (case cp_OrbVersions cp ctx orbName of
             Some (Some orb) \<Rightarrow> (Some orb, m\<lparr>on_OrbData := gm_put orbName orb (on_OrbData m)\<rparr>)
           | _ \<Rightarrow> (None, m)))"

text \<open>An orb without a version leaves an empty completion.\<close>

definition getOrbNameCompletions ::
    "completion \<Rightarrow> ls_context \<Rightarrow> string \<Rightarrow> orb_names \<Rightarrow> string list option \<times> orb_names" where
  "getOrbNameCompletions cp ctx name m =
     (let (orbs, m) = GetOrbsOfRegistry cp ctx (hd (split_on (CHR ''/'') name)) m
      in (map_option (map (\<lambda>o'. case ogd_Versions o' of [] \<Rightarrow> [] | v # _ \<Rightarrow> ogd_Name o' @ ''@'' @ v)) orbs, m))"

definition getOrbVersionCompletions ::
    "completion \<Rightarrow> ls_context \<Rightarrow> string \<Rightarrow> orb_names \<Rightarrow> string list option \<times> orb_names" where
  "getOrbVersionCompletions cp ctx name m =
     (let orbName = (if has_suffix ''@'' name then butlast name else name);
          (orb, m) = GetVersionsOfOrb cp ctx orbName m
      in (map_option ogd_Versions orb, m))"

subsection \<open>complete.go: the items\<close>

text \<open>The handler: the document is one of the modified ones.\<close>

record handler =
  ch_Completion :: completion
  ch_Doc :: yaml_document
  ch_DocTag :: string
  ch_DocDiff :: string

definition ch_at :: "handler \<Rightarrow> range \<Rightarrow> bool" where
  "ch_at ch r = PosInRange r (cp_Position (ch_Completion ch))"

definition addCompletionItemWithDetail :: "string \<Rightarrow> string \<Rightarrow> string \<Rightarrow> item" where
  "addCompletionItemWithDetail label detail sortText = (item label)\<lparr>it_Detail := detail, it_SortText := sortText\<rparr>"

definition node_range :: "sitter \<Rightarrow> node \<Rightarrow> range" where
  "node_range t n =
     mk_range (mk_pos (pt_Row (st_StartPoint t n)) (pt_Column (st_StartPoint t n)))
              (mk_pos (pt_Row (st_EndPoint t n)) (pt_Column (st_EndPoint t n)))"

definition addReplaceTextCompletionItem :: "sitter \<Rightarrow> node \<Rightarrow> string \<Rightarrow> item" where
  "addReplaceTextCompletionItem t n newText = (item newText)\<lparr>it_TextEdit := Some (node_range t n, newText)\<rparr>"

definition addCompletionItemFieldWithCustomText ::
    "string \<Rightarrow> string \<Rightarrow> string \<Rightarrow> string \<Rightarrow> string \<Rightarrow> item" where
  "addCompletionItemFieldWithCustomText label beforeText afterText detail sortText =
     (item label)\<lparr>it_InsertText := beforeText @ label @ afterText, it_Detail := detail, it_SortText := sortText\<rparr>"

definition addCompletionItemField :: "string \<Rightarrow> item" where
  "addCompletionItemField label = addCompletionItemFieldWithCustomText label [] '': '' [] []"

definition addCompletionItemFieldWithNewLine :: "string \<Rightarrow> item" where
  "addCompletionItemFieldWithNewLine label =
     addCompletionItemFieldWithCustomText label [] ('': '' @ [CHR 0x0A, CHR 0x09]) [] []"

text \<open>The items of a loop, and of operations one after the other.\<close>

fun vconcat :: "('x \<Rightarrow> 'a list action) \<Rightarrow> 'x list \<Rightarrow> 'a list action" where
  "vconcat f [] = vret []"
| "vconcat f (x # xs) = vbind (f x) (\<lambda>a. vbind (vconcat f xs) (\<lambda>b. vret (a @ b)))"

definition vthen :: "'a list action \<Rightarrow> 'a list action \<Rightarrow> 'a list action" where
  "vthen m n = vbind m (\<lambda>a. vbind n (\<lambda>b. vret (a @ b)))"

definition CH_GetOrbInfo :: "handler \<Rightarrow> orb \<Rightarrow> orb_info option action" where
  "CH_GetOrbInfo ch orb =
     vbind (GetOrFetchOrbInfo (cp_Env (ch_Completion ch)) (ch_Doc ch) orb) (\<lambda>(info, _). vret info)"

text \<open>The names of what all the orbs define, behind the orb's name.\<close>

definition orb_entities :: "handler \<Rightarrow> (orb_parsed_attributes \<Rightarrow> string list) \<Rightarrow> string list action" where
  "orb_entities ch field =
     vconcat (\<lambda>(_, orb). vbind (CH_GetOrbInfo ch orb) (\<lambda>info.
       vret (case info of
               None \<Rightarrow> []
             | Some info \<Rightarrow> map (\<lambda>n. orb_Name orb @ ''/'' @ n) (field (oi_Attributes info)))))
       (yd_Orbs (ch_Doc ch))"

subsection \<open>jobs.go, job\_invocation.go, job\_groups.go, commands.go: names\<close>

definition orbsJobs :: "handler \<Rightarrow> items action" where
  "orbsJobs ch = vbind (orb_entities ch (map fst \<circ> oa_Jobs)) (\<lambda>ns. vret (map item ns))"

definition orbCommands :: "handler \<Rightarrow> node option \<Rightarrow> items action" where
  "orbCommands ch nodeToComplete =
     vbind (orb_entities ch (map fst \<circ> oa_Commands)) (\<lambda>ns.
       vret (map (\<lambda>n. case nodeToComplete of
                        None \<Rightarrow> item n | Some node \<Rightarrow> addReplaceTextCompletionItem (yd_Tree (ch_Doc ch)) node n) ns))"

definition userDefinedJobs :: "handler \<Rightarrow> items" where
  "userDefinedJobs ch = map (\<lambda>(_, j). item (job_Name j)) (yd_Jobs (ch_Doc ch))"

definition addJobsCompletion :: "handler \<Rightarrow> items" where
  "addJobsCompletion ch = map (\<lambda>(_, j). item (job_Name j)) (yd_Jobs (ch_Doc ch))"

definition addJobsAndOrbsCompletion :: "handler \<Rightarrow> items action" where
  "addJobsAndOrbsCompletion ch = vthen (vret (addJobsCompletion ch)) (orbsJobs ch)"

definition addJobGroupsCompletion :: "handler \<Rightarrow> items" where
  "addJobGroupsCompletion ch = map (\<lambda>(_, g). item (jg_Name g)) (yd_JobGroups (ch_Doc ch))"

definition userDefinedCommands :: "handler \<Rightarrow> items" where
  "userDefinedCommands ch = map (\<lambda>(_, c). item (cmd_Name c)) (yd_Commands (ch_Doc ch))"

definition addJobTypeCompletion :: items where
  "addJobTypeCompletion = map item JobTypes"

definition findJobInvocation :: "handler \<Rightarrow> job_invocation list \<Rightarrow> job_invocation option" where
  "findJobInvocation ch invocations = find (\<lambda>ji. ch_at ch (ji_JobNameRange ji)) invocations"

definition isJobInvocation :: "handler \<Rightarrow> job_invocation list \<Rightarrow> bool" where
  "isJobInvocation ch invocations = (findJobInvocation ch invocations \<noteq> None)"

definition isInRequires :: "handler \<Rightarrow> job_invocation list \<Rightarrow> bool" where
  "isInRequires ch jobInvocations = list_ex (\<lambda>ji. list_ex (\<lambda>r. ch_at ch (rq_Range r)) (ji_Requires ji)) jobInvocations"

definition addExistingJobInvocations :: "job_invocation list \<Rightarrow> items" where
  "addExistingJobInvocations jobInvocations = map (\<lambda>ji. item (ji_StepName ji)) jobInvocations"

text \<open>
  The information about an orb is dereferenced; the local orbs, whose executors are among those of the
  document, are among the orbs too.
\<close>

definition getOrbExecutors :: "handler \<Rightarrow> orb \<Rightarrow> executor list action" where
  "getOrbExecutors ch orb =
     vbind (CH_GetOrbInfo ch orb) (\<lambda>info. vbind (vlift info) (\<lambda>info.
       vret (map snd (oa_Executors (oi_Attributes info)))))"

definition addExecutorsCompletion :: "handler \<Rightarrow> items action" where
  "addExecutorsCompletion ch =
     vthen (vret (map (\<lambda>(_, e). item (executor_GetName e)) (yd_Executors (ch_Doc ch))))
       (vconcat (\<lambda>(_, orb). vbind (getOrbExecutors ch orb) (\<lambda>es.
          vret (map (\<lambda>e. item (orb_Name orb @ ''/'' @ executor_GetName e)) es))) (yd_Orbs (ch_Doc ch)))"

subsection \<open>workflow.go, job\_groups.go\<close>

text \<open>
  The parser sets the jobs of a workflow together with their range, so that the jobs are nil exactly
  when the range is the zero value.
\<close>

definition findWorkflow :: "handler \<Rightarrow> workflow option" where
  "findWorkflow ch = map_option snd (find (\<lambda>(_, x). ch_at ch (wfl_Range x)) (yd_Workflows (ch_Doc ch)))"

definition completeWorkflows :: "handler \<Rightarrow> items action" where
  "completeWorkflows ch =
     (case findWorkflow ch of
        None \<Rightarrow> vret []
      | Some w \<Rightarrow>
          vthen (vret (if wfl_JobsRange w = zero_range then [addCompletionItemFieldWithNewLine ''jobs''] else []))
            (if isJobInvocation ch (wfl_JobInvocations w)
             then vthen (addJobsAndOrbsCompletion ch) (vret (addJobGroupsCompletion ch))
             else if isInRequires ch (wfl_JobInvocations w)
             then vret (addExistingJobInvocations (wfl_JobInvocations w))
             else vret (if wfl_HasTrigger w then [] else [addCompletionItemFieldWithNewLine ''trigger''])))"

definition findJobGroup :: "handler \<Rightarrow> job_group option" where
  "findJobGroup ch = map_option snd (find (\<lambda>(_, x). ch_at ch (jg_Range x)) (yd_JobGroups (ch_Doc ch)))"

definition completeJobGroups :: "handler \<Rightarrow> items action" where
  "completeJobGroups ch =
     (case findJobGroup ch of
        None \<Rightarrow> vret []
      | Some g \<Rightarrow>
          vthen (vret (if jg_JobsRange g = zero_range then [addCompletionItemFieldWithNewLine ''jobs''] else []))
            (if isJobInvocation ch (jg_JobInvocations g) then addJobsAndOrbsCompletion ch
             else if isInRequires ch (jg_JobInvocations g)
             then vret (addExistingJobInvocations (jg_JobInvocations g))
             else vret []))"

subsection \<open>parameters.go\<close>

definition starts_at_zero :: "range \<Rightarrow> bool" where
  "starts_at_zero r = (Line (Start r) = 0 \<and> Character (Start r) = 0)"

definition enum_values :: "parameter \<Rightarrow> string list" where
  "enum_values p = (case p of EnumParameter b d values \<Rightarrow> values | _ \<Rightarrow> [])"

text \<open>The loop over the parameters, most of whose branches return from it.\<close>

fun addParametersDefinitionCompletion :: "handler \<Rightarrow> params \<Rightarrow> items action" where
  "addParametersDefinitionCompletion ch [] = vret []"
| "addParametersDefinitionCompletion ch ((k, p) # ps) =
     (let atDefault = ch_at ch (param_GetDefaultRange p) in
      if \<not> ch_at ch (param_GetRange p) then addParametersDefinitionCompletion ch ps
      else if ch_at ch (param_GetTypeRange p)
      then vret (map item [''string'', ''boolean'', ''integer'', ''enum'', ''executor'', ''steps'', ''env_var_name''])
      else if param_GetType p = ''enum'' \<and> atDefault then vret (map item (enum_values p))
      else if param_GetType p = ''boolean'' \<and> atDefault then vret (map item [''true'', ''false''])
      else if param_GetType p = ''executor'' \<and> atDefault then addExecutorsCompletion ch
      else vthen
        (vret (if starts_at_zero (param_GetTypeRange p) then [addCompletionItemField ''type'']
               else (if starts_at_zero (param_GetDefaultRange p) then [addCompletionItemField ''default''] else []) @
                    (if param_GetDescription p = [] then [addCompletionItemField ''description''] else [])))
        (addParametersDefinitionCompletion ch ps))"

definition shouldAddParamsClosingBrackets :: "handler \<Rightarrow> bool" where
  "shouldAddParamsClosingBrackets ch =
     (let content = yd_Content (ch_Doc ch);
          rest = drop (PosToIndex (cp_Position (ch_Completion ch)) content) content
      in \<not> (has_prefix '' >>'' rest \<or> has_prefix ''>>'' rest))"

definition param_items :: "handler \<Rightarrow> params \<Rightarrow> items" where
  "param_items ch ps =
     map (\<lambda>(_, p). if shouldAddParamsClosingBrackets ch
                   then addCompletionItemFieldWithCustomText (param_GetName p) [] '' >>'' [] []
                   else item (param_GetName p)) ps"

definition addPipelineParametersReferenceCompletion :: "handler \<Rightarrow> items action" where
  "addPipelineParametersReferenceCompletion ch = vret (param_items ch (yd_PipelineParameters (ch_Doc ch)))"

definition addParametersReferenceCompletion :: "handler \<Rightarrow> items action" where
  "addParametersReferenceCompletion ch =
     vbind (vlift (GetParamsWithPosition (ch_Doc ch) (cp_Position (ch_Completion ch)))) (\<lambda>ps.
       vret (param_items ch ps))"

definition addParameterReferenceCompletion :: "handler \<Rightarrow> node \<Rightarrow> items action" where
  "addParameterReferenceCompletion ch node =
     (let doc = ch_Doc ch;
          (isParamBeingWritten, isPipelineParam) =
            CheckIfParamIsPartiallyReferenced (GetNodeText doc (Some node))
      in if st_Type (yd_Tree doc) node \<noteq> ''string_scalar'' \<or> \<not> isParamBeingWritten then vret []
         else if isPipelineParam then addPipelineParametersReferenceCompletion ch
         else addParametersReferenceCompletion ch)"

subsection \<open>steps.go\<close>

definition BUILT_IN_STEPS :: "string list" where
  "BUILT_IN_STEPS =
     [''run'', ''checkout'', ''setup_remote_docker'', ''save_cache'', ''restore_cache'', ''store_artifacts'',
      ''store_test_results'', ''persist_to_workspace'', ''attach_workspace'', ''add_ssh_keys'', ''unless'', ''when'']"

definition BUILT_IN_ENV :: "string list" where
  "BUILT_IN_ENV =
     [''CI'', ''CIRCLECI'', ''CIRCLE_BRANCH'', ''CIRCLE_BUILD_NUM'', ''CIRCLE_BUILD_URL'', ''CIRCLE_JOB'',
      ''CIRCLE_NODE_INDEX'', ''CIRCLE_NODE_TOTAL'', ''CIRCLE_OIDC_TOKEN'', ''CIRCLE_PR_NUMBER'',
      ''CIRCLE_PR_REPONAME'', ''CIRCLE_PR_USERNAME'', ''CIRCLE_PREVIOUS_BUILD_NUM'', ''CIRCLE_PROJECT_REPONAME'',
      ''CIRCLE_PROJECT_USERNAME'', ''CIRCLE_PULL_REQUEST'', ''CIRCLE_PULL_REQUESTS'', ''CIRCLE_REPOSITORY_URL'',
      ''CIRCLE_SHA1'', ''CIRCLE_TAG'', ''CIRCLE_USERNAME'', ''CIRCLE_WORKFLOW_ID'', ''CIRCLE_WORKFLOW_JOB_ID'',
      ''CIRCLE_WORKFLOW_WORKSPACE_ID'', ''CIRCLE_WORKING_DIRECTORY'']"

definition is_env_variable_parameter :: "parameter \<Rightarrow> bool" where
  "is_env_variable_parameter p = (case p of EnvVariableParameter b d \<Rightarrow> True | _ \<Rightarrow> False)"

definition addCompleteEnvVariables ::
    "handler \<Rightarrow> string list \<Rightarrow> params \<Rightarrow> (string, string) gomap \<Rightarrow> items action" where
  "addCompleteEnvVariables ch contexts parameters environmentField =
     vget (\<lambda>c.
       map (\<lambda>(_, p). addCompletionItemFieldWithCustomText (param_GetName p) ''<< parameters.'' '' >>''
                       (''From parameter '' @ param_GetName p) ''A'')
         (filter (\<lambda>(_, p). is_env_variable_parameter p) parameters) @
       map (\<lambda>(env, _). addCompletionItemWithDetail env ''From environment defined in the job'' ''A'') environmentField @
       (case FileCache_GetFile (ca_FileCache c) (yd_URI (ch_Doc ch)) of
          None \<Rightarrow> []
        | Some cachedFile \<Rightarrow>
            map (\<lambda>env. addCompletionItemWithDetail env (''From project '' @ prj_Name (cf_Project cachedFile)) ''B'')
              (cf_EnvVariables cachedFile) @
            map (\<lambda>(v, ctx). addCompletionItemWithDetail v (''From context '' @ ctx) ''B'')
              (GetAllContextEnvVariables (ca_ContextCache c) (prj_OrganizationId (cf_Project cachedFile)) contexts)) @
       map (\<lambda>env. addCompletionItemWithDetail env ''Built-in environment variable'' ''C'') BUILT_IN_ENV)"

text \<open>
  The steps, contexts, parameters and environment of the job or command; a name that is missing has nil
  contexts, which are dereferenced.
\<close>

definition entity_parts ::
    "handler \<Rightarrow> string \<Rightarrow> bool \<Rightarrow> (step list \<times> string list \<times> params \<times> (string, string) gomap) option" where
  "entity_parts ch entityName inJob =
     (if inJob
      then map_option (\<lambda>j. (job_steps j, job_Contexts j, job_Parameters j, job_Environment j))
             (gm_get (yd_Jobs (ch_Doc ch)) entityName)
      else map_option (\<lambda>c. (cmd_Steps c, cmd_Contexts c, cmd_Parameters c, []))
             (gm_get (yd_Commands (ch_Doc ch)) entityName))"

definition writing_env_variable :: "handler \<Rightarrow> step \<Rightarrow> bool" where
  "writing_env_variable ch st =
     (case st of
        Run r \<Rightarrow> ch_at ch (run_CommandRange r) \<and>
          (let content = yd_Content (ch_Doc ch); idx = PosToIndex (cp_Position (ch_Completion ch)) content
           in 0 < idx \<and> content ! (idx - 1) = CHR ''$'')
      | _ \<Rightarrow> False)"

definition isWritingAnEnvVariableInRunStep :: "handler \<Rightarrow> string \<Rightarrow> bool \<Rightarrow> items option action" where
  "isWritingAnEnvVariableInRunStep ch entityName inJob =
     vbind (vlift (entity_parts ch entityName inJob)) (\<lambda>(steps, contexts, parameters, environmentField).
       if list_ex (writing_env_variable ch) steps
       then vbind (addCompleteEnvVariables ch contexts parameters environmentField) (\<lambda>xs. vret (Some xs))
       else vret None)"

definition isWritingCheckoutMethod :: "handler \<Rightarrow> string \<Rightarrow> bool \<Rightarrow> bool" where
  "isWritingCheckoutMethod ch entityName inJob =
     (let steps = (case entity_parts ch entityName inJob of None \<Rightarrow> [] | Some (steps, _) \<Rightarrow> steps) in
      list_ex (\<lambda>st. case st of Checkout c \<Rightarrow> ch_at ch (co_MethodRange c) | _ \<Rightarrow> False) steps)"

definition addCheckoutMethodCompletion :: items where
  "addCheckoutMethodCompletion = map item CheckoutMethods"

definition completeSteps :: "handler \<Rightarrow> string \<Rightarrow> bool \<Rightarrow> bool \<Rightarrow> node option \<Rightarrow> items action" where
  "completeSteps ch entityName inJob includeJobSteps completionNode =
     vbind (isWritingAnEnvVariableInRunStep ch entityName inJob) (\<lambda>written.
       case written of
         Some xs \<Rightarrow> vret xs
       | None \<Rightarrow>
           if isWritingCheckoutMethod ch entityName inJob then vret addCheckoutMethodCompletion
           else vthen (vret (userDefinedCommands ch))
             (vthen (if includeJobSteps then vthen (vret (userDefinedJobs ch)) (orbsJobs ch) else vret [])
               (vthen (vret (map item BUILT_IN_STEPS)) (orbCommands ch completionNode))))"

text \<open>The deepest node at the position; at a colon, the node before it.\<close>

definition node_to_complete :: "handler \<Rightarrow> node option option" where
  "node_to_complete ch =
     (let doc = ch_Doc ch; cp = ch_Completion ch in
      map_option (\<lambda>n. if st_Type (yd_Tree doc) n = '':'' then cp_PrevSibling cp (yd_Tree doc) n else Some n)
        (fst (NodeAtPos (cp_Services cp) (yd_Tree doc) (yd_RootNode doc) (cp_Position cp))))"

subsection \<open>commands.go\<close>

definition findCommand :: "handler \<Rightarrow> command option" where
  "findCommand ch = map_option snd (find (\<lambda>(_, x). ch_at ch (cmd_Range x)) (yd_Commands (ch_Doc ch)))"

definition completeCommands :: "handler \<Rightarrow> items action" where
  "completeCommands ch =
     (case findCommand ch of
        None \<Rightarrow> vret []
      | Some c \<Rightarrow>
          if ch_at ch (cmd_ParametersRange c) then addParametersDefinitionCompletion ch (cmd_Parameters c)
          else if ch_at ch (cmd_StepsRange c)
          then vbind (vlift (node_to_complete ch)) (completeSteps ch (cmd_Name c) False True)
          else vret ((if cmd_Description c = [] then [addCompletionItemField ''description''] else []) @
                     (if cmd_Steps c = [] then [addCompletionItemField ''steps''] else [])))"

subsection \<open>executors.go\<close>

text \<open>
  The text of the image up to the cursor: the text without what was inserted, cut at the cursor by the
  length of the whole text. A slice whose end lies outside is a panic.
\<close>

definition image_text :: "handler \<Rightarrow> docker_image \<Rightarrow> string option" where
  "image_text ch img =
     (let full = di_FullPath (img_Image img);
          diff = Character (End (img_ImageRange img)) - Character (cp_Position (ch_Completion ch));
          upTo = int (length full) - int (unat diff)
      in if length full < length (ch_DocDiff ch) then None
         else
           let text = take (length full - length (ch_DocDiff ch)) full
           in if upTo < 0 \<or> int (length text) < upTo then None else Some (take (nat upTo) text))"

definition docker_item :: "handler \<Rightarrow> node option \<Rightarrow> string \<Rightarrow> string \<Rightarrow> string \<Rightarrow> bool \<Rightarrow> items option" where
  "docker_item ch n namespace name tag retrigger =
     (let doc = ch_Doc ch; t = yd_Tree doc in
      case n of
        None \<Rightarrow> Some []
      | Some n \<Rightarrow>
          (case st_Parent t n of
             None \<Rightarrow> None
           | Some parent \<Rightarrow>
               let n = (if st_Type t parent = ''double_quote_scalar'' then parent else n);
                   ogText = GetNodeText doc (Some n);
                   cut = (if ch_DocTag ch = ''edit-value'' then length (ch_DocDiff ch) else 0);
                   image = (if namespace \<noteq> ''library'' then namespace @ ''/'' @ name else name);
                   fullImageName = (if tag \<noteq> [] then image @ '':'' @ tag else image);
                   p = st_StartPoint t n
               in if length ogText < cut then None
                  else Some [(item fullImageName)
                    \<lparr>it_TextEdit := Some (mk_range (mk_pos (pt_Row p) (pt_Column p))
                       (mk_pos (pt_Row (st_EndPoint t n)) (pt_Column p + word_of_nat (length ogText - cut))),
                       fullImageName),
                     it_Command := (if retrigger then Some ''circleci-language-server.selectTagAndComplete'' else None)\<rparr>]))"

definition addDockerImageCompletion ::
    "handler \<Rightarrow> node option \<Rightarrow> string \<Rightarrow> string \<Rightarrow> string \<Rightarrow> bool \<Rightarrow> items action" where
  "addDockerImageCompletion ch n namespace name tag retrigger = vlift (docker_item ch n namespace name tag retrigger)"

definition complete_image :: "handler \<Rightarrow> docker_image \<Rightarrow> items action" where
  "complete_image ch img =
     (let doc = ch_Doc ch; cp = ch_Completion ch;
          n = fst (NodeAtPos (cp_Services cp) (yd_Tree doc) (yd_RootNode doc) (cp_Position cp));
          repositories = (\<lambda>text. vconcat (\<lambda>(namespace, name). addDockerImageCompletion ch n namespace name ''latest'' True)
                                   (take 5 (cp_Search cp text)));
          namespace = di_Namespace (img_Image img); name = di_Name (img_Image img)
      in vbind (vlift (image_text ch img)) (\<lambda>text.
        let tag = di_Tag (ParseDockerImageValue text) in
        if tag = [] \<and> text = [] then vpanic
        else if tag = [] \<and> last text \<noteq> CHR '':'' then repositories text
        else (case cp_SearchTags cp namespace name tag of
                None \<Rightarrow> vret []
              | Some tags \<Rightarrow> vconcat (\<lambda>tag. addDockerImageCompletion ch n namespace name tag False) (take 10 tags))))"

definition resource_classes :: "handler \<Rightarrow> (offerings option \<Rightarrow> string list option) \<Rightarrow> string list action" where
  "resource_classes ch f =
     (let cp = ch_Completion ch in
      vcache (\<lambda>c.
        let (o', m) = machineOfferings (en_Offerings (cp_Env cp)) (cp_Context cp) (ca_MachineOfferingsCache c)
        in (case f o' of None \<Rightarrow> [] | Some xs \<Rightarrow> xs, c\<lparr>ca_MachineOfferingsCache := m\<rparr>)))"

definition addResourceClassCompletion :: "string list \<Rightarrow> items" where
  "addResourceClassCompletion resourceClasses = map item resourceClasses"

definition checkAndAddResourceClassFieldCompletion :: "executor \<Rightarrow> items" where
  "checkAndAddResourceClassFieldCompletion executor =
     (if executor_GetResourceClass executor = [] then [addCompletionItemField ''resource_class''] else [])"

definition completeDockerExecutor :: "handler \<Rightarrow> docker_executor \<Rightarrow> items action" where
  "completeDockerExecutor ch executor =
     (if ch_at ch (be_ResourceClassRange (de_Base executor))
      then vbind (resource_classes ch DockerResourceClasses) (\<lambda>cs. vret (addResourceClassCompletion cs))
      else (case find (\<lambda>img. ch_at ch (img_ImageRange img)) (de_Image executor) of
              None \<Rightarrow> vret [] | Some img \<Rightarrow> complete_image ch img))"

definition completeMachineExecutor :: "handler \<Rightarrow> machine_executor \<Rightarrow> items action" where
  "completeMachineExecutor ch executor =
     (let cp = ch_Completion ch; imageRange = me_ImageRange executor;
          extendedRange = imageRange\<lparr>End := (End imageRange)\<lparr>Character := Character (End imageRange) + 999\<rparr>\<rparr>
      in if ch_at ch (be_ResourceClassRange (me_Base executor))
         then vbind (resource_classes ch MachineResourceClasses) (\<lambda>cs.
           vget (\<lambda>c. map item cs @
             (if IsLoggedIn (ls_Api (cp_Context cp))
              then map item (GetResourceClassOfFile (ca_ResourceClassCache c) (yd_URI (ch_Doc ch))) else [])))
         else vbind (resource_classes ch MachineImages) (\<lambda>images.
           vret (if ch_at ch imageRange \<or> me_Image executor = [] \<and> ch_at ch extendedRange then map item images
                 else checkAndAddResourceClassFieldCompletion (ExMachine executor))))"

definition completeMacOSExecutor :: "handler \<Rightarrow> macos_executor \<Rightarrow> items action" where
  "completeMacOSExecutor ch executor =
     (if ch_at ch (be_ResourceClassRange (mac_Base executor))
      then vbind (resource_classes ch MacOSResourceClasses) (\<lambda>cs. vret (addResourceClassCompletion cs))
      else vret (checkAndAddResourceClassFieldCompletion (ExMacOS executor)))"

definition findExecutor :: "handler \<Rightarrow> executor option" where
  "findExecutor ch = map_option snd (find (\<lambda>(_, x). ch_at ch (executor_GetRange x)) (yd_Executors (ch_Doc ch)))"

definition completeExecutors :: "handler \<Rightarrow> items action" where
  "completeExecutors ch =
     (case findExecutor ch of
        None \<Rightarrow> vret []
      | Some executor \<Rightarrow>
          if executor_IsUncomplete executor
          then vret (map addCompletionItemField [''docker'', ''macos'', ''machine''])
          else (case executor of
                  ExBase _ \<Rightarrow> vret []
                | ExDocker e \<Rightarrow> completeDockerExecutor ch e
                | ExMachine e \<Rightarrow> completeMachineExecutor ch e
                | ExMacOS e \<Rightarrow> completeMacOSExecutor ch e))"

subsection \<open>jobs.go\<close>

definition findJob :: "handler \<Rightarrow> job option" where
  "findJob ch = map_option snd (find (\<lambda>(_, x). ch_at ch (job_Range x)) (yd_Jobs (ch_Doc ch)))"

definition completeJobs :: "handler \<Rightarrow> items action" where
  "completeJobs ch =
     (case findJob ch of
        None \<Rightarrow> vret []
      | Some j \<Rightarrow>
          if ch_at ch (job_ExecutorRange j) then addExecutorsCompletion ch
          else if ch_at ch (job_ParametersRange j) then addParametersDefinitionCompletion ch (job_Parameters j)
          else if ch_at ch (job_StepsRange j)
          then vbind (vlift (node_to_complete ch)) (completeSteps ch (job_Name j) True True)
          else if ch_at ch (job_DockerRange j) then completeDockerExecutor ch (job_Docker j)
          else if ch_at ch (job_TypeRange j) then vret addJobTypeCompletion
          else vret (map (\<lambda>ci. (item (ci_Label ci))\<lparr>it_InsertText := ci_InsertText ci\<rparr>) (job_CompletionItem j)))"

subsection \<open>orbs.go, anchors.go\<close>

type_synonym named_items = "(items \<times> orb_names) action"

text \<open>\<open>%c\<close>: the bytes of a code point; a surrogate and what is no code point become \<open>U+FFFD\<close>.\<close>

definition utf8_char :: "nat \<Rightarrow> string" where
  "utf8_char i =
     (let low = (\<lambda>k. char_of (128 + (i div 64 ^ k) mod 64)) in
      if i < 128 then [char_of i]
      else if i < 2048 then [char_of (192 + i div 64), low 0]
      else if 55296 \<le> i \<and> i < 57344 \<or> 1114112 \<le> i then [CHR 0xEF, CHR 0xBF, CHR 0xBD]
      else if i < 65536 then [char_of (224 + i div 4096), low 1, low 0]
      else [char_of (240 + i div 262144), low 2, low 1, low 0])"

definition version_items :: "range \<Rightarrow> string list \<Rightarrow> items" where
  "version_items rng completions =
     map (\<lambda>(i, v). (item v)\<lparr>it_SortText := utf8_char i, it_TextEdit := Some (rng, v)\<rparr>) (enumerate 0 completions)"

definition wantOrbVersionCompletion :: "handler \<Rightarrow> orb_url_definition \<Rightarrow> bool" where
  "wantOrbVersionCompletion ch d =
     (let version = tr_Range (od_Version d) in \<not> IsDefaultRange version \<and> ch_at ch version)"

definition completeOrbVersion :: "handler \<Rightarrow> orb_url_definition \<Rightarrow> orb_names \<Rightarrow> items \<times> orb_names" where
  "completeOrbVersion ch d m =
     (let (completions, m) = getOrbVersionCompletions (ch_Completion ch) (yd_Context (ch_Doc ch))
            (tr_Text (od_Namespace d) @ ''/'' @ tr_Text (od_Name d)) m
      in (case completions of None \<Rightarrow> [] | Some cs \<Rightarrow> version_items (tr_Range (od_Version d)) cs, m))"

definition completeOrbName :: "handler \<Rightarrow> node \<Rightarrow> orb_names \<Rightarrow> items \<times> orb_names" where
  "completeOrbName ch n m =
     (let doc = ch_Doc ch;
          (completions, m) = getOrbNameCompletions (ch_Completion ch) (yd_Context doc) (GetNodeText doc (Some n)) m
      in (case completions of
            None \<Rightarrow> [] | Some cs \<Rightarrow> map (addReplaceTextCompletionItem (yd_Tree doc) n) cs, m))"

text \<open>The definition of the URL is computed for the test and for the version.\<close>

definition completeOrb :: "handler \<Rightarrow> node \<Rightarrow> orb_names \<Rightarrow> named_items" where
  "completeOrb ch n m =
     vbind (vlift (GetOrbURLDefinition (ch_Doc ch) (Some n))) (\<lambda>d.
       vret (if wantOrbVersionCompletion ch d then completeOrbVersion ch d m else completeOrbName ch n m))"

text \<open>The first orb around whose value the position is, and whose value has a child.\<close>

definition orb_value_child :: "handler \<Rightarrow> orb \<Rightarrow> node option" where
  "orb_value_child ch orb =
     (let t = yd_Tree (ch_Doc ch) in
      case orb_ValueNode orb of
        None \<Rightarrow> None
      | Some n \<Rightarrow> if \<not> ch_at ch (orb_ValueRange orb) \<or> st_Type t n \<noteq> ''flow_node'' then None
                  else GetFirstChild t (Some n))"

definition completeOrbs :: "handler \<Rightarrow> orb_names \<Rightarrow> named_items" where
  "completeOrbs ch m =
     (if ch_DocTag ch \<noteq> ''original'' then vret ([], m)
      else (case List.map_filter (\<lambda>(_, orb). orb_value_child ch orb) (yd_Orbs (ch_Doc ch)) of
              [] \<Rightarrow> vret ([], m) | child # _ \<Rightarrow> completeOrb ch child m))"

definition completeAnchors :: "handler \<Rightarrow> items" where
  "completeAnchors ch = map (\<lambda>(name, _). item name) (yd_YamlAnchors (ch_Doc ch))"

subsection \<open>yamlparser.go: the modified documents\<close>

record modified_document =
  md_Document :: yaml_document
  md_Tag :: string
  md_Diff :: string

definition original :: "yaml_document \<Rightarrow> modified_document" where
  "original doc = \<lparr>md_Document = doc, md_Tag = ''original'', md_Diff = []\<rparr>"

text \<open>A text inserted at the position, kept when the new document has no diagnostics.\<close>

definition inserted :: "completion \<Rightarrow> yaml_document \<Rightarrow> string \<Rightarrow> string \<Rightarrow> modified_document list option" where
  "inserted cp doc tag diff =
     map_option (\<lambda>d. if yd_Diagnostics d = [] then [\<lparr>md_Document = d, md_Tag = tag, md_Diff = diff\<rparr>] else [])
       (InsertText (cp_Fuel cp) (cp_Grammar cp) doc (cp_Position cp) diff)"

text \<open>
  The parent of the node at the position is dereferenced, and so is the first character of its text,
  when the first insertion gave a document without diagnostics.
\<close>

definition ModifyTextForAutocomplete :: "completion \<Rightarrow> yaml_document \<Rightarrow> modified_document list option" where
  "ModifyTextForAutocomplete cp doc =
     (let t = yd_Tree doc in
      case fst (NodeAtPos (cp_Services cp) t (yd_RootNode doc) (cp_Position cp)) of
        None \<Rightarrow> Some [original doc]
      | Some n \<Rightarrow>
          (case st_Parent t n of
             None \<Rightarrow> None
           | Some parent \<Rightarrow>
               if st_Type t parent = ''double_quote_scalar'' then Some [original doc]
               else
                 let text = trim_space (GetNodeText doc (Some n)) in
                 (case (inserted cp doc ''edit-item'' ''- a: 1'', inserted cp doc ''edit-key'' ''a: 1'',
                        inserted cp doc ''edit-value'' ''a'') of
                    (Some i, Some k, Some v) \<Rightarrow>
                      if i \<noteq> [] \<and> text = [] then None
                      else Some ((if i \<noteq> [] \<and> hd text = CHR ''-'' then [] else i) @ k @ v @ [original doc])
                  | _ \<Rightarrow> None)))"

subsection \<open>complete.go\<close>

definition complete_document :: "handler \<Rightarrow> orb_names \<Rightarrow> named_items" where
  "complete_document ch m =
     (let doc = ch_Doc ch; only = (\<lambda>a. vbind a (\<lambda>xs. vret (xs, m))) in
      if IsYamlAliasPosition doc (cp_Position (ch_Completion ch)) then vret (completeAnchors ch, m)
      else if ch_at ch (yd_WorkflowRange doc) then only (completeWorkflows ch)
      else if ch_at ch (yd_JobsRange doc) then only (completeJobs ch)
      else if ch_at ch (yd_JobGroupsRange doc) then only (completeJobGroups ch)
      else if ch_at ch (yd_CommandsRange doc) then only (completeCommands ch)
      else if ch_at ch (yd_ExecutorsRange doc) then only (completeExecutors ch)
      else if ch_at ch (yd_OrbsRange doc) then completeOrbs ch m
      else vret ([], m))"

text \<open>The first of the modified documents that has an item.\<close>

fun complete_first :: "completion \<Rightarrow> modified_document list \<Rightarrow> orb_names \<Rightarrow> named_items" where
  "complete_first cp [] m = vret ([], m)"
| "complete_first cp (d # ds) m =
     vbind (complete_document \<lparr>ch_Completion = cp, ch_Doc = md_Document d, ch_DocTag = md_Tag d, ch_DocDiff = md_Diff d\<rparr> m)
       (\<lambda>(xs, m). if xs \<noteq> [] then vret (xs, m) else complete_first cp ds m)"

definition GetCompletionItems :: "completion \<Rightarrow> yaml_document \<Rightarrow> orb_names \<Rightarrow> named_items" where
  "GetCompletionItems cp doc m =
     (let ch = \<lparr>ch_Completion = cp, ch_Doc = doc, ch_DocTag = [], ch_DocDiff = []\<rparr> in
      vbind (case fst (NodeAtPos (cp_Services cp) (yd_Tree doc) (yd_RootNode doc) (cp_Position cp)) of
               None \<Rightarrow> vret [] | Some n \<Rightarrow> addParameterReferenceCompletion ch n) (\<lambda>xs.
        if xs \<noteq> [] then vret (xs, m)
        else vbind (vlift (ModifyTextForAutocomplete cp doc)) (\<lambda>ds. complete_first cp ds m)))"

text \<open>The service on the document of the file; \<open>Inl ()\<close> is the error of a file that is not open.\<close>

definition Complete :: "completion \<Rightarrow> string \<Rightarrow> orb_names \<Rightarrow> (unit + items \<times> orb_names) action" where
  "Complete cp uri m =
     vbind (vget (\<lambda>c. ParseFromUriWithCache (cp_Fuel cp) (cp_Grammar cp) uri (ca_FileCache c) (cp_Context cp))) (\<lambda>parsed.
       vbind (vlift parsed) (\<lambda>r.
         case r of
           Inl _ \<Rightarrow> vret (Inl ())
         | Inr doc \<Rightarrow>
             if float_lt (yd_Version doc) version_2_1 then vret (Inr ([], m))
             else vbind (GetCompletionItems cp doc m) (\<lambda>r. vret (Inr r))))"

end
