(* ===== verification/Hover.thy ===== *)
theory Hover
  imports GotoDef Pipeline
begin

text \<open>
  The texts shown at a position: \<open>pkg/services/hover.go\<close> and \<open>pkg/services/hover\<close>, whose functions
  describe the keys of a document along a path of keys. \<open>None\<close> is a run-time panic.
\<close>

subsection \<open>hover.go\<close>

text \<open>The empty text of a file that is not open, the hint at an old version, or no hover (an error).\<close>

definition Hover :: "nat \<Rightarrow> grammar \<Rightarrow> string \<Rightarrow> position \<Rightarrow> file_cache \<Rightarrow> ls_context \<Rightarrow> (unit + string) option" where
  "Hover fuel g uri pos files ctx =
     map_option (\<lambda>parsed.
       case parsed of
         Inl _ \<Rightarrow> Inr []
       | Inr doc \<Rightarrow>
           if PosInRange (yd_VersionRange doc) pos \<and> float_lt (yd_Version doc) version_2_1
           then Inr ''Circle CI Config Helper is not available for this version. (Supported: 2.1)''
           else Inl ())
       (ParseFromUriWithCache fuel g uri files ctx)"

subsection \<open>command.go\<close>

definition hover_commands :: "string" where
  "hover_commands =
     ''A command definition defines a sequence of steps as a map to be executed in a job, enabling you to '' @
     ''reuse a single command definition across multiple jobs.'' @ newline_str @ newline_str @
     ''For more information see the [Reusable Config Reference '' @
     ''Guide](https://circleci.com/docs//2.0/reusing-config/).''"

definition commandDefinition :: "string \<Rightarrow> string" where
  "commandDefinition n =
     ''`'' @ n @
     ''` - Command definition'' @ newline_str @ newline_str @ ''Allowed keys:'' @ newline_str @ newline_str @
     ''- `steps` (required): A list of steps to run.'' @ newline_str @
     ''- `parameters` (optional): A list of parameters to pass to the command.'' @ newline_str @
     ''- `description` (optional): A description of the command.'' @ newline_str"

definition HoverInCommands :: "string list \<Rightarrow> string" where
  "HoverInCommands path =
     (case path of [] \<Rightarrow> hover_commands | [commandName] \<Rightarrow> commandDefinition commandName | _ \<Rightarrow> [])"

subsection \<open>job.go\<close>

definition commandsDescription :: "(string, string) gomap" where
  "commandsDescription =
     [(''checkout'',
        ''A special step used to check out source code to the configured path''),
      (''run'',
        ''Used for invoking all command-line programs, taking either a map of configuration values, or, when '' @
        ''called in its short-form, a string that will be used as both the command and name. Run commands are '' @
        ''executed using non-login shells by default, so you must explicitly source any dotfiles as part of '' @
        ''the command.''),
      (''setup_remote_docker'',
        ''Creates a remote Docker environment configured to execute Docker commands.''),
      (''save_cache'',
        ''Generates and stores a cache of a file or directory of files such as dependencies or source code in '' @
        ''our object storage.''),
      (''restore_cache'',
        ''Restores a previously saved cache based on a key. Cache needs to have been saved first for this key '' @
        ''using save_cache step. ''),
      (''store_artifacts'',
        ''Step to store artifacts (for example logs, binaries, etc) to be available in the web app or through '' @
        ''the API.''),
      (''store_test_results'',
        ''Special step used to upload and store test results for a build. Test results are visible on the '' @
        ''CircleCI web application under each build'' @ [CHR 0x27] @
        ''s Test Summary section. Storing test results is useful for timing analysis of your test suites.''),
      (''persist_to_workspace'',
        ''Special step used to persist a temporary file to be used by another job in the workflow.''),
      (''attach_workspace'',
        ''Special step used to attach the workflow'' @ [CHR 0x27] @
        ''s workspace to the current container. The full contents of the workspace are downloaded and copied '' @
        ''into the directory the workspace is being attached at.''),
      (''add_ssh_keys'',
        ''Special step that adds SSH keys from a project'' @ [CHR 0x27] @
        ''s settings to a container. Also configures SSH to use these keys.'')]"

text \<open>The part after the first slash is taken, whatever the name has.\<close>

definition hoverOrb :: "env \<Rightarrow> yaml_document \<Rightarrow> string \<Rightarrow> string action" where
  "hoverOrb env doc stepName =
     (let splittedStep = split_on (CHR ''/'') stepName;
          orbInDoc = (case gm_get (yd_Orbs doc) (hd splittedStep) of None \<Rightarrow> zero_orb | Some orb \<Rightarrow> orb)
      in vbind (GetOrFetchOrbInfo env doc orbInDoc) (\<lambda>(info, _).
        case (info, splittedStep) of
          (None, _) \<Rightarrow> vret []
        | (Some info, _ # command # _) \<Rightarrow>
            vret (case gm_get (oa_Commands (oi_Attributes info)) command of None \<Rightarrow> [] | Some c \<Rightarrow> cmd_Description c)
        | (Some info, _) \<Rightarrow> vpanic))"

definition hoverSteps :: "env \<Rightarrow> yaml_document \<Rightarrow> string list \<Rightarrow> string action" where
  "hoverSteps env doc path =
     (case path of
        [] \<Rightarrow> vret ''Steps are the individual units of work in a job. Each step is a command, or a job.''
      | stepName # _ \<Rightarrow>
          if IsBuiltIn stepName
          then vret (case gm_get commandsDescription stepName of None \<Rightarrow> [] | Some d \<Rightarrow> d)
          else (case gm_get (yd_Commands doc) stepName of
                  Some cmd \<Rightarrow> vret (cmd_Description cmd)
                | None \<Rightarrow> hoverOrb env doc stepName))"

definition hoverSingleJob :: "env \<Rightarrow> yaml_document \<Rightarrow> string list \<Rightarrow> string action" where
  "hoverSingleJob env doc path =
     (case path of
        [] \<Rightarrow> vret []
      | fieldName # rest \<Rightarrow> if fieldName = ''steps'' then hoverSteps env doc rest else vret [])"

definition HoverInJobs :: "env \<Rightarrow> yaml_document \<Rightarrow> string list \<Rightarrow> string action" where
  "HoverInJobs env doc path =
     (case path of
        [] \<Rightarrow> vret (''Jobs are collections of steps. All of the steps in the job are executed in a single unit, '' @
                      ''either within a fresh container or VM.'')
      | [jobName] \<Rightarrow> vret (jobName @ '' - User defined job'')
      | _ # rest \<Rightarrow> hoverSingleJob env doc rest)"

subsection \<open>orbs.go\<close>

definition orbDefinition :: "env \<Rightarrow> yaml_document \<Rightarrow> string \<Rightarrow> string action" where
  "orbDefinition env doc orbName =
     (let orbInDoc = (case gm_get (yd_Orbs doc) orbName of None \<Rightarrow> zero_orb | Some orb \<Rightarrow> orb)
      in vbind (GetOrbInfoFromName env doc (orb_Name orbInDoc)) (\<lambda>(info, err).
        vret (case (info, err) of (Some info, None) \<Rightarrow> oi_Description info | _ \<Rightarrow> [])))"

definition HoverInOrbs :: "env \<Rightarrow> yaml_document \<Rightarrow> string list \<Rightarrow> string action" where
  "HoverInOrbs env doc path =
     (case path of [] \<Rightarrow> vret hover_commands | [orbName] \<Rightarrow> orbDefinition env doc orbName | _ \<Rightarrow> vret [])"

subsection \<open>workflow.go\<close>

definition workflows_hover :: "string" where
  "workflows_hover =
     ''Used for orchestrating all jobs.'' @ newline_str @
     ''Each workflow consists of the workflow name as a key and a map as a value. A name should be unique '' @
     ''within the current `config.yml`.'' @ newline_str @ newline_str @ ''Allowed Keys'' @ newline_str @
     ''- `version`: not required for v2.1 configuration. Should be `2` for config version 2'' @ newline_str @
     ''- `<workflow_name>`: a map of workflow names and their parameters.'' @ newline_str @ newline_str @
     ''For more information, see the [Using Workflows to Schedule '' @
     ''Jobs](https://circleci.com/docs/2.0/workflows) page.''"

definition jobs_hover :: "string" where
  "jobs_hover =
     ''A Workflow is comprised of one or more uniquely named jobs. Jobs are specified in the `jobs` map.''"

definition triggers_hover :: "string" where
  "triggers_hover =
     ''Specifies which triggers will cause this workflow to be executed. Default behavior is to trigger '' @
     ''the workflow when pushing to a branch.'' @ newline_str @ newline_str @
     ''Should currently be schedule.'' @ newline_str @ newline_str @ ''Example:'' @ newline_str @ newline_str @
     ''```yaml'' @ newline_str @ ''workflows:'' @ newline_str @ [CHR 0x09] @ ''version: 2'' @ newline_str @
     [CHR 0x09] @ ''nightly:'' @ newline_str @ [CHR 0x09] @ ''  triggers:'' @ newline_str @ [CHR 0x09] @
     [CHR 0x09] @ ''- schedule:'' @ newline_str @ [CHR 0x09] @ [CHR 0x09] @ [CHR 0x09] @ ''cron: '' @
     [CHR 0x22] @ ''0 0 * * *'' @ [CHR 0x22] @ newline_str @ [CHR 0x09] @ [CHR 0x09] @ [CHR 0x09] @
     ''filters:'' @ newline_str @ [CHR 0x09] @ [CHR 0x09] @ [CHR 0x09] @ ''  branches:'' @ newline_str @
     [CHR 0x09] @ [CHR 0x09] @ [CHR 0x09] @ [CHR 0x09] @ ''only:'' @ newline_str @ [CHR 0x09] @ [CHR 0x09] @
     [CHR 0x09] @ [CHR 0x09] @ ''  - main'' @ newline_str @ [CHR 0x09] @ [CHR 0x09] @ [CHR 0x09] @ [CHR 0x09] @
     ''  - beta'' @ newline_str @ [CHR 0x09] @ ''  jobs:'' @ newline_str @ [CHR 0x09] @ [CHR 0x09] @
     ''- test```''"

definition workflowDefinition :: "string \<Rightarrow> string" where
  "workflowDefinition n =
     ''`'' @ n @
     ''` - User defined workflow'' @ newline_str @ newline_str @ ''Allowed keys:'' @ newline_str @
     newline_str @ ''- `triggers` (optional): Should currently be `schedule`'' @ newline_str @
     ''- `jobs` (required): A list of jobs to run with their dependencies|'' @ newline_str @
     ''- `when` (optional): A logic statement to determine whether or not to run this workflow.'' @
     newline_str @ ''- `unless` (optional): Inverse clause of `when`'' @ newline_str"

definition jobInvocation :: "string \<Rightarrow> string" where
  "jobInvocation n =
     ''`'' @ n @
     ''` - Job invocation'' @ newline_str @ newline_str @
     ''A job can have the optional keys `requires`, `name`, `context`, `type`, and `filters`.'' @ newline_str @
     newline_str @
     ''- `requires`: Jobs are run in parallel by default, so you must explicitly require any dependencies '' @
     ''by their job name.'' @ newline_str @
     ''- `name`: can be used to invoke reusable jobs across any number of workflows. Using the `name` key '' @
     ''ensures numbers are not appended to your job name (i.e. sayhello-1 , sayhello-2, etc.). The name '' @
     ''you assign to the name key needs to be unique, otherwise the numbers will still be appended to the '' @
     ''job name.'' @ newline_str @
     ''- `context`: Jobs may be configured to use global environment variables set for an organization, '' @
     ''see the Contexts document for adding a context in the application settings.'' @ newline_str @
     ''- `type`: A job may have a type of `approval` indicating it must be manually approved before '' @
     ''downstream jobs may proceed.'' @ newline_str @
     ''- `filters`: Job Filters can have the key branches or tags.+'' @ newline_str @
     ''- `matrix` : requires config `2.1`. The `matrix` stanza allows you to run a parameterized job '' @
     ''multiple times with different arguments.'' @ newline_str @
     ''- `pre-steps` and `post-steps`: requires config `2.1`. Steps under `pre-steps` are executed before '' @
     ''any of the other steps in the job. The steps under `post-steps` are executed after all of the other '' @
     ''steps.'' @ newline_str"

definition job_parameter_hover :: "(string \<times> string) list" where
  "job_parameter_hover =
     [(''requires'',
        ''A list of jobs that must succeed for the job to start.''),
      (''name'',
        ''A replacement for the job name. Useful when calling a job multiple times. ''),
      (''context'',
        ''The name of the context(s). The initial default name is org-global. Each context name must be '' @
        ''unique.''),
      (''type'',
        ''A job may have a type of approval indicating it must be manually approved before downstream jobs '' @
        ''may proceed.''),
      (''filters'',
        ''A map defining rules for execution on specific branches''),
      (''matrix'',
        ''The matrix stanza allows you to run a parameterized job multiple times with different arguments. '' @
        ''For more information see the how-to guide on Using Matrix Jobs.''),
      (''when'',
        ''You may use a when clause under a workflow declaration with a logic statement to determine whether '' @
        ''or not to run that workflow.''),
      (''unless'',
        ''You may use an unless clause under a workflow declaration with a logic statement to determine '' @
        ''whether or not to run that workflow.'')]"

definition hoverJobInvocationParameter :: "string list \<Rightarrow> string option" where
  "hoverJobInvocationParameter path =
     (case path of
        [] \<Rightarrow> None
      | [parameterName] \<Rightarrow>
          Some (case map_of job_parameter_hover parameterName of None \<Rightarrow> [] | Some d \<Rightarrow> d)
      | _ \<Rightarrow> Some [])"

definition hoverJobInvocations :: "string list \<Rightarrow> string option" where
  "hoverJobInvocations path =
     (case path of
        [] \<Rightarrow> None
      | [jobInvocationName] \<Rightarrow> Some (jobInvocation jobInvocationName)
      | _ # rest \<Rightarrow> hoverJobInvocationParameter rest)"

definition hoverSchedule :: "string list \<Rightarrow> string" where
  "hoverSchedule path =
     (if path = [''schedule''] then ''A workflow may have a schedule indicating it runs at a certain time,'' else [])"

definition hoverSingleWorklow :: "string list \<Rightarrow> string option" where
  "hoverSingleWorklow path =
     (case path of
        [] \<Rightarrow> Some []
      | currentKey # rest \<Rightarrow>
          if rest = [] \<and> currentKey = ''jobs'' then Some jobs_hover
          else if rest = [] \<and> currentKey = ''triggers'' then Some triggers_hover
          else if currentKey = ''jobs'' then hoverJobInvocations rest
          else if currentKey = ''triggers'' then Some (hoverSchedule rest)
          else Some [])"

definition HoverInWorkflows :: "string list \<Rightarrow> string option" where
  "HoverInWorkflows path =
     (case path of
        [] \<Rightarrow> Some workflows_hover
      | currentKey # rest \<Rightarrow>
          if currentKey = ''version''
          then Some ''The Workflows version field is used to issue warnings for deprecation or breaking changes.''
          else if rest = [] then Some (workflowDefinition currentKey)
          else hoverSingleWorklow rest)"

subsection \<open>Panics\<close>

text \<open>The elements that the description of a workflow takes without a test are there.\<close>

lemma HoverInWorkflows_total: "HoverInWorkflows path \<noteq> None"
  by (simp add: HoverInWorkflows_def hoverSingleWorklow_def hoverJobInvocations_def hoverJobInvocationParameter_def
      split: list.split)

text \<open>
  A step that is neither built in nor a command, and whose name has no slash, stands for the command of
  an orb without a name: the part after the slash is missing. The error of the fetch does not help,
  because an empty orb comes with it.
\<close>

lemma split_on_none: "c \<notin> set s \<Longrightarrow> split_on c s = [s]"
  by (induction s) auto

lemma GetOrFetchOrbInfo_some:
  assumes "GetOrFetchOrbInfo env doc orb s = Some ((info, err), s')"
  shows "info \<noteq> None"
  using assms
  by (auto simp: GetOrFetchOrbInfo_def GetOrbInfo_def fetchOrbInfo_def OrbCache_GetOrb_def OrbCache_HasOrb_def gm_has_def
      vcache_def vret_def Let_def split: option.splits prod.splits if_splits dest: sym)

lemma hoverSteps_panics:
  assumes "\<not> IsBuiltIn n" "gm_get (yd_Commands doc) n = None" "CHR ''/'' \<notin> set n"
  shows "HoverInJobs env doc (job # ''steps'' # n # rest) s = None"
  using assms GetOrFetchOrbInfo_some
  by (fastforce simp: HoverInJobs_def hoverSingleJob_def hoverSteps_def hoverOrb_def split_on_none vbind_def vpanic_def
      Let_def split: option.split prod.split)

end
