(* ===== verification/SemTokens.thy ===== *)
theory SemTokens
  imports Schema
begin

text \<open>
  Semantic tokens: \<open>pkg/services/semantics.go\<close>. The handlers append to a list of tokens; here each
  returns what it appends, and \<open>None\<close> is a run-time panic. The iterator over the tree is the service
  \<open>sv_DFS\<close>.
\<close>

record token =
  tk_Position :: position
  tk_Length :: u32
  tk_TokenType :: u32
  tk_TokenModifiers :: u32

definition mk_token :: "position \<Rightarrow> u32 \<Rightarrow> u32 \<Rightarrow> u32 \<Rightarrow> token" where
  "mk_token pos len ty modifiers =
     \<lparr>tk_Position = pos, tk_Length = len, tk_TokenType = ty, tk_TokenModifiers = modifiers\<rparr>"

subsection \<open>The expressions and the keywords\<close>

text \<open>The class \<open>[A-z0-9-_]\<close> ranges over the signs between the letters too.\<close>

definition PARAM_REGEX :: regex where
  "PARAM_REGEX =
     rx_seq [rx_lit ''<<'', RStar re_space, RGroup 1 re_scope, rx_lit ''.'',
             RGroup 2 (RStar (In (chars_between (CHR ''A'') (CHR ''z'') @
                                  chars_between (CHR ''0'') (CHR ''9'') @ [CHR ''-'', CHR ''_'']))),
             RStar re_space, rx_lit ''>>'']"

definition cache_key_word :: regex where
  "cache_key_word =
     foldr RAlt
       [rx_seq [RClass re_dot, rx_lit ''Branch''], rx_seq [RClass re_dot, rx_lit ''BuildNum''],
        rx_seq [RClass re_dot, rx_lit ''Revision''], rx_seq [RClass re_dot, rx_lit ''CheckoutKey''],
        rx_seq [RClass re_dot, rx_lit ''Environment'', RClass re_dot, rx_lit ''variableName''],
        rx_seq [rx_lit ''checksum '', RStar re_dot], rx_lit ''epoch'']
       (rx_lit ''arch'')"

definition cacheKeyRegex :: regex where
  "cacheKeyRegex =
     rx_seq [rx_lit ''{{'', ROpt (rx_lit '' ''), RGroup 1 cache_key_word, ROpt (rx_lit '' ''), rx_lit ''}}'']"

definition KEYWORDS :: "string list" where
  "KEYWORDS =
     [''parameters'', ''description'', ''executor'', ''steps'', ''filters'', ''environment'',
      ''working_directory'', ''docker'', ''requires'', ''jobs'', ''triggers'']"

definition ROOT_KEYWORDS :: "string list" where
  "ROOT_KEYWORDS =
     [''workflows'', ''jobs'', ''job-groups'', ''version'', ''commands'', ''executors'', ''parameters'',
      ''orbs'', ''setup'']"

subsection \<open>Highlighting the nodes\<close>

definition start_pos :: "sitter \<Rightarrow> node \<Rightarrow> position" where
  "start_pos t n = mk_pos (pt_Row (st_StartPoint t n)) (pt_Column (st_StartPoint t n))"

definition columns :: "sitter \<Rightarrow> node \<Rightarrow> u32" where
  "columns t n = pt_Column (st_EndPoint t n) - pt_Column (st_StartPoint t n)"

text \<open>The ancestor that is a document when the pair of the key is one of the file's root.\<close>

definition root_of_key :: "sitter \<Rightarrow> node \<Rightarrow> node option" where
  "root_of_key t keyNode =
     (case st_Parent t keyNode of None \<Rightarrow> None
      | Some blockMappingPair \<Rightarrow>
          (case st_Parent t blockMappingPair of None \<Rightarrow> None
           | Some blockMapping \<Rightarrow>
               (case st_Parent t blockMapping of None \<Rightarrow> None
                | Some blockNode \<Rightarrow> st_Parent t blockNode)))"

definition highlightBuiltInKeywords :: "yaml_document \<Rightarrow> node \<Rightarrow> token list" where
  "highlightBuiltInKeywords doc keyNode =
     (let t = yd_Tree doc;
          keyName = GetNodeText doc (Some keyNode);
          token = mk_token (start_pos t keyNode) (columns t keyNode) 0 0;
          isFlow = (st_Type t keyNode = ''flow_node'')
      in (if isFlow \<and> keyName \<in> set KEYWORDS then [token] else []) @
         (case root_of_key t keyNode of
            None \<Rightarrow> []
          | Some document \<Rightarrow>
              if st_Type t document = ''document'' \<and> isFlow \<and> keyName \<in> set ROOT_KEYWORDS
              then [token] else []))"

definition highlightOrbs :: "yaml_document \<Rightarrow> node \<Rightarrow> token list" where
  "highlightOrbs doc valueNode =
     (let t = yd_Tree doc; content = GetRawNodeText doc (Some valueNode) in
      if st_Type t valueNode \<noteq> ''flow_node'' then []
      else if IsOrbReference doc content
      then (case index_of ''/'' content of
              None \<Rightarrow> []
            | Some slashIdx \<Rightarrow>
                (let orbMethodLength = columns t valueNode - word_of_nat slashIdx - 1;
                     orbNameLength = word_of_nat slashIdx + 1;
                     p = start_pos t valueNode
                 in [mk_token p orbNameLength 1 0,
                     mk_token (mk_pos (Line p) (Character p + orbNameLength)) orbMethodLength 0 0]))
      else if gm_has (yd_Orbs doc) content \<and>
              PosInRange (yd_OrbsRange doc) (Start (NodeToRange doc (Some valueNode)))
      then (let rng = NodeToRange doc (Some valueNode)
            in [mk_token (Start rng) (Character (End rng) - Character (Start rng)) 1 0])
      else [])"

definition regex_token :: "sitter \<Rightarrow> node \<Rightarrow> string \<Rightarrow> nat \<times> nat \<Rightarrow> token option" where
  "regex_token t valueNode content m =
     (let len = snd m - fst m in
      map_option (\<lambda>startPos.
        let line = Line startPos + pt_Row (st_StartPoint t valueNode);
            char = (if st_Type t valueNode = ''flow_node''
                    then Character startPos + pt_Column (st_StartPoint t valueNode) else Character startPos)
        in mk_token (mk_pos line char) (word_of_nat len) 0 0)
        (IndexToPos (int (fst m)) content))"

definition highlightWithRegex :: "yaml_document \<Rightarrow> node \<Rightarrow> regex \<Rightarrow> token list option" where
  "highlightWithRegex doc valueNode regex =
     (let t = yd_Tree doc;
          isFlowNode = (st_Type t valueNode = ''flow_node'');
          isBlockScalar = (st_Type t valueNode = ''block_node'' \<and>
            (case GetFirstChild t (Some valueNode) of
               None \<Rightarrow> False | Some child \<Rightarrow> st_Type t child = ''block_scalar''));
          content = GetRawNodeText doc (Some valueNode)
      in if \<not> isFlowNode \<and> \<not> isBlockScalar then Some []
         else those (map (regex_token t valueNode content) (rx_find_all regex content)))"

definition highlightParameters :: "yaml_document \<Rightarrow> node \<Rightarrow> token list option" where
  "highlightParameters doc valueNode = highlightWithRegex doc valueNode PARAM_REGEX"

definition highlightCacheKeys :: "yaml_document \<Rightarrow> node \<Rightarrow> token list option" where
  "highlightCacheKeys doc valueNode = highlightWithRegex doc valueNode cacheKeyRegex"

subsection \<open>Highlighting the commands\<close>

definition addTokenRange :: "yaml_document \<Rightarrow> range \<Rightarrow> u32 \<Rightarrow> u32 \<Rightarrow> token" where
  "addTokenRange doc rng tokenType tokenModifiers =
     mk_token (Start rng)
       (word_of_int (int (PosToIndex (End rng) (yd_Content doc)) - int (PosToIndex (Start rng) (yd_Content doc))))
       tokenType tokenModifiers"

text \<open>The tokens between the matches of a line; \<open>offset\<close> is the end of the match before.\<close>

fun between_matches :: "yaml_document \<Rightarrow> u32 \<Rightarrow> u32 \<Rightarrow> u32 \<Rightarrow> (nat \<times> nat) list \<Rightarrow> token list" where
  "between_matches doc line baseOffset offset [] = []"
| "between_matches doc line baseOffset offset ((a, b) # matches) =
     addTokenRange doc (mk_range (mk_pos line (offset + baseOffset)) (mk_pos line (word_of_nat a + baseOffset))) 4 0
     # between_matches doc line baseOffset (word_of_nat b) matches"

definition highlight_line :: "yaml_document \<Rightarrow> u32 \<Rightarrow> u32 \<Rightarrow> string \<Rightarrow> token list" where
  "highlight_line doc line baseOffset cmd =
     (if has_prefix ''#'' (trim_space cmd)
      then [addTokenRange doc (mk_range (mk_pos line baseOffset)
              (mk_pos line (word_of_nat (length cmd) + baseOffset))) 3 0]
      else between_matches doc line baseOffset 0 (rx_find_all PARAM_REGEX cmd @ [(length cmd, length cmd)]))"

definition highlightCommand :: "yaml_document \<Rightarrow> string \<Rightarrow> range \<Rightarrow> token list" where
  "highlightCommand doc rawCommand commandRange =
     (let parts = split_on (CHR 0x0A) rawCommand;
          baseOffset = (if 1 < length parts then 0 else Character (Start commandRange))
      in concat (map (\<lambda>(i, cmd). highlight_line doc (Line (Start commandRange) + word_of_nat i) baseOffset cmd)
                   (enumerate 0 parts)))"

definition highlightSteps :: "yaml_document \<Rightarrow> step list \<Rightarrow> token list" where
  "highlightSteps doc steps =
     concat (map (\<lambda>st. case st of Run r \<Rightarrow> highlightCommand doc (run_RawCommand r) (run_CommandRange r)
                                | _ \<Rightarrow> []) steps)"

subsection \<open>The walk over the tree\<close>

definition append_all :: "'x list option list \<Rightarrow> 'x list option" where
  "append_all xs = map_option concat (those xs)"

definition highlight_node :: "yaml_document \<Rightarrow> node \<Rightarrow> token list option" where
  "highlight_node doc n =
     (let t = yd_Tree doc;
          pair = (if st_Type t n = ''block_mapping_pair''
                  then (let (keyNode, valueNode) = GetKeyValueNodes doc (Some n) in
                    append_all
                      [Some (case keyNode of None \<Rightarrow> []
                             | Some k \<Rightarrow> highlightOrbs doc k @ highlightBuiltInKeywords doc k),
                       (case valueNode of None \<Rightarrow> Some []
                        | Some v \<Rightarrow> append_all [highlightParameters doc v, highlightCacheKeys doc v,
                                                Some (highlightOrbs doc v)])])
                  else Some []);
          item = (if st_Type t n = ''block_sequence_item''
                  then (case GetChildOfType t (Some n) ''flow_node'' of
                          None \<Rightarrow> Some []
                        | Some child \<Rightarrow> append_all [highlightCacheKeys doc child, Some (highlightOrbs doc child),
                                                    highlightParameters doc child])
                  else Some [])
      in append_all [pair, item])"

definition highlighted_tokens :: "schema_services \<Rightarrow> yaml_document \<Rightarrow> token list option" where
  "highlighted_tokens sv doc =
     map_option (\<lambda>ts. ts @ concat (map (highlightSteps doc \<circ> cmd_Steps \<circ> snd) (yd_Commands doc)) @
         concat (map (\<lambda>(_, j). case job_Steps j of None \<Rightarrow> [] | Some ss \<Rightarrow> highlightSteps doc ss) (yd_Jobs doc)))
       (append_all (map (highlight_node doc) (sv_DFS sv (yd_Tree doc) (yd_RootNode doc))))"

subsection \<open>The encoding\<close>

text \<open>The order of \<open>sort.SliceStable\<close>, and its key.\<close>

definition token_less :: "token \<Rightarrow> token \<Rightarrow> bool" where
  "token_less a b =
     (if Line (tk_Position a) = Line (tk_Position b)
      then Character (tk_Position a) < Character (tk_Position b)
      else Line (tk_Position a) < Line (tk_Position b))"

definition token_key :: "token \<Rightarrow> nat" where
  "token_key a = unat (Line (tk_Position a)) * 2 ^ 32 + unat (Character (tk_Position a))"

text \<open>Five numbers of a token, relative to the place of the token before.\<close>

fun processToken :: "u32 \<times> u32 \<Rightarrow> token \<Rightarrow> u32 list" where
  "processToken (prevLine, prevCharacter) token =
     [Line (tk_Position token) - prevLine,
      (if Line (tk_Position token) = prevLine then Character (tk_Position token) - prevCharacter
       else Character (tk_Position token)),
      tk_Length token, tk_TokenType token, tk_TokenModifiers token]"

fun process_tokens :: "u32 \<times> u32 \<Rightarrow> token list \<Rightarrow> u32 list" where
  "process_tokens prev [] = []"
| "process_tokens prev (token # tokens) =
     processToken prev token @
     process_tokens (Line (tk_Position token), Character (tk_Position token)) tokens"

definition processTokens :: "token list \<Rightarrow> u32 list" where
  "processTokens tokens = process_tokens (0, 0) (sort_key token_key tokens)"

text \<open>The handler on the document of the file, whose reading is the cache's part.\<close>

definition SemanticTokens :: "schema_services \<Rightarrow> yaml_document \<Rightarrow> u32 list option" where
  "SemanticTokens sv doc = map_option processTokens (highlighted_tokens sv doc)"

subsection \<open>The order of the tokens\<close>

lemma u32_bound: "unat (w :: u32) < 2 ^ 32"
  using unsigned_less [of w] by simp

lemma token_key_less: "token_key a < token_key b \<longleftrightarrow> token_less a b"
proof -
  have lex: "x * 2 ^ 32 + i < y * 2 ^ 32 + j \<longleftrightarrow> (if x = y then i < j else x < y)"
    if "i < 2 ^ 32" "j < 2 ^ 32" for x y i j :: nat
    using that by auto
  show ?thesis
    using u32_bound [of "Character (tk_Position a)"] u32_bound [of "Character (tk_Position b)"]
    by (simp only: token_key_def token_less_def lex word_less_nat_alt word_unat_eq_iff)
qed

subsection \<open>The encoding read back\<close>

text \<open>
  A client's reading of the numbers, with numbers that do not wrap around: the line of a token is that
  of the token before plus a difference, and so is the column when the line is the same.
\<close>

fun decode :: "nat \<times> nat \<Rightarrow> u32 list \<Rightarrow> (nat \<times> nat \<times> u32 \<times> u32 \<times> u32) list" where
  "decode (l, c) (dl # dc # len # ty # modifiers # rest) =
     (let l' = l + unat dl; c' = (if dl = 0 then c + unat dc else unat dc)
      in (l', c', len, ty, modifiers) # decode (l', c') rest)"
| "decode p _ = []"

definition shown :: "token \<Rightarrow> nat \<times> nat \<times> u32 \<times> u32 \<times> u32" where
  "shown tok =
     (unat (Line (tk_Position tok)), unat (Character (tk_Position tok)), tk_Length tok, tk_TokenType tok,
      tk_TokenModifiers tok)"

lemma decode_process:
  "sorted (map token_key ts) \<Longrightarrow> (\<And>t. t \<in> set ts \<Longrightarrow> unat l * 2 ^ 32 + unat c \<le> token_key t) \<Longrightarrow>
   decode (unat l, unat c) (process_tokens (l, c) ts) = map shown ts"
proof (induction ts arbitrary: l c)
  case (Cons tok ts)
  let ?l = "Line (tk_Position tok)" and ?c = "Character (tk_Position tok)"
  have key: "unat l * 2 ^ 32 + unat c \<le> unat ?l * 2 ^ 32 + unat ?c"
    using Cons.prems(2) [of tok] by (simp add: token_key_def)
  have "unat c < 2 ^ 32" "unat ?c < 2 ^ 32"
    by (rule u32_bound)+
  with key have line: "unat l \<le> unat ?l" and char: "?l = l \<Longrightarrow> unat c \<le> unat ?c"
    by auto
  have l: "unat l + unat (?l - l) = unat ?l"
    using line by (simp add: unat_sub word_le_nat_alt)
  have c: "?l = l \<Longrightarrow> unat c + unat (?c - c) = unat ?c"
    using char by (simp add: unat_sub word_le_nat_alt)
  have rest: "decode (unat ?l, unat ?c) (process_tokens (?l, ?c) ts) = map shown ts"
    using Cons.prems(1) by (intro Cons.IH) (auto simp: token_key_def)
  show ?case
    using l c rest by (cases "?l = l") (simp_all add: shown_def Let_def)
qed simp

lemma append_all_None [simp]: "append_all xs = None \<longleftrightarrow> None \<in> set xs"
proof (induction xs)
  case (Cons x xs)
  then show ?case
    by (cases x) (auto simp: append_all_def)
qed (simp add: append_all_def)

lemma append_all_None' [simp]: "None = append_all xs \<longleftrightarrow> None \<in> set xs"
  by (metis append_all_None)

lemma highlightWithRegex_returns: "highlightWithRegex doc valueNode regex \<noteq> None"
proof -
  have "those (map (regex_token t valueNode content) ms) \<noteq> None"
    if "\<forall>(a, b)\<in>set ms. a \<le> length content" for t content ms
    using that by (induction ms) (auto simp: regex_token_def IndexToPos_def Let_def)
  moreover have "\<forall>(a, b)\<in>set (rx_find_all regex content). a \<le> length content" for content
    using rx_find_all_from_bounds [of content "length content"] by (fastforce simp: rx_find_all_def)
  ultimately show ?thesis
    by (simp add: highlightWithRegex_def Let_def)
qed

lemma highlighted_tokens_return: "highlighted_tokens sv doc \<noteq> None"
proof -
  have "highlight_node doc n \<noteq> None" for n
    unfolding highlight_node_def Let_def highlightParameters_def highlightCacheKeys_def
    by (simp add: highlightWithRegex_returns [THEN not_sym] del: not_None_eq split: prod.split option.split)
  then have "None \<notin> set (map (highlight_node doc) ns)" for ns
    by (metis ex_map_conv)
  then have "append_all (map (highlight_node doc) ns) \<noteq> None" for ns
    unfolding append_all_None .
  then show ?thesis
    unfolding highlighted_tokens_def by (simp only: option.map_disc_iff not_False_eq_True)
qed

text \<open>
  C20: The semantic tokens of a document are computed, and their numbers, read back by a client, are the
  highlighted tokens in the order of their positions, those at the same position in the order in which
  they were found.
\<close>

theorem SemanticTokens_roundtrip:
  "\<exists>ts us. highlighted_tokens sv doc = Some ts \<and> SemanticTokens sv doc = Some us \<and>
     decode (0, 0) us = map shown (sort_key token_key ts)"
proof -
  obtain ts where ts: "highlighted_tokens sv doc = Some ts"
    using highlighted_tokens_return by blast
  have "decode (0, 0) (processTokens ts) = map shown (sort_key token_key ts)"
    unfolding processTokens_def using decode_process [of "sort_key token_key ts" 0 0] by simp
  with ts show ?thesis
    by (simp add: SemanticTokens_def)
qed

text \<open>A key of the root that is a keyword of both lists is highlighted twice, at the same place.\<close>

lemma root_keyword_twice:
  assumes "st_Type (yd_Tree doc) keyNode = ''flow_node''" and "root_of_key (yd_Tree doc) keyNode = Some r"
    and "st_Type (yd_Tree doc) r = ''document''" and "GetNodeText doc (Some keyNode) = ''jobs''"
  shows "\<exists>tok. highlightBuiltInKeywords doc keyNode = [tok, tok]"
  using assms by (simp add: highlightBuiltInKeywords_def KEYWORDS_def ROOT_KEYWORDS_def Let_def)


end
