(* ===== verification/Symbols.thy ===== *)
theory Symbols
  imports Document GoTime
begin

text \<open>
  The outline of a document: \<open>pkg/services/documentSymbols\<close>. A symbol is a tree; the range of the
  selection is always the range of the symbol, and a kind that is not given is 0. The version is printed
  from the exact number, so that the sign of a zero is not seen.
\<close>

datatype symbol = Symbol
  (sy_Name: string) (sy_Detail: string) (sy_Kind: nat) (sy_Deprecated: bool) (sy_Range: range)
  (sy_SelectionRange: range) (sy_Children: "symbol list")

definition sym :: "string \<Rightarrow> string \<Rightarrow> nat \<Rightarrow> range \<Rightarrow> symbol list \<Rightarrow> symbol" where
  "sym name detail kind rng children = Symbol name detail kind False rng rng children"

subsection \<open>symbols.go: the kinds\<close>

definition OrbSymbol :: nat where "OrbSymbol = 12"
definition ExecutorsSymbol :: nat where "ExecutorsSymbol = 6"
definition CommandsSymbol :: nat where "CommandsSymbol = 1"
definition WorkflowsSymbol :: nat where "WorkflowsSymbol = 23"
definition JobSymbol :: nat where "JobSymbol = 1"
definition ListSymbol :: nat where "ListSymbol = 18"
definition PropertySymbol :: nat where "PropertySymbol = 7"
definition TriggerSymbol :: nat where "TriggerSymbol = 24"
definition BranchSymbol :: nat where "BranchSymbol = 11"
definition FilterSymbol :: nat where "FilterSymbol = 22"
definition DockerSymbol :: nat where "DockerSymbol = 13"

text \<open>\<open>protocol.SymbolKindBoolean\<close>.\<close>

definition SymbolKindBoolean :: nat where "SymbolKindBoolean = 17"

text \<open>\<open>symbolFromRange\<close> of \<open>orbs.go\<close>, with the children that its callers set.\<close>

definition symbolFromRange :: "range \<Rightarrow> string \<Rightarrow> nat \<Rightarrow> symbol list \<Rightarrow> symbol" where
  "symbolFromRange rng label kind children = sym label [] kind rng children"

definition total_of :: "'a list \<Rightarrow> string" where
  "total_of xs = dec_string (length xs) @ '' total''"

subsection \<open>pipelineParams.go, jobs.go: parameters and steps\<close>

definition parameterDefinitionSymbols :: "parameter \<Rightarrow> symbol" where
  "parameterDefinitionSymbols parameter =
     (let detail = ''['' @ param_GetType parameter @ '']'';
          detail = (if param_GetDescription parameter \<noteq> []
                    then detail @ '' - '' @ param_GetDescription parameter else detail)
      in sym (param_GetName parameter) detail PropertySymbol (param_GetRange parameter) [])"

definition resolvePipelineParametersSymbols :: "yaml_document \<Rightarrow> symbol list" where
  "resolvePipelineParametersSymbols document =
     (if IsDefaultRange (yd_PipelineParametersRange document) then []
      else [sym ''Pipeline Parameters'' [] 1 (yd_PipelineParametersRange document)
              (map (parameterDefinitionSymbols \<circ> snd) (yd_PipelineParameters document))])"

definition parametersSymbols :: "params \<Rightarrow> symbol list" where
  "parametersSymbols parameters = map (parameterDefinitionSymbols \<circ> snd) parameters"

definition stepsSymbols :: "step list \<Rightarrow> symbol list" where
  "stepsSymbols steps = map (\<lambda>st. sym (step_GetName st) [] JobSymbol (step_GetRange st) []) steps"

subsection \<open>dockerExecutor.go, machineExecutor.go, macosExecutor.go\<close>

definition image_symbols :: "docker_image list \<Rightarrow> symbol list" where
  "image_symbols images =
     concat (map (\<lambda>img.
       let name = (if img_Name img = [] then di_FullPath (img_Image img) else img_Name img)
       in if name = [] then [] else [sym name [] 8 (img_ImageRange img) []]) images)"

definition dockerExecutorSymbols :: "docker_executor \<Rightarrow> symbol" where
  "dockerExecutorSymbols dockerExec =
     sym ''Docker'' [] DockerSymbol (be_Range (de_Base dockerExec)) (image_symbols (de_Image dockerExec))"

definition machineExecutorSymbols :: "machine_executor \<Rightarrow> symbol" where
  "machineExecutorSymbols machineExec =
     (let splits = split_on (CHR '':'') (me_Image machineExec);
          (machineName, machineVersion) =
            (if me_Machine machineExec then (''default machine'', ''[deprecated]'')
             else (hd splits, if 1 < length splits then splits ! 1 else []))
      in Symbol machineName machineVersion DockerSymbol (me_Machine machineExec)
           (be_Range (me_Base machineExec)) (be_Range (me_Base machineExec)) [])"

definition macosExecutorSymbols :: "macos_executor \<Rightarrow> symbol" where
  "macosExecutorSymbols macos = sym ''xcode'' (mac_Xcode macos) 0 (be_Range (mac_Base macos)) []"

subsection \<open>executors.go\<close>

definition envsSymbols :: "environment \<Rightarrow> symbol" where
  "envsSymbols env =
     sym ''Environments'' [] 0 (env_Range env) (map (\<lambda>key. sym key [] 0 (env_Range env) []) (env_Keys env))"

definition singleExecutorSymbols :: "executor \<Rightarrow> symbol" where
  "singleExecutorSymbols executor =
     (let (execType, childrens) =
            (case executor of
               ExBase _ \<Rightarrow> ([], [])
             | ExDocker e \<Rightarrow> (''Docker'', [dockerExecutorSymbols e])
             | ExMachine e \<Rightarrow> (''Machine'', [machineExecutorSymbols e])
             | ExMacOS e \<Rightarrow> (''Mac OS'', [macosExecutorSymbols e]));
          envs = executor_GetEnvs executor;
          childrens = (if IsDefaultRange (env_Range envs) then childrens else childrens @ [envsSymbols envs])
      in sym (executor_GetName executor) execType ExecutorsSymbol (executor_GetRange executor) childrens)"

definition resolveExecutorsSymbols :: "yaml_document \<Rightarrow> symbol list" where
  "resolveExecutorsSymbols document =
     (if IsDefaultRange (yd_ExecutorsRange document) then []
      else [symbolFromRange (yd_ExecutorsRange document) ''Executors'' ListSymbol
              (map (singleExecutorSymbols \<circ> snd) (yd_Executors document))])"

subsection \<open>commands.go\<close>

definition singleCommandSymbols :: "command \<Rightarrow> symbol" where
  "singleCommandSymbols command =
     sym (cmd_Name command) (cmd_Description command) CommandsSymbol (cmd_Range command)
       ((if cmd_Steps command \<noteq> []
         then [sym ''Steps'' [] ListSymbol (cmd_StepsRange command) (stepsSymbols (cmd_Steps command))] else []) @
        (if cmd_Parameters command \<noteq> []
         then [sym ''Parameters'' [] ListSymbol (cmd_StepsRange command)
                 (parametersSymbols (cmd_Parameters command))] else []))"

definition resolveCommandsSymbols :: "yaml_document \<Rightarrow> symbol list" where
  "resolveCommandsSymbols document =
     (if IsDefaultRange (yd_CommandsRange document) then []
      else [symbolFromRange (yd_CommandsRange document) ''Commands'' ListSymbol
              (map (singleCommandSymbols \<circ> snd) (yd_Commands document))])"

subsection \<open>jobs.go\<close>

definition jobDockerExecutorSymbol :: "job \<Rightarrow> symbol" where
  "jobDockerExecutorSymbol job =
     sym ''Docker'' [] DockerSymbol (job_DockerRange job) (image_symbols (de_Image (job_Docker job)))"

definition job_children :: "job \<Rightarrow> symbol list" where
  "job_children job =
     (let steps = (case job_Steps job of None \<Rightarrow> [] | Some ss \<Rightarrow> ss) in
      (if IsDefaultRange (job_ParametersRange job) then []
       else [sym ''Parameters'' [] 0 (job_ParametersRange job) (parametersSymbols (job_Parameters job))]) @
      (if IsDefaultRange (job_StepsRange job) then []
       else [sym ''Steps'' (total_of steps) ListSymbol (job_StepsRange job) (stepsSymbols steps)]) @
      (if IsDefaultRange (job_ExecutorRange job) \<or> job_Executor job = [] then []
       else [sym (''Executor: '' @ job_Executor job) [] ExecutorsSymbol (job_ExecutorRange job) []]) @
      (if IsDefaultRange (job_DockerRange job) then [] else [dockerExecutorSymbols (job_Docker job)]) @
      (if IsDefaultRange (job_EnvironmentRange job) then []
       else [envsSymbols \<lparr>env_Range = job_EnvironmentRange job, env_Keys = map fst (job_Environment job)\<rparr>]) @
      (if IsDefaultRange (job_MacOSRange job) then []
       else [sym ''MacOS'' [] ExecutorsSymbol (job_MacOSRange job)
               [sym ''xcode'' (mac_Xcode (job_MacOS job)) 0 (be_Range (mac_Base (job_MacOS job))) []]]))"

definition singleJobSymbols :: "job \<Rightarrow> symbol" where
  "singleJobSymbols job = symbolFromRange (job_Range job) (job_Name job) JobSymbol (job_children job)"

definition resolveJobsSymbols :: "yaml_document \<Rightarrow> symbol list" where
  "resolveJobsSymbols document =
     (if IsDefaultRange (yd_JobsRange document) then []
      else [symbolFromRange (yd_JobsRange document) ''Jobs'' ListSymbol
              (map (singleJobSymbols \<circ> snd) (yd_Jobs document))])"

subsection \<open>job\_groups.go\<close>

definition jobGroupJobInvocationsSymbols :: "job_group \<Rightarrow> symbol list" where
  "jobGroupJobInvocationsSymbols jobGroup =
     map (\<lambda>ji. sym (ji_StepName ji) [] 0 (ji_JobInvocationRange ji) []) (jg_JobInvocations jobGroup)"

definition singleJobGroupSymbols :: "job_group \<Rightarrow> symbol" where
  "singleJobGroupSymbols jobGroup =
     symbolFromRange (jg_Range jobGroup) (jg_Name jobGroup) JobSymbol
       (if jg_JobInvocations jobGroup \<noteq> []
        then [sym ''Jobs'' [] ListSymbol (jg_JobsRange jobGroup) (jobGroupJobInvocationsSymbols jobGroup)]
        else [])"

definition resolveJobGroupsSymbols :: "yaml_document \<Rightarrow> symbol list" where
  "resolveJobGroupsSymbols document =
     (if IsDefaultRange (yd_JobGroupsRange document) then []
      else [symbolFromRange (yd_JobGroupsRange document) ''Job Groups'' ListSymbol
              (map (singleJobGroupSymbols \<circ> snd) (yd_JobGroups document))])"

subsection \<open>workflows.go\<close>

definition branchesFiltersSymbols :: "branches_filter \<Rightarrow> symbol" where
  "branchesFiltersSymbols bf =
     sym ''Branches'' [] BranchSymbol (bf_Range bf)
       ((if bf_Ignore bf \<noteq> [] then [sym ''Ignore'' (total_of (bf_Ignore bf)) BranchSymbol (bf_IgnoreRange bf) []]
         else []) @
        (if bf_Only bf \<noteq> [] then [sym ''Only'' (total_of (bf_Only bf)) BranchSymbol (bf_OnlyRange bf) []] else []))"

definition filterSymbols :: "workflow_filters \<Rightarrow> symbol" where
  "filterSymbols f =
     sym ''Filter'' [] FilterSymbol (wf_Range f)
       (if IsDefaultRange (bf_Range (wf_Branches f)) then [] else [branchesFiltersSymbols (wf_Branches f)])"

definition workflowTriggersSymbols :: "workflow_trigger list \<Rightarrow> symbol list" where
  "workflowTriggersSymbols triggers =
     concat (map (\<lambda>trigger.
       let schedule = wt_Schedule trigger in
       if IsDefaultRange (st_Range schedule) then []
       else [sym ''schedule'' (st_Cron schedule) 0 (wt_Range trigger)
               (if IsDefaultRange (wf_Range (st_Filters schedule)) then []
                else [filterSymbols (st_Filters schedule)])]) triggers)"

definition workflowJobsSymbols :: "workflow \<Rightarrow> symbol list" where
  "workflowJobsSymbols workflow =
     map (\<lambda>j. sym (ji_StepName j) [] 0 (ji_JobInvocationRange j)
       ((if ji_PreSteps j \<noteq> []
         then [sym ''Pre-Steps'' [] ListSymbol (ji_PreStepsRange j) (stepsSymbols (ji_PreSteps j))] else []) @
        (if ji_PostSteps j \<noteq> []
         then [sym ''Post-Steps'' [] ListSymbol (ji_PostStepsRange j) (stepsSymbols (ji_PostSteps j))] else [])))
       (wfl_JobInvocations workflow)"

definition singleWorkflowSymbols :: "workflow \<Rightarrow> symbol" where
  "singleWorkflowSymbols workflow =
     symbolFromRange (wfl_Range workflow) (wfl_Name workflow) WorkflowsSymbol
       ((if wfl_JobInvocations workflow \<noteq> []
         then [sym ''Jobs'' [] ListSymbol (wfl_JobsRange workflow) (workflowJobsSymbols workflow)] else []) @
        (if wfl_HasTrigger workflow
         then [sym ''Triggers'' [] TriggerSymbol (wfl_TriggersRange workflow)
                 (workflowTriggersSymbols (wfl_Triggers workflow))] else []))"

definition resolveWorkflowsSymbols :: "yaml_document \<Rightarrow> symbol list" where
  "resolveWorkflowsSymbols document =
     (if IsDefaultRange (yd_WorkflowRange document) then []
      else [symbolFromRange (yd_WorkflowRange document) ''Workflows'' ListSymbol
              (map (singleWorkflowSymbols \<circ> snd) (yd_Workflows document))])"

subsection \<open>version.go, setup.go, orbs.go\<close>

text \<open>\<open>%.1f\<close>: tenths, rounded to the nearest, ties to even.\<close>

definition print_tenths :: "nat \<Rightarrow> nat \<Rightarrow> string" where
  "print_tenths p q = (let t = round_even (10 * p) q in dec_string (t div 10) @ ''.'' @ dec_string (t mod 10))"

fun print_version :: "float32 \<Rightarrow> string" where
  "print_version (Finite p q) = (if p < 0 then ''-'' else []) @ print_tenths (nat \<bar>p\<bar>) q"
| "print_version (Inf neg) = (if neg then ''-Inf'' else ''+Inf'')"
| "print_version NaN = ''NaN''"

definition resolveVersionSymbol :: "yaml_document \<Rightarrow> symbol list" where
  "resolveVersionSymbol document =
     (if IsDefaultRange (yd_VersionRange document) then []
      else [sym ''Version'' (print_version (yd_Version document)) 0 (yd_VersionRange document) []])"

definition resolveSetupSymbol :: "yaml_document \<Rightarrow> symbol list" where
  "resolveSetupSymbol doc =
     (if IsDefaultRange (yd_SetupRange doc) then []
      else [sym ''Setup'' (if yd_Setup doc then ''true'' else ''false'') SymbolKindBoolean (yd_SetupRange doc) []])"

definition resolveOrbSymbols :: "yaml_document \<Rightarrow> symbol list" where
  "resolveOrbSymbols document =
     (if IsDefaultRange (yd_OrbsRange document) then []
      else [symbolFromRange (yd_OrbsRange document) ''Orbs'' ListSymbol
              (map (\<lambda>(_, orb). sym (orb_Name orb) (ou_Version (orb_Url orb)) OrbSymbol (orb_Range orb) [])
                 (yd_Orbs document))])"

subsection \<open>symbols.go\<close>

definition SymbolsForDocument :: "yaml_document \<Rightarrow> symbol list" where
  "SymbolsForDocument document =
     resolveVersionSymbol document @ resolveSetupSymbol document @ resolveOrbSymbols document @
     resolveCommandsSymbols document @ resolveJobsSymbols document @ resolveExecutorsSymbols document @
     resolveWorkflowsSymbols document @ resolveJobGroupsSymbols document @
     resolvePipelineParametersSymbols document"

subsection \<open>What the outline shows\<close>

text \<open>The parameters of a command are shown at the range of its steps.\<close>

lemma command_parameters_at_steps:
  assumes "cmd_Parameters command \<noteq> []"
  shows "\<exists>symb \<in> set (sy_Children (singleCommandSymbols command)).
    sy_Name symb = ''Parameters'' \<and> sy_Range symb = cmd_StepsRange command"
  using assms by (simp add: singleCommandSymbols_def sym_def)


end
