(* ===== verification/Requests.thy ===== *)
theory Requests
  imports Server Complete Hover SemTokens Symbols FindRefs
begin

text \<open>
  The requests of a client: \<open>commandHandler\<close> of \<open>pkg/server/server.go\<close> with the methods of
  \<open>pkg/server/methods\<close> that it calls, over decoded requests. A method decodes, calls a service and
  replies; \<open>None\<close> is a panic, after which the program ends.
  Telemetry and the request that ends the program are left out.
\<close>

subsection \<open>Requests and replies\<close>

datatype client_request =
    InitializeRequest "initialization_options option"
  | CommandRequest string "argument list"
  | DidOpenRequest text_document_item
  | DidCloseRequest string
  | DidChangeRequest string int "content_change list"
  | HoverRequest string position
  | SemanticTokensRequest string
  | DefinitionRequest string position
  | ReferencesRequest string position
  | CompletionRequest string position
  | CodeActionRequest "diagnostic list"
  | DocumentSymbolRequest string
  | ShutdownRequest
  | UnknownRequest

datatype response =
    NoResult
  | ErrorResponse
  | CommandResponse reply
  | Capabilities
  | HoverText string
  | Tokens "u32 list"
  | Locations locations
  | Items items
  | Actions "code_action list"
  | Outline "symbol list"

text \<open>
  What the methods are given: the account, the synchronisation's handlers, the queries of completion, of
  which the fields for a request are filled in, and the URI of a path. The state: the server, the names
  of orbs that completion keeps, and the user agent.
\<close>

record lsp =
  lp_Account :: account
  lp_Handlers :: handlers
  lp_Completion :: completion
  lp_NewURI :: "string \<Rightarrow> string"

record lsp_state =
  ls_Server :: server
  ls_OrbNames :: orb_names
  ls_UserAgent :: string

definition on_server :: "'a action \<Rightarrow> server \<Rightarrow> ('a \<times> server) option" where
  "on_server m s = map_option (\<lambda>(x, st). (x, s\<lparr>sr_State := st\<rparr>)) (m (sr_State s))"

text \<open>The document of an open file; an error (\<open>Inl\<close>) of a file that is not open.\<close>

definition open_document :: "lsp \<Rightarrow> string \<Rightarrow> server \<Rightarrow> (string + yaml_document) option" where
  "open_document l uri s =
     (let pl = hd_Pipeline (lp_Handlers l)
      in ParseFromUriWithCache (pl_Fuel pl) (pl_Grammar pl) uri (ca_FileCache (sr_Cache s)) (sr_Context s))"

definition navigation_at :: "lsp \<Rightarrow> string \<Rightarrow> position \<Rightarrow> yaml_document \<Rightarrow> navigation" where
  "navigation_at l uri pos doc =
     (let pl = hd_Pipeline (lp_Handlers l)
      in \<lparr>nv_Doc = doc, nv_Uri = uri, nv_Position = pos, nv_Env = pipeline_env pl, nv_Services = pl_Schema pl,
          nv_NewURI = lp_NewURI l\<rparr>)"

definition completion_at :: "lsp \<Rightarrow> position \<Rightarrow> ls_context \<Rightarrow> completion" where
  "completion_at l pos ctx =
     (let pl = hd_Pipeline (lp_Handlers l)
      in (lp_Completion l)\<lparr>cp_Position := pos, cp_Fuel := pl_Fuel pl, cp_Grammar := pl_Grammar pl,
           cp_Services := pl_Schema pl, cp_Env := pipeline_env pl, cp_Context := ctx\<rparr>)"

subsection \<open>The methods\<close>

definition Hover_method :: "lsp \<Rightarrow> string \<Rightarrow> position \<Rightarrow> server \<Rightarrow> response option" where
  "Hover_method l uri pos s =
     (let pl = hd_Pipeline (lp_Handlers l)
      in map_option (\<lambda>r. case r of Inl _ \<Rightarrow> NoResult | Inr x \<Rightarrow> HoverText x)
           (Hover (pl_Fuel pl) (pl_Grammar pl) uri pos (ca_FileCache (sr_Cache s)) (sr_Context s)))"

definition SemanticTokens_method :: "lsp \<Rightarrow> string \<Rightarrow> server \<Rightarrow> response option" where
  "SemanticTokens_method l uri s =
     Option.bind (open_document l uri s) (\<lambda>r.
       case r of
         Inl _ \<Rightarrow> Some (Tokens [])
       | Inr doc \<Rightarrow> map_option Tokens (SemanticTokens (pl_Schema (hd_Pipeline (lp_Handlers l))) doc))"

definition Definition_method :: "lsp \<Rightarrow> string \<Rightarrow> position \<Rightarrow> server \<Rightarrow> (response \<times> server) option" where
  "Definition_method l uri pos s =
     Option.bind (open_document l uri s) (\<lambda>r.
       case r of
         Inl _ \<Rightarrow> Some (ErrorResponse, s)
       | Inr doc \<Rightarrow> map_option (\<lambda>(ls, s). (Locations ls, s)) (on_server (Definition (navigation_at l uri pos doc)) s))"

definition References_method :: "lsp \<Rightarrow> string \<Rightarrow> position \<Rightarrow> server \<Rightarrow> (response \<times> server) option" where
  "References_method l uri pos s =
     Option.bind (open_document l uri s) (\<lambda>r.
       case r of
         Inl _ \<Rightarrow> Some (ErrorResponse, s)
       | Inr doc \<Rightarrow>
           map_option (\<lambda>(r, s). (case r of Inl _ \<Rightarrow> ErrorResponse | Inr ls \<Rightarrow> Locations ls, s))
             (on_server (GetReferences (navigation_at l uri pos doc)) s))"

definition Complete_method ::
    "lsp \<Rightarrow> string \<Rightarrow> position \<Rightarrow> orb_names \<Rightarrow> server \<Rightarrow> (response \<times> orb_names \<times> server) option" where
  "Complete_method l uri pos m s =
     map_option (\<lambda>(r, s). case r of Inl _ \<Rightarrow> (ErrorResponse, m, s) | Inr (xs, m) \<Rightarrow> (Items xs, m, s))
       (on_server (Complete (completion_at l pos (sr_Context s)) uri m) s)"

text \<open>The actions are decoded again, as those of the diagnostics are before they are shown.\<close>

definition CodeAction_method :: "lsp \<Rightarrow> diagnostic list \<Rightarrow> code_action list" where
  "CodeAction_method l ds =
     concat (map (\<lambda>d. case diag_Data d of
         None \<Rightarrow> []
       | Some acts \<Rightarrow> (case pl_Reload (hd_Pipeline (lp_Handlers l)) acts of None \<Rightarrow> [] | Some codeActions \<Rightarrow> codeActions)) ds)"

text \<open>The outline of a file that is not open is that of the file on disk.\<close>

definition DocumentSymbols :: "lsp \<Rightarrow> string \<Rightarrow> server \<Rightarrow> (unit + symbol list) option" where
  "DocumentSymbols l uri s =
     Option.bind (open_document l uri s) (\<lambda>r.
       case r of
         Inr doc \<Rightarrow> Some (Inr (SymbolsForDocument doc))
       | Inl _ \<Rightarrow>
           let h = lp_Handlers l; pl = hd_Pipeline h; (content, err) = ob_Read (hd_Files h) (ob_Filename (hd_Files h) uri)
           in if err \<noteq> None then Some (Inl ())
              else map_option (\<lambda>doc. Inr (SymbolsForDocument doc))
                     (ParseFromContent (pl_Fuel pl) (pl_Grammar pl) content (sr_Context s) uri zero_pos))"

subsection \<open>server.go\<close>

definition with_server :: "lsp_state \<Rightarrow> (response \<times> server) option \<Rightarrow> (response \<times> lsp_state) option" where
  "with_server st r = map_option (\<lambda>(x, s). (x, st\<lparr>ls_Server := s\<rparr>)) r"

definition commandHandler :: "lsp \<Rightarrow> client_request \<Rightarrow> lsp_state \<Rightarrow> (response \<times> lsp_state) option" where
  "commandHandler l req st =
     (let s = ls_Server st; h = lp_Handlers l;
          done' = (\<lambda>s. (NoResult, s));
          reading = map_option (\<lambda>r. (r, st)) in
      case req of
        InitializeRequest options \<Rightarrow>
          (let (ctx, agent) = Initialize options (sr_Context s) (ls_UserAgent st)
           in Some (Capabilities, st\<lparr>ls_Server := set_context ctx s, ls_UserAgent := agent\<rparr>))
      | CommandRequest command arguments \<Rightarrow>
          with_server st (map_option (\<lambda>(r, s). (CommandResponse r, s)) (ExecuteCommand (lp_Account l) h command arguments s))
      | DidOpenRequest td \<Rightarrow> with_server st (map_option done' (DidOpen h td s))
      | DidCloseRequest uri \<Rightarrow> with_server st (Some (done' (DidClose h uri s)))
      | DidChangeRequest uri version changes \<Rightarrow> with_server st (map_option done' (DidChange h uri version changes s))
      | HoverRequest uri pos \<Rightarrow> reading (Hover_method l uri pos s)
      | SemanticTokensRequest uri \<Rightarrow> reading (SemanticTokens_method l uri s)
      | DefinitionRequest uri pos \<Rightarrow> with_server st (Definition_method l uri pos s)
      | ReferencesRequest uri pos \<Rightarrow> with_server st (References_method l uri pos s)
      | CompletionRequest uri pos \<Rightarrow>
          map_option (\<lambda>(r, m, s). (r, st\<lparr>ls_Server := s, ls_OrbNames := m\<rparr>))
            (Complete_method l uri pos (ls_OrbNames st) s)
      | CodeActionRequest ds \<Rightarrow> reading (Some (Actions (CodeAction_method l ds)))
      | DocumentSymbolRequest uri \<Rightarrow>
          reading (map_option (\<lambda>r. case r of Inl _ \<Rightarrow> ErrorResponse | Inr xs \<Rightarrow> Outline xs) (DocumentSymbols l uri s))
      | ShutdownRequest \<Rightarrow> Some (NoResult, st)
      | UnknownRequest \<Rightarrow> Some (ErrorResponse, st))"

text \<open>The state of the first connection to a server.\<close>

definition getJsonRpcServer :: ls_context where
  "getJsonRpcServer =
     \<lparr>ls_Api = \<lparr>api_Token = [], api_HostUrl = CIRCLE_CI_APP_HOST_URL, api_userId = []\<rparr>, ls_UserIdForTelemetry = [],
      ls_IsCciExtension = False\<rparr>"

definition ServeStream :: "string \<Rightarrow> lsp_state" where
  "ServeStream UserAgent =
     \<lparr>ls_Server = \<lparr>sr_State = \<lparr>vs_Diagnostics = [], vs_Cache = CreateCache, vs_OrbExists = []\<rparr>,
        sr_Context = getJsonRpcServer, sr_Timer = None, sr_Requested = [], sr_Computed = [], sr_Published = []\<rparr>,
      ls_OrbNames = \<lparr>on_RegistryOrbs = [], on_OrbData = []\<rparr>, ls_UserAgent = UserAgent\<rparr>"

end
