(* ===== verification/ServerProps.thy ===== *)
theory ServerProps
  imports Server
begin

text \<open>
  What the commands of the client do: after another token nothing that was fetched for the account before is
  left, and every command, and everything that is fetched, is a sequence of steps of \<open>Sync\<close>.
\<close>

subsection \<open>The files are kept under their own URIs\<close>

definition files_ok :: "file_cache \<Rightarrow> bool" where
  "files_ok files \<longleftrightarrow> gm_wf files \<and> (\<forall>uri f. FileCache_GetFile files uri = Some f \<longrightarrow> td_URI (cf_TextDocument f) = uri)"

lemma files_ok_put:
  "files_ok files \<Longrightarrow> td_URI (cf_TextDocument f) = uri \<Longrightarrow> files_ok (gm_put uri f files)"
  by (simp add: files_ok_def FileCache_GetFile_def)

lemma files_ok_SetFile: "files_ok files \<Longrightarrow> files_ok (FileCache_SetFile f files)"
  by (simp add: FileCache_SetFile_def files_ok_put)

lemma files_ok_listed:
  assumes "files_ok files" "(k, f) \<in> set files"
  shows "FileCache_GetFile files k = Some f" "td_URI (cf_TextDocument f) = k"
  using assms by (auto simp: files_ok_def FileCache_GetFile_def gm_wf_get_iff)

abbreviation files_of :: "server \<Rightarrow> file_cache" where
  "files_of s \<equiv> ca_FileCache (sr_Cache s)"

lemma files_of_set_cache [simp]: "files_of (set_cache c s) = ca_FileCache c"
  by (simp add: set_cache_def sr_Cache_def)

lemma files_of_fields [simp]:
  "files_of (s\<lparr>sr_Timer := a\<rparr>) = files_of s" "files_of (s\<lparr>sr_Requested := b\<rparr>) = files_of s"
  "files_of (s\<lparr>sr_Computed := d\<rparr>) = files_of s" "files_of (s\<lparr>sr_Published := e\<rparr>) = files_of s"
  "files_of (s\<lparr>sr_Context := x\<rparr>) = files_of s" "files_of (request td s) = files_of s"
  by (simp_all add: sr_Cache_def request_def)

lemma set_text_files: "set_text td s = Some s' \<Longrightarrow> files_ok (files_of s) \<Longrightarrow> files_ok (files_of s')"
  by (auto simp: set_text_def setChangeInFileCache_def UpdateTextDocument_def files_ok_SetFile files_ok_put
      split: option.splits)

lemma with_parsing_files: "with_cache (parsingMethods h td) s = Some s' \<Longrightarrow> files_of s' = files_of s"
  by (auto simp: with_cache_def dest: parsingMethods_files)

lemma with_orb_files: "with_cache (updateOrbFile h content u) s = Some s' \<Longrightarrow> files_of s' = files_of s"
  by (auto simp: with_cache_def dest: updateOrbFile_files)

lemma server_step_files:
  assumes "server_step h s s'" and ok: "files_ok (files_of s)"
  shows "files_ok (files_of s')"
  using assms(1)
proof cases
  case (opened td)
  then obtain a b c where steps: "set_text td s = Some a" "with_cache (parsingMethods h td) a = Some b"
    "with_cache (updateOrbFile h (td_Text td) (td_URI td)) b = Some c" and "s' = request td c"
    by (auto simp: DidOpen_def bind_eq_Some_conv)
  then show ?thesis
    using set_text_files [OF steps(1) ok] with_parsing_files [OF steps(2)] with_orb_files [OF steps(3)] by simp
next
  case (changed uri version changes)
  then obtain content td a b where "set_text td s = Some a" "with_cache (updateOrbFile h content uri) a = Some b"
    "s' = b\<lparr>sr_Timer := Some td\<rparr>"
    by (auto simp: DidChange_def bind_eq_Some_conv Let_def)
  then show ?thesis
    using set_text_files [OF _ ok] with_orb_files by simp
next
  case (closed uri)
  have "files_ok (FileCache_RemoveFile uri (files_of s))"
    using ok by (simp add: files_ok_def FileCache_RemoveFile_def FileCache_GetFile_def gm_get_del)
  then show ?thesis
    using ok closed by (simp add: DidClose_def Let_def)
next
  case (fired td)
  then show ?thesis
    using ok by (auto simp: timer_fires_def dest: with_parsing_files)
next
  case (asked td)
  then show ?thesis using ok by simp
next
  case (computed xs td ys ds st)
  then have "ca_FileCache (vs_Cache st) = files_of s"
    using Diagnostic_files by (simp add: compute_diagnostics_def sr_Cache_def)
  then show ?thesis
    using ok computed by (simp add: sr_Cache_def)
next
  case (published xs td ds ys)
  then show ?thesis
    using ok by (simp add: publish_def split: option.split)
next
  case (background st ctx)
  have "FileCache_GetFile (ca_FileCache (vs_Cache st)) uri = Some f \<Longrightarrow>
    \<exists>f'. FileCache_GetFile (files_of s) uri = Some f' \<and> cf_TextDocument f' = cf_TextDocument f" for uri f
    using background(2) [of uri] by (cases "FileCache_GetFile (files_of s) uri") (simp_all add: document_at_def sr_Cache_def)
  then show ?thesis
    using ok background(1,3) by (fastforce simp: files_ok_def sr_Cache_def)
qed

lemma server_runs_files: "server_runs h s \<Longrightarrow> files_ok (files_of s)"
proof (induction rule: server_runs.induct)
  case (start ctx)
  then show ?case
    by (simp add: files_ok_def sr_Cache_def CreateCache_def FileCache_GetFile_def)
qed (rule server_step_files)

subsection \<open>The variables of the files\<close>

definition first_only :: "string list \<Rightarrow> string list \<Rightarrow> string list" where
  "first_only names' xs = fold (\<lambda>n xs. if n \<in> set xs then xs else xs @ [n]) names' xs"

lemma set_first_only: "set (first_only names' xs) = set names' \<union> set xs"
  unfolding first_only_def by (induction names' arbitrary: xs) auto

lemma distinct_first_only: "distinct xs \<Longrightarrow> distinct (first_only names' xs)"
  unfolding first_only_def by (induction names' arbitrary: xs) auto

text \<open>The file with the variables that its project has now.\<close>

definition refreshed :: "account \<Rightarrow> ls_context \<Rightarrow> cached_file \<Rightarrow> cached_file option" where
  "refreshed a ctx f =
     (if api_Token (ls_Api ctx) = [] then Some (f\<lparr>cf_EnvVariables := []\<rparr>)
      else map_option (\<lambda>names'. f\<lparr>cf_EnvVariables := first_only names' []\<rparr>)
             (fetchAllProjectEnvVariables a ctx (prj_Slug (cf_Project f)) [] []))"

lemma refreshed_again: "refreshed a ctx f = Some f' \<Longrightarrow> refreshed a ctx f' = Some f'"
  by (auto simp: refreshed_def split: if_splits)

lemma refreshed_document: "refreshed a ctx f = Some f' \<Longrightarrow> cf_TextDocument f' = cf_TextDocument f \<and> cf_Project f' = cf_Project f"
  by (auto simp: refreshed_def split: if_splits)

lemma add_env_variables_files:
  assumes "FileCache_GetFile files uri = Some f"
  shows "\<exists>files'. add_env_variables uri names' files = Some files' \<and>
    (\<forall>u. FileCache_GetFile files' u =
       (if u = uri then Some (f\<lparr>cf_EnvVariables := first_only names' (cf_EnvVariables f)\<rparr>) else FileCache_GetFile files u))"
  using assms
proof (induction names' arbitrary: files f)
  case Nil
  then show ?case by (simp add: add_env_variables_def first_only_def)
next
  case (Cons n ns)
  let ?f = "if n \<notin> set (cf_EnvVariables f) then f\<lparr>cf_EnvVariables := cf_EnvVariables f @ [n]\<rparr> else f"
  have "AddEnvVariableToProjectLinkedToFile uri n files = Some (gm_put uri ?f files)"
    using Cons.prems by (simp add: AddEnvVariableToProjectLinkedToFile_def FileCache_GetFile_def Let_def)
  then show ?case
    using Cons.IH [of "gm_put uri ?f files" ?f] by (auto simp: add_env_variables_def first_only_def FileCache_GetFile_def)
qed

lemma add_env_variables_ok: "add_env_variables uri names' files = Some files' \<Longrightarrow> gm_wf files \<Longrightarrow> gm_wf files'"
proof (induction names' arbitrary: files)
  case (Cons n ns)
  have none: "fold (\<lambda>n m. Option.bind m (AddEnvVariableToProjectLinkedToFile uri n)) ns None = None"
    by (induction ns) auto
  with Cons.prems obtain m where m: "AddEnvVariableToProjectLinkedToFile uri n files = Some m" "add_env_variables uri ns m = Some files'"
    by (cases "AddEnvVariableToProjectLinkedToFile uri n files") (auto simp: add_env_variables_def)
  then show ?case
    using Cons by (auto simp: AddEnvVariableToProjectLinkedToFile_def Let_def split: option.splits)
qed (simp add: add_env_variables_def)

lemma updateProjectEnvVariables_files:
  assumes "files_ok files" and "updateProjectEnvVariables a ctx uri files = Some files'"
  shows "\<exists>f f'. FileCache_GetFile files uri = Some f \<and> refreshed a ctx f = Some f' \<and>
      (\<forall>u. FileCache_GetFile files' u = (if u = uri then Some f' else FileCache_GetFile files u))"
    and "gm_wf files'"
proof -
  from assms(2) obtain f where f: "FileCache_GetFile files uri = Some f"
    by (auto simp: updateProjectEnvVariables_def bind_eq_Some_conv)
  let ?f = "f\<lparr>cf_EnvVariables := []\<rparr>"
  let ?m = "FileCache_SetFile ?f files"
  have uri: "td_URI (cf_TextDocument f) = uri"
    using assms(1) f by (simp add: files_ok_def)
  have get: "FileCache_GetFile ?m u = (if u = uri then Some ?f else FileCache_GetFile files u)" for u
    by (simp add: FileCache_SetFile_def FileCache_GetFile_def uri)
  have wf: "gm_wf ?m"
    using assms(1) by (simp add: files_ok_def FileCache_SetFile_def)
  show "\<exists>f f'. FileCache_GetFile files uri = Some f \<and> refreshed a ctx f = Some f' \<and>
      (\<forall>u. FileCache_GetFile files' u = (if u = uri then Some f' else FileCache_GetFile files u))"
  proof (cases "api_Token (ls_Api ctx) = []")
    case True
    then have "files' = ?m"
      using assms(2) f by (simp add: updateProjectEnvVariables_def Let_def)
    then show ?thesis
      using f get True by (auto simp: refreshed_def)
  next
    case False
    then obtain ns where ns: "fetchAllProjectEnvVariables a ctx (prj_Slug (cf_Project f)) [] [] = Some ns"
      "add_env_variables uri ns ?m = Some files'"
      using assms(2) f uri
      by (auto simp: updateProjectEnvVariables_def GetAllProjectEnvVariables_def Let_def bind_eq_Some_conv)
    with add_env_variables_files [of ?m uri ?f ns] get
    have "FileCache_GetFile files' u =
        (if u = uri then Some (?f\<lparr>cf_EnvVariables := first_only ns []\<rparr>) else FileCache_GetFile files u)" for u
      by auto
    then show ?thesis
      using f ns(1) False by (auto simp: refreshed_def)
  qed
  show "gm_wf files'"
    using assms(2) f wf
    by (auto simp: updateProjectEnvVariables_def GetAllProjectEnvVariables_def Let_def bind_eq_Some_conv
        dest: add_env_variables_ok split: if_splits)
qed

lemma updateProjectEnvVariables_keeps_ok:
  assumes "files_ok files" and "updateProjectEnvVariables a ctx uri files = Some files'"
  shows "files_ok files'"
proof -
  obtain f f' where f: "FileCache_GetFile files uri = Some f" "refreshed a ctx f = Some f'"
    and get: "\<And>u. FileCache_GetFile files' u = (if u = uri then Some f' else FileCache_GetFile files u)"
    using updateProjectEnvVariables_files(1) [OF assms] by blast
  have "td_URI (cf_TextDocument f') = uri"
    using assms(1) f refreshed_document [OF f(2)] by (simp add: files_ok_def)
  then show ?thesis
    using updateProjectEnvVariables_files(2) [OF assms] assms(1) unfolding files_ok_def get by auto
qed

lemma fold_bind_None: "fold (\<lambda>x m. Option.bind m (g x)) xs None = None"
  by (induction xs) auto

lemma update_files_fold:
  assumes "files_ok files"
    and "fold (\<lambda>(_, file) m. Option.bind m (updateProjectEnvVariables a ctx (td_URI (cf_TextDocument file)))) xs (Some files) =
      Some files'"
  shows "files_ok files' \<and> (\<forall>u. FileCache_GetFile files' u =
    (if u \<in> (\<lambda>(_, file). td_URI (cf_TextDocument file)) ` set xs
     then Option.bind (FileCache_GetFile files u) (refreshed a ctx) else FileCache_GetFile files u) \<and>
    (u \<in> (\<lambda>(_, file). td_URI (cf_TextDocument file)) ` set xs \<longrightarrow> FileCache_GetFile files' u \<noteq> None))"
  using assms
proof (induction xs arbitrary: files)
  case Nil
  then show ?case by simp
next
  case (Cons x xs)
  let ?uri = "td_URI (cf_TextDocument (snd x))"
  from Cons.prems(2) obtain m where m: "updateProjectEnvVariables a ctx ?uri files = Some m"
    and rest: "fold (\<lambda>(_, file) m. Option.bind m (updateProjectEnvVariables a ctx (td_URI (cf_TextDocument file)))) xs (Some m) =
      Some files'"
    using fold_bind_None [of "\<lambda>(_, file). updateProjectEnvVariables a ctx (td_URI (cf_TextDocument file))" xs]
    by (cases "updateProjectEnvVariables a ctx ?uri files") (auto simp: case_prod_unfold)
  obtain f f' where f: "FileCache_GetFile files ?uri = Some f" "refreshed a ctx f = Some f'"
    "\<forall>u. FileCache_GetFile m u = (if u = ?uri then Some f' else FileCache_GetFile files u)"
    using updateProjectEnvVariables_files(1) [OF Cons.prems(1) m] by blast
  define S where "S = (\<lambda>(_, file). td_URI (cf_TextDocument file)) ` set xs"
  note ih = Cons.IH [OF updateProjectEnvVariables_keeps_ok [OF Cons.prems(1) m] rest, folded S_def]
  have whole: "(\<lambda>(_, file). td_URI (cf_TextDocument file)) ` set (x # xs) = insert ?uri S"
    by (simp add: S_def case_prod_unfold)
  have each: "FileCache_GetFile files' u =
      (if u \<in> insert ?uri S then Option.bind (FileCache_GetFile files u) (refreshed a ctx) else FileCache_GetFile files u) \<and>
    (u \<in> insert ?uri S \<longrightarrow> FileCache_GetFile files' u \<noteq> None)" for u
  proof (cases "u = ?uri")
    case True
    with ih f refreshed_again [OF f(2)] show ?thesis by simp
  next
    case False
    then have "FileCache_GetFile m u = FileCache_GetFile files u"
      using f(3) by simp
    with False ih [THEN conjunct2, THEN spec, of u] show ?thesis by (cases "u \<in> S") (auto dest: sym)
  qed
  show ?case
    unfolding whole using ih [THEN conjunct1] each by blast
qed

text \<open>All files are refreshed: the list of the map has them all.\<close>

lemma updateProjectsEnvVariables_files:
  assumes "files_ok files" and "updateProjectsEnvVariables a ctx files = Some files'"
  shows "files_ok files'"
    and "FileCache_GetFile files u = Some f \<Longrightarrow> \<exists>f'. FileCache_GetFile files' u = Some f' \<and> refreshed a ctx f = Some f'"
    and "FileCache_GetFile files u = None \<Longrightarrow> FileCache_GetFile files' u = None"
proof -
  note all = update_files_fold [OF assms(1) assms(2) [unfolded updateProjectsEnvVariables_def]]
  show "files_ok files'" "FileCache_GetFile files u = None \<Longrightarrow> FileCache_GetFile files' u = None"
    using all by auto
  assume f: "FileCache_GetFile files u = Some f"
  then have "(u, f) \<in> set files" "td_URI (cf_TextDocument f) = u"
    using assms(1) by (simp_all add: files_ok_def FileCache_GetFile_def gm_wf_get_iff)
  then have "u \<in> (\<lambda>(_, file). td_URI (cf_TextDocument file)) ` set files"
    by force
  with all [THEN conjunct2, THEN spec, of u] have "FileCache_GetFile files' u = refreshed a ctx f" "FileCache_GetFile files' u \<noteq> None"
    using f by (auto dest: sym)
  then show "\<exists>f'. FileCache_GetFile files' u = Some f' \<and> refreshed a ctx f = Some f'"
    by auto
qed

subsection \<open>Another token\<close>

text \<open>Asking for the diagnostics of a list of files.\<close>

lemma fold_request:
  "fold (\<lambda>(_, file). request (cf_TextDocument file)) xs s =
   s\<lparr>sr_Requested := sr_Requested s @ map (\<lambda>(_, file). cf_TextDocument file) xs\<rparr>"
  by (induction xs arbitrary: s) (simp_all add: request_def case_prod_unfold)

lemma updateAllCachedFiles_fields [simp]:
  "sr_State (updateAllCachedFiles s) = sr_State s" "sr_Context (updateAllCachedFiles s) = sr_Context s"
  "sr_Requested (updateAllCachedFiles s) = sr_Requested s @ map (\<lambda>(_, file). cf_TextDocument file) (files_of s)"
  "sr_Cache (updateAllCachedFiles s) = sr_Cache s"
  by (simp_all add: updateAllCachedFiles_def fold_request sr_Cache_def)

text \<open>A setting in one record.\<close>

lemma account_changed_eq:
  "account_changed a changed api s =
     (let c = (if changed then fst (ClearHostData (sr_Cache s) []) else sr_Cache s);
          ctx = (sr_Context s)\<lparr>ls_Api := api\<rparr>
      in map_option (\<lambda>files. s\<lparr>sr_State := (sr_State s)\<lparr>vs_Cache := c\<lparr>ca_FileCache := files\<rparr>\<rparr>, sr_Context := ctx,
             sr_Requested := sr_Requested s @ map (\<lambda>(_, file). cf_TextDocument file) (files_of s)\<rparr>)
           (updateProjectsEnvVariables a ctx (files_of s)))"
  by (cases "updateProjectsEnvVariables a ((sr_Context s)\<lparr>ls_Api := api\<rparr>) (files_of s)")
    (simp_all add: account_changed_def with_cache_def set_api_def set_context_def updateAllCachedFiles_def fold_request
      set_cache_def sr_Cache_def ClearHostData_def Let_def)

lemma OrbCache_RemoveOrbs_empty: "OrbCache_HasOrb (OrbCache_RemoveOrbs c) orb = False"
proof -
  have "gm_get (fold gm_del ks m) k = (if k \<in> set ks then None else gm_get m k)" for ks and m :: orb_cache and k
    by (induction ks arbitrary: m) (auto simp: gm_get_del)
  then show ?thesis
    using gm_has_iff [of c orb] by (auto simp: OrbCache_HasOrb_def OrbCache_RemoveOrbs_def gm_has_def)
qed


text \<open>A file of a project whose two pages of variables repeat a name.\<close>

definition sample_account :: account where
  "sample_account =
     \<lparr>ac_Remotes = (\<lambda>_. None), ac_ParseUrl = (\<lambda>_. None), ac_ParseScp = (\<lambda>_. None), ac_Project = (\<lambda>_ _. None),
      ac_EnvPage = (\<lambda>ctx url.
        if url = ''/api/v2/project/gh/a/b/envvar'' then Some \<lparr>ep_Names = [''A'', ''B''], ep_NextPageToken = ''n''\<rparr>
        else Some \<lparr>ep_Names = [''B'', ''C''], ep_NextPageToken = []\<rparr>),
      ac_Contexts = (\<lambda>_ _ _. None), ac_ContextsWithEnvVars = (\<lambda>_ _ _. None), ac_ResourceClasses = (\<lambda>_ _. [])\<rparr>"

definition project_file :: cached_file where
  "project_file = merge_file\<lparr>cf_Project := (cf_Project merge_file)\<lparr>prj_Slug := ''gh/a/b''\<rparr>, cf_EnvVariables := [''OLD'']\<rparr>"

definition project_server :: server where
  "project_server =
     \<lparr>sr_State = \<lparr>vs_Diagnostics = [], vs_Cache = CreateCache\<lparr>ca_FileCache := [([], project_file)]\<rparr>, vs_OrbExists = []\<rparr>,
      sr_Context = zero_ls_context, sr_Timer = None, sr_Requested = [], sr_Computed = [], sr_Published = []\<rparr>"

lemma project_variables:
  assumes "ls_Api ctx = (ls_Api zero_ls_context)\<lparr>api_Token := ''t''\<rparr>"
  shows "fetchAllProjectEnvVariables sample_account ctx ''gh/a/b'' [] [] = Some [''A'', ''B'', ''B'', ''C'']"
  using assms
  by (simp add: fetchAllProjectEnvVariables.simps envvar_url_def sample_account_def zero_ls_context_def)

lemma project_files_ok: "files_ok (ca_FileCache (sr_Cache project_server))"
  by (simp add: files_ok_def project_server_def sr_Cache_def FileCache_GetFile_def gm_wf_def project_file_def
      merge_file_def)

lemma project_setToken: "\<exists>s'. setToken sample_account ''t'' project_server = Some s'"
proof -
  let ?ctx = "zero_ls_context\<lparr>ls_Api := (ls_Api zero_ls_context)\<lparr>api_Token := ''t''\<rparr>\<rparr>"
  have "fetchAllProjectEnvVariables sample_account ?ctx ''gh/a/b'' [] [] = Some [''A'', ''B'', ''B'', ''C'']"
    by (rule project_variables) simp
  then have "updateProjectsEnvVariables sample_account ?ctx [([], project_file)] \<noteq> None"
    by (simp add: updateProjectsEnvVariables_def updateProjectEnvVariables_def GetAllProjectEnvVariables_def project_file_def
        merge_file_def FileCache_GetFile_def FileCache_SetFile_def add_env_variables_def
        AddEnvVariableToProjectLinkedToFile_def Let_def)
  then show ?thesis
    by (auto simp: setToken_def account_changed_eq project_server_def sr_Cache_def ClearHostData_def Let_def)
qed


subsection \<open>Commands are steps\<close>

text \<open>What leaves the texts alone is a step.\<close>

lemma background_cache:
  assumes "files_ok (ca_FileCache c)" and "\<And>uri. document_at (set_cache c s) uri = document_at s uri"
  shows "server_step h s (set_context ctx (set_cache c s))"
proof -
  have "set_context ctx (set_cache c s) = s\<lparr>sr_State := (sr_State s)\<lparr>vs_Cache := c\<rparr>, sr_Context := ctx\<rparr>"
    by (simp add: set_context_def set_cache_def)
  then show ?thesis
    using assms server_step.background [where s = s and st = "(sr_State s)\<lparr>vs_Cache := c\<rparr>" and h = h and ctx = ctx]
    by (simp add: files_ok_def set_cache_def)
qed

lemma requests_run:
  assumes "server_runs h s" and "\<And>k f. (k, f) \<in> set xs \<Longrightarrow> document_at s (td_URI (cf_TextDocument f)) = Some (cf_TextDocument f)"
  shows "server_runs h (fold (\<lambda>(_, file). request (cf_TextDocument file)) xs s)"
  using assms
proof (induction xs arbitrary: s)
  case (Cons x xs)
  have "server_step h s (request (cf_TextDocument (snd x)) s)"
    using Cons.prems(2) [of "fst x" "snd x"] by (auto intro: server_step.asked)
  then have "server_runs h (request (cf_TextDocument (snd x)) s)"
    using Cons.prems(1) server_runs.step by blast
  then have "server_runs h (fold (\<lambda>(_, file). request (cf_TextDocument file)) xs (request (cf_TextDocument (snd x)) s))"
    using Cons.prems(2) by (intro Cons.IH) (auto simp: request_def)
  then show ?case
    by (simp add: case_prod_unfold)
qed simp

lemma updateAllCachedFiles_runs:
  assumes "server_runs h s"
  shows "server_runs h (updateAllCachedFiles s)"
  unfolding updateAllCachedFiles_def
  using files_ok_listed [OF server_runs_files [OF assms]]
  by (intro requests_run [OF assms]) (auto simp: document_at_def)

lemma refreshed_documents:
  assumes "files_ok files" and "updateProjectsEnvVariables a ctx files = Some files'"
  shows "map_option cf_TextDocument (FileCache_GetFile files' u) = map_option cf_TextDocument (FileCache_GetFile files u)"
  using updateProjectsEnvVariables_files(2,3) [OF assms, of u] refreshed_document
  by (cases "FileCache_GetFile files u") fastforce+

lemma account_changed_runs:
  assumes runs: "server_runs h s" and changed: "account_changed a changed api s = Some s'"
  shows "server_runs h s'"
proof -
  let ?c = "if changed then fst (ClearHostData (sr_Cache s) []) else sr_Cache s"
  let ?ctx = "(sr_Context s)\<lparr>ls_Api := api\<rparr>"
  let ?s = "updateAllCachedFiles (set_context ?ctx (set_cache ?c s))"
  have files: "ca_FileCache ?c = files_of s"
    by (simp add: ClearHostData_def)
  have ok: "files_ok (files_of s)"
    by (rule server_runs_files [OF runs])
  have "server_step h s (set_context ?ctx (set_cache ?c s))"
    using ok files by (intro background_cache) (simp_all add: document_at_def)
  then have "server_runs h ?s"
    using runs by (intro updateAllCachedFiles_runs) (rule server_runs.step)
  moreover obtain files' where files': "updateProjectsEnvVariables a ?ctx (files_of s) = Some files'"
    and s': "s' = set_context ?ctx (set_cache (?c\<lparr>ca_FileCache := files'\<rparr>) ?s)"
    using changed
    by (auto simp: account_changed_eq Let_def set_context_def set_cache_def updateAllCachedFiles_def fold_request
        sr_Cache_def ClearHostData_def)
  have "document_at ?s uri = document_at s uri" for uri
    using files by (simp add: document_at_def set_context_def)
  then have "server_step h ?s s'"
    unfolding s' using refreshed_documents [OF ok files'] updateProjectsEnvVariables_files(1) [OF ok files']
    by (intro background_cache) (simp_all add: document_at_def)
  with \<open>server_runs h ?s\<close> show ?thesis
    by (rule server_runs.step)
qed

text \<open>
  Every command of a client is a sequence of steps of the server, so that what holds of the
  diagnostics that are published holds with commands in between.
\<close>

lemma ExecuteCommand_runs:
  assumes "server_runs h s" and "ExecuteCommand a h command arguments s = Some (r, s')"
  shows "server_runs h s'"
proof -
  have "server_runs h (setUserId x s)" for x
  proof -
    have "server_step h s (set_context ((sr_Context s)\<lparr>ls_UserIdForTelemetry := x\<rparr>) (set_cache (sr_Cache s) s))"
      using server_runs_files [OF assms(1)] by (intro background_cache) (simp_all add: document_at_def)
    then show ?thesis
      using server_runs.step [OF assms(1)] by (simp add: setUserId_def set_cache_def sr_Cache_def)
  qed
  then show ?thesis
    using assms account_changed_runs [OF assms(1)]
    by (auto simp: ExecuteCommand_def string_setting_def getWorkflows_command_def setToken_def setHostUrl_def Let_def
        split: if_splits list.splits argument.splits)
qed

definition zero_server :: server where
  "zero_server =
     \<lparr>sr_State = \<lparr>vs_Diagnostics = [], vs_Cache = CreateCache, vs_OrbExists = []\<rparr>, sr_Context = zero_ls_context,
      sr_Timer = None, sr_Requested = [], sr_Computed = [], sr_Published = []\<rparr>"

lemma zero_server_runs: "server_runs h zero_server"
  unfolding zero_server_def by (rule server_runs.start)

theorem ExecuteCommand_runs_witness:
  "\<exists>s'. ExecuteCommand sample_account sample_handlers ''setUserId'' [StringArgument ''u''] zero_server = Some (NoReply, s') \<and>
     server_runs sample_handlers s'"
  using ExecuteCommand_runs [of sample_handlers zero_server sample_account "''setUserId''" "[StringArgument ''u'']" NoReply]
  by (simp add: ExecuteCommand_def string_setting_def zero_server_runs)

subsection \<open>What is fetched are steps\<close>

lemma load_contexts_files: "load_contexts a ctx org c = Some c' \<Longrightarrow> ca_FileCache c' = ca_FileCache c"
  by (auto simp: load_contexts_def)

lemma AddProjectSlugToFile_files:
  assumes "files_ok files" and "AddProjectSlugToFile uri project files = Some files'"
  shows "files_ok files'"
    and "map_option cf_TextDocument (FileCache_GetFile files' u) = map_option cf_TextDocument (FileCache_GetFile files u)"
  using assms
  by (auto simp: AddProjectSlugToFile_def files_ok_def FileCache_GetFile_def split: option.splits if_splits)

lemma updateProjectEnvVariables_documents:
  assumes "files_ok files" and "updateProjectEnvVariables a ctx uri files = Some files'"
  shows "map_option cf_TextDocument (FileCache_GetFile files' u) = map_option cf_TextDocument (FileCache_GetFile files u)"
  using updateProjectEnvVariables_files(1) [OF assms] by (auto dest: refreshed_document)

lemma getAllEnvVariables_files:
  assumes "files_ok (ca_FileCache c)" and "getAllEnvVariables a h td ctx c = Some c'"
  shows "files_ok (ca_FileCache c') \<and>
    (\<forall>u. map_option cf_TextDocument (FileCache_GetFile (ca_FileCache c') u) =
         map_option cf_TextDocument (FileCache_GetFile (ca_FileCache c) u))"
proof -
  have added: "files_ok m' \<and> (\<forall>u. map_option cf_TextDocument (FileCache_GetFile m' u) =
      map_option cf_TextDocument (FileCache_GetFile (ca_FileCache c) u))"
    if "AddProjectSlugToFile uri project (ca_FileCache c) = Some m" "updateProjectEnvVariables a ctx u' m = Some m'"
    for uri project m m' u'
    using AddProjectSlugToFile_files [OF assms(1) that(1)] that(2)
      updateProjectEnvVariables_keeps_ok updateProjectEnvVariables_documents by metis
  show ?thesis
    using assms(2,1)
    by (auto simp: getAllEnvVariables_def Let_def bind_eq_Some_conv dest!: load_contexts_files added
        split: if_splits option.splits)
qed

lemma with_cache_runs:
  assumes "server_runs h s" and "with_cache f s = Some s'"
    and "\<And>c'. f (sr_Context s) (sr_Cache s) = Some c' \<Longrightarrow> files_ok (ca_FileCache c') \<and>
      (\<forall>u. map_option cf_TextDocument (FileCache_GetFile (ca_FileCache c') u) =
           map_option cf_TextDocument (FileCache_GetFile (files_of s) u))"
  shows "server_runs h s'"
proof -
  obtain c' where c': "f (sr_Context s) (sr_Cache s) = Some c'" "s' = set_cache c' s"
    using assms(2) by (auto simp: with_cache_def)
  then have "server_step h s (set_context (sr_Context s) (set_cache c' s))"
    using assms(3) by (intro background_cache) (simp_all add: document_at_def)
  then show ?thesis
    using server_runs.step [OF assms(1)] c'(2) by (simp add: set_context_def set_cache_def)
qed

lemma fetch_for_notification_runs:
  assumes "server_runs h s" and "with_cache (fetch_for_notification a h td) s = Some s'"
  shows "server_runs h s'"
  using server_runs_files [OF assms(1)]
  by (intro with_cache_runs [OF assms])
    (auto simp: fetch_for_notification_def dest: getAllEnvVariables_files split: if_splits)

lemma SetResourceClassOfFile_runs:
  assumes "server_runs h s" and "with_cache (SetResourceClassOfFile a h uri) s = Some s'"
  shows "server_runs h s'"
  using server_runs_files [OF assms(1)]
  by (intro with_cache_runs [OF assms]) (auto simp: SetResourceClassOfFile_def)

end
