(* ===== verification/RequestProps.thy ===== *)
theory RequestProps
  imports Requests ServerProps
begin

text \<open>
  Every request is a sequence of steps of \<open>Sync\<close>: the services leave the texts alone, and the commands
  are those of \<open>ServerProps\<close>.
\<close>

subsection \<open>The services leave the files alone\<close>

lemma framed_case_sum [framed_intros]:
  "(\<And>x. framed (f x)) \<Longrightarrow> (\<And>x. framed (g x)) \<Longrightarrow> framed (case r of Inl x \<Rightarrow> f x | Inr x \<Rightarrow> g x)"
  by (cases r) simp_all

lemma framed_vfirst [framed_intros]: "(\<And>x. framed (f x)) \<Longrightarrow> framed (vfirst f xs)"
  by (induction xs) (auto intro!: framed_intros)

lemma framed_vconcat [framed_intros]: "(\<And>x. framed (f x)) \<Longrightarrow> framed (vconcat f xs)"
  by (induction xs) (auto intro!: framed_intros)

lemma framed_vthen [framed_intros]: "framed m \<Longrightarrow> framed n \<Longrightarrow> framed (vthen m n)"
  unfolding vthen_def by (intro framed_intros)

text \<open>Going to a definition.\<close>

lemma framed_locations [framed_intros]:
  "framed (getOrbLocation d n b)" "framed (getOrbParamLocation d n p)"
  unfolding getOrbLocation_def getOrbParamLocation_def by (intro framed_intros)+

lemma framed_ranges [framed_intros]:
  "framed (getExecutorRange d n)" "framed (getCommandOrJobLocation d n b)" "framed (getCommandOrJobParamLocation d n p b)"
  unfolding getExecutorRange_def getCommandOrJobLocation_def getCommandOrJobParamLocation_def Let_def
  by (intro framed_intros)+

lemma framed_params [framed_intros]:
  "framed (searchParamDefinition d)" "framed (searchForParamValueDefinition d n ps)"
  unfolding searchParamDefinition_def searchForParamValueDefinition_def by (intro framed_intros)+

lemma framed_getStepDefinition [framed_intros]: "framed (getStepDefinition d steps)"
proof -
  have "framed (step_definition d st)" for st
    by (cases st) (auto simp: step_definition_def intro!: framed_intros)
  then show ?thesis
    unfolding getStepDefinition_def by (intro framed_intros)
qed

lemma framed_searches [framed_intros]:
  "framed (searchForJobs d)" "framed (searchForCommands d)" "framed (searchForWorkflows d)" "framed (searchForJobGroups d)"
  unfolding searchForJobs_def searchForCommands_def searchForWorkflows_def searchForJobGroups_def job_definition_def
    command_definition_def invocation_definition_def Let_def
  by (intro framed_intros)+

lemma framed_Definition: "framed (Definition d)"
proof -
  have "framed (definition_depth k d)" for k d
    by (induction k arbitrary: d) (auto simp: definition_with_def getOrbDefinition_def Let_def intro!: framed_intros)
  then show ?thesis
    by (simp add: Definition_def)
qed

lemma framed_GetReferences: "framed (GetReferences d)"
proof -
  have "framed (references_in d)" for d
    by (auto simp: references_in_def references_of_def Let_def intro!: framed_intros)
  then have "framed (references_depth k d)" for k d
    by (induction k arbitrary: d) (auto simp: references_with_def Let_def intro!: framed_intros)
  then show ?thesis
    by (simp add: GetReferences_def)
qed

text \<open>Completion.\<close>

lemma framed_names [framed_intros]:
  "framed (orbsJobs ch)" "framed (orbCommands ch n)" "framed (addExecutorsCompletion ch)"
  unfolding orbsJobs_def orbCommands_def orb_entities_def addExecutorsCompletion_def getOrbExecutors_def CH_GetOrbInfo_def
  by (intro framed_intros)+

lemma framed_addJobsAndOrbsCompletion [framed_intros]: "framed (addJobsAndOrbsCompletion ch)"
  unfolding addJobsAndOrbsCompletion_def by (intro framed_intros)

lemma framed_completeWorkflows [framed_intros]: "framed (completeWorkflows ch)" "framed (completeJobGroups ch)"
  unfolding completeWorkflows_def completeJobGroups_def by (intro framed_intros)+

lemma framed_addParametersDefinitionCompletion [framed_intros]: "framed (addParametersDefinitionCompletion ch ps)"
  by (induction ps rule: addParametersDefinitionCompletion.induct) (auto simp: Let_def intro!: framed_intros)

lemma framed_addParameterReferenceCompletion [framed_intros]: "framed (addParameterReferenceCompletion ch n)"
  unfolding addParameterReferenceCompletion_def addPipelineParametersReferenceCompletion_def addParametersReferenceCompletion_def
  by (intro framed_intros)

lemma framed_completeSteps [framed_intros]: "framed (completeSteps ch n j i node)"
  unfolding completeSteps_def isWritingAnEnvVariableInRunStep_def addCompleteEnvVariables_def by (intro framed_intros)

lemma framed_completeCommands [framed_intros]: "framed (completeCommands ch)"
  unfolding completeCommands_def by (intro framed_intros)

lemma framed_resource_classes [framed_intros]: "framed (resource_classes ch f)"
  unfolding resource_classes_def Let_def by (intro framed_intros) (simp split: prod.split)

lemma framed_executors [framed_intros]:
  "framed (completeDockerExecutor ch de)" "framed (completeMachineExecutor ch me)" "framed (completeMacOSExecutor ch mac)"
  unfolding completeDockerExecutor_def completeMachineExecutor_def completeMacOSExecutor_def complete_image_def
    addDockerImageCompletion_def Let_def
  by (intro framed_intros)+

lemma framed_completeExecutors [framed_intros]: "framed (completeExecutors ch)"
  by (auto simp: completeExecutors_def split: option.split executor.split intro!: framed_intros)

lemma framed_completeJobs [framed_intros]: "framed (completeJobs ch)"
  unfolding completeJobs_def by (intro framed_intros)

lemma framed_completeOrbs [framed_intros]: "framed (completeOrbs ch m)"
  unfolding completeOrbs_def completeOrb_def by (intro framed_intros)

lemma framed_complete_document [framed_intros]: "framed (complete_document ch m)"
  unfolding complete_document_def Let_def by (intro framed_intros)

lemma framed_complete_first [framed_intros]: "framed (complete_first cp ds m)"
  by (induction ds arbitrary: m) (auto intro!: framed_intros)

lemma framed_Complete: "framed (Complete cp uri m)"
  unfolding Complete_def GetCompletionItems_def by (intro framed_intros)

subsection \<open>Requests are steps\<close>

lemma on_server_runs:
  assumes "server_runs h s" and "framed m" and "on_server m s = Some (x, s')"
  shows "server_runs h s'"
proof -
  obtain st where st: "m (sr_State s) = Some (x, st)" "s' = s\<lparr>sr_State := st\<rparr>"
    using assms(3) by (auto simp: on_server_def)
  have files: "ca_FileCache (vs_Cache st) = files_of s"
    using framed_files [OF assms(2) st(1)] by (simp add: sr_Cache_def)
  then have "document_at (s\<lparr>sr_State := st\<rparr>) uri = document_at s uri" for uri
    by (simp add: document_at_def sr_Cache_def)
  moreover have "gm_wf (ca_FileCache (vs_Cache st))"
    using server_runs_files [OF assms(1)] files by (simp add: files_ok_def)
  ultimately have "server_step h s (s\<lparr>sr_State := st, sr_Context := sr_Context s\<rparr>)"
    by (rule server_step.background)
  then show ?thesis
    using server_runs.step [OF assms(1)] st(2) by simp
qed

lemma method_runs:
  assumes "server_runs h s"
  shows "Definition_method l uri pos s = Some (r, s') \<Longrightarrow> server_runs h s'"
    and "References_method l uri pos s = Some (r, s') \<Longrightarrow> server_runs h s'"
  using assms on_server_runs [OF assms framed_Definition] on_server_runs [OF assms framed_GetReferences]
  by (cases "open_document l uri s"; cases "the (open_document l uri s)";
      force simp: Definition_method_def References_method_def)+

lemma Complete_method_runs:
  assumes "server_runs h s" and "Complete_method l uri pos m s = Some (r, m', s')"
  shows "server_runs h s'"
proof -
  obtain x s1 where x: "on_server (Complete (completion_at l pos (sr_Context s)) uri m) s = Some (x, s1)"
    "(case x of Inl _ \<Rightarrow> (ErrorResponse, m, s1) | Inr (xs, m) \<Rightarrow> (Items xs, m, s1)) = (r, m', s')"
    using assms(2) by (auto simp: Complete_method_def)
  then have "s' = s1"
    by (cases x) auto
  then show ?thesis
    using on_server_runs [OF assms(1) framed_Complete x(1)] by simp
qed

text \<open>What the protocol asks of a client: the versions of a document increase.\<close>

definition versions_increase :: "client_request \<Rightarrow> server \<Rightarrow> bool" where
  "versions_increase req s =
     (case req of
        DidOpenRequest td \<Rightarrow> newer s (td_URI td) (td_Version td)
      | DidChangeRequest uri version _ \<Rightarrow> newer s uri version
      | _ \<Rightarrow> True)"


definition sample_lsp :: lsp where
  "sample_lsp =
     \<lparr>lp_Account = sample_account, lp_Handlers = sample_handlers,
      lp_Completion = \<lparr>cp_Position = zero_pos, cp_Fuel = 0, cp_Grammar = (\<lambda>_. (sample_tree, 0)), cp_Services = sample_schema,
        cp_Env = sample_env, cp_Context = zero_ls_context, cp_PrevSibling = (\<lambda>_ _. None), cp_Search = (\<lambda>_. []),
        cp_SearchTags = (\<lambda>_ _ _. None), cp_OrbsByRegistry = (\<lambda>_ _. None), cp_OrbVersions = (\<lambda>_ _. None)\<rparr>,
      lp_NewURI = (\<lambda>p. p)\<rparr>"

definition sample_client :: lsp_state where
  "sample_client = (ServeStream [])\<lparr>ls_Server := zero_server\<rparr>"


end
