(* ===== verification/CompleteProps.thy ===== *)
theory CompleteProps
  imports Complete NavProps
begin

text \<open>
  What completion offers where a job of a workflow is named, and where the parent of the root is looked at.
\<close>

subsection \<open>The information about orbs that is at hand\<close>

definition known_orb :: "cache \<Rightarrow> yaml_document \<Rightarrow> orb \<Rightarrow> orb_info option" where
  "known_orb c doc orb =
     (case gm_get (yd_LocalOrbInfo doc) (orb_Name orb) of
        Some info \<Rightarrow> Some info
      | None \<Rightarrow> OrbCache_GetOrb (ca_OrbCache c) (GetOrbID (orb_Url orb)))"

lemma CH_GetOrbInfo_known:
  "known_orb (vs_Cache s) (ch_Doc ch) orb = Some info \<Longrightarrow> CH_GetOrbInfo ch orb s = Some (Some info, s)"
  by (auto simp: known_orb_def CH_GetOrbInfo_def GetOrFetchOrbInfo_def vbind_def vret_def vcache_def Let_def
      split: option.splits)

lemma vconcat_returns:
  "(\<And>x. x \<in> set xs \<Longrightarrow> f x s = Some (g x, s)) \<Longrightarrow> vconcat f xs s = Some (concat (map g xs), s)"
  by (induction xs) (simp_all add: vret_def vbind_def)

lemma vthen_returns: "m s = Some (a, s) \<Longrightarrow> n s = Some (b, s) \<Longrightarrow> vthen m n s = Some (a @ b, s)"
  by (simp add: vthen_def vbind_def vret_def)

lemma vthen_nothing: "vthen (vret []) n = n"
  by (rule ext) (auto simp: vthen_def vbind_def vret_def split: option.split)

text \<open>The jobs of the orbs, behind the names of the orbs.\<close>

definition orb_job_names :: "cache \<Rightarrow> yaml_document \<Rightarrow> string set" where
  "orb_job_names c doc =
     {orb_Name orb @ ''/'' @ n | k orb info n.
        (k, orb) \<in> set (yd_Orbs doc) \<and> known_orb c doc orb = Some info \<and> n \<in> fst ` set (oa_Jobs (oi_Attributes info))}"

lemma orbsJobs_known:
  assumes "\<forall>(k, orb) \<in> set (yd_Orbs (ch_Doc ch)). known_orb (vs_Cache s) (ch_Doc ch) orb \<noteq> None"
  shows "\<exists>ns. orbsJobs ch s = Some (map item ns, s) \<and> set ns = orb_job_names (vs_Cache s) (ch_Doc ch)"
proof -
  define g where "g = (\<lambda>(k :: string, orb). map (\<lambda>n. orb_Name orb @ ''/'' @ n)
    (map fst (oa_Jobs (oi_Attributes (the (known_orb (vs_Cache s) (ch_Doc ch) orb))))))"
  have step: "vbind (CH_GetOrbInfo ch orb) (\<lambda>info. vret (case info of None \<Rightarrow> []
      | Some info \<Rightarrow> map (\<lambda>n. orb_Name orb @ ''/'' @ n) ((map fst \<circ> oa_Jobs) (oi_Attributes info)))) s = Some (g (k, orb), s)"
    if listed: "(k, orb) \<in> set (yd_Orbs (ch_Doc ch))" for k orb
  proof -
    obtain info where "known_orb (vs_Cache s) (ch_Doc ch) orb = Some info"
      using bspec [OF assms listed] by auto
    then show ?thesis
      using CH_GetOrbInfo_known by (simp add: vbind_def vret_def g_def)
  qed
  have "orb_entities ch (map fst \<circ> oa_Jobs) s = Some (concat (map g (yd_Orbs (ch_Doc ch))), s)"
    unfolding orb_entities_def by (intro vconcat_returns) (simp add: step split_paired_all)
  moreover have "set (concat (map g (yd_Orbs (ch_Doc ch)))) = orb_job_names (vs_Cache s) (ch_Doc ch)" (is "?L = ?R")
  proof
    show "?L \<subseteq> ?R"
    proof
      fix n assume "n \<in> ?L"
      then obtain k orb where orb: "(k, orb) \<in> set (yd_Orbs (ch_Doc ch))" "n \<in> set (g (k, orb))" by auto
      obtain info where info: "known_orb (vs_Cache s) (ch_Doc ch) orb = Some info"
        using bspec [OF assms orb(1)] by auto
      obtain x where "n = orb_Name orb @ ''/'' @ x" "x \<in> fst ` set (oa_Jobs (oi_Attributes info))"
        using orb(2) info by (auto simp: g_def)
      then show "n \<in> ?R"
        using orb(1) info unfolding orb_job_names_def by blast
    qed
    show "?R \<subseteq> ?L"
      by (force simp: g_def orb_job_names_def)
  qed
  ultimately show ?thesis
    by (auto simp: orbsJobs_def vbind_def vret_def)
qed

subsection \<open>The name of a job in a workflow\<close>


definition sample_completion :: completion where
  "sample_completion =
     \<lparr>cp_Position = mk_pos 6 9, cp_Fuel = 3, cp_Grammar = (\<lambda>_. (sample_tree, 0)), cp_Services = nav_services,
      cp_Env = sample_env, cp_Context = zero_ls_context, cp_PrevSibling = (\<lambda>_ _. None), cp_Search = (\<lambda>_. []),
      cp_SearchTags = (\<lambda>_ _ _. None), cp_OrbsByRegistry = (\<lambda>_ _. None), cp_OrbVersions = (\<lambda>_ _. None)\<rparr>"

definition completed_workflow :: workflow where
  "completed_workflow = sample_workflow\<lparr>wfl_Range := mk_range (mk_pos 4 2) (mk_pos 6 12),
     wfl_JobsRange := mk_range (mk_pos 5 4) (mk_pos 6 12), wfl_JobInvocations := [nav_invocation]\<rparr>"

definition completed_orb :: orb where
  "completed_orb = zero_orb\<lparr>orb_Name := ''node''\<rparr>"

definition completed_info :: orb_info where
  "completed_info = zero_orb_info\<lparr>oi_Attributes := (oi_Attributes zero_orb_info)\<lparr>oa_Jobs := [(''test'', nav_job)]\<rparr>\<rparr>"

definition completed_handler :: handler where
  "completed_handler =
     \<lparr>ch_Completion = sample_completion,
      ch_Doc = nav_doc\<lparr>yd_Workflows := [(''main'', completed_workflow)], yd_Orbs := [(''node'', completed_orb)],
        yd_LocalOrbInfo := [(''node'', completed_info)]\<rparr>,
      ch_DocTag = ''original'', ch_DocDiff = []\<rparr>"


subsection \<open>Panics\<close>

text \<open>Nothing can be completed at a position whose deepest node is the root.\<close>

lemma ModifyTextForAutocomplete_root:
  assumes "fst (NodeAtPos (cp_Services cp) (yd_Tree doc) (yd_RootNode doc) (cp_Position cp)) = Some n"
    and "st_Parent (yd_Tree doc) n = None"
  shows "ModifyTextForAutocomplete cp doc = None"
  using assms by (simp add: ModifyTextForAutocomplete_def)

text \<open>An image without a text up to the cursor.\<close>

lemma complete_image_empty:
  assumes "image_text ch img = Some []" and "di_Tag (ParseDockerImageValue []) = []"
  shows "complete_image ch img s = None"
  using assms by (simp add: complete_image_def vlift_def vret_def vbind_def vpanic_def Let_def)

end
