(* ===== verification/DockerHub.thy ===== *)
theory DockerHub
  imports Document
begin

text \<open>
  The client of Docker Hub: \<open>pkg/dockerhub\<close>. The HTTP requests with their decoding are functions of a
  URL: the status of an answer (none without an answer), a page of repositories and a page of tags
  (none after an error). The repositories that were loaded are kept per namespace; a cursor of a search
  names the one it walks over. A name has no character that a URL would escape. \<open>None\<close> of an operation is a run-time panic or a loop that does not end.
\<close>

subsection \<open>repositories.go\<close>

record repository =
  rp_Name :: string
  rp_Namespace :: string

record hub_page =
  hp_Next :: string
  hp_Results :: "repository list"

record hub_namespace =
  hn_namespace :: string
  hn_nextURL :: string
  hn_hasLoaded :: bool
  hn_allRepositories :: "repository list"

type_synonym hub_namespaces = "(string, hub_namespace) gomap"

definition hub_url :: string where
  "hub_url = ''https://hub.docker.com/v2''"

definition repositories_url :: "string \<Rightarrow> string" where
  "repositories_url ns = hub_url @ ''/namespaces/'' @ ns @ ''/repositories''"

text \<open>The repositories of the next page; none after an error, and when there is no more to load.\<close>

definition loadNext :: "(string \<Rightarrow> hub_page option) \<Rightarrow> hub_namespace \<Rightarrow> repository list option \<times> hub_namespace" where
  "loadNext fetch h =
     (if hn_hasLoaded h \<and> hn_nextURL h = [] then (None, h)
      else
        (case fetch (if \<not> hn_hasLoaded h then repositories_url (hn_namespace h) else hn_nextURL h) of
           None \<Rightarrow> (None, h)
         | Some hubResponse \<Rightarrow>
             (Some (hp_Results hubResponse),
              h\<lparr>hn_allRepositories := hn_allRepositories h @ hp_Results hubResponse,
                hn_nextURL := hp_Next hubResponse, hn_hasLoaded := True\<rparr>)))"

definition hub_word :: cclass where
  "hub_word = In (chars_between (CHR ''a'') (CHR ''z'') @ chars_between (CHR ''0'') (CHR ''9'') @ [CHR ''-'', CHR ''_''])"

definition namespaceRegex :: regex where
  "namespaceRegex = rx_seq [RBegin, RGroup 1 (rx_plus hub_word), rx_lit ''/'']"

definition imageNameRegex :: regex where
  "imageNameRegex =
     rx_seq [RBegin,
       RGroup 1 (RAlt (rx_seq [rx_plus hub_word, rx_lit ''/'', RGroup 2 (rx_plus hub_word)]) (rx_plus hub_word)),
       RStar re_dot, REnd]"

definition getQueryNamespace :: "string \<Rightarrow> string" where
  "getQueryNamespace query =
     (case rx_submatch namespaceRegex query of None \<Rightarrow> ''library'' | Some caps \<Rightarrow> submatch caps 1)"

definition getQueryImageName :: "string \<Rightarrow> string" where
  "getQueryImageName query =
     (case rx_submatch imageNameRegex query of
        None \<Rightarrow> []
      | Some caps \<Rightarrow> if rx_match namespaceRegex query then submatch caps 2 else submatch caps 1)"

fun findFirst :: "(repository \<Rightarrow> bool) \<Rightarrow> repository list \<Rightarrow> (repository \<times> nat) option" where
  "findFirst P [] = None"
| "findFirst P (r # rs) = (if P r then Some (r, 0) else map_option (\<lambda>(r, i). (r, Suc i)) (findFirst P rs))"

definition findFirstMatch :: "repository list \<Rightarrow> string \<Rightarrow> (repository \<times> nat) option" where
  "findFirstMatch repositories n = findFirst (\<lambda>repo. has_prefix n (rp_Name repo)) repositories"

definition findFirstByName :: "repository list \<Rightarrow> string \<Rightarrow> (repository \<times> nat) option" where
  "findFirstByName repositories n = findFirst (\<lambda>repo. rp_Name repo = n) repositories"

subsection \<open>search.go\<close>

record search_cursor =
  sc_hub :: string
  sc_index :: int
  sc_query :: string

definition createSearchCursor :: "string \<Rightarrow> string \<Rightarrow> search_cursor" where
  "createSearchCursor namespace search = \<lparr>sc_hub = namespace, sc_index = - 1, sc_query = search\<rparr>"

definition hubNamespaces :: hub_namespaces where
  "hubNamespaces = [(''library'', \<lparr>hn_namespace = ''library'', hn_nextURL = [], hn_hasLoaded = False, hn_allRepositories = []\<rparr>)]"

definition Search :: "string \<Rightarrow> hub_namespaces \<Rightarrow> search_cursor \<times> hub_namespaces" where
  "Search query hubs =
     (let namespace = getQueryNamespace query;
          hubs = (if gm_has hubs namespace then hubs
                  else gm_put namespace
                    \<lparr>hn_namespace = namespace, hn_nextURL = [], hn_hasLoaded = False, hn_allRepositories = []\<rparr> hubs)
      in (createSearchCursor namespace (getQueryImageName query), hubs))"

text \<open>The loop of \<open>HasNext\<close>: all the pages, whether a match is found or not. An error is not looked at.\<close>

partial_function (option) load_all :: "(string \<Rightarrow> hub_page option) \<Rightarrow> hub_namespace \<Rightarrow> hub_namespace option" where
  "load_all fetch h =
     (if hn_nextURL h \<noteq> [] \<or> \<not> hn_hasLoaded h then load_all fetch (snd (loadNext fetch h)) else Some h)"

text \<open>A slice of the repositories behind the index; out of bounds it is a panic.\<close>

definition search_domain :: "search_cursor \<Rightarrow> hub_namespace \<Rightarrow> repository list option" where
  "search_domain s h =
     (let start = sc_index s + 1
      in if 0 \<le> start \<and> start \<le> int (length (hn_allRepositories h)) then Some (drop (nat start) (hn_allRepositories h))
         else None)"

definition HasNext ::
    "(string \<Rightarrow> hub_page option) \<Rightarrow> search_cursor \<Rightarrow> hub_namespaces \<Rightarrow> (bool \<times> hub_namespaces) option" where
  "HasNext fetch s hubs =
     Option.bind (gm_get hubs (sc_hub s)) (\<lambda>h.
     Option.bind (search_domain s h) (\<lambda>searchItems.
       if findFirstMatch searchItems (sc_query s) \<noteq> None then Some (True, hubs)
       else
         Option.bind (load_all fetch h) (\<lambda>h.
         map_option (\<lambda>searchItems. (findFirstMatch searchItems (sc_query s) \<noteq> None, gm_put (sc_hub s) h hubs))
           (search_domain s h))))"

definition Next :: "search_cursor \<Rightarrow> hub_namespaces \<Rightarrow> (repository option \<times> search_cursor) option" where
  "Next s hubs =
     Option.bind (gm_get hubs (sc_hub s)) (\<lambda>h.
     map_option (\<lambda>searchDomain.
       case findFirstMatch searchDomain (sc_query s) of
         None \<Rightarrow> (None, s)
       | Some (repo, index) \<Rightarrow> (Some repo, s\<lparr>sc_index := sc_index s + int index + 1\<rparr>))
       (search_domain s h))"

definition Prev :: "search_cursor \<Rightarrow> hub_namespaces \<Rightarrow> (repository option \<times> search_cursor) option" where
  "Prev s hubs =
     Option.bind (gm_get hubs (sc_hub s)) (\<lambda>h.
       if sc_index s < 0 \<or> int (length (hn_allRepositories h)) < sc_index s then None
       else
         let searchDomain = take (nat (sc_index s)) (hn_allRepositories h)
         in (case findFirstMatch searchDomain (sc_query s) of
               None \<Rightarrow> Some (None, s)
             | Some (repo, index) \<Rightarrow>
                 Some (Some repo, s\<lparr>sc_index := sc_index s - (int (length searchDomain) - int index)\<rparr>)))"

text \<open>How completion reads the first results: \<open>for i < n \<and> HasNext()\<close>, then \<open>Next()\<close>, which it dereferences.\<close>

fun first_results ::
    "(string \<Rightarrow> hub_page option) \<Rightarrow> nat \<Rightarrow> search_cursor \<Rightarrow> hub_namespaces
      \<Rightarrow> (repository list \<times> hub_namespaces) option" where
  "first_results fetch 0 s hubs = Some ([], hubs)"
| "first_results fetch (Suc n) s hubs =
     (case HasNext fetch s hubs of
        None \<Rightarrow> None
      | Some (False, hubs) \<Rightarrow> Some ([], hubs)
      | Some (True, hubs) \<Rightarrow>
          (case Next s hubs of
             Some (Some repo, s) \<Rightarrow> map_option (\<lambda>(rs, hubs). (repo # rs, hubs)) (first_results fetch n s hubs)
           | _ \<Rightarrow> None))"

subsection \<open>tags.go, exists.go\<close>

record repo_tag =
  rt_TagStatus :: string
  rt_Name :: string

record tag_response =
  tp_Next :: string
  tp_Results :: "repo_tag list"

definition tag_loadNext :: "(string \<Rightarrow> tag_response option) \<Rightarrow> tag_response \<Rightarrow> tag_response option" where
  "tag_loadNext fetch t = (if tp_Next t = [] then None else fetch (tp_Next t))"

text \<open>\<open>enc\<close> is the encoding of a query's value; the parameters are in the order of their names.\<close>

definition fetchTags ::
    "(string \<Rightarrow> string) \<Rightarrow> (string \<Rightarrow> tag_response option) \<Rightarrow> string \<Rightarrow> string \<Rightarrow> string \<Rightarrow> tag_response option" where
  "fetchTags enc fetch namespace repo n =
     fetch (repositories_url namespace @ ''/'' @ repo @ ''/tags?'' @
            (if n \<noteq> [] then ''name='' @ enc n @ ''&'' else []) @ ''page_size=100'')"

text \<open>A tag that is not active leaves an empty name.\<close>

definition GetImageTags :: "(string \<Rightarrow> tag_response option) \<Rightarrow> string \<Rightarrow> string \<Rightarrow> string list option" where
  "GetImageTags fetch namespace img =
     map_option (\<lambda>body. map (\<lambda>tag. if rt_TagStatus tag = ''active'' then rt_Name tag else []) (tp_Results body))
       (fetch (repositories_url namespace @ ''/'' @ img @ ''/tags''))"

definition ImageHasTag :: "(string \<Rightarrow> nat option) \<Rightarrow> string \<Rightarrow> string \<Rightarrow> string \<Rightarrow> bool" where
  "ImageHasTag status namespace img tag =
     (status (repositories_url namespace @ ''/'' @ img @ ''/tags/'' @ tag) = Some 200)"

definition DoesImageExist :: "(string \<Rightarrow> nat option) \<Rightarrow> hub_namespaces \<Rightarrow> string \<Rightarrow> string \<Rightarrow> bool" where
  "DoesImageExist status hubs namespace img =
     ((case gm_get hubs namespace of
         None \<Rightarrow> False
       | Some ns \<Rightarrow> hn_hasLoaded ns \<and> findFirstByName (hn_allRepositories ns) img \<noteq> None) \<or>
      status (repositories_url namespace @ ''/'' @ img) = Some 200)"

subsection \<open>searchtags.go\<close>

record tags_cursor =
  tc_query :: string
  tc_index :: nat
  tc_results :: "repo_tag list"
  tc_lastResponse :: tag_response

definition SearchTags ::
    "(string \<Rightarrow> string) \<Rightarrow> (string \<Rightarrow> tag_response option) \<Rightarrow> string \<Rightarrow> string \<Rightarrow> string \<Rightarrow> tags_cursor option" where
  "SearchTags enc fetch namespace repo query =
     map_option (\<lambda>results. \<lparr>tc_query = query, tc_index = 0, tc_results = tp_Results results, tc_lastResponse = results\<rparr>)
       (fetchTags enc fetch namespace repo query)"

text \<open>The last result that is at hand already loads the next page, whose error ends the search.\<close>

definition tags_HasNext :: "(string \<Rightarrow> tag_response option) \<Rightarrow> tags_cursor \<Rightarrow> bool \<times> tags_cursor" where
  "tags_HasNext fetch t =
     (let here = (\<lambda>t. (tc_index t < length (tc_results t), t)) in
      if int (length (tc_results t)) - 1 \<le> int (tc_index t) \<and> tp_Next (tc_lastResponse t) \<noteq> []
      then (case tag_loadNext fetch (tc_lastResponse t) of
              None \<Rightarrow> (False, t)
            | Some nextPage \<Rightarrow>
                here (t\<lparr>tc_results := tc_results t @ tp_Results nextPage, tc_lastResponse := nextPage\<rparr>))
      else here t)"

definition forwards :: "tags_cursor \<Rightarrow> repo_tag list" where
  "forwards t = drop (tc_index t) (tc_results t)"

definition backwards :: "tags_cursor \<Rightarrow> repo_tag list" where
  "backwards t = take (tc_index t) (tc_results t)"

definition tags_Next :: "tags_cursor \<Rightarrow> repo_tag option \<times> tags_cursor" where
  "tags_Next t =
     (case forwards t of [] \<Rightarrow> (None, t) | r # _ \<Rightarrow> (Some r, t\<lparr>tc_index := tc_index t + 1\<rparr>))"

definition tags_Prev :: "tags_cursor \<Rightarrow> repo_tag option \<times> tags_cursor" where
  "tags_Prev t =
     (let back = backwards t in
      if length back < 2 then (None, t) else (Some (back ! (length back - 2)), t\<lparr>tc_index := tc_index t - 1\<rparr>))"

subsection \<open>What a search finds\<close>

text \<open>The pages from a URL on, as the service links them.\<close>

fun hub_pages :: "(string \<Rightarrow> hub_page option) \<Rightarrow> string \<Rightarrow> hub_page list \<Rightarrow> bool" where
  "hub_pages fetch url [] = False"
| "hub_pages fetch url (p # ps) =
     (fetch url = Some p \<and> (if hp_Next p = [] then ps = [] else hub_pages fetch (hp_Next p) ps))"

definition complete_hub :: "hub_namespace \<Rightarrow> bool" where
  "complete_hub h \<longleftrightarrow> hn_hasLoaded h \<and> hn_nextURL h = []"

lemma load_all_complete: "complete_hub h \<Longrightarrow> load_all fetch h = Some h"
  by (subst load_all.simps) (simp add: complete_hub_def)

lemma load_all_pages:
  assumes "hub_pages fetch url ps"
    and "if hn_hasLoaded h then hn_nextURL h = url \<and> url \<noteq> [] else repositories_url (hn_namespace h) = url"
  shows "\<exists>h'. load_all fetch h = Some h' \<and> complete_hub h' \<and>
    hn_allRepositories h' = hn_allRepositories h @ concat (map hp_Results ps)"
  using assms
proof (induction ps arbitrary: h url)
  case (Cons p ps)
  let ?h = "h\<lparr>hn_allRepositories := hn_allRepositories h @ hp_Results p, hn_nextURL := hp_Next p, hn_hasLoaded := True\<rparr>"
  have "snd (loadNext fetch h) = ?h" and more: "hn_nextURL h \<noteq> [] \<or> \<not> hn_hasLoaded h"
    using Cons.prems by (cases "hn_hasLoaded h"; simp add: loadNext_def)+
  then have load: "load_all fetch h = load_all fetch ?h"
    by (subst load_all.simps) simp
  show ?case
  proof (cases "hp_Next p = []")
    case True
    then show ?thesis
      using Cons.prems(1) load load_all_complete [of ?h fetch] by (simp add: complete_hub_def)
  next
    case False
    then show ?thesis
      using Cons.IH [of "hp_Next p" ?h] Cons.prems(1) load by simp
  qed
qed simp

lemma findFirst_spec:
  "case findFirst P xs of
     None \<Rightarrow> filter P xs = []
   | Some (r, i) \<Rightarrow> i < length xs \<and> filter P xs = r # filter P (drop (Suc i) xs)"
  by (induction xs) (auto split: option.splits)

text \<open>Over a complete namespace the cursor enumerates the matches behind its index.\<close>

lemma first_results_complete:
  assumes "gm_get hubs (sc_hub s) = Some h" "complete_hub h" "search_domain s h = Some xs"
  shows "\<exists>hubs'. first_results fetch n s hubs = Some (take n (filter (\<lambda>r. has_prefix (sc_query s) (rp_Name r)) xs), hubs')"
  using assms
proof (induction n arbitrary: s xs hubs)
  case (Suc n)
  let ?P = "\<lambda>r. has_prefix (sc_query s) (rp_Name r)"
  show ?case
  proof (cases "findFirst ?P xs")
    case None
    then show ?thesis
      using Suc.prems load_all_complete [of h fetch] findFirst_spec [of ?P xs]
      by (simp add: HasNext_def findFirstMatch_def)
  next
    case (Some ri)
    then obtain r i where found: "findFirst ?P xs = Some (r, i)" by (cases ri) auto
    note spec = findFirst_spec [of ?P xs, unfolded found, simplified]
    let ?s = "s\<lparr>sc_index := sc_index s + int i + 1\<rparr>"
    have bounds: "0 \<le> sc_index s + 1" "xs = drop (nat (sc_index s + 1)) (hn_allRepositories h)"
      using Suc.prems(3) by (auto simp: search_domain_def Let_def split: if_splits)
    then have "nat (sc_index s + int i + 1 + 1) = Suc i + nat (sc_index s + 1)" by simp
    moreover have "sc_index s + int i + 1 + 1 \<le> int (length (hn_allRepositories h))"
      using bounds conjunct1 [OF spec] by simp
    ultimately have "search_domain ?s h = Some (drop (Suc i) xs)"
      using bounds spec by (simp add: search_domain_def Let_def add.commute)
    then obtain hubs' where
      "first_results fetch n ?s hubs = Some (take n (filter ?P (drop (Suc i) xs)), hubs')"
      using Suc.IH [of hubs ?s] Suc.prems(1,2) by auto
    then show ?thesis
      using Suc.prems found spec by (simp add: HasNext_def Next_def findFirstMatch_def)
  qed
qed simp


definition sample_pages :: "string \<Rightarrow> hub_page option" where
  "sample_pages url =
     (if url = repositories_url ''cimg''
      then Some \<lparr>hp_Next = ''p2'', hp_Results = [\<lparr>rp_Name = ''go'', rp_Namespace = ''cimg''\<rparr>, \<lparr>rp_Name = ''node'', rp_Namespace = ''cimg''\<rparr>]\<rparr>
      else if url = ''p2'' then Some \<lparr>hp_Next = [], hp_Results = [\<lparr>rp_Name = ''nomad'', rp_Namespace = ''cimg''\<rparr>]\<rparr>
      else None)"

lemma sample_query: "getQueryNamespace ''cimg/no'' = ''cimg''" "getQueryImageName ''cimg/no'' = ''no''"
  by code_simp+


subsection \<open>Without the service\<close>

text \<open>While the service does not answer, the loop over its pages does not end.\<close>

lemma load_all_loads:
  assumes "load_all fetch h = Some h'"
  shows "(\<forall>url. fetch url = None) \<longrightarrow> hn_hasLoaded h"
proof (rule load_all.raw_induct [OF _ assms, where P = "\<lambda>fetch h h'. (\<forall>url. fetch url = None) \<longrightarrow> hn_hasLoaded h"], rule impI)
  fix rec and fetch :: "string \<Rightarrow> hub_page option" and h h'
  assume rec: "\<And>fetch h h'. rec fetch h = Some h' \<Longrightarrow> (\<forall>url. fetch url = None) \<longrightarrow> hn_hasLoaded h"
    and body: "(if hn_nextURL h \<noteq> [] \<or> \<not> hn_hasLoaded h then rec fetch (snd (loadNext fetch h)) else Some h) = Some h'"
    and none: "\<forall>url. fetch url = None"
  then have "snd (loadNext fetch h) = h"
    by (simp add: loadNext_def)
  then show "hn_hasLoaded h"
    using rec [of fetch h h'] body none by (auto split: if_splits)
qed

lemma load_all_unreachable:
  assumes "\<And>url. fetch url = None" and "\<not> hn_hasLoaded h"
  shows "load_all fetch h = None"
  using load_all_loads [of fetch h] assms by (cases "load_all fetch h") auto

end
