(* ===== verification/GraphQL.thy ===== *)
theory GraphQL
  imports ValExec RemoteOrbs
begin

text \<open>
  The GraphQL client: \<open>pkg/utils/gqlclient.go\<close>, and the requests that the program sends with it. The
  functions of \<open>net/url\<close>, the encoding and decoding of JSON and the exchange over HTTP are functions of the
  record \<open>transport\<close> or arguments; the header of a request is modelled. \<open>None\<close> is a run-time panic.
\<close>

subsection \<open>The header of an HTTP request\<close>

text \<open>\<open>textproto.CanonicalMIMEHeaderKey\<close>: the first letter and those after a hyphen are capitals.\<close>

definition upper_char :: "char \<Rightarrow> char" where
  "upper_char c = (if 97 \<le> (of_char c :: nat) \<and> (of_char c :: nat) \<le> 122 then char_of (of_char c - 32 :: nat) else c)"

definition header_char :: "char \<Rightarrow> bool" where
  "header_char c \<longleftrightarrow> is_digit c \<or> (let n = of_char (lower_char c) in (97 :: nat) \<le> n \<and> n \<le> 122) \<or>
     c \<in> set ''!#$%&*+-.^_`|~'' \<or> c = CHR 0x27"

fun capitals :: "bool \<Rightarrow> string \<Rightarrow> string" where
  "capitals upper [] = []"
| "capitals upper (c # cs) = (if upper then upper_char c else lower_char c) # capitals (c = CHR ''-'') cs"

definition header_key :: "string \<Rightarrow> string" where
  "header_key s = (if list_all header_char s then capitals True s else s)"

type_synonym header = "(string, string list) gomap"

definition Header_Set :: "string \<Rightarrow> string \<Rightarrow> header \<Rightarrow> header" where
  "Header_Set key v h = gm_put (header_key key) [v] h"

definition Header_Add :: "string \<Rightarrow> string \<Rightarrow> header \<Rightarrow> header" where
  "Header_Add key v h = gm_put (header_key key) (gm_get_or [] h (header_key key) @ [v]) h"

subsection \<open>Requests\<close>

datatype variable = StringVariable string | IntVariable int

record gql_request =
  gq_Query :: string
  gq_Variables :: "(string, variable) gomap"
  gq_Header :: header

definition NewRequest :: "string \<Rightarrow> gql_request" where
  "NewRequest query = \<lparr>gq_Query = query, gq_Variables = [], gq_Header = []\<rparr>"

definition SetToken :: "string \<Rightarrow> gql_request \<Rightarrow> gql_request" where
  "SetToken token r = r\<lparr>gq_Header := Header_Set ''Authorization'' token (gq_Header r)\<rparr>"

definition SetUserId :: "string \<Rightarrow> gql_request \<Rightarrow> gql_request" where
  "SetUserId userId r = r\<lparr>gq_Header := Header_Set ''user_id'' userId (gq_Header r)\<rparr>"

definition Var :: "string \<Rightarrow> variable \<Rightarrow> gql_request \<Rightarrow> gql_request" where
  "Var key v r = r\<lparr>gq_Variables := gm_put key v (gq_Variables r)\<rparr>"

subsection \<open>Responses\<close>

record error_extensions =
  ee_Field :: string
  ee_Argument :: string
  ee_Value :: string
  ee_AllowedValues :: "string list"
  ee_EnumType :: string

record response_error =
  re_Message :: string
  re_Locations :: "(int \<times> int) list"
  re_Extensions :: error_extensions

definition ResponseErrors_Error :: "response_error list \<Rightarrow> string" where
  "ResponseErrors_Error errs = join_with newline_str (map re_Message errs)"

text \<open>A body that is read: its bytes, and the error after them.\<close>

datatype body = Body string "string option"

fun ReadAll :: "body \<Rightarrow> string \<times> string option" where
  "ReadAll (Body bytes err) = (bytes, err)"

text \<open>
  What the decoder of JSON makes of a body: the body \<open>null\<close> makes the response a nil pointer; otherwise
  the data and the errors, as far as they were decoded, and perhaps an error of its own.
\<close>

datatype 'd decoded = NullBody | Decoded 'd "response_error list" "string option"

record http_request =
  hq_URL :: string
  hq_Header :: header
  hq_Body :: string

record http_response =
  hs_StatusCode :: nat
  hs_Status :: string
  hs_Body :: body

text \<open>
  The parser of URLs (an error or a handle), whether a URL is absolute and the reference that it resolves to
  another; the encoder; the check of \<open>http.NewRequest\<close> (its error); the exchange.
\<close>

record transport =
  tr_ParseURL :: "string \<Rightarrow> string + nat"
  tr_IsAbs :: "nat \<Rightarrow> bool"
  tr_ResolveReference :: "nat \<Rightarrow> nat \<Rightarrow> string"
  tr_Encode :: "gql_request \<Rightarrow> string + string"
  tr_NewRequest :: "string \<Rightarrow> string option"
  tr_Do :: "http_request \<Rightarrow> string + http_response"
  tr_UserAgent :: string

subsection \<open>The client\<close>

record gql_client =
  gc_Debug :: bool
  gc_Endpoint :: string
  gc_Host :: string
  gc_Token :: string

definition NewClient :: "string \<Rightarrow> string \<Rightarrow> string \<Rightarrow> bool \<Rightarrow> gql_client" where
  "NewClient host endpoint token debug = \<lparr>gc_Debug = debug, gc_Endpoint = endpoint, gc_Host = host, gc_Token = token\<rparr>"

definition Client_Reset :: "string \<Rightarrow> string \<Rightarrow> string \<Rightarrow> bool \<Rightarrow> gql_client \<Rightarrow> gql_client" where
  "Client_Reset host endpoint token debug cl =
     cl\<lparr>gc_Endpoint := endpoint, gc_Host := host, gc_Token := token, gc_Debug := debug\<rparr>"

definition getServerAddress :: "transport \<Rightarrow> string \<Rightarrow> string \<Rightarrow> string + string" where
  "getServerAddress t host endpoint =
     (case tr_ParseURL t endpoint of
        Inl err \<Rightarrow> Inl (''Parsing endpoint '' @ single_quoted endpoint @ '': '' @ err)
      | Inr e \<Rightarrow>
          (case tr_ParseURL t host of
             Inl err \<Rightarrow> Inl (''Parsing host '' @ single_quoted host @ '': '' @ err)
           | Inr h \<Rightarrow>
               if \<not> tr_IsAbs t h then Inl (''Host ('' @ host @ '') must be absolute URL, including scheme'')
               else Inr (tr_ResolveReference t h e)))"

definition prepareRequest :: "transport \<Rightarrow> string \<Rightarrow> gql_request \<Rightarrow> string + http_request" where
  "prepareRequest t address request =
     (case tr_Encode t request of
        Inl err \<Rightarrow> Inl err
      | Inr requestBody \<Rightarrow>
          (case tr_NewRequest t address of
             Some err \<Rightarrow> Inl err
           | None \<Rightarrow>
               let json = ''application/json; charset=utf-8'';
                   h = Header_Set ''Accept'' json (Header_Set ''Content-Type'' json (Header_Set ''User-Agent'' (tr_UserAgent t) []))
               in Inr \<lparr>hq_URL = address,
                       hq_Header = fold (\<lambda>(key, values). fold (Header_Add key) values) (gq_Header request) h,
                       hq_Body = requestBody\<rparr>))"

text \<open>With \<open>Debug\<close> the body is read and put back first.\<close>

definition debug_body :: "gql_client \<Rightarrow> body \<Rightarrow> string + body" where
  "debug_body cl b =
     (if gc_Debug cl
      then (case ReadAll b of (_, Some err) \<Rightarrow> Inl (''reading response: '' @ err) | (bytes, None) \<Rightarrow> Inr (Body bytes None))
      else Inr b)"

definition Run ::
    "transport \<Rightarrow> gql_client \<Rightarrow> gql_request \<Rightarrow> (body \<Rightarrow> 'd decoded) \<Rightarrow> 'd \<Rightarrow> ('d \<times> string option) option" where
  "Run t cl request decode resp =
     (case getServerAddress t (gc_Host cl) (gc_Endpoint cl) of
        Inl err \<Rightarrow> Some (resp, Some err)
      | Inr address \<Rightarrow>
     (case prepareRequest t address request of
        Inl err \<Rightarrow> Some (resp, Some err)
      | Inr req \<Rightarrow>
     (case tr_Do t req of
        Inl err \<Rightarrow> Some (resp, Some err)
      | Inr res \<Rightarrow>
          if hs_StatusCode res \<noteq> 200 then Some (resp, Some (''failure calling GraphQL API: '' @ hs_Status res)) else
     (case debug_body cl (hs_Body res) of
        Inl err \<Rightarrow> Some (resp, Some err)
      | Inr b \<Rightarrow>
     (case decode b of
        NullBody \<Rightarrow> None
      | Decoded data errors (Some err) \<Rightarrow> Some (data, Some (''decoding response: '' @ err))
      | Decoded data errors None \<Rightarrow>
          Some (data, if errors \<noteq> [] then Some (ResponseErrors_Error errors) else None))))))"

text \<open>The package manager, from the variables of the environment.\<close>

definition runningInsideSnap :: "(string \<Rightarrow> string) \<Rightarrow> bool" where
  "runningInsideSnap getenv \<longleftrightarrow> getenv ''SNAP_NAME'' = ''circleci''"

definition PackageManager :: "(string \<Rightarrow> string) \<Rightarrow> string" where
  "PackageManager getenv = (if runningInsideSnap getenv then ''snap'' else ''source'')"

subsection \<open>The queries of the program\<close>

definition tabs :: "nat \<Rightarrow> string \<Rightarrow> string" where
  "tabs n s = replicate n (CHR 0x09) @ s"

definition lines_text :: "string list \<Rightarrow> string" where
  "lines_text ls = join_with newline_str ls"

definition account_client :: "ls_context \<Rightarrow> gql_client" where
  "account_client ctx = NewClient (api_HostUrl (ls_Api ctx)) ''graphql-unstable'' (api_Token (ls_Api ctx)) False"

definition account_request :: "string \<Rightarrow> ls_context \<Rightarrow> gql_request" where
  "account_request query ctx =
     SetUserId (ls_UserIdForTelemetry ctx) (SetToken (gc_Token (account_client ctx)) (NewRequest query))"

definition orb_version_request :: "ls_context \<Rightarrow> string \<Rightarrow> gql_request" where
  "orb_version_request ctx orbId =
     Var ''orbVersionRef'' (StringVariable orbId) (account_request (lines_text
       [''query($orbVersionRef: String!) {'', tabs 2 ''orbVersion(orbVersionRef: $orbVersionRef) {'',
        tabs 3 ''id'', tabs 3 ''version'', tabs 3 ''orb {'', tabs 4 ''id'', tabs 4 ''versions(count: 100) {'',
        tabs 5 ''version'', tabs 4 ''}'', tabs 3 ''}'', tabs 3 ''source'', tabs 2 ''}'', tabs 1 ''}'']) ctx)"

definition orb_versions_request :: "ls_context \<Rightarrow> string \<Rightarrow> gql_request" where
  "orb_versions_request ctx orbId =
     Var ''orbVersionRef'' (StringVariable orbId) (account_request (lines_text
       [''query($orbVersionRef: String!) {'', tabs 2 ''orbVersion(orbVersionRef: $orbVersionRef) {'',
        tabs 3 ''version'', tabs 2 ''}'', tabs 1 ''}'']) ctx)"

definition orb_name_request :: "ls_context \<Rightarrow> string \<Rightarrow> gql_request" where
  "orb_name_request ctx orbName =
     Var ''orbName'' (StringVariable orbName) (account_request (lines_text
       [[], tabs 2 ''query($orbName: String!) {'', tabs 3 ''orb(name: $orbName) {'', tabs 4 ''id'', tabs 4 ''name'',
        tabs 3 ''}'', tabs 2 ''}'', tabs 1 []]) ctx)"

definition namespace_request :: "ls_context \<Rightarrow> string \<Rightarrow> gql_request" where
  "namespace_request ctx resourceClass =
     SetUserId (ls_UserIdForTelemetry ctx) (Var ''name'' (StringVariable resourceClass)
       (SetToken (api_Token (ls_Api ctx)) (NewRequest (lines_text
         [''query($name: String!) {'', tabs 2 ''registryNamespace(name: $name) {'', tabs 3 ''name'', tabs 2 ''}'', tabs 1 ''}'']))))"

text \<open>The request of the cache of completion, with its parameters.\<close>

record request_config =
  rc_HostUrl :: string
  rc_Token :: string
  rc_UserId :: string
  rc_Query :: string
  rc_Params :: "(string, variable) gomap"

definition OrbCache_request ::
    "transport \<Rightarrow> request_config \<Rightarrow> (body \<Rightarrow> 'd decoded) \<Rightarrow> 'd \<Rightarrow> ('d \<times> string option) option" where
  "OrbCache_request t config decode resp =
     (let client = NewClient (rc_HostUrl config) ''graphql-unstable'' (rc_Token config) False
      in Run t client
           (fold (\<lambda>(key, v). Var key v) (rc_Params config)
             (SetUserId (rc_UserId config) (SetToken (gc_Token client) (NewRequest (rc_Query config)))))
           decode resp)"

subsection \<open>The services over the client\<close>

text \<open>What the JSON of each response is decoded to.\<close>

record decoders =
  dc_OrbVersion :: "body \<Rightarrow> orb_query decoded"
  dc_OrbName :: "body \<Rightarrow> string decoded"
  dc_Namespace :: "body \<Rightarrow> bool decoded"

definition zero_orb_query :: orb_query where
  "zero_orb_query = \<lparr>oq_Id = [], oq_Version = [], oq_Versions = [], oq_Source = []\<rparr>"

text \<open>The services of an environment are the client's answers to the requests (none of them is \<open>null\<close>).\<close>

definition served_by :: "transport \<Rightarrow> decoders \<Rightarrow> env \<Rightarrow> bool" where
  "served_by t dc env \<longleftrightarrow>
     (\<forall>ctx s. Run t (account_client ctx) (orb_version_request ctx s) (dc_OrbVersion dc) zero_orb_query =
        Some (en_GqlOrbVersion env ctx s)) \<and>
     (\<forall>ctx s. Run t (account_client ctx) (orb_name_request ctx s) (dc_OrbName dc) [] =
        Some (en_GqlOrbByName env ctx s)) \<and>
     (\<forall>ctx s. map_option (\<lambda>(ns, err). if err = None then Some ns else None)
        (Run t (account_client ctx) (namespace_request ctx s) (dc_Namespace dc) False) = Some (en_GqlNamespace env ctx s))"

subsection \<open>What is sent\<close>

lemma header_keys [simp]:
  "header_key ''Authorization'' = ''Authorization''" "header_key ''user_id'' = ''User_id''"
  "header_key ''User_id'' = ''User_id''" "header_key ''Accept'' = ''Accept''"
  "header_key ''Content-Type'' = ''Content-Type''" "header_key ''User-Agent'' = ''User-Agent''"
  by code_simp+

lemma account_header [simp]:
  "gq_Header (account_request query ctx) =
     [(''Authorization'', [api_Token (ls_Api ctx)]), (''User_id'', [ls_UserIdForTelemetry ctx])]"
  by (simp add: account_request_def SetUserId_def SetToken_def NewRequest_def account_client_def NewClient_def Header_Set_def)

lemma query_headers:
  "gq_Header (orb_version_request ctx s) = gq_Header (account_request q ctx)"
  "gq_Header (orb_versions_request ctx s) = gq_Header (account_request q ctx)"
  "gq_Header (orb_name_request ctx s) = gq_Header (account_request q ctx)"
  "gq_Header (namespace_request ctx s) = gq_Header (account_request q ctx)"
  by (simp_all add: orb_version_request_def orb_versions_request_def orb_name_request_def namespace_request_def Var_def
    SetUserId_def SetToken_def NewRequest_def Header_Set_def)

text \<open>Every request goes out with the account's token and user, and the program's user agent.\<close>

lemma prepared_header:
  assumes "prepareRequest t address request = Inr req"
    and "gq_Header request = [(''Authorization'', [token]), (''User_id'', [user])]"
  shows "hq_URL req = address" and "gm_get (hq_Header req) ''Authorization'' = Some [token]"
    and "gm_get (hq_Header req) ''User_id'' = Some [user]" and "gm_get (hq_Header req) ''User-Agent'' = Some [tr_UserAgent t]"
  using assms by (auto simp: prepareRequest_def Header_Set_def Header_Add_def gm_get_or_def Let_def
    split: sum.splits option.splits)

subsection \<open>What is returned\<close>

lemma Run_ok:
  assumes "Run t cl request decode resp = Some (data, None)"
  shows "\<exists>address req res b. getServerAddress t (gc_Host cl) (gc_Endpoint cl) = Inr address \<and>
    prepareRequest t address request = Inr req \<and> tr_Do t req = Inr res \<and> hs_StatusCode res = 200 \<and>
    debug_body cl (hs_Body res) = Inr b \<and> decode b = Decoded data [] None"
  using assms by (auto simp: Run_def split: sum.splits decoded.splits if_splits option.splits)

text \<open>Printing the exchange changes nothing, unless the body breaks off.\<close>

lemma debug_body_whole:
  assumes "snd (ReadAll b) = None"
  shows "debug_body cl b = Inr b"
  using assms by (cases b) (simp add: debug_body_def)

lemma Run_debug:
  assumes "\<And>req res. tr_Do t req = Inr res \<Longrightarrow> snd (ReadAll (hs_Body res)) = None"
  shows "Run t (cl\<lparr>gc_Debug := d\<rparr>) request decode resp = Run t cl request decode resp"
  using assms by (auto simp: Run_def debug_body_whole split: sum.splits)

text \<open>The body \<open>null\<close> of a successful answer is a panic, and nothing else is.\<close>

lemma Run_panics_iff:
  "Run t cl request decode resp = None \<longleftrightarrow>
     (\<exists>address req res b. getServerAddress t (gc_Host cl) (gc_Endpoint cl) = Inr address \<and>
        prepareRequest t address request = Inr req \<and> tr_Do t req = Inr res \<and> hs_StatusCode res = 200 \<and>
        debug_body cl (hs_Body res) = Inr b \<and> decode b = NullBody)"
  by (auto simp: Run_def split: sum.splits decoded.splits option.splits)

subsection \<open>A service that cannot be reached\<close>

definition unreachable :: "transport \<Rightarrow> bool" where
  "unreachable t \<longleftrightarrow> (\<forall>req res. tr_Do t req = Inr res \<longrightarrow> hs_StatusCode res \<noteq> 200)"

lemma Run_unreachable:
  assumes "unreachable t"
  shows "\<exists>err. Run t cl request decode resp = Some (resp, Some err)"
  using assms by (auto simp: Run_def unreachable_def split: sum.splits)

lemma unreachable_services:
  assumes "unreachable t" and "served_by t dc env"
  shows "\<exists>err. en_GqlOrbVersion env ctx s = (zero_orb_query, Some err)"
    and "\<exists>err. en_GqlOrbByName env ctx s = ([], Some err)"
    and "en_GqlNamespace env ctx s = None"
proof -
  note run = Run_unreachable [OF assms(1)]
  show "\<exists>err. en_GqlOrbVersion env ctx s = (zero_orb_query, Some err)"
    using assms(2) run [of "account_client ctx" "orb_version_request ctx s" "dc_OrbVersion dc" zero_orb_query]
    by (auto simp: served_by_def)
  show "\<exists>err. en_GqlOrbByName env ctx s = ([], Some err)"
    using assms(2) run [of "account_client ctx" "orb_name_request ctx s" "dc_OrbName dc" "[]"]
    by (auto simp: served_by_def)
  obtain err where "Run t (account_client ctx) (namespace_request ctx s) (dc_Namespace dc) False = Some (False, Some err)"
    using run [of "account_client ctx" "namespace_request ctx s" "dc_Namespace dc" False] by blast
  then have "map_option (\<lambda>(ns, err). if err = None then Some ns else None)
    (Run t (account_client ctx) (namespace_request ctx s) (dc_Namespace dc) False) = Some None" by simp
  with assms(2) show "en_GqlNamespace env ctx s = None" unfolding served_by_def by (metis option.inject)
qed

text \<open>Nothing is kept of a failed fetch: the orb is asked for again the next time.\<close>

lemma unreachable_fetch:
  assumes "unreachable t" and "served_by t dc env"
  shows "\<exists>err. fetchOrbInfo env ctx s c = ((Some zero_orb_info, Some err), c)"
  using unreachable_services(1) [OF assms, of ctx s]
  by (auto simp: fetchOrbInfo_def GetRemoteOrb_def zero_orb_query_def)

lemma unreachable_name:
  assumes "unreachable t" and "served_by t dc env"
  shows "\<exists>err. GetOrbByName env ctx s = ([], Some err)"
  using unreachable_services(2) [OF assms, of ctx s] by (auto simp: GetOrbByName_def)

lemma unreachable_namespace:
  assumes "unreachable t" and "served_by t dc (val_Env v)"
  shows "validateExecutorNamespace v s r = vskip"
  using unreachable_services(3) [OF assms, of "val_Context v" s] by (simp add: validateExecutorNamespace_def)

end
