(* ===== verification/Spec2Isabelle.thy ===== *)
theory Spec2Isabelle
  imports ParseProps NavProps RequestProps CompleteProps DockerHub GraphQL
begin

text \<open>
  A model of the CircleCI YAML language server (Go). The server keeps the open configuration
  files in caches, parses each with a third-party syntax tree into a document, validates the
  document into a list of diagnostics that it filters by the suppression comments of the file, and
  answers requests about positions in the file (definitions, references, completion, hover, outline,
  semantic tokens). The theories follow the packages; paths are under \<open>src/pkg\<close>.

  The library of Go:

  \<^item> \<open>Prelude\<close>: Go maps as association lists with distinct keys, and the locales \<open>keyed_store\<close> and
    \<open>removable_store\<close>, which the maps and the caches interpret.
  \<^item> \<open>GoStrings\<close>, \<open>GoTime\<close>, \<open>GoFloat\<close>: the functions of \<open>strings\<close>, \<open>strconv\<close>, \<open>slices\<close> and \<open>time\<close> that the
    program calls, on byte strings. \<open>Regex\<close>: a matcher for the leftmost-first expressions of \<open>regexp\<close>
    with its declarative reading.

  Data and state:

  \<^item> \<open>Positions\<close>: \<open>utils/range.go\<close>, \<open>utils/indexToPos.go\<close>, \<open>utils/nodeAtPos.go\<close>, on words of 32 bits.
  \<^item> \<open>Diagnostics\<close>: \<open>utils/diagnostics.go\<close>, \<open>utils/codeActions.go\<close>, the deduplication of
    \<open>services/diagnostics.go\<close>. \<open>ParamRefs\<close>: \<open>utils/parameters.go\<close>. \<open>Ast\<close>: the records of \<open>ast\<close>.
  \<^item> \<open>Caches\<close>: \<open>utils/cache.go\<close>, \<open>utils/context.go\<close>, \<open>utils/machineOfferings.go\<close>. Pointers to
    contexts are indices into a heap, because two names may share one context.
  \<^item> \<open>Nodes\<close>, \<open>Document\<close>: the tree helpers of \<open>parser/utils.go\<close>, the document of
    \<open>parser/yamlparser.go\<close> with its lookups, \<open>parser/anchors.go\<close>, \<open>parser/context.go\<close>,
    \<open>parser/dockerImageParser.go\<close> and the pure part of \<open>parser/orbs.go\<close>.
  \<^item> \<open>Session\<close>: the state that validators and services thread (diagnostics, caches, known orbs), the
    combinators of actions on it, and the orbs of \<open>parser/orbs.go\<close> and \<open>parser/remoteOrb.go\<close>;
    \<open>RemoteOrbs\<close>: the loading of the remote orbs of a document. The locale \<open>validator\<close> is the contract of
    a validator: it is \<open>framed\<close>, that is, it only appends to the diagnostics, whatever they are, and
    keeps the cached files. The validators interpret it.
  \<^item> \<open>DockerHub\<close>: the package \<open>dockerhub\<close>, on the answers to its HTTP requests. \<open>GraphQL\<close>:
    \<open>utils/gqlclient.go\<close> and the requests sent with it, on the exchange and the decoder; \<open>served_by\<close> says that
    the queries of an \<open>env\<close> are answered by this client, and then an unreachable service leaves the cache of orbs alone.

  Parsing (\<open>parser\<close>), as functions on an abstract tree that return what they read with their diagnostics:

  \<^item> \<open>ParseBase\<close> the shared walks with merge keys, \<open>ParseSteps\<close>, \<open>ParseExec\<close>, \<open>ParseJobs\<close>, \<open>ParseFlow\<close>,
    \<open>ParseDoc\<close> in the order in which they call each other. \<open>Suppression\<close>: \<open>suppression.go\<close>; \<open>Schema\<close>:
    \<open>jsonschema.go\<close>, on what the schema validator and the YAML reader answer.
  \<^item> \<open>ParseFuel\<close>, \<open>ParseTerm\<close>, \<open>ParseTotal\<close>, \<open>ParseReturn\<close>: recursion goes through aliases, merge keys
    and local orbs, so the parsers carry fuel. More fuel never changes a result. If no anchor
    contains itself, more fuel than the bound on the ranks of the nodes and the depth of the local orbs
    together is enough; a mapping that merges itself has no result with any fuel.
  \<^item> \<open>ParseValid\<close>, \<open>ParseProps\<close>: what a parsed document guarantees to the validators, and what the parsers
    compute. \<open>Sample\<close>: the small trees of the witnesses.

  Validation (\<open>parser/validate\<close>, \<open>services/diagnostics.go\<close>):

  \<^item> \<open>Cycles\<close> the requirement graph, with the cyclic part of the graph as its specification; \<open>ValExec\<close>,
    \<open>ValParams\<close>, \<open>ValSteps\<close>, \<open>ValInvocation\<close>, \<open>ValJobs\<close>, \<open>ValOrb\<close>: the validators, with which diagnostics
    each reports and when it reports none; \<open>ValOrb\<close> ends with \<open>Validate\<close>.
  \<^item> \<open>Pipeline\<close>: from a content to the published diagnostics. A remote orb's source goes through the
    same parser (\<open>parser_env\<close>).

  Services and server (\<open>services\<close>, \<open>server\<close>):

  \<^item> \<open>GotoDef\<close>, \<open>FindRefs\<close>, \<open>NavProps\<close>: definitions and references. A local orb has no orbs of its own,
    so a search that enters an orb needs depth two, which is shown. \<open>SemTokens\<close>, \<open>Symbols\<close>, \<open>Hover\<close>,
    \<open>Complete\<close>, \<open>CompleteProps\<close>: the other services.
  \<^item> \<open>Sync\<close>, \<open>SyncProps\<close>: \<open>server/methods/synchronize.go\<close>. Its goroutines and its timer interleave with the
    requests: \<open>server_step\<close> is one request, one expiry of the timer, one computation of diagnostics, one
    publication or one change of the caches that leaves the files alone; \<open>server_runs\<close> are the reachable
    states. The invariant is that what is published belongs to the text it was computed from.
  \<^item> \<open>Server\<close>, \<open>ServerProps\<close>: the commands, and the contexts, variables and resource classes that are fetched
    for the account (\<open>executeCommand.go\<close>, \<open>envVariables.go\<close>, \<open>resourceClass.go\<close>, \<open>initialize.go\<close>,
    \<open>utils/git.go\<close>, \<open>utils/project.go\<close>).
  \<^item> \<open>Requests\<close>, \<open>RequestProps\<close>: the dispatch of \<open>server.go\<close>. Every request is a sequence of steps of \<open>Sync\<close>,
    so the invariant holds whatever a client sends, as long as the versions it gives to a document increase.

  Conventions. A run-time panic and a loop that does not end are \<open>None\<close>; an error value is an
  option, a sum or a pair as in the code. Iteration over a Go map is iteration over the association list
  in its order; since the list is arbitrary, a theorem holds for every order. Code that is not in
  the repository is a record of functions (\<open>sitter\<close>, \<open>grammar\<close>, \<open>env\<close>, \<open>schema_services\<close>, \<open>orb_files\<close>, \<open>transport\<close>,
  \<open>account\<close>, \<open>handlers\<close>); what is relied on is a named hypothesis: \<open>well_formed\<close> trees, \<open>compare_ok\<close> of
  the version comparison, the pages of a listing end (\<open>hub_pages\<close>), the versions of a client's document increase
  (\<open>versions_increase\<close>), anchors that do not contain themselves (\<open>ranked\<close>, \<open>nested_regular\<close>). The paged
  listings are \<open>partial_function\<close>s: that they return is a theorem about services whose pages end.

  Not modelled: the JSON schema validator, the YAML reader, the syntax tree parser, the file
  system, the matcher of an expression compiled from a user's text, the exchange
  over HTTP and the coding of JSON, all of them arguments of the model; the JSON-RPC transport and the decoding of
  requests, telemetry, error reporting, the command line programs and the release script, which have no
  logic of their own beyond input and output; the fixtures and assertions of the tests
  (\<open>services/testUtils.go\<close>, \<open>expect\<close>, \<open>testHelpers\<close>). The mutexes do not appear: a cache operation holds
  its lock for its whole body, so it is one step.
\<close>

end
